(* ===== verification/Go_Prelude.thy ===== *)
theory Go_Prelude
  imports Main "HOL-Library.Word" "HOL-Library.Char_ord" "HOL-Library.List_Lexorder"
begin

text \<open>
  Shared vocabulary of the development: the machine integers, errors and panics of Go, the
  sequencing of effectful calls (with \<^verbatim>\<open>defer\<close> and the \<^verbatim>\<open>if err != nil\<close> idiom), the decimal
  printing of \<^verbatim>\<open>strconv.Itoa\<close> with its inverse, and the generic facts on lists and maps that the
  component theories use.
\<close>

named_theorems go_run "evaluation of the sequencing combinators on a state"
named_theorems labels "unfolding of the label maps and of the label keys"

section \<open>Machine integers\<close>

text \<open>Go's \<^verbatim>\<open>int32\<close> and \<^verbatim>\<open>int64\<close>; \<^verbatim>\<open>int\<close> is 64 bits wide on every platform the image is built for.\<close>

type_synonym int32 = "32 word"
type_synonym int64 = "64 word"
type_synonym goint = "64 word"

abbreviation MaxInt32 :: int where
  "MaxInt32 \<equiv> 2147483647"

abbreviation MinInt32 :: int where
  "MinInt32 \<equiv> - 2147483648"

lemma sint_int32_bounds:
  fixes x :: int32
  shows "MinInt32 \<le> sint x" "sint x \<le> MaxInt32"
  using sint_ge [of x] sint_lt [of x] by simp_all

lemma sint_of_int32_in_range:
  assumes "MinInt32 \<le> i" "i \<le> MaxInt32"
  shows "sint (word_of_int i :: int32) = i"
  using assms by (simp add: sint_sbintrunc' signed_take_bit_int_eq_self)

lemma sint_inject: "sint x = sint y \<longleftrightarrow> x = y"
  by (metis of_int_sint scast_id)

section \<open>Errors and panics\<close>

text \<open>
  A Go \<^verbatim>\<open>error\<close> is one of: a text made by \<^verbatim>\<open>errors.New\<close>; an error of the Kubernetes client, which
  the operator observes only through \<^verbatim>\<open>apierrors.IsNotFound\<close> (the flag) and its text; an error of
  another package the operator calls (YAML and JSON encoding, owner references, exporters, the
  manager), observed through its text; a text prefixed to another error by \<^verbatim>\<open>fmt.Errorf("...: %w")\<close>;
  the error \<^verbatim>\<open>logr.FromContext\<close> returns for a context without a logger.
\<close>

datatype error =
    ErrNew string
  | ErrApi bool string
  | ErrExt string
  | ErrWrap string error
  | ErrNoLogger

primrec Error :: "error \<Rightarrow> string" where
  "Error (ErrNew msg) = msg"
| "Error (ErrApi nf msg) = msg"
| "Error (ErrExt msg) = msg"
| "Error (ErrWrap pre e) = pre @ '': '' @ Error e"
| "Error ErrNoLogger = ''no logr.Logger was present''"

primrec IsNotFound :: "error \<Rightarrow> bool" where
  "IsNotFound (ErrNew msg) = False"
| "IsNotFound (ErrApi nf msg) = nf"
| "IsNotFound (ErrExt msg) = False"
| "IsNotFound (ErrWrap pre e) = IsNotFound e"
| "IsNotFound ErrNoLogger = False"

text \<open>\<^verbatim>\<open>client.IgnoreNotFound\<close>.\<close>

definition IgnoreNotFound :: "error \<Rightarrow> error option" where
  "IgnoreNotFound e = (if IsNotFound e then None else Some e)"

text \<open>A call returns or panics.\<close>

datatype 'a outcome = Done 'a | Panic string

section \<open>Sequencing effectful calls\<close>

type_synonym ('s, 'a) go = "'s \<Rightarrow> 'a outcome \<times> 's"

definition ret :: "'a \<Rightarrow> ('s, 'a) go" where
  "ret x = (\<lambda>s. (Done x, s))"

definition raise :: "string \<Rightarrow> ('s, 'a) go" where
  "raise msg = (\<lambda>s. (Panic msg, s))"

definition bind_go :: "('s, 'a) go \<Rightarrow> ('a \<Rightarrow> ('s, 'b) go) \<Rightarrow> ('s, 'b) go" where
  "bind_go m f = (\<lambda>s. case m s of (Done x, s') \<Rightarrow> f x s' | (Panic p, s') \<Rightarrow> (Panic p, s'))"

definition and_then :: "('s, unit) go \<Rightarrow> ('s, 'b) go \<Rightarrow> ('s, 'b) go" where
  "and_then m k = bind_go m (\<lambda>_. k)"

text \<open>
  \<^verbatim>\<open>defer f()\<close>: the deferred call runs when the surrounding function returns and when it panics;
  a panic of the deferred call replaces the outcome.
\<close>

definition deferred :: "('s, unit) go \<Rightarrow> ('s, 'a) go \<Rightarrow> ('s, 'a) go" where
  "deferred d m = (\<lambda>s. case m s of (r, s') \<Rightarrow>
     (case d s' of (Done _, s'') \<Rightarrow> (r, s'') | (Panic p, s'') \<Rightarrow> (Panic p, s'')))"

text \<open>
  \<^verbatim>\<open>if err := f(); err != nil { h }; rest\<close>, for a call that returns only an error and for a call
  that returns a result beside it.
\<close>

definition if_err :: "('s, error option) go \<Rightarrow> (error \<Rightarrow> ('s, 'b) go) \<Rightarrow> ('s, 'b) go \<Rightarrow> ('s, 'b) go" where
  "if_err m h rest = bind_go m (\<lambda>err. case err of Some e \<Rightarrow> h e | None \<Rightarrow> rest)"

definition or_err :: "('s, error + 'a) go \<Rightarrow> (error \<Rightarrow> ('s, 'b) go) \<Rightarrow> ('a \<Rightarrow> ('s, 'b) go) \<Rightarrow> ('s, 'b) go" where
  "or_err m h rest = bind_go m (\<lambda>r. case r of Inl e \<Rightarrow> h e | Inr x \<Rightarrow> rest x)"

text \<open>A pure function that may panic, called from effectful code.\<close>

primrec lift_outcome :: "'a outcome \<Rightarrow> ('s, 'a) go" where
  "lift_outcome (Done x) = ret x"
| "lift_outcome (Panic msg) = raise msg"

lemma ret_run [go_run]: "ret x s = (Done x, s)"
  by (simp add: ret_def)

lemma raise_run [go_run]: "raise msg s = (Panic msg, s)"
  by (simp add: raise_def)

lemma bind_go_run [go_run]:
  "bind_go m f s = (case m s of (Done x, s') \<Rightarrow> f x s' | (Panic p, s') \<Rightarrow> (Panic p, s'))"
  by (simp add: bind_go_def)

lemma and_then_run [go_run]:
  "and_then m k s = (case m s of (Done x, s') \<Rightarrow> k s' | (Panic p, s') \<Rightarrow> (Panic p, s'))"
  by (simp add: and_then_def bind_go_def)

lemma deferred_run [go_run]:
  "deferred d m s = (case m s of (r, s') \<Rightarrow>
     (case d s' of (Done _, s'') \<Rightarrow> (r, s'') | (Panic p, s'') \<Rightarrow> (Panic p, s'')))"
  by (simp add: deferred_def)

lemma if_err_run [go_run]:
  "if_err m h rest s = (case m s of (Done None, s') \<Rightarrow> rest s' | (Done (Some e), s') \<Rightarrow> h e s'
     | (Panic p, s') \<Rightarrow> (Panic p, s'))"
  by (simp add: if_err_def bind_go_def split: outcome.split prod.split option.split)

lemma or_err_run [go_run]:
  "or_err m h rest s = (case m s of (Done (Inl e), s') \<Rightarrow> h e s' | (Done (Inr x), s') \<Rightarrow> rest x s'
     | (Panic p, s') \<Rightarrow> (Panic p, s'))"
  by (simp add: or_err_def bind_go_def split: outcome.split prod.split sum.split)

text \<open>The monad laws, which the rewriting of handlers relies on.\<close>

lemma bind_go_ret_left [simp]: "bind_go (ret x) f = f x"
  by (rule ext) (simp add: go_run)

lemma bind_go_ret_right [simp]: "bind_go m ret = m"
  by (rule ext) (simp add: go_run split: prod.split outcome.split)

lemma bind_go_assoc: "bind_go (bind_go m f) g = bind_go m (\<lambda>x. bind_go (f x) g)"
  by (rule ext) (simp add: go_run split: prod.split outcome.split)

section \<open>Decimal printing\<close>

fun nat_digits :: "nat \<Rightarrow> string" where
  "nat_digits n = (if n < 10 then [char_of (48 + n)]
     else nat_digits (n div 10) @ [char_of (48 + n mod 10)])"

declare nat_digits.simps [simp del]

text \<open>\<^verbatim>\<open>strconv.Itoa\<close>.\<close>

definition Itoa :: "int \<Rightarrow> string" where
  "Itoa i = (if i < 0 then CHR ''-'' # nat_digits (nat (- i)) else nat_digits (nat i))"

definition digits_val :: "string \<Rightarrow> nat" where
  "digits_val cs = foldl (\<lambda>a c. 10 * a + (of_char c - 48)) 0 cs"

lemma digits_val_snoc: "digits_val (cs @ [c]) = 10 * digits_val cs + (of_char c - 48)"
  by (simp add: digits_val_def)

lemma of_char_digit [simp]:
  "d < 10 \<Longrightarrow> (of_char (char_of (48 + d :: nat)) :: nat) = 48 + d"
  by (simp add: of_char_of)

lemma digits_val_nat_digits [simp]: "digits_val (nat_digits n) = n"
proof (induction n rule: nat_digits.induct)
  case (1 n)
  show ?case
  proof (cases "n < 10")
    case True
    then show ?thesis
      by (subst nat_digits.simps) (simp add: digits_val_def)
  next
    case False
    with "1.IH" have "digits_val (nat_digits (n div 10)) = n div 10" by simp
    with False show ?thesis
      by (subst nat_digits.simps) (simp add: digits_val_snoc)
  qed
qed

lemma nat_digits_chars: "set (nat_digits n) \<subseteq> char_of ` {48..<58 :: nat}"
proof (induction n rule: nat_digits.induct)
  case (1 n)
  show ?case
  proof (cases "n < 10")
    case True
    then show ?thesis by (subst nat_digits.simps) auto
  next
    case False
    with "1.IH" have "set (nat_digits (n div 10)) \<subseteq> char_of ` {48..<58 :: nat}" by simp
    with False show ?thesis by (subst nat_digits.simps) auto
  qed
qed

lemma nat_digits_nonempty [simp]: "nat_digits n \<noteq> []"
  by (subst nat_digits.simps) simp

lemma digit_char_range:
  assumes "c \<in> set (nat_digits n)"
  shows "48 \<le> (of_char c :: nat) \<and> (of_char c :: nat) < 58"
proof -
  from assms nat_digits_chars obtain k :: nat where "k \<in> {48..<58}" "c = char_of k" by blast
  then show ?thesis by (simp add: of_char_of)
qed

lemma minus_not_digit: "CHR ''-'' \<notin> set (nat_digits n)"
proof
  assume "CHR ''-'' \<in> set (nat_digits n)"
  from digit_char_range [OF this] show False by simp
qed

lemma Itoa_inject: "Itoa i = Itoa j \<longleftrightarrow> i = j"
proof
  assume eq: "Itoa i = Itoa j"
  have hd_digit: "CHR ''-'' # xs \<noteq> nat_digits n" for xs n
    by (metis list.set_intros(1) minus_not_digit)
  show "i = j"
  proof (cases "i < 0 \<longleftrightarrow> j < 0")
    case True
    then have "nat \<bar>i\<bar> = nat \<bar>j\<bar>"
      using eq by (auto simp: Itoa_def split: if_splits dest!: arg_cong [where f = digits_val])
    with True show ?thesis by linarith
  next
    case False
    with eq hd_digit show ?thesis by (auto simp: Itoa_def split: if_splits) metis+
  qed
qed simp

section \<open>Lists and maps\<close>

text \<open>\<^verbatim>\<open>strings.Repeat\<close> panics on a negative count.\<close>

definition Repeat :: "string \<Rightarrow> int \<Rightarrow> string outcome" where
  "Repeat s count = (if count < 0 then Panic ''strings: negative Repeat count''
     else Done (concat (replicate (nat count) s)))"

lemma Repeat_single: "0 \<le> n \<Longrightarrow> Repeat [c] n = Done (replicate (nat n) c)"
proof -
  have "concat (replicate k [c]) = replicate k c" for k by (induction k) simp_all
  then show "0 \<le> n \<Longrightarrow> Repeat [c] n = Done (replicate (nat n) c)" by (simp add: Repeat_def)
qed

text \<open>Reading a Go map: a nil map reads as the empty one.\<close>

type_synonym go_map = "(string \<rightharpoonup> string) option"

definition map_get :: "go_map \<Rightarrow> string \<Rightarrow> string option" where
  "map_get m k = (case m of None \<Rightarrow> None | Some f \<Rightarrow> f k)"

text \<open>The read \<^verbatim>\<open>m[k]\<close> without the comma-ok form gives the zero value for a missing key.\<close>

definition map_read :: "go_map \<Rightarrow> string \<Rightarrow> string" where
  "map_read m k = (case map_get m k of None \<Rightarrow> [] | Some v \<Rightarrow> v)"

lemma map_get_simps [simp]: "map_get None k = None" "map_get (Some f) k = f k"
  by (simp_all add: map_get_def)

text \<open>A label selector built from a set of labels matches the maps that extend the set.\<close>

definition selector_matches :: "(string \<rightharpoonup> string) \<Rightarrow> go_map \<Rightarrow> bool" where
  "selector_matches sel ls \<longleftrightarrow> sel \<subseteq>\<^sub>m (case ls of None \<Rightarrow> Map.empty | Some m \<Rightarrow> m)"

lemma selector_matches_Some [simp]: "selector_matches sel (Some m) \<longleftrightarrow> sel \<subseteq>\<^sub>m m"
  by (simp add: selector_matches_def)

end
