(* ===== verification/K8s_Types.thy ===== *)
theory K8s_Types
  imports Go_Prelude
begin

text \<open>
  The Kubernetes API objects the operator reads and builds, with the fields it sets or reads. The
  types are those of \<^verbatim>\<open>k8s.io/api\<close> and \<^verbatim>\<open>k8s.io/apimachinery\<close>; the operator passes affinities and
  resource quantities through unread, so an affinity is kept as the text of its document and a
  quantity as the text it is parsed from. A Go map that may be nil is \<open>go_map\<close>; a slice is a
  list, with \<open>option\<close> around it where the code tells nil from empty.
\<close>

section \<open>Metadata\<close>

record TypeMeta =
  tm_Kind :: string
  tm_APIVersion :: string

record OwnerReference =
  or_Kind :: string
  or_Name :: string
  or_Controller :: bool

record ObjectMeta =
  om_Name :: string
  om_Namespace :: string
  om_Labels :: go_map
  om_Annotations :: go_map
  om_ResourceVersion :: string
  om_Generation :: int64
  om_DeletionTimestamp :: "string option"
  om_OwnerReferences :: "OwnerReference list"

text \<open>A composite literal \<^verbatim>\<open>metav1.ObjectMeta{...}\<close> leaves the other fields at their zero value.\<close>

definition zeroMeta :: ObjectMeta where
  "zeroMeta = \<lparr>om_Name = [], om_Namespace = [], om_Labels = None, om_Annotations = None,
     om_ResourceVersion = [], om_Generation = 0, om_DeletionTimestamp = None,
     om_OwnerReferences = []\<rparr>"

lemma zeroMeta_simps [simp]:
  "om_Name zeroMeta = []" "om_Namespace zeroMeta = []" "om_Labels zeroMeta = None"
  "om_Annotations zeroMeta = None" "om_ResourceVersion zeroMeta = []"
  "om_Generation zeroMeta = 0" "om_DeletionTimestamp zeroMeta = None"
  "om_OwnerReferences zeroMeta = []"
  by (simp_all add: zeroMeta_def)

record ListMeta =
  lm_SelfLink :: string
  lm_ResourceVersion :: string
  lm_Continue :: string
  lm_RemainingItemCount :: "int64 option"

record NamespacedName =
  nn_Name :: string
  nn_Namespace :: string

definition meta_key :: "ObjectMeta \<Rightarrow> NamespacedName" where
  "meta_key m = \<lparr>nn_Name = om_Name m, nn_Namespace = om_Namespace m\<rparr>"

text \<open>
  A condition of \<^verbatim>\<open>metav1\<close>. The transition time is kept as the text \<^verbatim>\<open>metav1.Time\<close> is serialised
  to (RFC 3339 in UTC, whole seconds), \<open>None\<close> for the zero time.
\<close>

record Condition =
  cond_Type :: string
  cond_Status :: string
  cond_ObservedGeneration :: int64
  cond_LastTransitionTime :: "string option"
  cond_Reason :: string
  cond_Message :: string

abbreviation ConditionTrue :: string where
  "ConditionTrue \<equiv> ''True''"

abbreviation ConditionFalse :: string where
  "ConditionFalse \<equiv> ''False''"

record LabelSelector =
  ls_MatchLabels :: "string \<rightharpoonup> string"

record LocalObjectReference =
  lor_Name :: string

datatype IntOrString = IntVal int32 | StrVal string

section \<open>Resources\<close>

datatype Affinity = Affinity string

datatype Quantity = MustParse string

type_synonym ResourceList = "string \<rightharpoonup> Quantity"

record ResourceRequirements =
  rr_Limits :: ResourceList
  rr_Requests :: ResourceList

section \<open>Service, ConfigMap, Secret, PodDisruptionBudget, PersistentVolumeClaim, Pod\<close>

record ServicePort =
  sp_Name :: string
  sp_Protocol :: string
  sp_Port :: int32
  sp_TargetPort :: IntOrString

record ServiceSpec =
  ss_Ports :: "ServicePort list"
  ss_Selector :: "string \<rightharpoonup> string"
  ss_ClusterIP :: string
  ss_Type :: string

record Service =
  svc_TypeMeta :: TypeMeta
  svc_ObjectMeta :: ObjectMeta
  svc_Spec :: ServiceSpec

record ConfigMap =
  cm_TypeMeta :: TypeMeta
  cm_ObjectMeta :: ObjectMeta
  cm_Data :: "string \<rightharpoonup> string"

record Secret =
  sec_ObjectMeta :: ObjectMeta
  sec_Data :: go_map

record PodDisruptionBudgetSpec =
  pds_Selector :: "LabelSelector option"
  pds_MaxUnavailable :: "IntOrString option"
  pds_MinAvailable :: "IntOrString option"

record PodDisruptionBudget =
  pdb_TypeMeta :: TypeMeta
  pdb_ObjectMeta :: ObjectMeta
  pdb_Spec :: PodDisruptionBudgetSpec

record PersistentVolumeClaimSpec =
  pvs_AccessModes :: "string list"
  pvs_Requests :: ResourceList
  pvs_StorageClassName :: "string option"
  pvs_VolumeName :: string

record PersistentVolumeClaim =
  pvc_TypeMeta :: TypeMeta
  pvc_ObjectMeta :: ObjectMeta
  pvc_Spec :: PersistentVolumeClaimSpec

record Pod =
  pod_TypeMeta :: TypeMeta
  pod_ObjectMeta :: ObjectMeta

section \<open>Deployment\<close>

record SecretKeySelector =
  sks_Key :: string
  sks_Name :: string

record EnvVar =
  env_Name :: string
  env_SecretKeyRef :: SecretKeySelector

record ContainerPort =
  cp_Name :: string
  cp_ContainerPort :: int32
  cp_Protocol :: string

record Probe =
  pr_Path :: string
  pr_Port :: IntOrString
  pr_Scheme :: string
  pr_InitialDelaySeconds :: int32
  pr_TimeoutSeconds :: int32
  pr_PeriodSeconds :: int32
  pr_SuccessThreshold :: int32
  pr_FailureThreshold :: int32

record VolumeMount =
  vm_ReadOnly :: bool
  vm_Name :: string
  vm_MountPath :: string

datatype VolumeSource =
    ConfigMapSource string
  | PersistentVolumeClaimSource string bool

record Volume =
  vol_Name :: string
  vol_Source :: VolumeSource

record Container =
  ct_Name :: string
  ct_Image :: string
  ct_Command :: "string list"
  ct_Args :: "string list"
  ct_Env :: "EnvVar list"
  ct_Ports :: "ContainerPort list"
  ct_LivenessProbe :: Probe
  ct_ReadinessProbe :: Probe
  ct_Resources :: ResourceRequirements
  ct_VolumeMounts :: "VolumeMount list"
  ct_ImagePullPolicy :: string

record PodSpec =
  ps_Affinity :: "Affinity option"
  ps_ImagePullSecrets :: "LocalObjectReference list"
  ps_Containers :: "Container list"
  ps_Volumes :: "Volume list"

record PodTemplateSpec =
  pt_ObjectMeta :: ObjectMeta
  pt_Spec :: PodSpec

text \<open>The empty \<^verbatim>\<open>RollingUpdateDeployment{}\<close> is the only rolling-update block the operator sets.\<close>

datatype RollingUpdateDeployment = RollingUpdateDeployment

record DeploymentStrategy =
  st_Type :: string
  st_RollingUpdate :: "RollingUpdateDeployment option"

record DeploymentSpec =
  ds_Replicas :: "int32 option"
  ds_Strategy :: DeploymentStrategy
  ds_Selector :: LabelSelector
  ds_Template :: PodTemplateSpec

record DeploymentCondition =
  dc_Type :: string
  dc_Status :: string
  dc_Message :: string

record DeploymentStatus =
  dst_ObservedGeneration :: int64
  dst_Replicas :: int32
  dst_ReadyReplicas :: int32
  dst_UnavailableReplicas :: int32
  dst_Conditions :: "DeploymentCondition list"

definition zeroDeploymentStatus :: DeploymentStatus where
  "zeroDeploymentStatus = \<lparr>dst_ObservedGeneration = 0, dst_Replicas = 0, dst_ReadyReplicas = 0,
     dst_UnavailableReplicas = 0, dst_Conditions = []\<rparr>"

record Deployment =
  dep_TypeMeta :: TypeMeta
  dep_ObjectMeta :: ObjectMeta
  dep_Spec :: DeploymentSpec
  dep_Status :: DeploymentStatus

end
