(* ===== verification/Go_Json.thy ===== *)
theory Go_Json
  imports Go_Prelude
begin

text \<open>
  The part of \<^verbatim>\<open>encoding/json\<close> the operator uses: the encoding of strings (with HTML escaping, the
  default of \<^verbatim>\<open>json.Marshal\<close>), of integers, and of arrays of objects. The bytes of a string are
  read as UTF-8: an invalid byte becomes the escape of U+FFFD, the line separators U+2028 and
  U+2029 are escaped, every other multi-byte rune is copied. The lemmas show that the encoding of a
  valid UTF-8 string can be read back, whatever follows it.
\<close>

section \<open>UTF-8\<close>

abbreviation byte_of :: "char \<Rightarrow> nat" where
  "byte_of c \<equiv> of_char c"

definition is_cont :: "nat \<Rightarrow> bool" where
  "is_cont b \<longleftrightarrow> 128 \<le> b \<and> b \<le> 191"

text \<open>
  The length of the rune a byte string starts with, 0 for an invalid encoding: the acceptance
  ranges of \<^verbatim>\<open>utf8.DecodeRune\<close> for a first byte that is not ASCII.
\<close>

definition rune_len :: "nat list \<Rightarrow> nat" where
  "rune_len bs = (case bs of [] \<Rightarrow> 0 | b0 # rest \<Rightarrow>
     if 194 \<le> b0 \<and> b0 \<le> 223 then
       (case rest of b1 # _ \<Rightarrow> if is_cont b1 then 2 else 0 | _ \<Rightarrow> 0)
     else if 224 \<le> b0 \<and> b0 \<le> 239 then
       (case rest of b1 # b2 # _ \<Rightarrow>
          if (if b0 = 224 then 160 else 128) \<le> b1 \<and> b1 \<le> (if b0 = 237 then 159 else 191) \<and> is_cont b2
          then 3 else 0
        | _ \<Rightarrow> 0)
     else if 240 \<le> b0 \<and> b0 \<le> 244 then
       (case rest of b1 # b2 # b3 # _ \<Rightarrow>
          if (if b0 = 240 then 144 else 128) \<le> b1 \<and> b1 \<le> (if b0 = 244 then 143 else 191)
             \<and> is_cont b2 \<and> is_cont b3
          then 4 else 0
        | _ \<Rightarrow> 0)
     else 0)"

lemma rune_len_bytes:
  "\<forall>b \<in> set (take (rune_len bs) bs). 128 \<le> b"
proof (cases "\<exists>b0 b1 b2 b3 rest. bs = b0 # b1 # b2 # b3 # rest")
  case True
  then show ?thesis by (elim exE) (simp add: rune_len_def is_cont_def)
next
  case False
  then consider "bs = []" | b0 where "bs = [b0]" | b0 b1 where "bs = [b0, b1]"
    | b0 b1 b2 where "bs = [b0, b1, b2]"
    by (metis list.exhaust)
  then show ?thesis by cases (simp_all add: rune_len_def is_cont_def)
qed

section \<open>Strings\<close>

abbreviation quote_char :: char where
  "quote_char \<equiv> CHR 0x22"

abbreviation backslash_char :: char where
  "backslash_char \<equiv> CHR 0x5C"

definition hex_digit :: "nat \<Rightarrow> char" where
  "hex_digit d = (if d < 10 then char_of (48 + d) else char_of (87 + d))"

definition escape_ascii :: "char \<Rightarrow> string" where
  "escape_ascii c =
    (if c = quote_char \<or> c = backslash_char then [backslash_char, c]
     else if c = CHR 0x08 then [backslash_char, CHR ''b'']
     else if c = CHR 0x0C then [backslash_char, CHR ''f'']
     else if c = CHR 0x0A then [backslash_char, CHR ''n'']
     else if c = CHR 0x0D then [backslash_char, CHR ''r'']
     else if c = CHR 0x09 then [backslash_char, CHR ''t'']
     else if byte_of c < 32 \<or> c = CHR ''<'' \<or> c = CHR ''>'' \<or> c = CHR ''&''
       then [backslash_char, CHR ''u'', CHR ''0'', CHR ''0'',
             hex_digit (byte_of c div 16), hex_digit (byte_of c mod 16)]
     else [c])"

abbreviation line_sep :: string where
  "line_sep \<equiv> [CHR 0xE2, CHR 0x80, CHR 0xA8]"

abbreviation para_sep :: string where
  "para_sep \<equiv> [CHR 0xE2, CHR 0x80, CHR 0xA9]"

definition escape_rune :: "string \<Rightarrow> string" where
  "escape_rune r =
    (if r = line_sep then backslash_char # ''u2028''
     else if r = para_sep then backslash_char # ''u2029''
     else r)"

function json_escape :: "string \<Rightarrow> string" where
  "json_escape [] = []"
| "json_escape (c # cs) =
    (if byte_of c < 128 then escape_ascii c @ json_escape cs
     else (let n = rune_len (map byte_of (c # cs))
           in if n = 0 then backslash_char # ''ufffd'' @ json_escape cs
              else escape_rune (take n (c # cs)) @ json_escape (drop n (c # cs))))"
  by pat_completeness auto
termination
  by (relation "measure length") (auto simp: Let_def)

declare json_escape.simps(2) [simp del]

definition json_string :: "string \<Rightarrow> string" where
  "json_string s = quote_char # json_escape s @ [quote_char]"

text \<open>Valid UTF-8, the strings the API server stores.\<close>

function valid_utf8 :: "string \<Rightarrow> bool" where
  "valid_utf8 [] = True"
| "valid_utf8 (c # cs) =
    (if byte_of c < 128 then valid_utf8 cs
     else (let n = rune_len (map byte_of (c # cs))
           in if n = 0 then False else valid_utf8 (drop n (c # cs))))"
  by pat_completeness auto
termination
  by (relation "measure length") (auto simp: Let_def)

declare valid_utf8.simps(2) [simp del]

section \<open>Reading a string back\<close>

text \<open>A reader for the encoded strings: it stops at the closing quote and returns what follows.\<close>

definition hex_val :: "char \<Rightarrow> nat" where
  "hex_val c = (if byte_of c < 58 then byte_of c - 48 else byte_of c - 87)"

definition unescape_simple :: "char \<Rightarrow> char" where
  "unescape_simple c =
    (if c = CHR ''b'' then CHR 0x08 else if c = CHR ''f'' then CHR 0x0C
     else if c = CHR ''n'' then CHR 0x0A else if c = CHR ''r'' then CHR 0x0D
     else if c = CHR ''t'' then CHR 0x09 else c)"

definition unescape_hex :: "char \<Rightarrow> char \<Rightarrow> char \<Rightarrow> char \<Rightarrow> string" where
  "unescape_hex h1 h2 h3 h4 =
    (if [h1, h2, h3, h4] = ''2028'' then line_sep
     else if [h1, h2, h3, h4] = ''2029'' then para_sep
     else [char_of (16 * hex_val h3 + hex_val h4)])"

fun json_read :: "string \<Rightarrow> (string \<times> string) option" where
  "json_read [] = None"
| "json_read (c # cs) =
    (if c = quote_char then Some ([], cs)
     else if c = backslash_char then
       (case cs of d # ds \<Rightarrow>
          if d = CHR ''u'' then
            (case ds of h1 # h2 # h3 # h4 # rest \<Rightarrow>
               map_option (apfst ((@) (unescape_hex h1 h2 h3 h4))) (json_read rest)
             | _ \<Rightarrow> None)
          else map_option (apfst ((#) (unescape_simple d))) (json_read ds)
        | [] \<Rightarrow> None)
     else map_option (apfst ((#) c)) (json_read cs))"

lemma hex_val_hex_digit [simp]: "d < 16 \<Longrightarrow> hex_val (hex_digit d) = d"
  by (auto simp: hex_val_def hex_digit_def of_char_of)

lemma json_read_escape_ascii:
  assumes "byte_of c < 128"
  shows "json_read (escape_ascii c @ t) = map_option (apfst ((#) c)) (json_read t)"
proof -
  have "byte_of c div 16 < 16" "byte_of c mod 16 < 16" using assms by auto
  then have "char_of (16 * hex_val (hex_digit (byte_of c div 16)) + hex_val (hex_digit (byte_of c mod 16))) = c"
    by (metis char_of_char hex_val_hex_digit mult.commute div_mult_mod_eq)
  then show ?thesis
    by (simp add: escape_ascii_def unescape_simple_def unescape_hex_def apfst_def map_prod_def)
qed

lemma json_read_high:
  "\<forall>c \<in> set r. 128 \<le> byte_of c \<Longrightarrow> json_read (r @ t) = map_option (apfst ((@) r)) (json_read t)"
proof (induction r)
  case Nil
  show ?case by (cases "json_read t") auto
next
  case (Cons c r)
  then have "c \<noteq> quote_char" "c \<noteq> backslash_char" by auto
  with Cons show ?case by (auto simp: option.map_comp comp_def intro!: option.map_cong)
qed

lemma json_read_escape_rune:
  assumes "\<forall>c \<in> set r. 128 \<le> byte_of c"
  shows "json_read (escape_rune r @ t) = map_option (apfst ((@) r)) (json_read t)"
  using json_read_high [OF assms, of t]
  by (auto simp: escape_rune_def unescape_hex_def)

lemma take_rune_bytes:
  "\<forall>c \<in> set (take (rune_len (map byte_of cs)) cs). 128 \<le> byte_of c"
  using rune_len_bytes [of "map byte_of cs"] by (auto simp: take_map)

lemma json_read_json_escape:
  "valid_utf8 s \<Longrightarrow> json_read (json_escape s @ quote_char # rest) = Some (s, rest)"
proof (induction s rule: json_escape.induct)
  case 1
  then show ?case by simp
next
  case (2 c cs)
  show ?case
  proof (cases "byte_of c < 128")
    case True
    with 2 show ?thesis
      by (simp add: json_escape.simps(2) valid_utf8.simps(2) json_read_escape_ascii)
  next
    case False
    let ?n = "rune_len (map byte_of (c # cs))"
    from "2.prems" False have n: "?n \<noteq> 0" and v: "valid_utf8 (drop ?n (c # cs))"
      by (simp_all add: valid_utf8.simps(2) Let_def split: if_splits)
    from "2.IH"(3) [OF False refl n v]
    have "json_read (json_escape (drop ?n (c # cs)) @ quote_char # rest) = Some (drop ?n (c # cs), rest)" .
    moreover have "json_escape (c # cs) = escape_rune (take ?n (c # cs)) @ json_escape (drop ?n (c # cs))"
      using False n by (simp add: json_escape.simps(2) Let_def)
    ultimately show ?thesis
      using json_read_escape_rune [OF take_rune_bytes [of "c # cs"]] by simp
  qed
qed

text \<open>
  Hence an encoded string is self-delimiting: two texts that start with encoded strings and agree
  have the same string and the same continuation.
\<close>

lemma json_string_append_inject:
  assumes "valid_utf8 s" "valid_utf8 t"
  shows "json_string s @ x = json_string t @ y \<longleftrightarrow> s = t \<and> x = y"
proof
  assume "json_string s @ x = json_string t @ y"
  then have "json_read (json_escape s @ quote_char # x) = json_read (json_escape t @ quote_char # y)"
    by (simp add: json_string_def)
  with assms show "s = t \<and> x = y" by (simp add: json_read_json_escape)
qed simp

section \<open>Integers\<close>

definition is_digit_char :: "char \<Rightarrow> bool" where
  "is_digit_char c \<longleftrightarrow> c = CHR ''-'' \<or> (48 \<le> byte_of c \<and> byte_of c < 58)"

lemma Itoa_chars: "c \<in> set (Itoa i) \<Longrightarrow> is_digit_char c"
  by (auto simp: Itoa_def is_digit_char_def dest: digit_char_range split: if_splits)

lemma split_at_first_unique:
  assumes "\<forall>c \<in> set u. p c" "\<forall>c \<in> set v. p c" "\<not> p a" "\<not> p b"
  shows "u @ a # x = v @ b # y \<longleftrightarrow> u = v \<and> a = b \<and> x = y"
proof
  assume eq: "u @ a # x = v @ b # y"
  have "takeWhile p (u @ a # x) = u" "takeWhile p (v @ b # y) = v"
    using assms by (simp_all add: takeWhile_append)
  with eq show "u = v \<and> a = b \<and> x = y" by auto
qed simp

lemma Itoa_append_inject:
  assumes "\<not> is_digit_char a" "\<not> is_digit_char b"
  shows "Itoa i @ a # x = Itoa j @ b # y \<longleftrightarrow> i = j \<and> a = b \<and> x = y"
  using split_at_first_unique [of "Itoa i" is_digit_char "Itoa j" a b x y] assms Itoa_chars
  by (auto simp: Itoa_inject)

section \<open>Arrays\<close>

text \<open>A nil slice is \<^verbatim>\<open>null\<close>; the caller's slice is nil when it is empty.\<close>

fun json_elements :: "('a \<Rightarrow> string) \<Rightarrow> 'a list \<Rightarrow> string" where
  "json_elements enc [] = ''''"
| "json_elements enc [x] = enc x"
| "json_elements enc (x # xs) = enc x @ '','' @ json_elements enc xs"

definition json_slice :: "('a \<Rightarrow> string) \<Rightarrow> 'a list \<Rightarrow> string" where
  "json_slice enc xs = (if xs = [] then ''null'' else ''['' @ json_elements enc xs @ '']'')"

lemma json_elements_Cons:
  "json_elements enc (x # xs) = enc x @ (if xs = [] then '''' else '','' @ json_elements enc xs)"
  by (cases xs) simp_all

lemma json_elements_inject:
  assumes delim: "\<And>x y u v. P x \<Longrightarrow> P y \<Longrightarrow> enc x @ u = enc y @ v \<Longrightarrow> x = y \<and> u = v"
    and "\<forall>x \<in> set xs. P x" "\<forall>y \<in> set ys. P y" "xs \<noteq> []" "ys \<noteq> []"
    and "json_elements enc xs @ '']'' = json_elements enc ys @ '']''"
  shows "xs = ys"
  using assms(2-)
proof (induction xs arbitrary: ys)
  case Nil
  then show ?case by simp
next
  case (Cons x xs)
  from Cons.prems obtain y ys' where ys: "ys = y # ys'" by (cases ys) auto
  let ?k = "\<lambda>zs. (if zs = [] then '''' else '','' @ json_elements enc zs) @ '']''"
  from Cons.prems ys have "enc x @ ?k xs = enc y @ ?k ys'"
    by (simp only: json_elements_Cons append_assoc)
  with delim [of x y "?k xs" "?k ys'"] Cons.prems ys
  have "x = y" and k: "?k xs = ?k ys'" by simp_all
  have "xs = ys'"
  proof (cases "xs = [] \<or> ys' = []")
    case True
    with k show ?thesis by (auto split: if_splits)
  next
    case False
    with k Cons.IH [of ys'] Cons.prems ys show ?thesis by simp
  qed
  with \<open>x = y\<close> ys show ?case by simp
qed

lemma json_slice_inject:
  assumes delim: "\<And>x y u v. P x \<Longrightarrow> P y \<Longrightarrow> enc x @ u = enc y @ v \<Longrightarrow> x = y \<and> u = v"
    and "\<forall>x \<in> set xs. P x" "\<forall>y \<in> set ys. P y"
    and "json_slice enc xs = json_slice enc ys"
  shows "xs = ys"
proof (cases "xs = [] \<or> ys = []")
  case True
  with assms(4) show ?thesis by (auto simp: json_slice_def split: if_splits)
next
  case False
  with assms(4) have "json_elements enc xs @ '']'' = json_elements enc ys @ '']''"
    by (simp add: json_slice_def)
  with False show ?thesis
    using json_elements_inject [of P enc xs ys, OF delim assms(2,3)] by blast
qed

end
