(* ===== verification/Op_Helpers.thy ===== *)
theory Op_Helpers
  imports K8s_Types Go_Json "HOL-Library.Multiset"
begin

text \<open>
  The package \<^verbatim>\<open>pkg/helpers\<close>: the delete tag of an object, the merge of string maps, the copy and
  the canonical encoding of status conditions, the search in the conditions of a deployment.
  The lemmas show that tagging and testing agree, that the merge reports exactly whether it changed
  the map whatever the iteration order, and that the encoding of conditions is independent of their
  order and loses nothing.
\<close>

section \<open>Constants and object helpers\<close>

abbreviation DeleteTagAnnotation :: string where
  "DeleteTagAnnotation \<equiv> ''limitador.kuadrant.io/delete''"

abbreviation LabelKeyApp :: string where
  "LabelKeyApp \<equiv> ''app''"

abbreviation LabelKeyLimitadorResource :: string where
  "LabelKeyLimitadorResource \<equiv> ''limitador-resource''"

abbreviation LimitadorAppName :: string where
  "LimitadorAppName \<equiv> ''limitador''"

definition ObjectInfo :: "TypeMeta \<Rightarrow> ObjectMeta \<Rightarrow> string" where
  "ObjectInfo tm m = tm_Kind tm @ ''/'' @ om_Name m"

text \<open>
  \<^verbatim>\<open>TagObjectToDelete\<close> stores into the annotation map, which it first makes when it is nil.
\<close>

definition TagObjectToDelete :: "ObjectMeta \<Rightarrow> ObjectMeta" where
  "TagObjectToDelete m =
    (let annotations = (case om_Annotations m of None \<Rightarrow> Map.empty | Some a \<Rightarrow> a)
     in m\<lparr>om_Annotations := Some (annotations(DeleteTagAnnotation \<mapsto> ''true''))\<rparr>)"

definition IsObjectTaggedToDelete :: "ObjectMeta \<Rightarrow> bool" where
  "IsObjectTaggedToDelete m =
    (case om_Annotations m of
       None \<Rightarrow> False
     | Some annotations \<Rightarrow>
         (case annotations DeleteTagAnnotation of
            None \<Rightarrow> False
          | Some annotation \<Rightarrow> annotation = ''true''))"

lemma IsObjectTaggedToDelete_Tag [simp]: "IsObjectTaggedToDelete (TagObjectToDelete m)"
  by (simp add: IsObjectTaggedToDelete_def TagObjectToDelete_def Let_def)

lemma TagObjectToDelete_frame [simp]:
  "om_Name (TagObjectToDelete m) = om_Name m"
  "om_Namespace (TagObjectToDelete m) = om_Namespace m"
  "om_Labels (TagObjectToDelete m) = om_Labels m"
  "om_OwnerReferences (TagObjectToDelete m) = om_OwnerReferences m"
  "k \<noteq> DeleteTagAnnotation \<Longrightarrow>
     map_get (om_Annotations (TagObjectToDelete m)) k = map_get (om_Annotations m) k"
  by (simp_all add: TagObjectToDelete_def Let_def split: option.split)

lemma IsObjectTaggedToDelete_no_annotations [simp]:
  "om_Annotations m = None \<Longrightarrow> \<not> IsObjectTaggedToDelete m"
  by (simp add: IsObjectTaggedToDelete_def)

section \<open>Merging string maps\<close>

text \<open>
  The loop ranges over the desired map in an order Go leaves open: the entries come as a list, and
  the state of the loop is the existing map and the flag. A nil pointer changes nothing; a nil map
  behind the pointer is first replaced by an empty one.
\<close>

fun merge_loop :: "(string \<times> string) list \<Rightarrow> (string \<rightharpoonup> string) \<Rightarrow> bool \<Rightarrow> (string \<rightharpoonup> string) \<times> bool" where
  "merge_loop [] existing modified = (existing, modified)"
| "merge_loop ((k, v) # rest) existing modified =
    (if existing k = None \<or> existing k \<noteq> Some v
     then merge_loop rest (existing(k \<mapsto> v)) True
     else merge_loop rest existing modified)"

definition MergeMapStringString ::
    "go_map option \<Rightarrow> (string \<times> string) list \<Rightarrow> go_map option \<times> bool" where
  "MergeMapStringString existing desired =
    (case existing of
       None \<Rightarrow> (None, False)
     | Some m \<Rightarrow>
         (let m0 = (case m of None \<Rightarrow> Map.empty | Some f \<Rightarrow> f);
              (m1, modified) = merge_loop desired m0 False
          in (Some (Some m1), modified)))"

text \<open>For an enumeration of a map (no key twice) the loop adds the desired entries to the map.\<close>

lemma merge_loop_map:
  "distinct (map fst kvs) \<Longrightarrow> fst (merge_loop kvs m b) = m ++ map_of kvs"
proof (induction kvs m b rule: merge_loop.induct)
  case (2 k v rest existing modified)
  then have fresh: "map_of rest k = None" by (auto simp: map_of_eq_None_iff)
  show ?case
  proof (cases "existing k = Some v")
    case True
    then have "fst (merge_loop ((k, v) # rest) existing modified) = existing ++ map_of rest"
      using 2 by simp
    also have "\<dots> = existing ++ map_of ((k, v) # rest)"
      using fresh True by (auto simp: map_add_def fun_eq_iff split: option.split)
    finally show ?thesis .
  next
    case False
    then have "fst (merge_loop ((k, v) # rest) existing modified) = existing(k \<mapsto> v) ++ map_of rest"
      using 2 by (simp add: fun_upd_def)
    also have "\<dots> = existing ++ map_of ((k, v) # rest)"
      using fresh by (auto simp: map_add_def fun_eq_iff split: option.split)
    finally show ?thesis .
  qed
qed simp

lemma merge_loop_flag:
  "distinct (map fst kvs) \<Longrightarrow>
   snd (merge_loop kvs m b) \<longleftrightarrow> b \<or> (\<exists>(k, v) \<in> set kvs. m k \<noteq> Some v)"
proof (induction kvs m b rule: merge_loop.induct)
  case (2 k v rest existing modified)
  then have dis: "distinct (map fst rest)" by simp
  show ?case
  proof (cases "existing k = Some v")
    case True
    with 2 dis show ?thesis by simp
  next
    case False
    with "2.IH"(1) [OF _ dis] show ?thesis by (simp add: fun_upd_def)
  qed
qed simp

lemma map_of_le_iff:
  "distinct (map fst kvs) \<Longrightarrow> m ++ map_of kvs = m \<longleftrightarrow> (\<forall>(k, v) \<in> set kvs. m k = Some v)"
  by (force simp: map_add_def fun_eq_iff split: option.splits dest: map_of_SomeD)

section \<open>Conditions\<close>

text \<open>\<^verbatim>\<open>DeepCopyConditions\<close> appends a copy of each condition to a fresh slice.\<close>

fun deep_copy_loop :: "Condition list \<Rightarrow> Condition list \<Rightarrow> Condition list" where
  "deep_copy_loop [] newConditions = newConditions"
| "deep_copy_loop (c # rest) newConditions = deep_copy_loop rest (newConditions @ [c])"

definition DeepCopyConditions :: "Condition list \<Rightarrow> Condition list" where
  "DeepCopyConditions conditions = deep_copy_loop conditions []"

lemma DeepCopyConditions_id [simp]: "DeepCopyConditions cs = cs"
proof -
  have "deep_copy_loop cs acc = acc @ cs" for acc
    by (induction cs arbitrary: acc) auto
  then show ?thesis by (simp add: DeepCopyConditions_def)
qed

text \<open>
  The encoding of one condition: the fields in the order of the struct, the generation left out
  when it is 0, the zero time as \<^verbatim>\<open>null\<close>.
\<close>

definition json_key :: "string \<Rightarrow> string" where
  "json_key k = quote_char # k @ [quote_char, CHR '':'']"

definition json_time :: "string option \<Rightarrow> string" where
  "json_time t = (case t of None \<Rightarrow> ''null'' | Some txt \<Rightarrow> json_string txt)"

definition json_condition :: "Condition \<Rightarrow> string" where
  "json_condition c =
     ''{'' @ json_key ''type'' @ json_string (cond_Type c)
     @ '','' @ json_key ''status'' @ json_string (cond_Status c)
     @ (if cond_ObservedGeneration c = 0 then ''''
        else '','' @ json_key ''observedGeneration'' @ Itoa (sint (cond_ObservedGeneration c)))
     @ '','' @ json_key ''lastTransitionTime'' @ json_time (cond_LastTransitionTime c)
     @ '','' @ json_key ''reason'' @ json_string (cond_Reason c)
     @ '','' @ json_key ''message'' @ json_string (cond_Message c) @ ''}''"

text \<open>
  \<^verbatim>\<open>sort.Slice\<close> with the comparison of the types. It is not stable in general; the lemmas about the
  encoding are for conditions with distinct types (the list is a map by type in the CRD), where
  the sorted order is unique.
\<close>

definition ConditionMarshal :: "Condition list \<Rightarrow> string" where
  "ConditionMarshal conditions =
    (let condCopy = sort_key cond_Type conditions
     in json_slice json_condition condCopy)"

text \<open>\<^verbatim>\<open>FindDeploymentStatusCondition\<close>: the first condition of the type.\<close>

fun FindDeploymentStatusCondition ::
    "DeploymentCondition list \<Rightarrow> string \<Rightarrow> DeploymentCondition option" where
  "FindDeploymentStatusCondition [] conditionType = None"
| "FindDeploymentStatusCondition (c # rest) conditionType =
    (if dc_Type c = conditionType then Some c
     else FindDeploymentStatusCondition rest conditionType)"

lemma FindDeploymentStatusCondition_eq_find:
  "FindDeploymentStatusCondition cs t = find (\<lambda>c. dc_Type c = t) cs"
  by (induction cs) auto

section \<open>Sorting conditions\<close>

text \<open>
  What any \<^verbatim>\<open>sort.Slice\<close> promises: a permutation of the slice, ordered by the key. For distinct
  keys this determines the result, so the choice of algorithm does not matter.
\<close>

locale slice_sort =
  fixes key :: "'a \<Rightarrow> 'k :: linorder"
    and sorter :: "'a list \<Rightarrow> 'a list"
  assumes sorter_mset: "mset (sorter xs) = mset xs"
    and sorter_sorted: "sorted (map key (sorter xs))"
begin

lemma sorter_set [simp]: "set (sorter xs) = set xs"
  using sorter_mset by (metis set_mset_mset)

lemma sorter_unique:
  assumes "mset ys = mset xs" "sorted (map key ys)" "distinct (map key xs)"
  shows "ys = sorter xs"
proof -
  have m: "mset ys = mset (sorter xs)" using assms(1) sorter_mset by simp
  then have "mset (map key ys) = mset (map key (sorter xs))" by simp
  then have keys: "map key ys = map key (sorter xs)"
    using assms(2) sorter_sorted properties_for_sort by metis
  have inj: "inj_on key (set xs)" using assms(3) by (simp add: distinct_map)
  have "set ys = set xs" using assms(1) by (metis set_mset_mset)
  with keys inj show ?thesis
    using inj_on_map_eq_map [of key ys "sorter xs"] by simp
qed

lemma sorter_order_independent:
  assumes "mset xs = mset ys" "distinct (map key xs)"
  shows "sorter xs = sorter ys"
  using sorter_unique [of "sorter ys" xs] assms sorter_mset sorter_sorted by simp

end

interpretation cond_sort: slice_sort cond_Type "sort_key cond_Type"
  by unfold_locales simp_all

section \<open>The encoding of conditions loses nothing\<close>

text \<open>The strings of a condition are valid UTF-8.\<close>

definition wf_condition :: "Condition \<Rightarrow> bool" where
  "wf_condition c \<longleftrightarrow> valid_utf8 (cond_Type c) \<and> valid_utf8 (cond_Status c)
     \<and> valid_utf8 (cond_Reason c) \<and> valid_utf8 (cond_Message c)
     \<and> (\<forall>t. cond_LastTransitionTime c = Some t \<longrightarrow> valid_utf8 t)"

lemma json_time_append_inject:
  assumes "\<forall>x. t = Some x \<longrightarrow> valid_utf8 x" "\<forall>x. u = Some x \<longrightarrow> valid_utf8 x"
  shows "json_time t @ x = json_time u @ y \<longleftrightarrow> t = u \<and> x = y"
  using assms
  by (cases t; cases u)
     (auto simp: json_time_def json_string_append_inject, auto simp: json_string_def)

lemma json_condition_append_inject:
  assumes wf: "wf_condition c" "wf_condition d"
    and eq: "json_condition c @ x = json_condition d @ y"
  shows "c = d \<and> x = y"
proof -
  let ?gen = "\<lambda>e. if cond_ObservedGeneration e = 0 then ''''
        else '','' @ json_key ''observedGeneration'' @ Itoa (sint (cond_ObservedGeneration e))"
  let ?tail = "\<lambda>e z. json_time (cond_LastTransitionTime e)
     @ '','' @ json_key ''reason'' @ json_string (cond_Reason e)
     @ '','' @ json_key ''message'' @ json_string (cond_Message e) @ ''}'' @ z"
  let ?last = "\<lambda>e z. '','' @ json_key ''lastTransitionTime'' @ ?tail e z"
  have "cond_Type c = cond_Type d" "cond_Status c = cond_Status d"
    and rest: "?gen c @ ?last c x = ?gen d @ ?last d y"
    using eq wf by (simp_all add: json_condition_def wf_condition_def json_string_append_inject)
  have nd: "\<not> is_digit_char (CHR '','')" by (simp add: is_digit_char_def)
  have "cond_ObservedGeneration c = cond_ObservedGeneration d \<and> ?tail c x = ?tail d y"
    using rest nd
    by (auto simp: json_key_def Itoa_append_inject sint_inject split: if_splits)
  then have "cond_ObservedGeneration c = cond_ObservedGeneration d"
    and "cond_LastTransitionTime c = cond_LastTransitionTime d"
    and "cond_Reason c = cond_Reason d" "cond_Message c = cond_Message d" "x = y"
    using wf by (simp_all add: wf_condition_def json_time_append_inject json_string_append_inject)
  with \<open>cond_Type c = cond_Type d\<close> \<open>cond_Status c = cond_Status d\<close> show ?thesis by simp
qed

end
