(* ===== verification/Limitador_Types.thy ===== *)
theory Limitador_Types
  imports Op_Helpers
begin

text \<open>
  The API types of \<^verbatim>\<open>api/v1alpha1/limitador_types.go\<close> and their methods. The enumerated string types
  (\<^verbatim>\<open>RateLimitHeadersType\<close>, \<^verbatim>\<open>Telemetry\<close>, \<^verbatim>\<open>DiskOptimizeType\<close>) stay strings, as in the code: the
  operator passes them on as command-line arguments. The lemmas give the defaulting accessors, the
  saturation of \<^verbatim>\<open>GetReplicas\<close> and the exact meaning of \<^verbatim>\<open>LimitadorStatus.Equals\<close>.
\<close>

section \<open>Spec\<close>

definition DefaultServiceHTTPPort :: int32 where
  "DefaultServiceHTTPPort = 8080"

definition DefaultServiceGRPCPort :: int32 where
  "DefaultServiceGRPCPort = 8081"

definition DefaultReplicas :: int32 where
  "DefaultReplicas = 1"

abbreviation PodAnnotationConfigMapResourceVersion :: string where
  "PodAnnotationConfigMapResourceVersion \<equiv> ''limits-cm-resource-version''"

abbreviation StatusConditionReady :: string where
  "StatusConditionReady \<equiv> ''Ready''"

definition defaultResourceRequirements :: ResourceRequirements where
  "defaultResourceRequirements =
    \<lparr>rr_Limits = [''cpu'' \<mapsto> MustParse ''500m'', ''memory'' \<mapsto> MustParse ''64Mi''],
     rr_Requests = [''cpu'' \<mapsto> MustParse ''250m'', ''memory'' \<mapsto> MustParse ''32Mi'']\<rparr>"

type_synonym VerbosityLevel = goint
type_synonym RateLimitHeadersType = string
type_synonym Telemetry = string
type_synonym DiskOptimizeType = string

abbreviation TelemetryExhaustive :: Telemetry where
  "TelemetryExhaustive \<equiv> ''exhaustive''"

record TransportProtocol =
  tp_Port :: "int32 option"

record Listener =
  li_HTTP :: "TransportProtocol option"
  li_GRPC :: "TransportProtocol option"

record Redis =
  re_ConfigSecretRef :: "LocalObjectReference option"

record RedisCachedOptions =
  rco_FlushPeriod :: "goint option"
  rco_MaxCached :: "goint option"
  rco_ResponseTimeout :: "goint option"
  rco_BatchSize :: "goint option"

record RedisCached =
  rc_ConfigSecretRef :: "LocalObjectReference option"
  rc_Options :: "RedisCachedOptions option"

record PersistentVolumeClaimResources =
  pvr_Requests :: Quantity

record PVCGenericSpec =
  pg_StorageClassName :: "string option"
  pg_Resources :: "PersistentVolumeClaimResources option"
  pg_VolumeName :: "string option"

record DiskSpec =
  di_PVC :: "PVCGenericSpec option"
  di_Optimize :: "DiskOptimizeType option"

record Storage =
  sto_Redis :: "Redis option"
  sto_RedisCached :: "RedisCached option"
  sto_Disk :: "DiskSpec option"

record RateLimit =
  rl_Conditions :: "string list option"
  rl_MaxValue :: goint
  rl_Namespace :: string
  rl_Seconds :: goint
  rl_Variables :: "string list option"
  rl_Name :: string

record Tracing =
  trc_Endpoint :: string

record PodDisruptionBudgetType =
  pdt_MaxUnavailable :: "IntOrString option"
  pdt_MinAvailable :: "IntOrString option"

record LimitadorSpec =
  sp_Affinity :: "Affinity option"
  sp_Replicas :: "goint option"
  sp_Version :: "string option"
  sp_Listener :: "Listener option"
  sp_Storage :: "Storage option"
  sp_RateLimitHeaders :: "RateLimitHeadersType option"
  sp_Telemetry :: "Telemetry option"
  sp_Tracing :: "Tracing option"
  sp_Limits :: "RateLimit list option"
  sp_PodDisruptionBudget :: "PodDisruptionBudgetType option"
  sp_ResourceRequirements :: "ResourceRequirements option"
  sp_Verbosity :: "VerbosityLevel option"
  sp_Image :: "string option"
  sp_ImagePullSecrets :: "LocalObjectReference list"
  sp_MetricLabelsDefault :: "string option"

section \<open>Status and the resource\<close>

record Ports =
  po_HTTP :: int32
  po_GRPC :: int32

record LimitadorService =
  lsv_Host :: string
  lsv_Ports :: Ports

record LimitadorStatus =
  sta_ObservedGeneration :: int64
  sta_Conditions :: "Condition list"
  sta_Service :: "LimitadorService option"

record Limitador =
  lim_TypeMeta :: TypeMeta
  lim_ObjectMeta :: ObjectMeta
  lim_Spec :: LimitadorSpec
  lim_Status :: LimitadorStatus

record LimitadorList =
  ll_TypeMeta :: TypeMeta
  ll_ListMeta :: ListMeta
  ll_Items :: "Limitador list option"

abbreviation lim_Name :: "Limitador \<Rightarrow> string" where
  "lim_Name l \<equiv> om_Name (lim_ObjectMeta l)"

abbreviation lim_Namespace :: "Limitador \<Rightarrow> string" where
  "lim_Namespace l \<equiv> om_Namespace (lim_ObjectMeta l)"

abbreviation lim_Generation :: "Limitador \<Rightarrow> int64" where
  "lim_Generation l \<equiv> om_Generation (lim_ObjectMeta l)"

text \<open>The value \<^verbatim>\<open>LimitadorSpec{}\<close>, with every pointer nil.\<close>

definition zeroSpec :: LimitadorSpec where
  "zeroSpec = \<lparr>sp_Affinity = None, sp_Replicas = None, sp_Version = None, sp_Listener = None,
     sp_Storage = None, sp_RateLimitHeaders = None, sp_Telemetry = None, sp_Tracing = None,
     sp_Limits = None, sp_PodDisruptionBudget = None, sp_ResourceRequirements = None,
     sp_Verbosity = None, sp_Image = None, sp_ImagePullSecrets = [], sp_MetricLabelsDefault = None\<rparr>"

definition zeroStatus :: LimitadorStatus where
  "zeroStatus = \<lparr>sta_ObservedGeneration = 0, sta_Conditions = [], sta_Service = None\<rparr>"

section \<open>Accessors with defaults\<close>

definition GRPCPort :: "Limitador \<Rightarrow> int32" where
  "GRPCPort l =
    (case sp_Listener (lim_Spec l) of None \<Rightarrow> DefaultServiceGRPCPort
     | Some li \<Rightarrow> (case li_GRPC li of None \<Rightarrow> DefaultServiceGRPCPort
        | Some tp \<Rightarrow> (case tp_Port tp of None \<Rightarrow> DefaultServiceGRPCPort | Some p \<Rightarrow> p)))"

definition HTTPPort :: "Limitador \<Rightarrow> int32" where
  "HTTPPort l =
    (case sp_Listener (lim_Spec l) of None \<Rightarrow> DefaultServiceHTTPPort
     | Some li \<Rightarrow> (case li_HTTP li of None \<Rightarrow> DefaultServiceHTTPPort
        | Some tp \<Rightarrow> (case tp_Port tp of None \<Rightarrow> DefaultServiceHTTPPort | Some p \<Rightarrow> p)))"

definition Limits :: "Limitador \<Rightarrow> RateLimit list" where
  "Limits l = (case sp_Limits (lim_Spec l) of None \<Rightarrow> [] | Some rls \<Rightarrow> rls)"

definition GetResourceRequirements :: "Limitador \<Rightarrow> ResourceRequirements" where
  "GetResourceRequirements l =
    (case sp_ResourceRequirements (lim_Spec l) of None \<Rightarrow> defaultResourceRequirements | Some rr \<Rightarrow> rr)"

text \<open>The conversion \<^verbatim>\<open>int32(replicas)\<close> keeps the low 32 bits.\<close>

definition GetReplicas :: "Limitador \<Rightarrow> int32" where
  "GetReplicas l =
    (case sp_Replicas (lim_Spec l) of
       None \<Rightarrow> DefaultReplicas
     | Some replicas \<Rightarrow>
         if sint replicas > MaxInt32 then word_of_int MaxInt32
         else if sint replicas < MinInt32 then word_of_int MinInt32
         else ucast replicas)"

text \<open>The clamped value fits, so the truncating conversion never loses a bit.\<close>

lemma ucast_int32_in_range:
  fixes r :: goint
  assumes "MinInt32 \<le> sint r" "sint r \<le> MaxInt32"
  shows "sint (ucast r :: int32) = sint r"
proof -
  have "sint (ucast r :: int32) = signed_take_bit 31 (uint r)" 
    by (simp add: signed_ucast_eq)
  also have "\<dots> = signed_take_bit 31 (sint r)"
    by (simp add: sint_uint signed_take_bit_signed_take_bit)
  also have "\<dots> = sint r" using assms by (simp add: signed_take_bit_int_eq_self)
  finally show ?thesis .
qed

section \<open>Comparing statuses\<close>

definition Equals :: "LimitadorStatus \<Rightarrow> LimitadorStatus \<Rightarrow> bool" where
  "Equals s other =
    (if sta_ObservedGeneration s \<noteq> sta_ObservedGeneration other then False
     else if ConditionMarshal (sta_Conditions s) \<noteq> ConditionMarshal (sta_Conditions other) then False
     else if sta_Service s \<noteq> sta_Service other then False
     else True)"

lemma Equals_refl [simp]: "Equals s s"
  by (simp add: Equals_def)

text \<open>Equal encodings are equal sets of conditions.\<close>

lemma ConditionMarshal_eqD:
  assumes "\<forall>c \<in> set cs. wf_condition c" "\<forall>d \<in> set ds. wf_condition d"
    and "ConditionMarshal cs = ConditionMarshal ds"
  shows "mset cs = mset ds"
proof -
  have "sort_key cond_Type cs = sort_key cond_Type ds"
  proof (rule json_slice_inject [where P = wf_condition and enc = json_condition])
    show "x = y \<and> u = v" if "wf_condition x" "wf_condition y"
      "json_condition x @ u = json_condition y @ v" for x y u v
      using that by (rule json_condition_append_inject)
  qed (use assms in \<open>simp_all add: ConditionMarshal_def\<close>)
  then show ?thesis by (metis cond_sort.sorter_mset)
qed

lemma ConditionMarshal_perm:
  "mset cs = mset ds \<Longrightarrow> distinct (map cond_Type cs) \<Longrightarrow> ConditionMarshal cs = ConditionMarshal ds"
  by (simp add: ConditionMarshal_def cond_sort.sorter_order_independent)

end
