(* ===== verification/Op_Runtime.thy ===== *)
theory Op_Runtime
  imports Limitador_Types
begin

text \<open>
  The environment of the reconcilers. \<open>client\<close> is the Kubernetes client of controller-runtime: each
  call takes the state of the world (an arbitrary type) and returns its answer with the next state,
  so any API server, cache and interference by other actors is an instance. \<open>runtime\<close> adds the
  other code the operator calls and that is not part of the repository. Every call to the client,
  every operation on a span and every line given to a logger is appended to a trace, in the order it
  happens (whether a line is written is up to the logger); the properties
  of the reconcilers are stated over that trace, over the results and over the world.

  \<open>yields\<close> is the calculus for them: from world \<open>w\<close> every run of a call ends in an outcome,
  extends the trace by some events and leaves a world that together satisfy a predicate.
\<close>

named_theorems yields_intro "introduction rules of the calculus"

section \<open>Objects and requests\<close>

text \<open>\<^verbatim>\<open>client.Object\<close>: the objects the operator hands to the client.\<close>

datatype Object =
    OService Service
  | ODeployment Deployment
  | OConfigMap ConfigMap
  | OPodDisruptionBudget PodDisruptionBudget
  | OPersistentVolumeClaim PersistentVolumeClaim
  | OPod Pod
  | OLimitador Limitador

primrec obj_meta :: "Object \<Rightarrow> ObjectMeta" where
  "obj_meta (OService x) = svc_ObjectMeta x"
| "obj_meta (ODeployment x) = dep_ObjectMeta x"
| "obj_meta (OConfigMap x) = cm_ObjectMeta x"
| "obj_meta (OPodDisruptionBudget x) = pdb_ObjectMeta x"
| "obj_meta (OPersistentVolumeClaim x) = pvc_ObjectMeta x"
| "obj_meta (OPod x) = pod_ObjectMeta x"
| "obj_meta (OLimitador x) = lim_ObjectMeta x"

primrec obj_type :: "Object \<Rightarrow> TypeMeta" where
  "obj_type (OService x) = svc_TypeMeta x"
| "obj_type (ODeployment x) = dep_TypeMeta x"
| "obj_type (OConfigMap x) = cm_TypeMeta x"
| "obj_type (OPodDisruptionBudget x) = pdb_TypeMeta x"
| "obj_type (OPersistentVolumeClaim x) = pvc_TypeMeta x"
| "obj_type (OPod x) = pod_TypeMeta x"
| "obj_type (OLimitador x) = lim_TypeMeta x"

text \<open>The kind of an object is its Go type; it selects the collection of the API.\<close>

datatype kind = KService | KDeployment | KConfigMap | KPodDisruptionBudget
  | KPersistentVolumeClaim | KPod | KLimitador | KSecret

primrec obj_kind :: "Object \<Rightarrow> kind" where
  "obj_kind (OService x) = KService"
| "obj_kind (ODeployment x) = KDeployment"
| "obj_kind (OConfigMap x) = KConfigMap"
| "obj_kind (OPodDisruptionBudget x) = KPodDisruptionBudget"
| "obj_kind (OPersistentVolumeClaim x) = KPersistentVolumeClaim"
| "obj_kind (OPod x) = KPod"
| "obj_kind (OLimitador x) = KLimitador"

definition obj_key :: "Object \<Rightarrow> kind \<times> NamespacedName" where
  "obj_key x = (obj_kind x, meta_key (obj_meta x))"

text \<open>The write options of a server-side apply: force flag and field owner.\<close>

datatype request =
    ReqGet kind NamespacedName
  | ReqListPods string "string \<rightharpoonup> string"
  | ReqCreate Object
  | ReqUpdate Object
  | ReqDelete Object
  | ReqApply Object bool string
  | ReqStatusApply Object bool string

primrec is_write :: "request \<Rightarrow> bool" where
  "is_write (ReqGet k n) = False"
| "is_write (ReqListPods n s) = False"
| "is_write (ReqCreate x) = True"
| "is_write (ReqUpdate x) = True"
| "is_write (ReqDelete x) = True"
| "is_write (ReqApply x f m) = True"
| "is_write (ReqStatusApply x f m) = True"

section \<open>Spans, loggers, contexts\<close>

record SpanContext =
  sc_IsValid :: bool
  sc_TraceID :: string
  sc_SpanID :: string

definition invalidSpanContext :: SpanContext where
  "invalidSpanContext = \<lparr>sc_IsValid = False, sc_TraceID = [], sc_SpanID = []\<rparr>"

text \<open>A span attribute.\<close>

datatype attribute = AString string string | AInt string int

datatype code = CodeOk | CodeError

datatype span_start_option = WithSpanKindServer | WithAttributes "attribute list"

text \<open>What is done to a span after it is started.\<close>

datatype span_op =
    SpanSetStatus code string
  | SpanRecordError error "attribute list"
  | SpanAddEvent string
  | SpanSetAttributes "attribute list"
  | SpanAddLink SpanContext

type_synonym span_id = nat

text \<open>A logger is the list of its key/value pairs.\<close>

type_synonym logger = "(string \<times> string) list"

text \<open>
  A line that is logged, with its verbosity or error, message, keys and values. The text of a value is
  the logging library's; \<open>LDiff\<close> stands for \<^verbatim>\<open>cmp.Diff\<close> of two values.
\<close>

datatype log_value =
    LString string
  | LBool bool
  | LInt int64
  | LErr "error option"
  | LGVK TypeMeta
  | LService "LimitadorService option"
  | LDiff log_value log_value

datatype log_line =
    LogInfo nat string "(string \<times> log_value) list"
  | LogError error string "(string \<times> log_value) list"

datatype event =
    EvStart span_id string "span_start_option list"
  | EvSpan span_id span_op
  | EvEnd span_id
  | EvRequest request
  | EvLog logger log_line

text \<open>The values the operator keeps in a \<^verbatim>\<open>context.Context\<close>.\<close>

record Context =
  cx_baseLogger :: "logger option"
  cx_logger :: "logger option"
  cx_span :: "span_id option"

text \<open>\<^verbatim>\<open>logr.FromContext\<close>.\<close>

definition FromContext :: "Context \<Rightarrow> error + logger" where
  "FromContext ctx = (case cx_logger ctx of None \<Rightarrow> Inl ErrNoLogger | Some l \<Rightarrow> Inr l)"

definition ctx_ok :: "Context \<Rightarrow> bool" where
  "ctx_ok ctx \<longleftrightarrow> cx_baseLogger ctx \<noteq> None \<and> cx_logger ctx \<noteq> None"

text \<open>\<^verbatim>\<open>ctrl.Request\<close> is a namespaced name; \<^verbatim>\<open>ctrl.Result\<close> with its duration in nanoseconds.\<close>

record Result =
  res_Requeue :: bool
  res_RequeueAfter :: int64

definition zeroResult :: Result where
  "zeroResult = \<lparr>res_Requeue = False, res_RequeueAfter = 0\<rparr>"

section \<open>The client and the runtime\<close>

record 'w client =
  cl_GetLimitador :: "NamespacedName \<Rightarrow> 'w \<Rightarrow> (error + Limitador) \<times> 'w"
  cl_GetDeployment :: "NamespacedName \<Rightarrow> 'w \<Rightarrow> (error + Deployment) \<times> 'w"
  cl_GetConfigMap :: "NamespacedName \<Rightarrow> 'w \<Rightarrow> (error + ConfigMap) \<times> 'w"
  cl_GetPersistentVolumeClaim :: "NamespacedName \<Rightarrow> 'w \<Rightarrow> (error + PersistentVolumeClaim) \<times> 'w"
  cl_GetSecret :: "NamespacedName \<Rightarrow> 'w \<Rightarrow> (error + Secret) \<times> 'w"
  cl_ListPods :: "string \<Rightarrow> (string \<rightharpoonup> string) \<Rightarrow> 'w \<Rightarrow> (error + Pod list) \<times> 'w"
  cl_Create :: "Object \<Rightarrow> 'w \<Rightarrow> error option \<times> 'w"
  cl_Update :: "Object \<Rightarrow> 'w \<Rightarrow> error option \<times> 'w"
  cl_Delete :: "Object \<Rightarrow> 'w \<Rightarrow> error option \<times> 'w"
  cl_Apply :: "Object \<Rightarrow> bool \<Rightarrow> string \<Rightarrow> 'w \<Rightarrow> error option \<times> 'w"
  cl_StatusApply :: "Object \<Rightarrow> bool \<Rightarrow> string \<Rightarrow> 'w \<Rightarrow> error option \<times> 'w"

text \<open>
  The rest of the environment: \<^verbatim>\<open>controllerutil.SetControllerReference\<close> (the owner references it
  leaves on the object, or an error), \<^verbatim>\<open>meta.SetStatusCondition\<close>, \<^verbatim>\<open>yaml.Marshal\<close> on limits, the
  outcome of \<^verbatim>\<open>json.MarshalIndent\<close> on a Limitador, \<^verbatim>\<open>env.GetString\<close>, the base logger and whether its
  debug level is enabled, the span context and the recording flag of a span, the trace context
  extracted from annotations.
\<close>

record 'w runtime =
  rt_client :: "'w client"
  rt_SetControllerReference :: "Limitador \<Rightarrow> ObjectMeta \<Rightarrow> error + OwnerReference list"
  rt_SetStatusCondition :: "Condition list \<Rightarrow> Condition \<Rightarrow> Condition list"
  rt_yamlMarshal :: "RateLimit list \<Rightarrow> error + string"
  rt_jsonMarshalIndent :: "Limitador \<Rightarrow> error + string"
  rt_GetString :: "string \<Rightarrow> string \<Rightarrow> string"
  rt_Logger :: logger
  rt_debugEnabled :: bool
  rt_SpanContext :: "span_id \<Rightarrow> SpanContext"
  rt_IsRecording :: "span_id \<Rightarrow> bool"
  rt_Extract :: "go_map \<Rightarrow> SpanContext"

record 'w st =
  world :: 'w
  trace :: "event list"
  next_span :: span_id

type_synonym ('w, 'a) op = "('w st, 'a) go"

section \<open>Primitive operations\<close>

definition emit :: "event \<Rightarrow> ('w, unit) op" where
  "emit ev = (\<lambda>s. (Done (), s\<lparr>trace := trace s @ [ev]\<rparr>))"

definition request_op :: "request \<Rightarrow> ('w \<Rightarrow> 'a \<times> 'w) \<Rightarrow> ('w, 'a) op" where
  "request_op q f = (\<lambda>s. case f (world s) of (x, w') \<Rightarrow>
     (Done x, s\<lparr>world := w', trace := trace s @ [EvRequest q]\<rparr>))"

text \<open>A started span gets the next identifier.\<close>

definition start_span :: "string \<Rightarrow> span_start_option list \<Rightarrow> ('w, span_id) op" where
  "start_span name opts = (\<lambda>s. (Done (next_span s),
     s\<lparr>trace := trace s @ [EvStart (next_span s) name opts], next_span := Suc (next_span s)\<rparr>))"

definition Client_GetLimitador where
  "Client_GetLimitador rt k = request_op (ReqGet KLimitador k) (cl_GetLimitador (rt_client rt) k)"

definition Client_GetDeployment where
  "Client_GetDeployment rt k = request_op (ReqGet KDeployment k) (cl_GetDeployment (rt_client rt) k)"

definition Client_GetConfigMap where
  "Client_GetConfigMap rt k = request_op (ReqGet KConfigMap k) (cl_GetConfigMap (rt_client rt) k)"

definition Client_GetPersistentVolumeClaim where
  "Client_GetPersistentVolumeClaim rt k =
     request_op (ReqGet KPersistentVolumeClaim k) (cl_GetPersistentVolumeClaim (rt_client rt) k)"

definition Client_GetSecret where
  "Client_GetSecret rt k = request_op (ReqGet KSecret k) (cl_GetSecret (rt_client rt) k)"

definition Client_ListPods where
  "Client_ListPods rt ns sel = request_op (ReqListPods ns sel) (cl_ListPods (rt_client rt) ns sel)"

definition Client_Create where
  "Client_Create rt x = request_op (ReqCreate x) (cl_Create (rt_client rt) x)"

definition Client_Update where
  "Client_Update rt x = request_op (ReqUpdate x) (cl_Update (rt_client rt) x)"

definition Client_Delete where
  "Client_Delete rt x = request_op (ReqDelete x) (cl_Delete (rt_client rt) x)"

definition Client_Apply where
  "Client_Apply rt x force owner =
     request_op (ReqApply x force owner) (cl_Apply (rt_client rt) x force owner)"

definition Client_StatusApply where
  "Client_StatusApply rt x force owner =
     request_op (ReqStatusApply x force owner) (cl_StatusApply (rt_client rt) x force owner)"

lemmas client_defs =
  Client_GetLimitador_def Client_GetDeployment_def Client_GetConfigMap_def
  Client_GetPersistentVolumeClaim_def Client_GetSecret_def Client_ListPods_def
  Client_Create_def Client_Update_def Client_Delete_def Client_Apply_def Client_StatusApply_def

section \<open>The calculus\<close>

definition yields :: "('w, 'a) op \<Rightarrow> 'w \<Rightarrow> ('a outcome \<Rightarrow> event list \<Rightarrow> 'w \<Rightarrow> bool) \<Rightarrow> bool" where
  "yields m w R \<longleftrightarrow> (\<forall>s. world s = w \<longrightarrow>
     (\<exists>tr. trace (snd (m s)) = trace s @ tr \<and> R (fst (m s)) tr (world (snd (m s)))))"

lemma yieldsI:
  assumes "\<And>s. world s = w \<Longrightarrow>
     \<exists>tr. trace (snd (m s)) = trace s @ tr \<and> R (fst (m s)) tr (world (snd (m s)))"
  shows "yields m w R"
  using assms by (simp add: yields_def)

lemma yieldsD:
  assumes "yields m (world s) R"
  obtains tr where "trace (snd (m s)) = trace s @ tr" "R (fst (m s)) tr (world (snd (m s)))"
  using assms by (auto simp: yields_def)

lemma yields_mono:
  assumes "yields m w R" "\<And>r tr w'. R r tr w' \<Longrightarrow> R' r tr w'"
  shows "yields m w R'"
  using assms by (fastforce simp: yields_def)

lemma yields_conj:
  assumes "yields m w R" "yields m w R'"
  shows "yields m w (\<lambda>r tr w'. R r tr w' \<and> R' r tr w')"
  using assms by (fastforce simp: yields_def)

lemma yields_ret [yields_intro]: "R (Done x) [] w \<Longrightarrow> yields (ret x) w R"
  by (simp add: yields_def ret_def)

lemma yields_raise [yields_intro]: "R (Panic p) [] w \<Longrightarrow> yields (raise p) w R"
  by (simp add: yields_def raise_def)

lemma yields_emit [yields_intro]: "R (Done ()) [ev] w \<Longrightarrow> yields (emit ev) w R"
  by (simp add: yields_def emit_def)

lemma yields_request_op [yields_intro]:
  "R (Done (fst (f w))) [EvRequest q] (snd (f w)) \<Longrightarrow> yields (request_op q f) w R"
  by (auto simp: yields_def request_op_def split: prod.split)

lemma yields_start_span [yields_intro]:
  "(\<And>i. R (Done i) [EvStart i name opts] w) \<Longrightarrow> yields (start_span name opts) w R"
  by (simp add: yields_def start_span_def)

lemma yields_bind_go [yields_intro]:
  fixes m :: "('w, 'a) op"
  assumes "yields m w (\<lambda>r t1 w1. case r of
      Done x \<Rightarrow> yields (f x) w1 (\<lambda>r' t2 w2. R r' (t1 @ t2) w2)
    | Panic p \<Rightarrow> R (Panic p) t1 w1)"
  shows "yields (bind_go m f) w R"
proof (rule yieldsI)
  fix s :: "'w st" assume "world s = w"
  with assms obtain t1 where t1: "trace (snd (m s)) = trace s @ t1"
    and R: "case fst (m s) of
      Done x \<Rightarrow> yields (f x) (world (snd (m s))) (\<lambda>r' t2 w2. R r' (t1 @ t2) w2)
    | Panic p \<Rightarrow> R (Panic p) t1 (world (snd (m s)))"
    by (auto elim: yieldsD)
  show "\<exists>tr. trace (snd (bind_go m f s)) = trace s @ tr
      \<and> R (fst (bind_go m f s)) tr (world (snd (bind_go m f s)))"
  proof (cases "m s")
    case (Pair r s1)
    show ?thesis
    proof (cases r)
      case (Done x)
      with R Pair have "yields (f x) (world s1) (\<lambda>r' t2 w2. R r' (t1 @ t2) w2)" by simp
      then obtain t2 where "trace (snd (f x s1)) = trace s1 @ t2"
        "R (fst (f x s1)) (t1 @ t2) (world (snd (f x s1)))"
        by (rule yieldsD)
      with t1 Pair Done show ?thesis by (simp add: bind_go_run)
    qed (use R t1 Pair in \<open>simp add: bind_go_run\<close>)
  qed
qed

lemma yields_and_then [yields_intro]:
  assumes "yields m w (\<lambda>r t1 w1. case r of
      Done x \<Rightarrow> yields k w1 (\<lambda>r' t2 w2. R r' (t1 @ t2) w2)
    | Panic p \<Rightarrow> R (Panic p) t1 w1)"
  shows "yields (and_then m k) w R"
  unfolding and_then_def by (rule yields_bind_go) (rule assms)

lemma yields_if_err [yields_intro]:
  assumes "yields m w (\<lambda>r t1 w1. case r of
      Done None \<Rightarrow> yields rest w1 (\<lambda>r' t2 w2. R r' (t1 @ t2) w2)
    | Done (Some e) \<Rightarrow> yields (h e) w1 (\<lambda>r' t2 w2. R r' (t1 @ t2) w2)
    | Panic p \<Rightarrow> R (Panic p) t1 w1)"
  shows "yields (if_err m h rest) w R"
  unfolding if_err_def
  by (rule yields_bind_go, rule yields_mono, rule assms)
    (auto split: outcome.splits option.splits)

lemma yields_or_err [yields_intro]:
  assumes "yields m w (\<lambda>r t1 w1. case r of
      Done (Inr x) \<Rightarrow> yields (rest x) w1 (\<lambda>r' t2 w2. R r' (t1 @ t2) w2)
    | Done (Inl e) \<Rightarrow> yields (h e) w1 (\<lambda>r' t2 w2. R r' (t1 @ t2) w2)
    | Panic p \<Rightarrow> R (Panic p) t1 w1)"
  shows "yields (or_err m h rest) w R"
  unfolding or_err_def
  by (rule yields_bind_go, rule yields_mono, rule assms)
    (auto split: outcome.splits sum.splits)

text \<open>The deferred calls of the operator end a span: they return and keep the world.\<close>

lemma yields_deferred_emit [yields_intro]:
  fixes m :: "('w, 'a) op"
  assumes "yields m w (\<lambda>r tr w'. R r (tr @ [ev]) w')"
  shows "yields (deferred (emit ev) m) w R"
proof (rule yieldsI)
  fix s :: "'w st" assume "world s = w"
  with assms obtain tr where "trace (snd (m s)) = trace s @ tr"
    "R (fst (m s)) (tr @ [ev]) (world (snd (m s)))"
    by (auto elim: yieldsD)
  then show "\<exists>tr. trace (snd (deferred (emit ev) m s)) = trace s @ tr
      \<and> R (fst (deferred (emit ev) m s)) tr (world (snd (deferred (emit ev) m s)))"
    by (cases "m s") (simp add: deferred_run emit_def)
qed

lemma yields_lift_outcome [yields_intro]:
  "R x [] w \<Longrightarrow> yields (lift_outcome x) w R"
  by (cases x) (simp_all add: yields_ret yields_raise)

section \<open>Reading a trace\<close>

definition writes :: "event list \<Rightarrow> request list" where
  "writes tr = concat (map (\<lambda>ev. case ev of EvRequest q \<Rightarrow> if is_write q then [q] else [] | _ \<Rightarrow> []) tr)"

lemma writes_simps [simp]:
  "writes [] = []"
  "writes (EvRequest q # tr) = (if is_write q then q # writes tr else writes tr)"
  "writes (EvStart i n opts # tr) = writes tr"
  "writes (EvSpan i p # tr) = writes tr"
  "writes (EvEnd i # tr) = writes tr"
  "writes (EvLog lg ln # tr) = writes tr"
  "writes (t1 @ t2) = writes t1 @ writes t2"
  by (simp_all add: writes_def)

text \<open>
  Well-bracketed traces: every span that is started is ended exactly once, spans nest, and an
  operation on a span happens between its start and its end.
\<close>

inductive bracketed :: "span_id set \<Rightarrow> event list \<Rightarrow> bool" where
  nil: "bracketed S []"
| req: "bracketed S tr \<Longrightarrow> bracketed S (EvRequest q # tr)"
| log: "bracketed S tr \<Longrightarrow> bracketed S (EvLog lg ln # tr)"
| span_op: "i \<in> S \<Longrightarrow> bracketed S tr \<Longrightarrow> bracketed S (EvSpan i p # tr)"
| span: "bracketed (insert i S) t1 \<Longrightarrow> bracketed S t2 \<Longrightarrow>
    bracketed S (EvStart i n opts # t1 @ EvEnd i # t2)"

inductive_simps bracketed_Nil [simp]: "bracketed S []"
inductive_simps bracketed_req [simp]: "bracketed S (EvRequest q # tr)"
inductive_simps bracketed_log [simp]: "bracketed S (EvLog lg ln # tr)"
inductive_simps bracketed_op [simp]: "bracketed S (EvSpan i p # tr)"

lemma bracketed_append: "bracketed S t1 \<Longrightarrow> bracketed S t2 \<Longrightarrow> bracketed S (t1 @ t2)"
proof (induction rule: bracketed.induct)
  case (span i S u1 u2 n opts)
  then show ?case using bracketed.span [of i S u1 "u2 @ t2"] by simp
qed (auto intro: bracketed.intros)

lemma bracketed_span [intro]:
  "bracketed (insert i S) tr \<Longrightarrow> bracketed S (EvStart i n opts # tr @ [EvEnd i])"
  using bracketed.span [OF _ bracketed.nil] by simp

end
