(* ===== verification/Go_Time.thy ===== *)
theory Go_Time
  imports Go_Prelude
begin

text \<open>
  \<^verbatim>\<open>time.Duration\<close> as the operator prints it: a number of nanoseconds in 64 bits, written in the largest
  units that fit, with the fraction of a second or of a smaller unit.
\<close>

text \<open>
  The fraction of \<open>v\<close> at \<open>prec\<close> decimal places, in front of what is written already, without the zeros at
  its end; and the rest of \<open>v\<close>.
\<close>

fun fmtFrac :: "nat \<Rightarrow> nat \<Rightarrow> bool \<Rightarrow> string \<Rightarrow> string \<times> nat" where
  "fmtFrac 0 v print buf = (if print then CHR ''.'' # buf else buf, v)"
| "fmtFrac (Suc prec) v print buf =
    (let digit = v mod 10; print1 = (print \<or> digit \<noteq> 0)
     in fmtFrac prec (v div 10) print1 (if print1 then char_of (48 + digit) # buf else buf))"

definition fmt_unit :: "nat \<Rightarrow> nat \<Rightarrow> string \<Rightarrow> string" where
  "fmt_unit prec u unit_name = (case fmtFrac prec u False unit_name of (buf, v) \<Rightarrow> nat_digits v @ buf)"

definition Duration_String :: "int64 \<Rightarrow> string" where
  "Duration_String d =
    (let u = nat \<bar>sint d\<bar>;
         text = (if u = 0 then ''0s''
           else if u < 10 ^ 3 then fmt_unit 0 u ''ns''
           else if u < 10 ^ 6 then fmt_unit 3 u [char_of (0xC2 :: nat), char_of (0xB5 :: nat), CHR ''s'']
           else if u < 10 ^ 9 then fmt_unit 6 u ''ms''
           else case fmtFrac 9 u False ''s'' of (buf, secs) \<Rightarrow>
             (let buf1 = nat_digits (secs mod 60) @ buf; mins = secs div 60
              in if mins = 0 then buf1
                 else let buf2 = nat_digits (mins mod 60) @ CHR ''m'' # buf1; hours = mins div 60
                   in if hours = 0 then buf2 else nat_digits hours @ CHR ''h'' # buf2))
     in if sint d < 0 then CHR ''-'' # text else text)"

text \<open>What is left is the whole part, and a number without a fraction has no point.\<close>

lemma fmtFrac_rest: "snd (fmtFrac prec v print buf) = v div 10 ^ prec"
  by (induction prec v print buf rule: fmtFrac.induct) (simp_all add: Let_def div_mult2_eq)

lemma fmtFrac_whole: "fmtFrac prec (v * 10 ^ prec) False buf = (buf, v)"
proof (induction prec)
  case (Suc prec)
  have "v * 10 ^ Suc prec = v * 10 ^ prec * 10" by simp
  then have "v * 10 ^ Suc prec div 10 = v * 10 ^ prec" "v * 10 ^ Suc prec mod 10 = 0" by presburger+
  with Suc show ?case by (simp add: Let_def)
qed simp

text \<open>Whole seconds below a minute.\<close>

lemma Duration_String_seconds:
  assumes "sint d = int (n * 10 ^ 9)" "0 < n" "n < 60"
  shows "Duration_String d = nat_digits n @ ''s''"
proof -
  have u: "nat \<bar>sint d\<bar> = n * 10 ^ 9" "\<not> sint d < 0" using assms(1) by (simp_all del: of_nat_mult of_nat_power)
  have big: "n * 10 ^ 9 \<noteq> 0" "\<not> n * 10 ^ 9 < 10 ^ 3" "\<not> n * 10 ^ 9 < 10 ^ 6" "\<not> n * 10 ^ 9 < 10 ^ 9"
    using assms(2) by simp_all
  from assms(3) have small: "n mod 60 = n" "n div 60 = 0" by simp_all
  show ?thesis
    unfolding Duration_String_def u Let_def fmtFrac_whole prod.case small
    using big u(2) by (simp only: if_False) simp
qed

lemma Duration_String_zero [simp]: "Duration_String 0 = ''0s''"
  by (simp add: Duration_String_def)

end
