(* ===== verification/Op_Observability.thy ===== *)
theory Op_Observability
  imports Op_Runtime Go_Time
begin

text \<open>
  \<^verbatim>\<open>pkg/observability/logger.go\<close> and \<^verbatim>\<open>pkg/observability/tracer.go\<close>: the logger kept in the context
  and refreshed with the current span, the start of spans, and the recording helpers. The lemmas
  show that a context into which a base logger was stored keeps a logger through every start of a
  span, and that a span block is well bracketed.
\<close>

section \<open>The logger in the context\<close>

definition WithValues :: "logger \<Rightarrow> (string \<times> string) list \<Rightarrow> logger" where
  "WithValues l kvs = l @ kvs"

definition StoreBaseLogger :: "Context \<Rightarrow> logger \<Rightarrow> Context" where
  "StoreBaseLogger ctx logger = ctx\<lparr>cx_baseLogger := Some logger\<rparr>"

text \<open>\<^verbatim>\<open>trace.SpanFromContext(ctx).SpanContext()\<close>; a context without a span has the invalid one.\<close>

definition SpanContextOf :: "'w runtime \<Rightarrow> Context \<Rightarrow> SpanContext" where
  "SpanContextOf rt ctx =
    (case cx_span ctx of None \<Rightarrow> invalidSpanContext | Some i \<Rightarrow> rt_SpanContext rt i)"

definition RefreshLoggerWithCurrentSpan :: "'w runtime \<Rightarrow> Context \<Rightarrow> Context" where
  "RefreshLoggerWithCurrentSpan rt ctx =
    (case cx_baseLogger ctx of
       None \<Rightarrow> ctx
     | Some baseLogger \<Rightarrow>
         (let spanCtx = SpanContextOf rt ctx
          in if \<not> sc_IsValid spanCtx then ctx\<lparr>cx_logger := Some baseLogger\<rparr>
             else (let enrichedLogger = WithValues baseLogger
                        [(''trace_id'', sc_TraceID spanCtx), (''span_id'', sc_SpanID spanCtx)]
                   in ctx\<lparr>cx_logger := Some enrichedLogger\<rparr>)))"

lemma RefreshLogger_ctx_ok:
  "cx_baseLogger ctx \<noteq> None \<Longrightarrow> ctx_ok (RefreshLoggerWithCurrentSpan rt ctx)"
  by (auto simp: RefreshLoggerWithCurrentSpan_def ctx_ok_def Let_def split: option.split)

lemma RefreshLogger_frame [simp]:
  "cx_baseLogger (RefreshLoggerWithCurrentSpan rt ctx) = cx_baseLogger ctx"
  "cx_span (RefreshLoggerWithCurrentSpan rt ctx) = cx_span ctx"
  by (simp_all add: RefreshLoggerWithCurrentSpan_def Let_def split: option.split)

lemma FromContext_ok: "ctx_ok ctx \<Longrightarrow> \<exists>l. FromContext ctx = Inr l"
  by (auto simp: ctx_ok_def FromContext_def)

definition Log_Info :: "logger \<Rightarrow> nat \<Rightarrow> string \<Rightarrow> (string \<times> log_value) list \<Rightarrow> ('w, unit) op" where
  "Log_Info logger v msg kvs = emit (EvLog logger (LogInfo v msg kvs))"

definition Log_Error :: "logger \<Rightarrow> error \<Rightarrow> string \<Rightarrow> (string \<times> log_value) list \<Rightarrow> ('w, unit) op" where
  "Log_Error logger err msg kvs = emit (EvLog logger (LogError err msg kvs))"

section \<open>Starting spans\<close>

abbreviation spanReconcile :: string where
  "spanReconcile \<equiv> ''Reconcile''"

abbreviation spanReconcileSpec :: string where
  "spanReconcileSpec \<equiv> ''reconcileSpec''"

abbreviation spanReconcileStatus :: string where
  "spanReconcileStatus \<equiv> ''reconcileStatus''"

abbreviation K8SNamespaceNameKey :: string where
  "K8SNamespaceNameKey \<equiv> ''k8s.namespace.name''"

text \<open>\<^verbatim>\<open>t.tracer.Start\<close>: the context it returns carries the new span.\<close>

definition tracer_Start ::
    "Context \<Rightarrow> string \<Rightarrow> span_start_option list \<Rightarrow> ('w, Context \<times> span_id) op" where
  "tracer_Start ctx name opts =
     bind_go (start_span name opts) (\<lambda>i. ret (ctx\<lparr>cx_span := Some i\<rparr>, i))"

definition StartReconcileSpan ::
    "'w runtime \<Rightarrow> Context \<Rightarrow> NamespacedName \<Rightarrow> span_start_option list \<Rightarrow> ('w, Context \<times> span_id) op" where
  "StartReconcileSpan rt ctx req opts =
    (let spanOpts = [WithSpanKindServer,
           WithAttributes [AString K8SNamespaceNameKey (nn_Namespace req),
                           AString ''k8s.limitador.name'' (nn_Name req)]] @ opts
     in bind_go (tracer_Start ctx spanReconcile spanOpts) (\<lambda>(ctx, span).
        ret (RefreshLoggerWithCurrentSpan rt ctx, span)))"

definition StartReconcileSpecSpan :: "'w runtime \<Rightarrow> Context \<Rightarrow> ('w, Context \<times> span_id) op" where
  "StartReconcileSpecSpan rt ctx =
     bind_go (tracer_Start ctx spanReconcileSpec []) (\<lambda>(ctx, span).
     ret (RefreshLoggerWithCurrentSpan rt ctx, span))"

definition StartReconcileStatusSpan :: "'w runtime \<Rightarrow> Context \<Rightarrow> ('w, Context \<times> span_id) op" where
  "StartReconcileStatusSpan rt ctx =
     bind_go (tracer_Start ctx spanReconcileStatus []) (\<lambda>(ctx, span).
     ret (RefreshLoggerWithCurrentSpan rt ctx, span))"

definition StartResourceSpan ::
    "'w runtime \<Rightarrow> Context \<Rightarrow> string \<Rightarrow> string \<Rightarrow> string \<Rightarrow> ('w, Context \<times> span_id) op" where
  "StartResourceSpan rt ctx resourceType namespace name =
    (let spanName = ''reconcile'' @ resourceType
     in bind_go (tracer_Start ctx spanName
          [WithAttributes [AString K8SNamespaceNameKey namespace,
                           AString ''k8s.resource.kind'' resourceType,
                           AString ''k8s.resource.name'' name]]) (\<lambda>(ctx, span).
        ret (RefreshLoggerWithCurrentSpan rt ctx, span)))"

section \<open>Recording on spans\<close>

definition span_End :: "span_id \<Rightarrow> ('w, unit) op" where
  "span_End span = emit (EvEnd span)"

definition span_SetStatus :: "span_id \<Rightarrow> code \<Rightarrow> string \<Rightarrow> ('w, unit) op" where
  "span_SetStatus span c description = emit (EvSpan span (SpanSetStatus c description))"

definition span_RecordError :: "span_id \<Rightarrow> error \<Rightarrow> attribute list \<Rightarrow> ('w, unit) op" where
  "span_RecordError span err attrs = emit (EvSpan span (SpanRecordError err attrs))"

definition span_SetAttributes :: "span_id \<Rightarrow> attribute list \<Rightarrow> ('w, unit) op" where
  "span_SetAttributes span attrs = emit (EvSpan span (SpanSetAttributes attrs))"

definition span_AddEvent :: "span_id \<Rightarrow> string \<Rightarrow> ('w, unit) op" where
  "span_AddEvent span name = emit (EvSpan span (SpanAddEvent name))"

definition span_AddLink :: "span_id \<Rightarrow> SpanContext \<Rightarrow> ('w, unit) op" where
  "span_AddLink span sc = emit (EvSpan span (SpanAddLink sc))"

definition RecordReconcileResult :: "span_id \<Rightarrow> Result \<Rightarrow> error option \<Rightarrow> ('w, unit) op" where
  "RecordReconcileResult span result err =
    and_then
      (case err of
         Some e \<Rightarrow> and_then (span_RecordError span e []) (span_SetStatus span CodeError (Error e))
       | None \<Rightarrow> span_SetStatus span CodeOk '''')
      (span_SetAttributes span [AString ''reconcile.requeue_after'' (Duration_String (res_RequeueAfter result))])"

definition SetResourceOperation :: "span_id \<Rightarrow> string \<Rightarrow> ('w, unit) op" where
  "SetResourceOperation span operation =
     span_SetAttributes span [AString ''k8s.resource.operation'' operation]"

definition RecordResourceApplied :: "span_id \<Rightarrow> ('w, unit) op" where
  "RecordResourceApplied span = SetResourceOperation span ''applied''"

definition RecordResourceCreated :: "span_id \<Rightarrow> ('w, unit) op" where
  "RecordResourceCreated span = SetResourceOperation span ''created''"

definition RecordResourceUnchanged :: "span_id \<Rightarrow> ('w, unit) op" where
  "RecordResourceUnchanged span = SetResourceOperation span ''unchanged''"

definition RecordError :: "span_id \<Rightarrow> error \<Rightarrow> string \<Rightarrow> ('w, unit) op" where
  "RecordError span err description =
     and_then (span_RecordError span err [AString ''error.description'' description])
       (span_SetStatus span CodeError description)"

definition RecordSpecCompleted :: "span_id \<Rightarrow> ('w, unit) op" where
  "RecordSpecCompleted span =
     and_then (span_AddEvent span ''reconcile.spec.completed'') (span_SetStatus span CodeOk '''')"

definition RecordStatusCompleted :: "span_id \<Rightarrow> ('w, unit) op" where
  "RecordStatusCompleted span =
     and_then (span_AddEvent span ''reconcile.status.completed'') (span_SetStatus span CodeOk '''')"

definition AddLimitadorAttributes ::
    "span_id \<Rightarrow> string \<Rightarrow> string \<Rightarrow> int32 \<Rightarrow> string \<Rightarrow> ('w, unit) op" where
  "AddLimitadorAttributes span namespace name replicas storageType =
     span_SetAttributes span
       [AString K8SNamespaceNameKey namespace, AString ''k8s.limitador.name'' name,
        AInt ''k8s.limitador.replicas'' (sint replicas),
        AString ''k8s.limitador.storage.type'' storageType]"

text \<open>
  A helper applied to \<^verbatim>\<open>trace.SpanFromContext(ctx)\<close>: the span of a context that has none is a no-op.
\<close>

definition on_ctx_span :: "Context \<Rightarrow> (span_id \<Rightarrow> ('w, unit) op) \<Rightarrow> ('w, unit) op" where
  "on_ctx_span ctx f = (case cx_span ctx of None \<Rightarrow> ret () | Some i \<Rightarrow> f i)"

section \<open>Contracts of the recording helpers\<close>

text \<open>The recording helpers and the loggers only append operations on the span and log lines.\<close>

definition span_events :: "span_id \<Rightarrow> event list \<Rightarrow> bool" where
  "span_events i tr \<longleftrightarrow> (\<forall>ev \<in> set tr. (\<exists>p. ev = EvSpan i p) \<or> (\<exists>lg ln. ev = EvLog lg ln))"

lemma span_events_simps [simp]:
  "span_events i []"
  "span_events i [EvSpan i p]"
  "span_events i [EvLog lg ln]"
  "span_events i (t1 @ t2) \<longleftrightarrow> span_events i t1 \<and> span_events i t2"
  by (auto simp: span_events_def)

lemma span_events_bracketed: "span_events i tr \<Longrightarrow> i \<in> S \<Longrightarrow> bracketed S tr"
  by (induction tr) (auto simp: span_events_def)

lemma span_events_writes: "span_events i tr \<Longrightarrow> writes tr = []"
  by (induction tr) (auto simp: span_events_def)

definition records :: "span_id \<Rightarrow> ('w, unit) op \<Rightarrow> bool" where
  "records i m \<longleftrightarrow> (\<forall>w. yields m w (\<lambda>r tr w'. r = Done () \<and> w' = w \<and> span_events i tr))"

lemma records_emit: "records i (emit (EvSpan i p))"
  by (auto simp: records_def intro!: yields_intro)

lemma records_log [simp, intro]: "records i (Log_Info lg v msg kvs)" "records i (Log_Error lg e msg kvs)"
  by (auto simp: records_def Log_Info_def Log_Error_def intro!: yields_intro)

lemma records_ret [simp, intro]: "records i (ret ())"
  by (auto simp: records_def intro!: yields_intro)

lemma records_and_then:
  assumes "records i m" "records i k"
  shows "records i (and_then m k)"
  unfolding records_def
proof (intro allI yields_and_then)
  fix w
  have k: "yields k w (\<lambda>r tr w'. r = Done () \<and> w' = w \<and> span_events i (t1 @ tr))"
    if "span_events i t1" for t1
    using assms(2) that unfolding records_def by (auto elim: yields_mono)
  have "yields m w (\<lambda>r tr w'. r = Done () \<and> w' = w \<and> span_events i tr)"
    using assms(1) by (simp add: records_def)
  then show "yields m w (\<lambda>r t1 w1. case r of
      Done x \<Rightarrow> yields k w1 (\<lambda>r' t2 w2. r' = Done () \<and> w2 = w \<and> span_events i (t1 @ t2))
    | Panic p \<Rightarrow> Panic p = Done () \<and> w1 = w \<and> span_events i t1)"
    by (rule yields_mono) (use k in auto)
qed

lemma records_ops [simp, intro]:
  "records i (span_SetStatus i c d)" "records i (span_RecordError i e attrs)"
  "records i (span_SetAttributes i attrs)" "records i (span_AddEvent i n)"
  "records i (span_AddLink i sc)"
  by (simp_all add: span_SetStatus_def span_RecordError_def span_SetAttributes_def
      span_AddEvent_def span_AddLink_def records_emit)

lemma records_helpers [simp, intro]:
  "records i (RecordReconcileResult i res err)" "records i (RecordResourceApplied i)"
  "records i (RecordResourceCreated i)" "records i (RecordResourceUnchanged i)"
  "records i (RecordError i e d)" "records i (RecordSpecCompleted i)"
  "records i (RecordStatusCompleted i)" "records i (AddLimitadorAttributes i ns n reps sto)"
  by (auto simp: RecordReconcileResult_def RecordResourceApplied_def RecordResourceCreated_def
      RecordResourceUnchanged_def SetResourceOperation_def RecordError_def RecordSpecCompleted_def
      RecordStatusCompleted_def AddLimitadorAttributes_def intro!: records_and_then
      split: option.split)

section \<open>A calculus of writes\<close>

text \<open>
  \<open>does S m w Q\<close>: run from world \<open>w\<close> inside the open spans \<open>S\<close>, the call leaves a well-bracketed
  trace, and its outcome, the writes it sent and the world it leaves satisfy \<open>Q\<close>. The rules are
  weakest preconditions: bracketing is carried by the rules, once and for all.
\<close>

definition does :: "span_id set \<Rightarrow> ('w, 'a) op \<Rightarrow> 'w \<Rightarrow> ('a outcome \<Rightarrow> request list \<Rightarrow> 'w \<Rightarrow> bool) \<Rightarrow> bool" where
  "does S m w Q \<longleftrightarrow> yields m w (\<lambda>r tr w'. bracketed S tr \<and> Q r (writes tr) w')"

named_theorems does_intro "weakest preconditions of calls"

lemma does_mono:
  "does S m w Q \<Longrightarrow> (\<And>r ws w'. Q r ws w' \<Longrightarrow> Q' r ws w') \<Longrightarrow> does S m w Q'"
  unfolding does_def by (erule yields_mono) blast

lemma does_ret [does_intro]: "Q (Done x) [] w \<Longrightarrow> does S (ret x) w Q"
  unfolding does_def by (rule yields_ret) simp

lemma does_lift_outcome [does_intro]: "Q x [] w \<Longrightarrow> does S (lift_outcome x) w Q"
  unfolding does_def by (rule yields_lift_outcome) simp

lemma does_request_op:
  "Q (Done (fst (f w))) (if is_write q then [q] else []) (snd (f w)) \<Longrightarrow> does S (request_op q f) w Q"
  unfolding does_def by (rule yields_request_op) (simp split: if_splits)

lemma does_records:
  assumes "records i m" "i \<in> S" "Q (Done ()) [] w"
  shows "does S m w Q"
proof -
  have "yields m w (\<lambda>r tr w'. r = Done () \<and> w' = w \<and> span_events i tr)"
    using assms(1) by (simp add: records_def)
  then show ?thesis
    unfolding does_def
    by (rule yields_mono) (use assms(2,3) in \<open>auto simp: span_events_bracketed span_events_writes\<close>)
qed

lemma does_bind_go [does_intro]:
  assumes "does S m w (\<lambda>r ws1 w1. case r of
      Done x \<Rightarrow> does S (f x) w1 (\<lambda>r' ws2 w2. Q r' (ws1 @ ws2) w2)
    | Panic p \<Rightarrow> Q (Panic p) ws1 w1)"
  shows "does S (bind_go m f) w Q"
  using assms unfolding does_def
  by (intro yields_bind_go) (erule yields_mono, auto elim!: yields_mono
      intro: bracketed_append split: outcome.splits)

lemma does_and_then:
  assumes "does S m w (\<lambda>r ws1 w1. case r of
      Done x \<Rightarrow> does S k w1 (\<lambda>r' ws2 w2. Q r' (ws1 @ ws2) w2)
    | Panic p \<Rightarrow> Q (Panic p) ws1 w1)"
  shows "does S (and_then m k) w Q"
  unfolding and_then_def by (rule does_bind_go) (rule assms)

lemma does_records_then [does_intro]:
  assumes "records i m" "i \<in> S" "does S k w Q"
  shows "does S (and_then m k) w Q"
  using assms by (intro does_and_then does_records) simp_all

lemma does_log_then [does_intro]:
  "does S k w Q \<Longrightarrow> does S (and_then (Log_Info lg v msg kvs) k) w Q"
  "does S k w Q \<Longrightarrow> does S (and_then (Log_Error lg e msg kvs) k) w Q"
  unfolding does_def Log_Info_def Log_Error_def by (intro yields_and_then yields_emit; simp)+

lemma does_if_err [does_intro]:
  assumes "does S m w (\<lambda>r ws1 w1. case r of
      Done err \<Rightarrow> does S (case err of None \<Rightarrow> rest | Some e \<Rightarrow> h e) w1 (\<lambda>r' ws2 w2. Q r' (ws1 @ ws2) w2)
    | Panic p \<Rightarrow> Q (Panic p) ws1 w1)"
  shows "does S (if_err m h rest) w Q"
  unfolding if_err_def
  by (rule does_bind_go, rule does_mono, rule assms) (auto split: outcome.splits option.splits)

lemma does_or_err [does_intro]:
  assumes "does S m w (\<lambda>r ws1 w1. case r of
      Done x \<Rightarrow> does S (case x of Inl e \<Rightarrow> h e | Inr y \<Rightarrow> rest y) w1 (\<lambda>r' ws2 w2. Q r' (ws1 @ ws2) w2)
    | Panic p \<Rightarrow> Q (Panic p) ws1 w1)"
  shows "does S (or_err m h rest) w Q"
  unfolding or_err_def
  by (rule does_bind_go, rule does_mono, rule assms) (auto split: outcome.splits sum.splits)

text \<open>Reading the logger from a context that has one.\<close>

lemma does_or_err_FromContext [does_intro]:
  assumes "ctx_ok ctx" "\<And>l. does S (rest l) w Q"
  shows "does S (or_err (ret (FromContext ctx)) h rest) w Q"
  using assms FromContext_ok [OF assms(1)] by (auto simp: or_err_def)

lemma does_on_ctx_span:
  assumes "cx_span ctx = Some i" "i \<in> S" "records i (f i)" "Q (Done ()) [] w"
  shows "does S (on_ctx_span ctx f) w Q"
  using assms by (simp add: on_ctx_span_def does_records)

text \<open>A span block: the body runs inside the new span and the deferred end closes it.\<close>

lemma does_deferred_End:
  assumes "\<And>i. does (insert i S) (body i) w Q"
  shows "does S (bind_go (start_span name opts) (\<lambda>i. deferred (span_End i) (body i))) w Q"
proof -
  have "yields (body i) w (\<lambda>r tr w'. bracketed S (EvStart i name opts # tr @ [EvEnd i]) \<and> Q r (writes tr) w')"
    for i
    using assms [of i] unfolding does_def by (rule yields_mono) auto
  then show ?thesis
    unfolding does_def span_End_def
    by (intro yields_bind_go yields_start_span) (auto intro: yields_deferred_emit)
qed

lemma start_block_eq:
  "bind_go (bind_go (tracer_Start ctx name opts) (\<lambda>(ctx, span). ret (g ctx, span)))
     (\<lambda>(ctx, span). deferred (span_End span) (body ctx span))
   = bind_go (start_span name opts)
       (\<lambda>i. deferred (span_End i) (body (g (ctx\<lparr>cx_span := Some i\<rparr>)) i))"
  by (simp add: tracer_Start_def bind_go_assoc)

text \<open>The context handed to the body: it has a logger and carries the new span.\<close>

definition body_ctx :: "span_id \<Rightarrow> Context \<Rightarrow> bool" where
  "body_ctx i ctx \<longleftrightarrow> ctx_ok ctx \<and> cx_span ctx = Some i"

lemma body_ctxD:
  "body_ctx i ctx \<Longrightarrow> ctx_ok ctx" "body_ctx i ctx \<Longrightarrow> cx_span ctx = Some i"
  by (simp_all add: body_ctx_def)

lemma ctx_ok_base: "ctx_ok ctx \<Longrightarrow> cx_baseLogger ctx \<noteq> None"
  by (simp add: ctx_ok_def)

lemma does_start_block:
  assumes "cx_baseLogger ctx \<noteq> None"
    and "\<And>i ctx'. body_ctx i ctx' \<Longrightarrow> does (insert i S) (body ctx' i) w Q"
  shows "does S (bind_go (bind_go (tracer_Start ctx name opts)
       (\<lambda>(ctx, span). ret (RefreshLoggerWithCurrentSpan rt ctx, span)))
       (\<lambda>(ctx, span). deferred (span_End span) (body ctx span))) w Q"
proof -
  let ?ctx = "\<lambda>i. RefreshLoggerWithCurrentSpan rt (ctx\<lparr>cx_span := Some i\<rparr>)"
  have "body_ctx i (?ctx i)" for i
    using assms(1) by (simp add: body_ctx_def RefreshLogger_ctx_ok)
  then have "does (insert i S) (body (?ctx i) i) w Q" for i
    using assms(2) by blast
  then have "does S (bind_go (start_span name opts) (\<lambda>i. deferred (span_End i) (body (?ctx i) i))) w Q"
    by (rule does_deferred_End)
  then show ?thesis
    by (subst start_block_eq)
qed

lemma does_StartReconcileSpan [does_intro]:
  assumes "cx_baseLogger ctx \<noteq> None"
    and "\<And>i ctx'. body_ctx i ctx' \<Longrightarrow> does (insert i S) (body ctx' i) w Q"
  shows "does S (bind_go (StartReconcileSpan rt ctx req opts)
       (\<lambda>(ctx, span). deferred (span_End span) (body ctx span))) w Q"
  unfolding StartReconcileSpan_def Let_def by (rule does_start_block) (use assms in auto)

lemma does_StartReconcileSpecSpan [does_intro]:
  assumes "cx_baseLogger ctx \<noteq> None"
    and "\<And>i ctx'. body_ctx i ctx' \<Longrightarrow> does (insert i S) (body ctx' i) w Q"
  shows "does S (bind_go (StartReconcileSpecSpan rt ctx)
       (\<lambda>(ctx, span). deferred (span_End span) (body ctx span))) w Q"
  unfolding StartReconcileSpecSpan_def by (rule does_start_block) (use assms in auto)

lemma does_StartReconcileStatusSpan [does_intro]:
  assumes "cx_baseLogger ctx \<noteq> None"
    and "\<And>i ctx'. body_ctx i ctx' \<Longrightarrow> does (insert i S) (body ctx' i) w Q"
  shows "does S (bind_go (StartReconcileStatusSpan rt ctx)
       (\<lambda>(ctx, span). deferred (span_End span) (body ctx span))) w Q"
  unfolding StartReconcileStatusSpan_def by (rule does_start_block) (use assms in auto)

lemma does_StartResourceSpan [does_intro]:
  assumes "cx_baseLogger ctx \<noteq> None"
    and "\<And>i ctx'. body_ctx i ctx' \<Longrightarrow> does (insert i S) (body ctx' i) w Q"
  shows "does S (bind_go (StartResourceSpan rt ctx t ns n)
       (\<lambda>(ctx, span). deferred (span_End span) (body ctx span))) w Q"
  unfolding StartResourceSpan_def Let_def by (rule does_start_block) (use assms in auto)

text \<open>The calls to the client.\<close>

lemma does_Get [does_intro]:
  "P (Done (fst (cl_GetLimitador (rt_client rt) k w))) [] (snd (cl_GetLimitador (rt_client rt) k w))
   \<Longrightarrow> does S (Client_GetLimitador rt k) w P"
  "Q (Done (fst (cl_GetDeployment (rt_client rt) k w))) [] (snd (cl_GetDeployment (rt_client rt) k w))
   \<Longrightarrow> does S (Client_GetDeployment rt k) w Q"
  "R (Done (fst (cl_GetConfigMap (rt_client rt) k w))) [] (snd (cl_GetConfigMap (rt_client rt) k w))
   \<Longrightarrow> does S (Client_GetConfigMap rt k) w R"
  "U (Done (fst (cl_GetPersistentVolumeClaim (rt_client rt) k w))) []
     (snd (cl_GetPersistentVolumeClaim (rt_client rt) k w))
   \<Longrightarrow> does S (Client_GetPersistentVolumeClaim rt k) w U"
  "V (Done (fst (cl_GetSecret (rt_client rt) k w))) [] (snd (cl_GetSecret (rt_client rt) k w))
   \<Longrightarrow> does S (Client_GetSecret rt k) w V"
  "W (Done (fst (cl_ListPods (rt_client rt) ns sel w))) [] (snd (cl_ListPods (rt_client rt) ns sel w))
   \<Longrightarrow> does S (Client_ListPods rt ns sel) w W"
  unfolding client_defs by (rule does_request_op, simp)+

lemma does_write [does_intro]:
  "Q (Done (fst (cl_Create (rt_client rt) x w))) [ReqCreate x] (snd (cl_Create (rt_client rt) x w))
   \<Longrightarrow> does S (Client_Create rt x) w Q"
  "Q (Done (fst (cl_Update (rt_client rt) x w))) [ReqUpdate x] (snd (cl_Update (rt_client rt) x w))
   \<Longrightarrow> does S (Client_Update rt x) w Q"
  "Q (Done (fst (cl_Delete (rt_client rt) x w))) [ReqDelete x] (snd (cl_Delete (rt_client rt) x w))
   \<Longrightarrow> does S (Client_Delete rt x) w Q"
  "Q (Done (fst (cl_Apply (rt_client rt) x b m w))) [ReqApply x b m] (snd (cl_Apply (rt_client rt) x b m w))
   \<Longrightarrow> does S (Client_Apply rt x b m) w Q"
  "Q (Done (fst (cl_StatusApply (rt_client rt) x b m w))) [ReqStatusApply x b m]
     (snd (cl_StatusApply (rt_client rt) x b m w))
   \<Longrightarrow> does S (Client_StatusApply rt x b m) w Q"
  unfolding client_defs by (rule does_request_op, simp)+

end
