(* ===== verification/Op_Names.thy ===== *)
theory Op_Names
  imports Limitador_Types
begin

text \<open>
  The names and labels of the objects a Limitador owns (\<^verbatim>\<open>pkg/limitador/k8s_objects.go\<close>) and the image
  (\<^verbatim>\<open>pkg/limitador/image.go\<close>). The names separate the Limitador resources of a namespace, and the
  selector labels select exactly the labelled objects of one Limitador.
\<close>

definition LimitsConfigMapName :: "Limitador \<Rightarrow> string" where
  "LimitsConfigMapName l = ''limitador-limits-config-'' @ lim_Name l"

definition ServiceName :: "Limitador \<Rightarrow> string" where
  "ServiceName l = ''limitador-'' @ lim_Name l"

definition PVCName :: "Limitador \<Rightarrow> string" where
  "PVCName l = ''limitador-'' @ lim_Name l"

definition DeploymentName :: "Limitador \<Rightarrow> string" where
  "DeploymentName l = ''limitador-'' @ lim_Name l"

definition PodDisruptionBudgetName :: "Limitador \<Rightarrow> string" where
  "PodDisruptionBudgetName l = ''limitador-'' @ lim_Name l"

lemmas name_defs =
  LimitsConfigMapName_def ServiceName_def PVCName_def DeploymentName_def PodDisruptionBudgetName_def

definition SelectorLabels :: "Limitador \<Rightarrow> string \<rightharpoonup> string" where
  "SelectorLabels l = [LabelKeyApp \<mapsto> LimitadorAppName, LabelKeyLimitadorResource \<mapsto> lim_Name l]"

definition Labels :: "Limitador \<Rightarrow> string \<rightharpoonup> string" where
  "Labels l =
    [LabelKeyApp \<mapsto> LimitadorAppName,
     LabelKeyLimitadorResource \<mapsto> lim_Name l,
     ''app.kubernetes.io/name'' \<mapsto> LimitadorAppName,
     ''app.kubernetes.io/instance'' \<mapsto> lim_Name l,
     ''app.kubernetes.io/component'' \<mapsto> LimitadorAppName,
     ''app.kubernetes.io/managed-by'' \<mapsto> ''limitador-operator'',
     ''app.kubernetes.io/part-of'' \<mapsto> ''kuadrant'']"

declare SelectorLabels_def [labels] Labels_def [labels]

lemma Labels_app [simp]: "Labels l LabelKeyApp = Some LimitadorAppName"
  by (simp add: Labels_def)

lemma Labels_resource [simp]: "Labels l LabelKeyLimitadorResource = Some (lim_Name l)"
  by (simp add: Labels_def)

lemma SelectorLabels_le: "SelectorLabels l \<subseteq>\<^sub>m m \<longleftrightarrow>
   m LabelKeyApp = Some LimitadorAppName \<and> m LabelKeyLimitadorResource = Some (lim_Name l)"
  by (auto simp: SelectorLabels_def map_le_def)

text \<open>
  The selector labels of one Limitador select the labelled objects of another exactly when both
  have the same name: within a namespace the selections are disjoint.
\<close>

lemma selector_selects_own: "selector_matches (SelectorLabels l) (Some (Labels l')) \<longleftrightarrow> lim_Name l = lim_Name l'"
  by (auto simp: SelectorLabels_le)

section \<open>Image\<close>

abbreviation LimitadorRepository :: string where
  "LimitadorRepository \<equiv> ''quay.io/kuadrant/limitador''"

definition defaultImage :: string where
  "defaultImage = LimitadorRepository @ '':'' @ ''latest''"

text \<open>The environment is read through \<^verbatim>\<open>env.GetString(key, default)\<close>.\<close>

definition GetLimitadorImage :: "(string \<Rightarrow> string \<Rightarrow> string) \<Rightarrow> string" where
  "GetLimitadorImage GetString = GetString ''RELATED_IMAGE_LIMITADOR'' defaultImage"

end
