(* ===== verification/Storage_Options.thy ===== *)
theory Storage_Options
  imports Op_Observability Op_Names
begin

text \<open>
  The storage back ends of \<^verbatim>\<open>pkg/limitador\<close>: in-memory, Redis, cached Redis and disk, each giving
  the arguments, volumes and rollout strategy of the deployment, and the environment variable of
  the Redis ones. The contract every back end keeps is a locale: a back end names its subcommand
  first, mounts exactly the volumes it declares, and recreates the pods exactly when it declares a
  volume (a disk cannot be shared).
\<close>

section \<open>Options\<close>

record DeploymentStorageOptions =
  dso_Args :: "string list"
  dso_VolumeMounts :: "VolumeMount list"
  dso_Volumes :: "Volume list"
  dso_DeploymentStrategy :: DeploymentStrategy

abbreviation RollingUpdateType :: string where
  "RollingUpdateType \<equiv> ''RollingUpdate''"

abbreviation RecreateType :: string where
  "RecreateType \<equiv> ''Recreate''"

definition rollingUpdate :: DeploymentStrategy where
  "rollingUpdate = \<lparr>st_Type = RollingUpdateType, st_RollingUpdate = Some RollingUpdateDeployment\<rparr>"

definition InMemoryDeploymentOptions :: "error + DeploymentStorageOptions" where
  "InMemoryDeploymentOptions = Inr
    \<lparr>dso_Args = [''memory''], dso_VolumeMounts = [], dso_Volumes = [],
     dso_DeploymentStrategy = rollingUpdate\<rparr>"

section \<open>Redis\<close>

abbreviation RedisUrlVar :: string where
  "RedisUrlVar \<equiv> ''LIMITADOR_OPERATOR_REDIS_URL''"

definition noSecretRef :: error where
  "noSecretRef = ErrNew ''there's no ConfigSecretRef set''"

definition noUrlField :: error where
  "noUrlField = ErrNew ''the storage config Secret doesn't have the `URL` field''"

definition DeploymentEnvVar :: "LocalObjectReference option \<Rightarrow> error + EnvVar list" where
  "DeploymentEnvVar configSecretRef =
    (case configSecretRef of
       None \<Rightarrow> Inl noSecretRef
     | Some ref \<Rightarrow> Inr
         [\<lparr>env_Name = RedisUrlVar,
           env_SecretKeyRef = \<lparr>sks_Key = ''URL'', sks_Name = lor_Name ref\<rparr>\<rparr>])"

text \<open>The secret must exist, in the namespace given, and have the field \<^verbatim>\<open>URL\<close>.\<close>

definition validateRedisSecret ::
    "'w runtime \<Rightarrow> string \<Rightarrow> LocalObjectReference \<Rightarrow> ('w, error option) op" where
  "validateRedisSecret rt defSecretNamespace secretRef =
     or_err (Client_GetSecret rt \<lparr>nn_Name = lor_Name secretRef, nn_Namespace = defSecretNamespace\<rparr>)
       (\<lambda>err. ret (Some err))
       (\<lambda>secret. if map_get (sec_Data secret) ''URL'' \<noteq> None then ret None else ret (Some noUrlField))"

definition RedisDeploymentOptions ::
    "'w runtime \<Rightarrow> string \<Rightarrow> Redis \<Rightarrow> ('w, error + DeploymentStorageOptions) op" where
  "RedisDeploymentOptions rt defSecretNamespace redisObj =
    (case re_ConfigSecretRef redisObj of
       None \<Rightarrow> ret (Inl noSecretRef)
     | Some ref \<Rightarrow>
         if_err (validateRedisSecret rt defSecretNamespace ref)
           (\<lambda>err. ret (Inl err))
           (ret (Inr
             \<lparr>dso_Args = [''redis'', ''$('' @ RedisUrlVar @ '')''],
              dso_VolumeMounts = [], dso_Volumes = [],
              dso_DeploymentStrategy = rollingUpdate\<rparr>)))"

definition int_flag :: "string \<Rightarrow> goint option \<Rightarrow> string list" where
  "int_flag flag v = (case v of None \<Rightarrow> [] | Some n \<Rightarrow> [flag, Itoa (sint n)])"

text \<open>The arguments appended for the options, in the order of the code.\<close>

definition cachedCommand :: "RedisCached \<Rightarrow> string list" where
  "cachedCommand redisCachedObj =
    [''redis_cached'', ''$('' @ RedisUrlVar @ '')''] @
    (case rc_Options redisCachedObj of
       None \<Rightarrow> []
     | Some opts \<Rightarrow>
         int_flag ''--flush-period'' (rco_FlushPeriod opts)
         @ int_flag ''--max-cached'' (rco_MaxCached opts)
         @ int_flag ''--response-timeout'' (rco_ResponseTimeout opts)
         @ int_flag ''--batch-size'' (rco_BatchSize opts))"

definition RedisCachedDeploymentOptions ::
    "'w runtime \<Rightarrow> string \<Rightarrow> RedisCached \<Rightarrow> ('w, error + DeploymentStorageOptions) op" where
  "RedisCachedDeploymentOptions rt defSecretNamespace redisCachedObj =
    (case rc_ConfigSecretRef redisCachedObj of
       None \<Rightarrow> ret (Inl noSecretRef)
     | Some ref \<Rightarrow>
         if_err (validateRedisSecret rt defSecretNamespace ref)
           (\<lambda>err. ret (Inl err))
           (ret (Inr
             \<lparr>dso_Args = cachedCommand redisCachedObj,
              dso_VolumeMounts = [], dso_Volumes = [],
              dso_DeploymentStrategy = rollingUpdate\<rparr>)))"

section \<open>Disk\<close>

abbreviation DiskVolumeName :: string where
  "DiskVolumeName \<equiv> ''storage''"

abbreviation DiskPath :: string where
  "DiskPath \<equiv> ''/var/lib/limitador/data''"

definition diskVolumeMounts :: "VolumeMount list" where
  "diskVolumeMounts = [\<lparr>vm_ReadOnly = False, vm_Name = DiskVolumeName, vm_MountPath = DiskPath\<rparr>]"

definition diskVolumes :: "Limitador \<Rightarrow> Volume list" where
  "diskVolumes limObj =
    [\<lparr>vol_Name = DiskVolumeName, vol_Source = PersistentVolumeClaimSource (PVCName limObj) False\<rparr>]"

definition DiskDeploymentOptions :: "Limitador \<Rightarrow> DiskSpec \<Rightarrow> error + DeploymentStorageOptions" where
  "DiskDeploymentOptions limObj diskObj =
    (let command = [''disk''] @
           (case di_Optimize diskObj of None \<Rightarrow> [] | Some o1 \<Rightarrow> [''--optimize'', o1]) @ [DiskPath]
     in Inr \<lparr>dso_Args = command, dso_VolumeMounts = diskVolumeMounts,
             dso_Volumes = diskVolumes limObj,
             dso_DeploymentStrategy = \<lparr>st_Type = RecreateType, st_RollingUpdate = None\<rparr>\<rparr>)"

section \<open>What a back end promises\<close>

text \<open>
  The options of a back end: the subcommand comes first; each volume is mounted once, under its
  name, and none is called like the volume of the limits; the rollout strategy is \<^verbatim>\<open>Recreate\<close>, and
  then without a rolling-update block, exactly when a persistent volume is used.
\<close>

abbreviation LimitsCMVolumeName :: string where
  "LimitsCMVolumeName \<equiv> ''config-file''"

definition wf_storage :: "string \<Rightarrow> DeploymentStorageOptions \<Rightarrow> bool" where
  "wf_storage sub opts \<longleftrightarrow>
     (\<exists>rest. dso_Args opts = sub # rest)
     \<and> map vm_Name (dso_VolumeMounts opts) = map vol_Name (dso_Volumes opts)
     \<and> distinct (LimitsCMVolumeName # map vol_Name (dso_Volumes opts))
     \<and> (st_Type (dso_DeploymentStrategy opts) = RecreateType \<longleftrightarrow> dso_Volumes opts \<noteq> [])
     \<and> (st_RollingUpdate (dso_DeploymentStrategy opts) = None
          \<longleftrightarrow> st_Type (dso_DeploymentStrategy opts) = RecreateType)"

locale storage_backend =
  fixes provide :: "'w runtime \<Rightarrow> 'c \<Rightarrow> ('w, error + DeploymentStorageOptions) op"
    and sub :: string
  assumes provide_spec: "does S (provide rt c) w (\<lambda>r ws w'. ws = [] \<and>
     (case r of Done (Inr opts) \<Rightarrow> wf_storage sub opts | Done (Inl e) \<Rightarrow> True | Panic p \<Rightarrow> False))"
begin

lemma provide_options:
  assumes "\<And>r ws w'. ws = [] \<Longrightarrow> (\<And>opts. r = Done (Inr opts) \<Longrightarrow> wf_storage sub opts) \<Longrightarrow>
      (\<And>p. r \<noteq> Panic p) \<Longrightarrow> Q r ws w'"
  shows "does S (provide rt c) w Q"
  using provide_spec by (rule does_mono) (rule assms, auto split: outcome.splits sum.splits)

end

text \<open>The error of the secret check, as a function of the client's answer.\<close>

definition secret_error :: "error + Secret \<Rightarrow> error option" where
  "secret_error r = (case r of Inl e \<Rightarrow> Some e
     | Inr secret \<Rightarrow> if map_get (sec_Data secret) ''URL'' \<noteq> None then None else Some noUrlField)"

abbreviation secret_key :: "string \<Rightarrow> LocalObjectReference \<Rightarrow> NamespacedName" where
  "secret_key ns ref \<equiv> \<lparr>nn_Name = lor_Name ref, nn_Namespace = ns\<rparr>"

lemma does_validateRedisSecret [does_intro]:
  assumes "Q (Done (secret_error (fst (cl_GetSecret (rt_client rt) (secret_key ns ref) w)))) []
     (snd (cl_GetSecret (rt_client rt) (secret_key ns ref) w))"
  shows "does S (validateRedisSecret rt ns ref) w Q"
  unfolding validateRedisSecret_def
  by (rule does_or_err, rule does_Get)
    (use assms in \<open>auto simp: secret_error_def intro!: does_ret split: sum.splits if_splits\<close>)

lemma does_RedisDeploymentOptions:
  assumes "re_ConfigSecretRef redisObj = None \<Longrightarrow> Q (Done (Inl noSecretRef)) [] w"
    and "\<And>ref e w'. re_ConfigSecretRef redisObj = Some ref \<Longrightarrow>
       cl_GetSecret (rt_client rt) (secret_key ns ref) w = (e, w') \<Longrightarrow>
       Q (Done (case secret_error e of Some e' \<Rightarrow> Inl e' | None \<Rightarrow> Inr
             \<lparr>dso_Args = [''redis'', ''$('' @ RedisUrlVar @ '')''],
              dso_VolumeMounts = [], dso_Volumes = [],
              dso_DeploymentStrategy = rollingUpdate\<rparr>)) [] w'"
  shows "does S (RedisDeploymentOptions rt ns redisObj) w Q"
proof (cases "re_ConfigSecretRef redisObj")
  case None
  with assms(1) show ?thesis by (simp add: RedisDeploymentOptions_def does_ret)
next
  case (Some ref)
  obtain e w' where g: "cl_GetSecret (rt_client rt) (secret_key ns ref) w = (e, w')" by fastforce
  from assms(2) [OF Some g] g Some show ?thesis
    unfolding RedisDeploymentOptions_def
    by (auto intro!: does_if_err does_validateRedisSecret does_ret split: option.splits)
qed

lemma does_RedisCachedDeploymentOptions:
  assumes "rc_ConfigSecretRef redisCachedObj = None \<Longrightarrow> Q (Done (Inl noSecretRef)) [] w"
    and "\<And>ref e w'. rc_ConfigSecretRef redisCachedObj = Some ref \<Longrightarrow>
       cl_GetSecret (rt_client rt) (secret_key ns ref) w = (e, w') \<Longrightarrow>
       Q (Done (case secret_error e of Some e' \<Rightarrow> Inl e' | None \<Rightarrow> Inr
             \<lparr>dso_Args = cachedCommand redisCachedObj,
              dso_VolumeMounts = [], dso_Volumes = [],
              dso_DeploymentStrategy = rollingUpdate\<rparr>)) [] w'"
  shows "does S (RedisCachedDeploymentOptions rt ns redisCachedObj) w Q"
proof (cases "rc_ConfigSecretRef redisCachedObj")
  case None
  with assms(1) show ?thesis by (simp add: RedisCachedDeploymentOptions_def does_ret)
next
  case (Some ref)
  obtain e w' where g: "cl_GetSecret (rt_client rt) (secret_key ns ref) w = (e, w')" by fastforce
  from assms(2) [OF Some g] g Some show ?thesis
    unfolding RedisCachedDeploymentOptions_def
    by (auto intro!: does_if_err does_validateRedisSecret does_ret split: option.splits)
qed

lemma wf_rolling:
  "dso_VolumeMounts opts = [] \<Longrightarrow> dso_Volumes opts = [] \<Longrightarrow> dso_DeploymentStrategy opts = rollingUpdate
   \<Longrightarrow> dso_Args opts = sub # rest \<Longrightarrow> wf_storage sub opts"
  by (simp add: wf_storage_def rollingUpdate_def)

interpretation memory: storage_backend "\<lambda>rt (c :: unit). ret InMemoryDeploymentOptions" "''memory''"
  by unfold_locales (auto simp: InMemoryDeploymentOptions_def intro!: does_ret wf_rolling)

interpretation redis: storage_backend "\<lambda>rt (ns, r). RedisDeploymentOptions rt ns r" "''redis''"
  by unfold_locales
    (auto intro!: does_RedisDeploymentOptions wf_rolling split: option.split)

interpretation redis_cached: storage_backend
  "\<lambda>rt (ns, r). RedisCachedDeploymentOptions rt ns r" "''redis_cached''"
  by unfold_locales
    (auto intro!: does_RedisCachedDeploymentOptions wf_rolling simp: cachedCommand_def split: option.split)

interpretation disk: storage_backend "\<lambda>rt (l, d). ret (DiskDeploymentOptions l d)" "''disk''"
  by unfold_locales
    (auto simp: DiskDeploymentOptions_def diskVolumes_def diskVolumeMounts_def wf_storage_def Let_def
      intro!: does_ret)

end
