(* ===== verification/Deployment_Options.thy ===== *)
theory Deployment_Options
  imports Storage_Options
begin

text \<open>
  \<^verbatim>\<open>pkg/limitador/deployment_options.go\<close>: the command line of the limitador server, the volumes and
  the volume mounts of its container. The command line is read back by a parser of the server's
  flags; the lemmas show that every setting of the spec is recovered from it, and that every
  mount of the container has its volume, for every storage back end.
\<close>

record DeploymentOptions =
  do_Args :: "string list"
  do_VolumeMounts :: "VolumeMount list"
  do_Volumes :: "Volume list"
  do_DeploymentStrategy :: DeploymentStrategy
  do_EnvVar :: "EnvVar list"
  do_ImagePullSecrets :: "LocalObjectReference list"

abbreviation LimitadorConfigFileName :: string where
  "LimitadorConfigFileName \<equiv> ''limitador-config.yaml''"

abbreviation LimitadorCMMountPath :: string where
  "LimitadorCMMountPath \<equiv> ''/home/limitador/etc''"

text \<open>\<^verbatim>\<open>filepath.Join\<close> of the two constants, which are already clean paths.\<close>

definition limitsFilePath :: string where
  "limitsFilePath = LimitadorCMMountPath @ ''/'' @ LimitadorConfigFileName"

text \<open>\<^verbatim>\<open>fmt.Sprintf("-%s", strings.Repeat("v", n))\<close>, which panics for a negative level.\<close>

definition verbosityArgs :: "VerbosityLevel option \<Rightarrow> string list outcome" where
  "verbosityArgs v =
    (case v of None \<Rightarrow> Done []
     | Some n \<Rightarrow> (case Repeat ''v'' (sint n) of
         Done vs \<Rightarrow> Done [''-'' @ vs]
       | Panic p \<Rightarrow> Panic p))"

definition DeploymentArgs :: "Limitador \<Rightarrow> DeploymentStorageOptions \<Rightarrow> string list outcome" where
  "DeploymentArgs limObj storageOptions =
    (let spec = lim_Spec limObj;
         headers = (case sp_RateLimitHeaders spec of None \<Rightarrow> []
           | Some h \<Rightarrow> [''--rate-limit-headers'', h]);
         telemetry = (case sp_Telemetry spec of None \<Rightarrow> []
           | Some t \<Rightarrow> if t = TelemetryExhaustive then [''--limit-name-in-labels''] else []);
         tracing = (case sp_Tracing spec of None \<Rightarrow> []
           | Some t \<Rightarrow> [''--tracing-endpoint'', trc_Endpoint t])
     in case verbosityArgs (sp_Verbosity spec) of
          Panic p \<Rightarrow> Panic p
        | Done verbosity \<Rightarrow> Done (headers @ telemetry @ tracing @ verbosity
            @ [''--http-port'', Itoa (sint (HTTPPort limObj))]
            @ [''--rls-port'', Itoa (sint (GRPCPort limObj))]
            @ (case sp_MetricLabelsDefault spec of None \<Rightarrow> []
               | Some m \<Rightarrow> [''--metric-labels-default'', m])
            @ [limitsFilePath]
            @ dso_Args storageOptions))"

definition DeploymentVolumeMounts :: "DeploymentStorageOptions \<Rightarrow> VolumeMount list" where
  "DeploymentVolumeMounts storageOptions =
    [\<lparr>vm_ReadOnly = False, vm_Name = LimitsCMVolumeName, vm_MountPath = LimitadorCMMountPath\<rparr>]
    @ dso_VolumeMounts storageOptions"

definition DeploymentVolumes :: "Limitador \<Rightarrow> DeploymentStorageOptions \<Rightarrow> Volume list" where
  "DeploymentVolumes limObj storageOptions =
    [\<lparr>vol_Name = LimitsCMVolumeName, vol_Source = ConfigMapSource (LimitsConfigMapName limObj)\<rparr>]
    @ dso_Volumes storageOptions"

section \<open>Mounts and volumes\<close>

text \<open>Whatever the back end: one mount per volume, in the same order, and no name twice.\<close>

lemma mounts_match_volumes:
  assumes "wf_storage sub opts"
  shows "map vm_Name (DeploymentVolumeMounts opts) = map vol_Name (DeploymentVolumes l opts)"
    and "distinct (map vol_Name (DeploymentVolumes l opts))"
  using assms by (simp_all add: wf_storage_def DeploymentVolumeMounts_def DeploymentVolumes_def)

section \<open>Panics\<close>

lemma verbosityArgs_cases:
  "verbosityArgs None = Done []"
  "0 \<le> sint n \<Longrightarrow> verbosityArgs (Some n) = Done [CHR ''-'' # replicate (nat (sint n)) (CHR ''v'')]"
  "sint n < 0 \<Longrightarrow> \<exists>p. verbosityArgs (Some n) = Panic p"
  by (simp_all add: verbosityArgs_def Repeat_single) (simp add: Repeat_def)

text \<open>The levels for which the arguments can be built. The CRD asks for 1 to 4; 0 gives the argument \<^verbatim>\<open>-\<close>.\<close>

definition valid_verbosity :: "Limitador \<Rightarrow> bool" where
  "valid_verbosity l \<longleftrightarrow> (case sp_Verbosity (lim_Spec l) of None \<Rightarrow> True | Some n \<Rightarrow> 0 \<le> sint n)"

lemma DeploymentArgs_total: "(\<exists>args. DeploymentArgs l opts = Done args) \<longleftrightarrow> valid_verbosity l"
proof (cases "sp_Verbosity (lim_Spec l)")
  case None
  then show ?thesis by (simp add: DeploymentArgs_def valid_verbosity_def verbosityArgs_cases Let_def)
next
  case (Some n)
  then show ?thesis
    by (cases "0 \<le> sint n")
      (auto simp: DeploymentArgs_def valid_verbosity_def verbosityArgs_cases Let_def
        dest!: verbosityArgs_cases(3) simp: not_le split: outcome.splits)
qed

section \<open>Reading the command line back\<close>

text \<open>
  The settings the command line carries, and a reader of the flags as the server's own argument
  parser takes them: flags with a value, the switch, the verbosity, then the limits file and the
  storage subcommand with its arguments.
\<close>

record server_args =
  sa_headers :: "string option"
  sa_exhaustive :: bool
  sa_tracing :: "string option"
  sa_verbosity :: nat
  sa_http :: "string option"
  sa_rls :: "string option"
  sa_metric :: "string option"
  sa_file :: string
  sa_storage :: "string list"

definition no_args :: server_args where
  "no_args = \<lparr>sa_headers = None, sa_exhaustive = False, sa_tracing = None, sa_verbosity = 0,
     sa_http = None, sa_rls = None, sa_metric = None, sa_file = [], sa_storage = []\<rparr>"

fun parse_args :: "string list \<Rightarrow> server_args \<Rightarrow> server_args option" where
  "parse_args [] acc = None"
| "parse_args (a # rest) acc =
    (if a = ''--limit-name-in-labels'' then parse_args rest (acc\<lparr>sa_exhaustive := True\<rparr>)
     else if a \<in> {''--rate-limit-headers'', ''--tracing-endpoint'', ''--http-port'', ''--rls-port'',
                  ''--metric-labels-default''} then
       (case rest of [] \<Rightarrow> None
        | v # rest' \<Rightarrow> parse_args rest'
            (if a = ''--rate-limit-headers'' then acc\<lparr>sa_headers := Some v\<rparr>
             else if a = ''--tracing-endpoint'' then acc\<lparr>sa_tracing := Some v\<rparr>
             else if a = ''--http-port'' then acc\<lparr>sa_http := Some v\<rparr>
             else if a = ''--rls-port'' then acc\<lparr>sa_rls := Some v\<rparr>
             else acc\<lparr>sa_metric := Some v\<rparr>))
     else if a = CHR ''-'' # replicate (length a - 1) (CHR ''v'')
       then parse_args rest (acc\<lparr>sa_verbosity := length a - 1\<rparr>)
     else Some (acc\<lparr>sa_file := a, sa_storage := rest\<rparr>))"

definition expected_args :: "Limitador \<Rightarrow> DeploymentStorageOptions \<Rightarrow> server_args" where
  "expected_args l opts =
    \<lparr>sa_headers = sp_RateLimitHeaders (lim_Spec l),
     sa_exhaustive = (sp_Telemetry (lim_Spec l) = Some TelemetryExhaustive),
     sa_tracing = map_option trc_Endpoint (sp_Tracing (lim_Spec l)),
     sa_verbosity = (case sp_Verbosity (lim_Spec l) of None \<Rightarrow> 0 | Some n \<Rightarrow> nat (sint n)),
     sa_http = Some (Itoa (sint (HTTPPort l))),
     sa_rls = Some (Itoa (sint (GRPCPort l))),
     sa_metric = sp_MetricLabelsDefault (lim_Spec l),
     sa_file = limitsFilePath,
     sa_storage = dso_Args opts\<rparr>"

lemma parse_flags:
  "parse_args (''--limit-name-in-labels'' # rest) acc = parse_args rest (acc\<lparr>sa_exhaustive := True\<rparr>)"
  "parse_args (''--rate-limit-headers'' # v # rest) acc = parse_args rest (acc\<lparr>sa_headers := Some v\<rparr>)"
  "parse_args (''--tracing-endpoint'' # v # rest) acc = parse_args rest (acc\<lparr>sa_tracing := Some v\<rparr>)"
  "parse_args (''--http-port'' # v # rest) acc = parse_args rest (acc\<lparr>sa_http := Some v\<rparr>)"
  "parse_args (''--rls-port'' # v # rest) acc = parse_args rest (acc\<lparr>sa_rls := Some v\<rparr>)"
  "parse_args (''--metric-labels-default'' # v # rest) acc = parse_args rest (acc\<lparr>sa_metric := Some v\<rparr>)"
  "parse_args (limitsFilePath # rest) acc = Some (acc\<lparr>sa_file := limitsFilePath, sa_storage := rest\<rparr>)"
  by (simp_all add: limitsFilePath_def)

lemma parse_verbosity:
  "parse_args ((CHR ''-'' # replicate n (CHR ''v'')) # rest) acc = parse_args rest (acc\<lparr>sa_verbosity := n\<rparr>)"
proof -
  have "CHR ''-'' # replicate n (CHR ''v'') \<noteq> CHR ''-'' # CHR ''-'' # xs" for xs
    by (cases n) simp_all
  then show ?thesis by simp
qed

lemma parse_DeploymentArgs:
  assumes "DeploymentArgs l opts = Done args"
  shows "parse_args args no_args = Some (expected_args l opts)"
proof -
  let ?spec = "lim_Spec l"
  from assms have "valid_verbosity l" using DeploymentArgs_total by blast
  with assms show ?thesis
    by (cases "sp_RateLimitHeaders ?spec"; cases "sp_Tracing ?spec"; cases "sp_Verbosity ?spec";
        cases "sp_MetricLabelsDefault ?spec"; cases "sp_Telemetry ?spec")
      (auto simp: DeploymentArgs_def valid_verbosity_def verbosityArgs_cases parse_verbosity
        parse_flags expected_args_def no_args_def Let_def simp del: parse_args.simps(2))
qed

end
