(* ===== verification/K8s_Objects.thy ===== *)
theory K8s_Objects
  imports Deployment_Options
begin

text \<open>
  The desired objects of \<^verbatim>\<open>pkg/limitador/k8s_objects.go\<close>. Each is built from the Limitador resource
  (the deployment also from its options). The contract the builders share - the object lives in
  the namespace of the resource, is named after it, carries its labels and no owner yet - is the
  locale \<open>built_object\<close>, interpreted for each of the five builders.
\<close>

section \<open>Builders\<close>

abbreviation StatusEndpoint :: string where
  "StatusEndpoint \<equiv> ''/status''"

abbreviation ProtocolTCP :: string where
  "ProtocolTCP \<equiv> ''TCP''"

definition objectMeta :: "string \<Rightarrow> Limitador \<Rightarrow> ObjectMeta" where
  "objectMeta name limitador = zeroMeta\<lparr>om_Name := name,
     om_Namespace := lim_Namespace limitador, om_Labels := Some (Labels limitador)\<rparr>"

definition Service :: "Limitador \<Rightarrow> Service" where
  "Service limitador =
    \<lparr>svc_TypeMeta = \<lparr>tm_Kind = ''Service'', tm_APIVersion = ''v1''\<rparr>,
     svc_ObjectMeta = objectMeta (ServiceName limitador) limitador,
     svc_Spec =
       \<lparr>ss_Ports =
          [\<lparr>sp_Name = ''http'', sp_Protocol = ProtocolTCP, sp_Port = HTTPPort limitador,
            sp_TargetPort = StrVal ''http''\<rparr>,
           \<lparr>sp_Name = ''grpc'', sp_Protocol = ProtocolTCP, sp_Port = GRPCPort limitador,
            sp_TargetPort = StrVal ''grpc''\<rparr>],
        ss_Selector = SelectorLabels limitador,
        ss_ClusterIP = ''None'',
        ss_Type = ''ClusterIP''\<rparr>\<rparr>"

text \<open>\<^verbatim>\<open>spec.image\<close> wins over the deprecated \<^verbatim>\<open>spec.version\<close>, which wins over the environment.\<close>

definition deploymentImage :: "(string \<Rightarrow> string \<Rightarrow> string) \<Rightarrow> Limitador \<Rightarrow> string" where
  "deploymentImage GetString limitador =
    (let image = GetLimitadorImage GetString;
         image = (case sp_Version (lim_Spec limitador) of None \<Rightarrow> image
           | Some v \<Rightarrow> LimitadorRepository @ '':'' @ v)
     in case sp_Image (lim_Spec limitador) of None \<Rightarrow> image | Some i \<Rightarrow> i)"

definition statusProbe :: "Limitador \<Rightarrow> int32 \<Rightarrow> Probe" where
  "statusProbe limitador timeout =
    \<lparr>pr_Path = StatusEndpoint, pr_Port = IntVal (HTTPPort limitador), pr_Scheme = ''HTTP'',
     pr_InitialDelaySeconds = 5, pr_TimeoutSeconds = timeout, pr_PeriodSeconds = 10,
     pr_SuccessThreshold = 1, pr_FailureThreshold = 3\<rparr>"

definition Deployment ::
    "(string \<Rightarrow> string \<Rightarrow> string) \<Rightarrow> Limitador \<Rightarrow> DeploymentOptions \<Rightarrow> Deployment" where
  "Deployment GetString limitador deploymentOptions =
    \<lparr>dep_TypeMeta = \<lparr>tm_Kind = ''Deployment'', tm_APIVersion = ''apps/v1''\<rparr>,
     dep_ObjectMeta = objectMeta (DeploymentName limitador) limitador,
     dep_Spec =
       \<lparr>ds_Replicas = Some (GetReplicas limitador),
        ds_Strategy = do_DeploymentStrategy deploymentOptions,
        ds_Selector = \<lparr>ls_MatchLabels = SelectorLabels limitador\<rparr>,
        ds_Template =
          \<lparr>pt_ObjectMeta = zeroMeta\<lparr>om_Labels := Some (Labels limitador)\<rparr>,
           pt_Spec =
             \<lparr>ps_Affinity = sp_Affinity (lim_Spec limitador),
              ps_ImagePullSecrets = do_ImagePullSecrets deploymentOptions,
              ps_Containers =
                [\<lparr>ct_Name = ''limitador'',
                  ct_Image = deploymentImage GetString limitador,
                  ct_Command = [''limitador-server''],
                  ct_Args = do_Args deploymentOptions,
                  ct_Env = do_EnvVar deploymentOptions,
                  ct_Ports =
                    [\<lparr>cp_Name = ''http'', cp_ContainerPort = HTTPPort limitador, cp_Protocol = ProtocolTCP\<rparr>,
                     \<lparr>cp_Name = ''grpc'', cp_ContainerPort = GRPCPort limitador, cp_Protocol = ProtocolTCP\<rparr>],
                  ct_LivenessProbe = statusProbe limitador 2,
                  ct_ReadinessProbe = statusProbe limitador 5,
                  ct_Resources = GetResourceRequirements limitador,
                  ct_VolumeMounts = do_VolumeMounts deploymentOptions,
                  ct_ImagePullPolicy = ''IfNotPresent''\<rparr>],
              ps_Volumes = do_Volumes deploymentOptions\<rparr>\<rparr>\<rparr>,
     dep_Status = zeroDeploymentStatus\<rparr>"

definition LimitsConfigMap :: "(RateLimit list \<Rightarrow> error + string) \<Rightarrow> Limitador \<Rightarrow> error + ConfigMap" where
  "LimitsConfigMap yamlMarshal limitadorObj =
    (case yamlMarshal (Limits limitadorObj) of
       Inl marshallErr \<Rightarrow> Inl marshallErr
     | Inr limitsMarshalled \<Rightarrow> Inr
         \<lparr>cm_TypeMeta = \<lparr>tm_Kind = ''ConfigMap'', tm_APIVersion = ''v1''\<rparr>,
          cm_ObjectMeta = objectMeta (LimitsConfigMapName limitadorObj) limitadorObj,
          cm_Data = [LimitadorConfigFileName \<mapsto> limitsMarshalled]\<rparr>)"

definition PodDisruptionBudget :: "Limitador \<Rightarrow> PodDisruptionBudget" where
  "PodDisruptionBudget limitadorObj =
    (let pdb =
       \<lparr>pdb_TypeMeta = \<lparr>tm_Kind = ''PodDisruptionBudget'', tm_APIVersion = ''policy/v1''\<rparr>,
        pdb_ObjectMeta = objectMeta (PodDisruptionBudgetName limitadorObj) limitadorObj,
        pdb_Spec = \<lparr>pds_Selector = Some \<lparr>ls_MatchLabels = SelectorLabels limitadorObj\<rparr>,
                    pds_MaxUnavailable = None, pds_MinAvailable = None\<rparr>\<rparr>
     in case sp_PodDisruptionBudget (lim_Spec limitadorObj) of
          None \<Rightarrow> pdb\<lparr>pdb_ObjectMeta := TagObjectToDelete (pdb_ObjectMeta pdb)\<rparr>
        | Some p \<Rightarrow> pdb\<lparr>pdb_Spec := (pdb_Spec pdb)
            \<lparr>pds_MaxUnavailable := pdt_MaxUnavailable p, pds_MinAvailable := pdt_MinAvailable p\<rparr>\<rparr>)"

definition PVC :: "Limitador \<Rightarrow> PersistentVolumeClaim" where
  "PVC limitador =
    (let pvc =
       \<lparr>pvc_TypeMeta = \<lparr>tm_Kind = ''PersistentVolumeClaim'', tm_APIVersion = ''v1''\<rparr>,
        pvc_ObjectMeta = objectMeta (PVCName limitador) limitador,
        pvc_Spec = \<lparr>pvs_AccessModes = [''ReadWriteOnce''],
                    pvs_Requests = [''storage'' \<mapsto> MustParse ''1Gi''],
                    pvs_StorageClassName = None, pvs_VolumeName = []\<rparr>\<rparr>;
         tagged = pvc\<lparr>pvc_ObjectMeta := TagObjectToDelete (pvc_ObjectMeta pvc)\<rparr>
     in case sp_Storage (lim_Spec limitador) of
          None \<Rightarrow> tagged
        | Some storage \<Rightarrow>
            (case sto_Disk storage of
               None \<Rightarrow> tagged
             | Some disk \<Rightarrow>
                 (case di_PVC disk of
                    None \<Rightarrow> pvc
                  | Some p \<Rightarrow>
                      (let spec = (pvc_Spec pvc)\<lparr>pvs_StorageClassName := pg_StorageClassName p\<rparr>;
                           spec = (case pg_VolumeName p of None \<Rightarrow> spec
                             | Some v \<Rightarrow> spec\<lparr>pvs_VolumeName := v\<rparr>);
                           spec = (case pg_Resources p of None \<Rightarrow> spec
                             | Some r \<Rightarrow> spec\<lparr>pvs_Requests := [''storage'' \<mapsto> pvr_Requests r]\<rparr>)
                       in pvc\<lparr>pvc_Spec := spec\<rparr>))))"

section \<open>What the builders share\<close>

lemma objectMeta_simps [simp]:
  "om_Name (objectMeta n l) = n" "om_Namespace (objectMeta n l) = lim_Namespace l"
  "om_Labels (objectMeta n l) = Some (Labels l)" "om_Annotations (objectMeta n l) = None"
  "om_OwnerReferences (objectMeta n l) = []" "om_DeletionTimestamp (objectMeta n l) = None"
  by (simp_all add: objectMeta_def)

text \<open>
  \<open>build\<close> gives the object, \<open>name\<close> its name, \<open>delete\<close> says for which resources the object is tagged
  to be deleted.
\<close>

locale built_object =
  fixes build :: "Limitador \<Rightarrow> Object"
    and name :: "Limitador \<Rightarrow> string"
    and delete :: "Limitador \<Rightarrow> bool"
  assumes build_name: "om_Name (obj_meta (build l)) = name l"
    and build_namespace: "om_Namespace (obj_meta (build l)) = lim_Namespace l"
    and build_labels: "om_Labels (obj_meta (build l)) = Some (Labels l)"
    and build_tagged: "IsObjectTaggedToDelete (obj_meta (build l)) \<longleftrightarrow> delete l"
    and build_unowned: "om_OwnerReferences (obj_meta (build l)) = []"
begin

lemma build_selected: "selector_matches (SelectorLabels l) (om_Labels (obj_meta (build l)))"
  by (simp add: build_labels SelectorLabels_le)

lemma build_cached: "selector_matches [LabelKeyApp \<mapsto> LimitadorAppName] (om_Labels (obj_meta (build l)))"
  by (simp add: build_labels map_le_def)

lemma build_key: "meta_key (obj_meta (build l)) = \<lparr>nn_Name = name l, nn_Namespace = lim_Namespace l\<rparr>"
  by (simp add: meta_key_def build_name build_namespace)

end

text \<open>Builders whose names are injective in the resource's name keep the objects of resources apart.\<close>

locale named_object = built_object +
  assumes name_inject: "name l = name l' \<longleftrightarrow> lim_Name l = lim_Name l'"
begin

lemma keys_apart:
  "meta_key (obj_meta (build l)) = meta_key (obj_meta (build l')) \<longleftrightarrow>
   lim_Name l = lim_Name l' \<and> lim_Namespace l = lim_Namespace l'"
  by (simp add: build_key name_inject)

end

definition no_disk :: "Limitador \<Rightarrow> bool" where
  "no_disk l \<longleftrightarrow> (case sp_Storage (lim_Spec l) of None \<Rightarrow> True | Some s \<Rightarrow> sto_Disk s = None)"

definition no_pdb :: "Limitador \<Rightarrow> bool" where
  "no_pdb l \<longleftrightarrow> sp_PodDisruptionBudget (lim_Spec l) = None"

interpretation service: named_object "\<lambda>l. OService (Service l)" ServiceName "\<lambda>l. False"
  by unfold_locales (simp_all add: Service_def name_defs)

interpretation deployment: named_object
  "\<lambda>l. ODeployment (Deployment GetString l (opts l))" DeploymentName "\<lambda>l. False"
  for GetString opts
  by unfold_locales (simp_all add: Deployment_def name_defs)

interpretation pdb: named_object
  "\<lambda>l. OPodDisruptionBudget (PodDisruptionBudget l)" PodDisruptionBudgetName no_pdb
  by unfold_locales (auto simp: PodDisruptionBudget_def name_defs no_pdb_def Let_def split: option.split)

lemma PVC_meta:
  "pvc_ObjectMeta (PVC l) =
    (if no_disk l then TagObjectToDelete (objectMeta (PVCName l) l) else objectMeta (PVCName l) l)"
  by (simp add: PVC_def no_disk_def Let_def split: option.split)

interpretation pvc: named_object "\<lambda>l. OPersistentVolumeClaim (PVC l)" PVCName no_disk
  by unfold_locales (auto simp: PVC_meta name_defs)

text \<open>The config map is built from the text of the limits.\<close>

definition limitsConfigMapOf :: "string \<Rightarrow> Limitador \<Rightarrow> ConfigMap" where
  "limitsConfigMapOf limits l =
     \<lparr>cm_TypeMeta = \<lparr>tm_Kind = ''ConfigMap'', tm_APIVersion = ''v1''\<rparr>,
      cm_ObjectMeta = objectMeta (LimitsConfigMapName l) l,
      cm_Data = [LimitadorConfigFileName \<mapsto> limits]\<rparr>"

lemma LimitsConfigMap_eq:
  "LimitsConfigMap yaml l = (case yaml (Limits l) of Inl e \<Rightarrow> Inl e | Inr limits \<Rightarrow> Inr (limitsConfigMapOf limits l))"
  by (simp add: LimitsConfigMap_def limitsConfigMapOf_def split: sum.split)

interpretation configmap: named_object
  "\<lambda>l. OConfigMap (limitsConfigMapOf (limits l) l)" LimitsConfigMapName "\<lambda>l. False"
  for limits
  by unfold_locales (simp_all add: limitsConfigMapOf_def name_defs)

end
