(* ===== verification/Base_Reconciler.thy ===== *)
theory Base_Reconciler
  imports Op_Observability
begin

text \<open>
  \<^verbatim>\<open>pkg/reconcilers/base_reconciler.go\<close>: the calls through which every controller reads and writes
  the cluster. Lines are logged with the logger of the context.
  The lemmas give each call as a function of the client's answers: the error it returns, the one
  write it sends and the world it leaves.
\<close>

abbreviation FieldManagerName :: string where
  "FieldManagerName \<equiv> ''limitador-operator''"

section \<open>Operations\<close>

text \<open>The keys that name the object in the lines of this file.\<close>

definition object_values :: "TypeMeta \<Rightarrow> ObjectMeta \<Rightarrow> (string \<times> log_value) list" where
  "object_values t m =
    [(''GKV'', LGVK t), (''name'', LString (om_Name m)), (''namespace'', LString (om_Namespace m))]"

text \<open>The reconciler of the base type does nothing.\<close>

definition BaseReconcile :: "Context \<Rightarrow> NamespacedName \<Rightarrow> ('w, error + Result) op" where
  "BaseReconcile ctx req = ret (Inr zeroResult)"

definition GetResource ::
    "Context \<Rightarrow> NamespacedName \<Rightarrow> TypeMeta \<times> ObjectMeta \<Rightarrow> (NamespacedName \<Rightarrow> ('w, error + 'a) op) \<Rightarrow> ('w, error + 'a) op" where
  "GetResource ctx objKey obj get =
     or_err (ret (FromContext ctx)) (\<lambda>err. ret (Inl err)) (\<lambda>logger.
     and_then (Log_Info logger 0 ''get object'' (object_values (fst obj) (snd obj)))
       (get objKey))"

definition CreateResource :: "'w runtime \<Rightarrow> Context \<Rightarrow> Object \<Rightarrow> ('w, error option) op" where
  "CreateResource rt ctx obj =
     or_err (ret (FromContext ctx)) (\<lambda>err. ret (Some err)) (\<lambda>logger.
     and_then (Log_Info logger 0 ''create object'' (object_values (obj_type obj) (obj_meta obj)))
       (Client_Create rt obj))"

definition UpdateResource :: "'w runtime \<Rightarrow> Context \<Rightarrow> Object \<Rightarrow> ('w, error option) op" where
  "UpdateResource rt ctx obj =
     or_err (ret (FromContext ctx)) (\<lambda>err. ret (Some err)) (\<lambda>logger.
     and_then (Log_Info logger 0 ''update object'' (object_values (obj_type obj) (obj_meta obj)))
       (Client_Update rt obj))"

text \<open>No caller passes delete options. An object that is already gone counts as deleted.\<close>

definition DeleteResource :: "'w runtime \<Rightarrow> Context \<Rightarrow> Object \<Rightarrow> ('w, error option) op" where
  "DeleteResource rt ctx obj =
     or_err (ret (FromContext ctx)) (\<lambda>err. ret (Some err)) (\<lambda>logger.
     and_then (Log_Info logger 0 ''delete object'' (object_values (obj_type obj) (obj_meta obj)))
     (bind_go (Client_Delete rt obj) (\<lambda>err.
       case err of Some e \<Rightarrow> if IsNotFound e then ret None else ret err | None \<Rightarrow> ret err)))"

definition ReconcileResource :: "'w runtime \<Rightarrow> Context \<Rightarrow> Object \<Rightarrow> ('w, error option) op" where
  "ReconcileResource rt ctx obj =
     or_err (ret (FromContext ctx)) (\<lambda>err. ret (Some err)) (\<lambda>logger.
     if IsObjectTaggedToDelete (obj_meta obj) then DeleteResource rt ctx obj
     else and_then (Log_Info logger 0 ''apply object'' (object_values (obj_type obj) (obj_meta obj)))
      (bind_go (Client_Apply rt obj True FieldManagerName) (\<lambda>err.
       and_then (case err of
           None \<Rightarrow> on_ctx_span ctx RecordResourceApplied
         | Some e \<Rightarrow> on_ctx_span ctx (\<lambda>span. RecordError span e ''failed to apply resource''))
       (ret err))))"

definition ReconcileService :: "'w runtime \<Rightarrow> Context \<Rightarrow> Service \<Rightarrow> ('w, error option) op" where
  "ReconcileService rt ctx desired = ReconcileResource rt ctx (OService desired)"

definition ReconcileDeployment :: "'w runtime \<Rightarrow> Context \<Rightarrow> Deployment \<Rightarrow> ('w, error option) op" where
  "ReconcileDeployment rt ctx desired = ReconcileResource rt ctx (ODeployment desired)"

definition ReconcileConfigMap :: "'w runtime \<Rightarrow> Context \<Rightarrow> ConfigMap \<Rightarrow> ('w, error option) op" where
  "ReconcileConfigMap rt ctx desired = ReconcileResource rt ctx (OConfigMap desired)"

definition ReconcilePodDisruptionBudget ::
    "'w runtime \<Rightarrow> Context \<Rightarrow> PodDisruptionBudget \<Rightarrow> ('w, error option) op" where
  "ReconcilePodDisruptionBudget rt ctx desired = ReconcileResource rt ctx (OPodDisruptionBudget desired)"

definition ReconcilePersistentVolumeClaim ::
    "'w runtime \<Rightarrow> Context \<Rightarrow> PersistentVolumeClaim \<Rightarrow> ('w, error option) op" where
  "ReconcilePersistentVolumeClaim rt ctx desired =
     or_err (ret (FromContext ctx)) (\<lambda>err. ret (Some err)) (\<lambda>logger.
     if IsObjectTaggedToDelete (pvc_ObjectMeta desired)
     then DeleteResource rt ctx (OPersistentVolumeClaim desired)
     else or_err (Client_GetPersistentVolumeClaim rt (meta_key (pvc_ObjectMeta desired)))
       (\<lambda>err. if \<not> IsNotFound err
          then and_then (on_ctx_span ctx (\<lambda>span. RecordError span err ''failed to get PVC''))
                 (ret (Some err))
          else bind_go (CreateResource rt ctx (OPersistentVolumeClaim desired)) (\<lambda>err.
                 and_then (case err of
                     None \<Rightarrow> on_ctx_span ctx RecordResourceCreated
                   | Some e \<Rightarrow> on_ctx_span ctx (\<lambda>span. RecordError span e ''failed to create PVC''))
                 (ret err)))
       (\<lambda>obj. and_then (Log_Info logger 1 ''pvc already exists, skipping update''
            [(''name'', LString (om_Name (pvc_ObjectMeta desired))),
             (''namespace'', LString (om_Namespace (pvc_ObjectMeta desired)))])
          (and_then (on_ctx_span ctx RecordResourceUnchanged) (ret None))))"

definition UpdateResourceStatus :: "'w runtime \<Rightarrow> Context \<Rightarrow> Object \<Rightarrow> ('w, error option) op" where
  "UpdateResourceStatus rt ctx obj =
     or_err (ret (FromContext ctx)) (\<lambda>err. ret (Some err)) (\<lambda>logger.
     and_then (Log_Info logger 0 ''apply object status'' (object_values (obj_type obj) (obj_meta obj)))
       (Client_StatusApply rt obj True FieldManagerName))"

definition podPatch :: "string \<Rightarrow> string \<Rightarrow> string \<Rightarrow> string \<Rightarrow> Pod" where
  "podPatch podName podNamespace annotationKey annotationValue =
    \<lparr>pod_TypeMeta = \<lparr>tm_Kind = ''Pod'', tm_APIVersion = ''v1''\<rparr>,
     pod_ObjectMeta = zeroMeta\<lparr>om_Name := podName, om_Namespace := podNamespace,
       om_Annotations := Some [annotationKey \<mapsto> annotationValue]\<rparr>\<rparr>"

definition ReconcilePodAnnotation ::
    "'w runtime \<Rightarrow> Context \<Rightarrow> string \<Rightarrow> string \<Rightarrow> string \<Rightarrow> string \<Rightarrow> ('w, error option) op" where
  "ReconcilePodAnnotation rt ctx podName podNamespace annotationKey annotationValue =
     or_err (ret (FromContext ctx)) (\<lambda>err. ret (Some err)) (\<lambda>logger.
     and_then (Log_Info logger 0 ''apply pod annotation'' [(''name'', LString podName),
         (''namespace'', LString podNamespace), (''key'', LString annotationKey)])
       (ReconcileResource rt ctx (OPod (podPatch podName podNamespace annotationKey annotationValue))))"

text \<open>
  Setting the owner changes the object's metadata; the changed metadata are returned. The object is
  given by its type and its metadata. A failure is logged with the logger of the reconciler.
\<close>

definition owner_set :: "'w runtime \<Rightarrow> Limitador \<Rightarrow> ObjectMeta \<Rightarrow> error + ObjectMeta" where
  "owner_set rt owner obj =
    (case rt_SetControllerReference rt owner obj of
       Inl err \<Rightarrow> Inl err
     | Inr refs \<Rightarrow> Inr (obj\<lparr>om_OwnerReferences := refs\<rparr>))"

definition SetOwnerReference ::
    "'w runtime \<Rightarrow> Limitador \<Rightarrow> TypeMeta \<times> ObjectMeta \<Rightarrow> ('w, error + ObjectMeta) op" where
  "SetOwnerReference rt owner obj =
    (case rt_SetControllerReference rt owner (snd obj) of
       Inl err \<Rightarrow>
         and_then (Log_Error (rt_Logger rt) err ''Error setting OwnerReference on object''
             [(''Kind'', LGVK (fst obj)), (''Namespace'', LString (om_Namespace (snd obj))),
              (''Name'', LString (om_Name (snd obj)))])
           (ret (Inl err))
     | Inr refs \<Rightarrow> ret (Inr ((snd obj)\<lparr>om_OwnerReferences := refs\<rparr>)))"

definition EnsureOwnerReference ::
    "'w runtime \<Rightarrow> Limitador \<Rightarrow> TypeMeta \<times> ObjectMeta \<Rightarrow> ('w, error + bool \<times> ObjectMeta) op" where
  "EnsureOwnerReference rt owner obj =
    (let originalSize = length (om_OwnerReferences (snd obj))
     in or_err (SetOwnerReference rt owner obj) (\<lambda>err. ret (Inl err)) (\<lambda>obj'.
          let newSize = length (om_OwnerReferences obj')
          in ret (Inr (if originalSize \<noteq> newSize then (True, obj') else (False, obj')))))"

section \<open>The calls as functions of the client's answers\<close>

text \<open>
  A step: the outcome, the writes and the next world, all determined by the world. A call performs
  a step when every run of it from \<open>w\<close> has that outcome and sends those writes, in a well-bracketed
  trace.
\<close>

type_synonym ('w, 'a) step = "'w \<Rightarrow> 'a outcome \<times> request list \<times> 'w"

definition performs :: "span_id set \<Rightarrow> ('w, 'a) op \<Rightarrow> ('w, 'a) step \<Rightarrow> bool" where
  "performs S m f \<longleftrightarrow> (\<forall>w. does S m w (\<lambda>r ws w'. (r, ws, w') = f w))"

lemma performsI: "(\<And>w. does S m w (\<lambda>r ws w'. (r, ws, w') = f w)) \<Longrightarrow> performs S m f"
  by (simp add: performs_def)

lemma does_performs:
  assumes "performs S m f" "case f w of (r, ws, w') \<Rightarrow> Q r ws w'"
  shows "does S m w Q"
proof -
  from assms(1) have "does S m w (\<lambda>r ws w'. (r, ws, w') = f w)" by (simp add: performs_def)
  then show ?thesis by (rule does_mono) (use assms(2) in auto)
qed

definition ignore_not_found :: "error option \<Rightarrow> error option" where
  "ignore_not_found err = (case err of None \<Rightarrow> None | Some e \<Rightarrow> IgnoreNotFound e)"

definition delete_step :: "'w runtime \<Rightarrow> Object \<Rightarrow> ('w, error option) step" where
  "delete_step rt x w = (case cl_Delete (rt_client rt) x w of (err, w') \<Rightarrow>
     (Done (ignore_not_found err), [ReqDelete x], w'))"

definition apply_step :: "'w runtime \<Rightarrow> Object \<Rightarrow> ('w, error option) step" where
  "apply_step rt x w =
    (if IsObjectTaggedToDelete (obj_meta x) then delete_step rt x w
     else case cl_Apply (rt_client rt) x True FieldManagerName w of (err, w') \<Rightarrow>
       (Done err, [ReqApply x True FieldManagerName], w'))"

definition create_step :: "'w runtime \<Rightarrow> Object \<Rightarrow> ('w, error option) step" where
  "create_step rt x w =
    (if IsObjectTaggedToDelete (obj_meta x) then delete_step rt x w
     else case cl_GetPersistentVolumeClaim (rt_client rt) (meta_key (obj_meta x)) w of
       (Inr p, w1) \<Rightarrow> (Done None, [], w1)
     | (Inl e, w1) \<Rightarrow>
         if \<not> IsNotFound e then (Done (Some e), [], w1)
         else case cl_Create (rt_client rt) x w1 of (err, w2) \<Rightarrow> (Done err, [ReqCreate x], w2))"

lemma performs_DeleteResource:
  assumes "ctx_ok ctx"
  shows "performs S (DeleteResource rt ctx obj) (delete_step rt obj)"
  unfolding DeleteResource_def
  by (rule performsI, rule does_or_err_FromContext [OF assms], rule does_log_then, rule does_bind_go, rule does_write)
    (auto simp: delete_step_def ignore_not_found_def IgnoreNotFound_def
      intro!: does_ret split: option.splits prod.split)

lemma does_on_span_then:
  assumes "body_ctx i ctx" "i \<in> S" "records i (f i)" "does S k w Q"
  shows "does S (and_then (on_ctx_span ctx f) k) w Q"
  using assms by (intro does_and_then does_on_ctx_span) (auto dest: body_ctxD)

lemma performs_ReconcileResource:
  assumes "body_ctx i ctx" "i \<in> S"
  shows "performs S (ReconcileResource rt ctx obj) (apply_step rt obj)"
proof (cases "IsObjectTaggedToDelete (obj_meta obj)")
  case True
  with performs_DeleteResource [OF body_ctxD(1) [OF assms(1)], of S rt obj] show ?thesis
    using body_ctxD(1) [OF assms(1)]
    by (auto simp: ReconcileResource_def performs_def apply_step_def intro!: does_or_err_FromContext)
next
  case False
  show ?thesis
    unfolding ReconcileResource_def if_not_P [OF False]
    by (rule performsI, rule does_or_err_FromContext [OF body_ctxD(1) [OF assms(1)]],
        rule does_log_then, rule does_bind_go, rule does_write)
      (use False in \<open>auto simp: apply_step_def intro!: does_on_span_then [OF assms] does_ret
        split: option.splits prod.split\<close>)
qed

lemma performs_ReconcilePersistentVolumeClaim:
  assumes "body_ctx i ctx" "i \<in> S"
  shows "performs S (ReconcilePersistentVolumeClaim rt ctx pvc) (create_step rt (OPersistentVolumeClaim pvc))"
proof (cases "IsObjectTaggedToDelete (pvc_ObjectMeta pvc)")
  case True
  with performs_DeleteResource [OF body_ctxD(1) [OF assms(1)], of S rt "OPersistentVolumeClaim pvc"]
  show ?thesis
    using body_ctxD(1) [OF assms(1)]
    by (auto simp: ReconcilePersistentVolumeClaim_def performs_def create_step_def
        intro!: does_or_err_FromContext)
next
  case False
  note ok = body_ctxD(1) [OF assms(1)]
  have create: "does S (bind_go (CreateResource rt ctx x) (\<lambda>err.
      and_then (case err of None \<Rightarrow> on_ctx_span ctx RecordResourceCreated
        | Some e \<Rightarrow> on_ctx_span ctx (\<lambda>span. RecordError span e d)) (ret err))) w
      (\<lambda>r ws w'. (r, ws, w') = (case cl_Create (rt_client rt) x w of (err, w2) \<Rightarrow> (Done err, [ReqCreate x], w2)))"
    for x d w
    unfolding CreateResource_def
    by (rule does_bind_go, rule does_or_err_FromContext [OF ok], rule does_log_then, rule does_write)
      (auto intro!: does_on_span_then [OF assms] does_ret split: option.splits prod.split)
  show ?thesis
    unfolding ReconcilePersistentVolumeClaim_def if_not_P [OF False]
    by (rule performsI, rule does_or_err_FromContext [OF ok], rule does_or_err, rule does_Get)
      (use False in \<open>auto simp: create_step_def intro!: does_log_then does_on_span_then [OF assms] does_ret
        does_mono [OF create] split: sum.splits prod.splits\<close>)
qed

lemma performs_SetOwnerReference:
  "performs S (SetOwnerReference rt l obj) (\<lambda>w. (Done (owner_set rt l (snd obj)), [], w))"
  by (rule performsI)
    (auto simp: SetOwnerReference_def owner_set_def intro!: does_log_then does_ret split: sum.split)

lemma performs_UpdateResourceStatus:
  assumes "ctx_ok ctx"
  shows "performs S (UpdateResourceStatus rt ctx obj) (\<lambda>w.
     case cl_StatusApply (rt_client rt) obj True FieldManagerName w of (err, w') \<Rightarrow>
       (Done err, [ReqStatusApply obj True FieldManagerName], w'))"
  unfolding UpdateResourceStatus_def
  by (rule performsI, rule does_or_err_FromContext [OF assms], rule does_log_then, rule does_write) (auto split: prod.split)

lemma performs_ReconcilePodAnnotation:
  assumes "body_ctx i ctx" "i \<in> S"
  shows "performs S (ReconcilePodAnnotation rt ctx n ns k v) (apply_step rt (OPod (podPatch n ns k v)))"
  unfolding ReconcilePodAnnotation_def
  using performs_ReconcileResource [OF assms, of rt "OPod (podPatch n ns k v)"] body_ctxD(1) [OF assms(1)]
  by (auto simp: performs_def intro!: does_or_err_FromContext does_log_then)

end
