(* ===== verification/Limitador_Status.thy ===== *)
theory Limitador_Status
  imports Base_Reconciler Op_Names
begin

text \<open>
  \<^verbatim>\<open>controllers/limitador_status.go\<close>: the status of the Limitador resource. The readiness is decided
  from the outcome of the spec reconciliation and from the deployment; the status is written only
  when it differs from the one that was read. The abstract specification is \<open>status_step\<close>: the
  outcome, the writes and the world as a function of the deployment that the client returns.
\<close>

section \<open>Operations\<close>

abbreviation GroupVersionString :: string where
  "GroupVersionString \<equiv> ''limitador.kuadrant.io/v1alpha1''"

definition buildServiceHost :: "Limitador \<Rightarrow> string" where
  "buildServiceHost limitadorObj =
     ServiceName limitadorObj @ ''.'' @ lim_Namespace limitadorObj @ ''.svc.cluster.local''"

definition checkLimitadorAvailable :: "'w runtime \<Rightarrow> Limitador \<Rightarrow> ('w, error + string option) op" where
  "checkLimitadorAvailable rt limitadorObj =
    (let dKey = \<lparr>nn_Name = DeploymentName limitadorObj, nn_Namespace = lim_Namespace limitadorObj\<rparr>
     in or_err (Client_GetDeployment rt dKey)
       (\<lambda>err. case IgnoreNotFound err of Some e \<Rightarrow> ret (Inl err) | None \<Rightarrow> ret (Inr (Some (Error err))))
       (\<lambda>deployment.
         let status = dep_Status deployment
         in if dst_ObservedGeneration status \<noteq> om_Generation (dep_ObjectMeta deployment)
            then ret (Inr (Some ''Deployment still in progress''))
            else case FindDeploymentStatusCondition (dst_Conditions status) ''Available'' of
              None \<Rightarrow> ret (Inr (Some ''Available condition not found''))
            | Some availableCondition \<Rightarrow>
                if dc_Status availableCondition \<noteq> ConditionTrue
                then ret (Inr (Some (dc_Message availableCondition)))
                else if dst_UnavailableReplicas status \<noteq> 0
                then ret (Inr (Some ''Deployment has unavailable replicas''))
                else if dst_ReadyReplicas status \<noteq> dst_Replicas status
                then ret (Inr (Some ''Deployment has replicas not ready yet''))
                else ret (Inr None)))"

definition readyCond :: Condition where
  "readyCond = \<lparr>cond_Type = StatusConditionReady, cond_Status = ConditionTrue,
     cond_ObservedGeneration = 0, cond_LastTransitionTime = None,
     cond_Reason = ''Ready'', cond_Message = ''Limitador is ready''\<rparr>"

definition readyCondition ::
    "'w runtime \<Rightarrow> Limitador \<Rightarrow> error option \<Rightarrow> ('w, error + Condition) op" where
  "readyCondition rt limitadorObj specErr =
    (case specErr of
       Some e \<Rightarrow> ret (Inr (readyCond\<lparr>cond_Status := ConditionFalse,
                   cond_Reason := ''ReconcilliationError'', cond_Message := Error e\<rparr>))
     | None \<Rightarrow>
         or_err (checkLimitadorAvailable rt limitadorObj) (\<lambda>err. ret (Inl err)) (\<lambda>reason.
           case reason of
             Some msg \<Rightarrow> ret (Inr (readyCond\<lparr>cond_Status := ConditionFalse,
                           cond_Reason := ''LimitadorNotAvailable'', cond_Message := msg\<rparr>))
           | None \<Rightarrow> ret (Inr readyCond)))"

definition calculateStatus ::
    "'w runtime \<Rightarrow> Limitador \<Rightarrow> error option \<Rightarrow> ('w, error + LimitadorStatus) op" where
  "calculateStatus rt limitadorObj specErr =
    (let newStatus =
           \<lparr>sta_ObservedGeneration = lim_Generation limitadorObj,
            sta_Conditions = DeepCopyConditions (sta_Conditions (lim_Status limitadorObj)),
            sta_Service = Some
              \<lparr>lsv_Host = buildServiceHost limitadorObj,
               lsv_Ports = \<lparr>po_HTTP = HTTPPort limitadorObj, po_GRPC = GRPCPort limitadorObj\<rparr>\<rparr>\<rparr>
     in or_err (readyCondition rt limitadorObj specErr) (\<lambda>err. ret (Inl err)) (\<lambda>availableCond.
        ret (Inr (newStatus\<lparr>sta_Conditions :=
          rt_SetStatusCondition rt (sta_Conditions newStatus) availableCond\<rparr>))))"

definition statusPatch :: "Limitador \<Rightarrow> LimitadorStatus \<Rightarrow> Limitador" where
  "statusPatch limitadorObj newStatus =
    \<lparr>lim_TypeMeta = \<lparr>tm_Kind = ''Limitador'', tm_APIVersion = GroupVersionString\<rparr>,
     lim_ObjectMeta = zeroMeta\<lparr>om_Name := lim_Name limitadorObj,
       om_Namespace := lim_Namespace limitadorObj\<rparr>,
     lim_Spec = zeroSpec, lim_Status = newStatus\<rparr>"

text \<open>The line that \<^verbatim>\<open>Equals\<close> logs for the first difference it finds.\<close>

definition log_difference :: "logger \<Rightarrow> LimitadorStatus \<Rightarrow> LimitadorStatus \<Rightarrow> ('w, unit) op" where
  "log_difference logger s other =
    (if sta_ObservedGeneration s \<noteq> sta_ObservedGeneration other
     then Log_Info logger 1 ''status observedGeneration not equal''
       [(''difference'', LDiff (LInt (sta_ObservedGeneration s)) (LInt (sta_ObservedGeneration other)))]
     else if ConditionMarshal (sta_Conditions s) \<noteq> ConditionMarshal (sta_Conditions other)
     then Log_Info logger 1 ''status conditions not equal''
       [(''difference'', LDiff (LString (ConditionMarshal (sta_Conditions s)))
           (LString (ConditionMarshal (sta_Conditions other))))]
     else if sta_Service s \<noteq> sta_Service other
     then Log_Info logger 1 ''status service not equal''
       [(''difference'', LDiff (LService (sta_Service s)) (LService (sta_Service other)))]
     else ret ())"

lemma records_log_difference [simp, intro]: "records i (log_difference lg s t)"
  by (simp add: log_difference_def)

text \<open>\<^verbatim>\<open>fmt.Sprintf("sequence No: %v->%v", a, b)\<close>.\<close>

definition sequenceNo :: "int64 \<Rightarrow> int64 \<Rightarrow> string" where
  "sequenceNo a b = ''sequence No: '' @ Itoa (sint a) @ ''->'' @ Itoa (sint b)"

definition reconcileStatus ::
    "'w runtime \<Rightarrow> Context \<Rightarrow> Limitador \<Rightarrow> error option \<Rightarrow> ('w, error + Result) op" where
  "reconcileStatus rt ctx limitadorObj specErr =
    bind_go (StartReconcileStatusSpan rt ctx) (\<lambda>(ctx, span). deferred (span_End span) (
      or_err (ret (FromContext ctx)) (\<lambda>err. ret (Inl err)) (\<lambda>logger.
      or_err (calculateStatus rt limitadorObj specErr)
        (\<lambda>err. and_then (RecordError span err ''failed to calculate status'') (ret (Inl err)))
        (\<lambda>newStatus.
          let equalStatus = Equals (lim_Status limitadorObj) newStatus
          in and_then (log_difference logger (lim_Status limitadorObj) newStatus)
            (and_then (Log_Info logger 1 ''Status'' [(''status is different'', LBool (\<not> equalStatus))])
            (and_then (Log_Info logger 1 ''Status'' [(''generation is different'',
                LBool (lim_Generation limitadorObj \<noteq> sta_ObservedGeneration (lim_Status limitadorObj)))])
            (if equalStatus \<and>
                lim_Generation limitadorObj = sta_ObservedGeneration (lim_Status limitadorObj)
             then and_then (Log_Info logger 1 ''Status was not updated'' [])
               (and_then (RecordStatusCompleted span) (ret (Inr zeroResult)))
             else and_then (Log_Info logger 1 ''Updating Status'' [(''sequence no:'', LString
                 (sequenceNo (sta_ObservedGeneration (lim_Status limitadorObj)) (sta_ObservedGeneration newStatus)))])
               (if_err (UpdateResourceStatus rt ctx (OLimitador (statusPatch limitadorObj newStatus)))
               (\<lambda>updateErr. and_then (RecordError span updateErr ''failed to update status'')
                  (ret (Inl (ErrWrap ''failed to update status'' updateErr))))
               (and_then (RecordStatusCompleted span) (ret (Inr zeroResult)))))))))))"

section \<open>The abstract specification\<close>

text \<open>Why the deployment that was read does not count as available.\<close>

definition unavailable_reason :: "Deployment \<Rightarrow> string option" where
  "unavailable_reason d =
    (let st = dep_Status d; avail = find (\<lambda>c. dc_Type c = ''Available'') (dst_Conditions st)
     in if dst_ObservedGeneration st \<noteq> om_Generation (dep_ObjectMeta d) then Some ''Deployment still in progress''
        else case avail of None \<Rightarrow> Some ''Available condition not found''
          | Some c \<Rightarrow>
              if dc_Status c \<noteq> ConditionTrue then Some (dc_Message c)
              else if dst_UnavailableReplicas st \<noteq> 0 then Some ''Deployment has unavailable replicas''
              else if dst_ReadyReplicas st \<noteq> dst_Replicas st then Some ''Deployment has replicas not ready yet''
              else None)"

definition availability :: "error + Deployment \<Rightarrow> error + string option" where
  "availability r = (case r of Inr d \<Rightarrow> Inr (unavailable_reason d)
     | Inl e \<Rightarrow> if IsNotFound e then Inr (Some (Error e)) else Inl e)"

definition not_ready :: "string \<Rightarrow> string \<Rightarrow> Condition" where
  "not_ready reason msg = readyCond\<lparr>cond_Status := ConditionFalse, cond_Reason := reason, cond_Message := msg\<rparr>"

abbreviation deployment_key :: "Limitador \<Rightarrow> NamespacedName" where
  "deployment_key l \<equiv> \<lparr>nn_Name = DeploymentName l, nn_Namespace = lim_Namespace l\<rparr>"

definition condition_of :: "'w runtime \<Rightarrow> Limitador \<Rightarrow> error option \<Rightarrow> 'w \<Rightarrow> (error + Condition) \<times> 'w" where
  "condition_of rt l specErr w =
    (case specErr of Some e \<Rightarrow> (Inr (not_ready ''ReconcilliationError'' (Error e)), w)
     | None \<Rightarrow> (case cl_GetDeployment (rt_client rt) (deployment_key l) w of (d, w') \<Rightarrow>
         (map_sum id (\<lambda>reason. case reason of None \<Rightarrow> readyCond
            | Some msg \<Rightarrow> not_ready ''LimitadorNotAvailable'' msg) (availability d), w')))"

definition status_with :: "'w runtime \<Rightarrow> Limitador \<Rightarrow> Condition \<Rightarrow> LimitadorStatus" where
  "status_with rt l c =
    \<lparr>sta_ObservedGeneration = lim_Generation l,
     sta_Conditions = rt_SetStatusCondition rt (sta_Conditions (lim_Status l)) c,
     sta_Service = Some \<lparr>lsv_Host = buildServiceHost l,
       lsv_Ports = \<lparr>po_HTTP = HTTPPort l, po_GRPC = GRPCPort l\<rparr>\<rparr>\<rparr>"

text \<open>The resource already has the status.\<close>

definition status_current :: "Limitador \<Rightarrow> LimitadorStatus \<Rightarrow> bool" where
  "status_current l st \<longleftrightarrow> Equals (lim_Status l) st \<and> lim_Generation l = sta_ObservedGeneration (lim_Status l)"

definition status_step :: "'w runtime \<Rightarrow> Limitador \<Rightarrow> error option \<Rightarrow> ('w, error + Result) step" where
  "status_step rt l specErr w =
    (case condition_of rt l specErr w of
       (Inl e, w1) \<Rightarrow> (Done (Inl e), [], w1)
     | (Inr c, w1) \<Rightarrow>
         if status_current l (status_with rt l c) then (Done (Inr zeroResult), [], w1)
         else let x = OLimitador (statusPatch l (status_with rt l c))
              in case cl_StatusApply (rt_client rt) x True FieldManagerName w1 of (err, w2) \<Rightarrow>
                (Done (case err of None \<Rightarrow> Inr zeroResult
                   | Some e \<Rightarrow> Inl (ErrWrap ''failed to update status'' e)),
                 [ReqStatusApply x True FieldManagerName], w2))"

section \<open>Refinement\<close>

lemma performs_checkLimitadorAvailable:
  "performs S (checkLimitadorAvailable rt l) (\<lambda>w.
     case cl_GetDeployment (rt_client rt) (deployment_key l) w of (d, w') \<Rightarrow> (Done (availability d), [], w'))"
  unfolding checkLimitadorAvailable_def Let_def
  by (rule performsI, rule does_or_err, rule does_Get)
    (auto simp: availability_def unavailable_reason_def IgnoreNotFound_def Let_def
      FindDeploymentStatusCondition_eq_find intro!: does_ret
      split: sum.splits prod.splits option.splits)

lemma performs_readyCondition:
  "performs S (readyCondition rt l specErr) (\<lambda>w. case condition_of rt l specErr w of (c, w') \<Rightarrow> (Done c, [], w'))"
proof (cases specErr)
  case None
  show ?thesis
    unfolding readyCondition_def None option.case
    by (rule performsI, rule does_or_err, rule does_performs [OF performs_checkLimitadorAvailable])
      (auto simp: condition_of_def not_ready_def intro!: does_ret split: sum.splits prod.splits option.splits)
next
  case (Some e)
  then show ?thesis
    by (auto simp: readyCondition_def condition_of_def not_ready_def intro!: performsI does_ret)
qed

lemma performs_calculateStatus:
  "performs S (calculateStatus rt l specErr) (\<lambda>w. case condition_of rt l specErr w of
     (c, w') \<Rightarrow> (Done (map_sum id (status_with rt l) c), [], w'))"
  unfolding calculateStatus_def Let_def
  by (rule performsI, rule does_or_err, rule does_performs [OF performs_readyCondition])
    (auto simp: status_with_def intro!: does_ret split: sum.splits prod.splits)

lemma performs_reconcileStatus:
  assumes "ctx_ok ctx"
  shows "performs S (reconcileStatus rt ctx l specErr) (status_step rt l specErr)"
  unfolding reconcileStatus_def Let_def
proof (rule performsI, rule does_StartReconcileStatusSpan [OF ctx_ok_base [OF assms]],
    rule does_or_err_FromContext, erule body_ctxD, rule does_or_err,
    rule does_performs [OF performs_calculateStatus], goal_cases)
  case (1 w i ctx' logger)
  note upd = does_performs [OF performs_UpdateResourceStatus [OF body_ctxD(1) [OF 1]]]
  show ?case
    by (auto simp: status_step_def status_current_def Let_def intro!: does_records_then [of i] does_ret
        does_if_err upd split: sum.splits prod.splits option.splits)
qed

end
