(* ===== verification/Limitador_Controller.thy ===== *)
theory Limitador_Controller
  imports K8s_Objects Limitador_Status
begin

text \<open>
  \<^verbatim>\<open>controllers/limitador_controller.go\<close>: the reconciliation of a Limitador. The handlers are
  translated with their spans; the lemmas show that each performs an abstract step - build the
  object, set its owner, send it - and that \<open>reconcileSpec\<close> and \<open>Reconcile\<close> are the composition of
  those steps, whatever the client answers.
\<close>

section \<open>Deployment options\<close>

definition getDeploymentStorageOptions ::
    "'w runtime \<Rightarrow> Limitador \<Rightarrow> ('w, error + DeploymentStorageOptions) op" where
  "getDeploymentStorageOptions rt limObj =
    (case sp_Storage (lim_Spec limObj) of
       None \<Rightarrow> ret InMemoryDeploymentOptions
     | Some storage \<Rightarrow>
         (case sto_Redis storage of
            Some redis \<Rightarrow> RedisDeploymentOptions rt (lim_Namespace limObj) redis
          | None \<Rightarrow>
              (case sto_RedisCached storage of
                 Some redisCached \<Rightarrow> RedisCachedDeploymentOptions rt (lim_Namespace limObj) redisCached
               | None \<Rightarrow>
                   (case sto_Disk storage of
                      Some disk \<Rightarrow> ret (DiskDeploymentOptions limObj disk)
                    | None \<Rightarrow> ret InMemoryDeploymentOptions))))"

definition getDeploymentEnvVar :: "Limitador \<Rightarrow> error + EnvVar list" where
  "getDeploymentEnvVar limObj =
    (case sp_Storage (lim_Spec limObj) of
       None \<Rightarrow> Inr []
     | Some storage \<Rightarrow>
         (case sto_Redis storage of
            Some redis \<Rightarrow> DeploymentEnvVar (re_ConfigSecretRef redis)
          | None \<Rightarrow>
              (case sto_RedisCached storage of
                 Some redisCached \<Rightarrow> DeploymentEnvVar (rc_ConfigSecretRef redisCached)
               | None \<Rightarrow> Inr [])))"

definition getDeploymentImagePullSecrets :: "Limitador \<Rightarrow> LocalObjectReference list" where
  "getDeploymentImagePullSecrets limObj = sp_ImagePullSecrets (lim_Spec limObj)"

definition getDeploymentOptions :: "'w runtime \<Rightarrow> Limitador \<Rightarrow> ('w, error + DeploymentOptions) op" where
  "getDeploymentOptions rt limObj =
     or_err (getDeploymentStorageOptions rt limObj) (\<lambda>err. ret (Inl err))
       (\<lambda>deploymentStorageOptions.
         bind_go (lift_outcome (DeploymentArgs limObj deploymentStorageOptions)) (\<lambda>args.
         case getDeploymentEnvVar limObj of
           Inl err \<Rightarrow> ret (Inl err)
         | Inr envVar \<Rightarrow> ret (Inr
             \<lparr>do_Args = args,
              do_VolumeMounts = DeploymentVolumeMounts deploymentStorageOptions,
              do_Volumes = DeploymentVolumes limObj deploymentStorageOptions,
              do_DeploymentStrategy = dso_DeploymentStrategy deploymentStorageOptions,
              do_EnvVar = envVar,
              do_ImagePullSecrets = getDeploymentImagePullSecrets limObj\<rparr>)))"

section \<open>Handlers\<close>

definition reconcilePdb :: "'w runtime \<Rightarrow> Context \<Rightarrow> Limitador \<Rightarrow> ('w, error option) op" where
  "reconcilePdb rt ctx limitadorObj =
    bind_go (StartResourceSpan rt ctx ''PodDisruptionBudget'' (lim_Namespace limitadorObj)
        (PodDisruptionBudgetName limitadorObj)) (\<lambda>(ctx, span). deferred (span_End span) (
      or_err (ret (FromContext ctx)) (\<lambda>err. ret (Some err)) (\<lambda>logger.
      let pdb = PodDisruptionBudget limitadorObj
      in or_err (SetOwnerReference rt limitadorObj (pdb_TypeMeta pdb, pdb_ObjectMeta pdb))
        (\<lambda>err. and_then (RecordError span err ''failed to set owner reference'') (ret (Some err)))
        (\<lambda>m. bind_go (ReconcilePodDisruptionBudget rt ctx (pdb\<lparr>pdb_ObjectMeta := m\<rparr>)) (\<lambda>err.
          and_then (Log_Info logger 1 ''reconcile pdb'' [(''error'', LErr err)])
          (if_err (ret err)
            (\<lambda>err. and_then (RecordError span err ''failed to reconcile PodDisruptionBudget'') (ret (Some err)))
            (and_then (span_SetStatus span CodeOk '''') (ret None))))))))"

definition reconcileDeployment :: "'w runtime \<Rightarrow> Context \<Rightarrow> Limitador \<Rightarrow> ('w, error option) op" where
  "reconcileDeployment rt ctx limitadorObj =
    bind_go (StartResourceSpan rt ctx ''Deployment'' (lim_Namespace limitadorObj)
        (DeploymentName limitadorObj)) (\<lambda>(ctx, span). deferred (span_End span) (
      or_err (ret (FromContext ctx)) (\<lambda>err. ret (Some err)) (\<lambda>logger.
      or_err (getDeploymentOptions rt limitadorObj)
        (\<lambda>err. and_then (RecordError span err ''failed to get deployment options'') (ret (Some err)))
        (\<lambda>deploymentOptions.
          let deployment = Deployment (rt_GetString rt) limitadorObj deploymentOptions
          in or_err (SetOwnerReference rt limitadorObj (dep_TypeMeta deployment, dep_ObjectMeta deployment))
            (\<lambda>err. and_then (RecordError span err ''failed to set owner reference'') (ret (Some err)))
            (\<lambda>m. bind_go (ReconcileDeployment rt ctx (deployment\<lparr>dep_ObjectMeta := m\<rparr>)) (\<lambda>err.
              and_then (Log_Info logger 1 ''reconcile deployment'' [(''error'', LErr err)])
              (if_err (ret err)
                (\<lambda>err. and_then (RecordError span err ''failed to reconcile deployment'') (ret (Some err)))
                (and_then (span_SetStatus span CodeOk '''') (ret None)))))))))"

definition reconcileService :: "'w runtime \<Rightarrow> Context \<Rightarrow> Limitador \<Rightarrow> ('w, error option) op" where
  "reconcileService rt ctx limitadorObj =
    bind_go (StartResourceSpan rt ctx ''Service'' (lim_Namespace limitadorObj)
        (ServiceName limitadorObj)) (\<lambda>(ctx, span). deferred (span_End span) (
      or_err (ret (FromContext ctx)) (\<lambda>err. ret (Some err)) (\<lambda>logger.
      let limitadorService = Service limitadorObj
      in or_err (SetOwnerReference rt limitadorObj (svc_TypeMeta limitadorService, svc_ObjectMeta limitadorService))
        (\<lambda>err. and_then (RecordError span err ''failed to set owner reference'') (ret (Some err)))
        (\<lambda>m. bind_go (ReconcileService rt ctx (limitadorService\<lparr>svc_ObjectMeta := m\<rparr>)) (\<lambda>err.
          and_then (Log_Info logger 1 ''reconcile service'' [(''error'', LErr err)])
          (if_err (ret err)
            (\<lambda>err. and_then (RecordError span err ''failed to reconcile service'') (ret (Some err)))
            (and_then (span_SetStatus span CodeOk '''') (ret None))))))))"

definition reconcilePVC :: "'w runtime \<Rightarrow> Context \<Rightarrow> Limitador \<Rightarrow> ('w, error option) op" where
  "reconcilePVC rt ctx limitadorObj =
    bind_go (StartResourceSpan rt ctx ''PersistentVolumeClaim'' (lim_Namespace limitadorObj)
        (PVCName limitadorObj)) (\<lambda>(ctx, span). deferred (span_End span) (
      or_err (ret (FromContext ctx)) (\<lambda>err. ret (Some err)) (\<lambda>logger.
      let pvc = PVC limitadorObj
      in or_err (SetOwnerReference rt limitadorObj (pvc_TypeMeta pvc, pvc_ObjectMeta pvc))
        (\<lambda>err. and_then (RecordError span err ''failed to set owner reference'') (ret (Some err)))
        (\<lambda>m. bind_go (ReconcilePersistentVolumeClaim rt ctx (pvc\<lparr>pvc_ObjectMeta := m\<rparr>)) (\<lambda>err.
          and_then (Log_Info logger 1 ''reconcile pvc'' [(''error'', LErr err)])
          (if_err (ret err)
            (\<lambda>err. and_then (RecordError span err ''failed to reconcile PVC'') (ret (Some err)))
            (and_then (span_SetStatus span CodeOk '''') (ret None))))))))"

definition reconcileLimitsConfigMap :: "'w runtime \<Rightarrow> Context \<Rightarrow> Limitador \<Rightarrow> ('w, error option) op" where
  "reconcileLimitsConfigMap rt ctx limitadorObj =
    bind_go (StartResourceSpan rt ctx ''ConfigMap'' (lim_Namespace limitadorObj)
        (LimitsConfigMapName limitadorObj)) (\<lambda>(ctx, span). deferred (span_End span) (
      or_err (ret (FromContext ctx)) (\<lambda>err. ret (Some err)) (\<lambda>logger.
      or_err (ret (LimitsConfigMap (rt_yamlMarshal rt) limitadorObj))
        (\<lambda>err. and_then (RecordError span err ''failed to create limits ConfigMap'') (ret (Some err)))
        (\<lambda>limitsConfigMap.
          or_err (SetOwnerReference rt limitadorObj (cm_TypeMeta limitsConfigMap, cm_ObjectMeta limitsConfigMap))
            (\<lambda>err. and_then (RecordError span err ''failed to set owner reference'') (ret (Some err)))
            (\<lambda>m. bind_go (ReconcileConfigMap rt ctx (limitsConfigMap\<lparr>cm_ObjectMeta := m\<rparr>)) (\<lambda>err.
              and_then (Log_Info logger 1 ''reconcile limits ConfigMap'' [(''error'', LErr err)])
              (if_err (ret err)
                (\<lambda>err. and_then (RecordError span err ''failed to reconcile limits ConfigMap'') (ret (Some err)))
                (and_then (span_SetStatus span CodeOk '''') (ret None)))))))))"

text \<open>The loop over the pods: a pod whose annotation differs from the version is patched.\<close>

primrec annotatePods ::
    "'w runtime \<Rightarrow> Context \<Rightarrow> span_id \<Rightarrow> string \<Rightarrow> Pod list \<Rightarrow> ('w, error + Result) op" where
  "annotatePods rt ctx span version [] =
     and_then (span_SetStatus span CodeOk '''') (ret (Inr zeroResult))"
| "annotatePods rt ctx span version (pod # pods) =
    (if map_read (om_Annotations (pod_ObjectMeta pod)) PodAnnotationConfigMapResourceVersion \<noteq> version
     then if_err (ReconcilePodAnnotation rt ctx (om_Name (pod_ObjectMeta pod)) (om_Namespace (pod_ObjectMeta pod))
              PodAnnotationConfigMapResourceVersion version)
            (\<lambda>err. and_then (RecordError span err ''failed to update pod annotation'') (ret (Inl err)))
            (annotatePods rt ctx span version pods)
     else annotatePods rt ctx span version pods)"

definition requeue :: Result where
  "requeue = \<lparr>res_Requeue = True, res_RequeueAfter = 0\<rparr>"

text \<open>The pods that were listed: the early requeues, the read of the config map, the loop.\<close>

definition reconcilePodList ::
    "'w runtime \<Rightarrow> Context \<Rightarrow> span_id \<Rightarrow> Limitador \<Rightarrow> Pod list \<Rightarrow> ('w, error + Result) op" where
  "reconcilePodList rt ctx span limitadorObj items =
    (if length items = 0
     then and_then (span_SetStatus span CodeOk '''') (ret (Inr requeue))
     else if sp_Replicas (lim_Spec limitadorObj) \<noteq> None
             \<and> int (length items) \<noteq> sint (GetReplicas limitadorObj)
     then and_then (span_SetStatus span CodeOk '''') (ret (Inr requeue))
     else or_err (Client_GetConfigMap rt
            \<lparr>nn_Name = LimitsConfigMapName limitadorObj, nn_Namespace = lim_Namespace limitadorObj\<rparr>)
       (\<lambda>err. if IsNotFound err
          then and_then (span_SetStatus span CodeOk '''') (ret (Inr requeue))
          else and_then (RecordError span err ''failed to get limits ConfigMap'') (ret (Inl err)))
       (\<lambda>cm. annotatePods rt ctx span (om_ResourceVersion (cm_ObjectMeta cm)) items))"

definition reconcilePodLimitsHashAnnotation ::
    "'w runtime \<Rightarrow> Context \<Rightarrow> Limitador \<Rightarrow> ('w, error + Result) op" where
  "reconcilePodLimitsHashAnnotation rt ctx limitadorObj =
    bind_go (StartResourceSpan rt ctx ''PodAnnotation'' (lim_Namespace limitadorObj)
        (DeploymentName limitadorObj)) (\<lambda>(ctx, span). deferred (span_End span) (
      or_err (Client_ListPods rt (lim_Namespace limitadorObj) (SelectorLabels limitadorObj))
        (\<lambda>err. and_then (RecordError span err ''failed to list pods'') (ret (Inl err)))
        (\<lambda>items. reconcilePodList rt ctx span limitadorObj items)))"

definition reconcileSpec :: "'w runtime \<Rightarrow> Context \<Rightarrow> Limitador \<Rightarrow> ('w, error + Result) op" where
  "reconcileSpec rt ctx limitadorObj =
    bind_go (StartReconcileSpecSpan rt ctx) (\<lambda>(ctx, span). deferred (span_End span) (
      if_err (reconcileService rt ctx limitadorObj)
        (\<lambda>err. and_then (RecordError span err ''failed to reconcile service'') (ret (Inl err)))
     (if_err (reconcilePVC rt ctx limitadorObj)
        (\<lambda>err. and_then (RecordError span err ''failed to reconcile PVC'') (ret (Inl err)))
     (if_err (reconcileDeployment rt ctx limitadorObj)
        (\<lambda>err. and_then (RecordError span err ''failed to reconcile deployment'') (ret (Inl err)))
     (if_err (reconcileLimitsConfigMap rt ctx limitadorObj)
        (\<lambda>err. and_then (RecordError span err ''failed to reconcile limits ConfigMap'') (ret (Inl err)))
     (if_err (reconcilePdb rt ctx limitadorObj)
        (\<lambda>err. and_then (RecordError span err ''failed to reconcile PodDisruptionBudget'') (ret (Inl err)))
     (or_err (reconcilePodLimitsHashAnnotation rt ctx limitadorObj)
        (\<lambda>err. and_then (RecordError span err ''failed to reconcile pod annotations'') (ret (Inl err)))
        (\<lambda>result. and_then (RecordSpecCompleted span) (ret (Inr result))))))))))"

section \<open>Reconcile\<close>

definition storageTypeOf :: "Limitador \<Rightarrow> string" where
  "storageTypeOf limitadorObj =
    (case sp_Storage (lim_Spec limitadorObj) of
       None \<Rightarrow> ''memory''
     | Some storage \<Rightarrow>
         if sto_RedisCached storage \<noteq> None then ''redis-cached''
         else if sto_Redis storage \<noteq> None then ''redis''
         else if sto_Disk storage \<noteq> None then ''disk''
         else ''memory'')"

text \<open>
  The request is the namespaced name of the resource. \<open>when_go\<close> is an \<^verbatim>\<open>if\<close> without \<^verbatim>\<open>else\<close>. The body of \<^verbatim>\<open>Reconcile\<close> is
  cut in three: the read of the resource, what is done with one that was found, and the two
  reconciliations with their results.
\<close>

definition when_go :: "bool \<Rightarrow> ('w, unit) op \<Rightarrow> ('w, unit) op" where
  "when_go b m = (if b then m else ret ())"

definition reconcileObject ::
    "'w runtime \<Rightarrow> Context \<Rightarrow> logger \<Rightarrow> span_id \<Rightarrow> Limitador \<Rightarrow> ('w, error + Result) op" where
  "reconcileObject rt ctx logger span limitadorObj =
     bind_go (reconcileSpec rt ctx limitadorObj) (\<lambda>specResult.
     let specErr = (case specResult of Inl e \<Rightarrow> Some e | Inr res \<Rightarrow> None)
     in bind_go (reconcileStatus rt ctx limitadorObj specErr) (\<lambda>statusResult.
     case specResult of
       Inl e \<Rightarrow> and_then (RecordError span e ''spec reconciliation failed'') (ret (Inl e))
     | Inr spec \<Rightarrow>
         (case statusResult of
            Inl e \<Rightarrow> and_then (RecordError span e ''status reconciliation failed'') (ret (Inl e))
          | Inr status \<Rightarrow>
              if sint (res_RequeueAfter spec) > 0
              then and_then (Log_Info logger 1 ''Reconciling spec not finished. Requeueing.'' [])
                (and_then (RecordReconcileResult span spec None) (ret (Inr spec)))
              else if sint (res_RequeueAfter status) > 0
              then and_then (Log_Info logger 1 ''Reconciling status not finished. Requeueing.'' [])
                (and_then (RecordReconcileResult span status None) (ret (Inr status)))
              else and_then (Log_Info logger 0 ''successfully reconciled'' [])
                (and_then (RecordReconcileResult span zeroResult None) (ret (Inr zeroResult))))))"

definition reconcileFound ::
    "'w runtime \<Rightarrow> Context \<Rightarrow> logger \<Rightarrow> span_id \<Rightarrow> Limitador \<Rightarrow> ('w, error + Result) op" where
  "reconcileFound rt ctx logger span limitadorObj =
    (let linkSpanCtx = rt_Extract rt (om_Annotations (lim_ObjectMeta limitadorObj))
     in and_then (when_go (sc_IsValid linkSpanCtx) (span_AddLink span linkSpanCtx))
       (and_then (AddLimitadorAttributes span (lim_Namespace limitadorObj) (lim_Name limitadorObj)
                    (GetReplicas limitadorObj) (storageTypeOf limitadorObj))
       (if_err (if rt_debugEnabled rt
                then (case rt_jsonMarshalIndent rt limitadorObj of
                    Inl err \<Rightarrow> ret (Some err)
                  | Inr jsonData \<Rightarrow> and_then (Log_Info logger 1 jsonData []) (ret None))
                else ret None)
         (\<lambda>err. and_then (RecordError span err ''failed to marshal Limitador object to JSON'') (ret (Inl err)))
       (if om_DeletionTimestamp (lim_ObjectMeta limitadorObj) \<noteq> None
        then and_then (Log_Info logger 0 ''marked to be deleted'' [])
          (and_then (RecordReconcileResult span zeroResult None) (ret (Inr zeroResult)))
        else reconcileObject rt ctx logger span limitadorObj))))"

text \<open>The logger of the function: the base logger, with the span's identifiers when it is recorded.\<close>

definition recording_logger :: "'w runtime \<Rightarrow> span_id \<Rightarrow> logger \<Rightarrow> logger" where
  "recording_logger rt span logger =
    (if rt_IsRecording rt span
     then WithValues logger [(''trace_id'', sc_TraceID (rt_SpanContext rt span)),
                             (''span_id'', sc_SpanID (rt_SpanContext rt span))]
     else logger)"

definition base_logger :: "'w runtime \<Rightarrow> NamespacedName \<Rightarrow> logger" where
  "base_logger rt req = WithValues (rt_Logger rt) [(''limitador'', nn_Namespace req @ ''/'' @ nn_Name req)]"

definition Reconcile :: "'w runtime \<Rightarrow> Context \<Rightarrow> NamespacedName \<Rightarrow> ('w, error + Result) op" where
  "Reconcile rt eventCtx req =
    (let ctx = StoreBaseLogger eventCtx (base_logger rt req)
     in bind_go (StartReconcileSpan rt ctx req []) (\<lambda>(ctx, span). deferred (span_End span) (
      let logger = recording_logger rt span (base_logger rt req)
      in and_then (Log_Info logger 1 ''Reconciling Limitador'' [])
      (or_err (Client_GetLimitador rt req)
        (\<lambda>err. if IsNotFound err
           then and_then (Log_Info logger 0 ''no object found'' [])
             (and_then (RecordReconcileResult span zeroResult None) (ret (Inr zeroResult)))
           else and_then (Log_Error logger err ''Failed to get Limitador object.'' [])
             (and_then (RecordError span err ''failed to get Limitador object'') (ret (Inl err))))
        (\<lambda>limitadorObj. reconcileFound rt ctx logger span limitadorObj)))))"

text \<open>What the manager is asked to watch: the resource and the owned kinds.\<close>

definition SetupWithManager :: "kind \<times> kind list" where
  "SetupWithManager = (KLimitador, [KDeployment, KConfigMap, KPodDisruptionBudget])"

end
