(* ===== verification/Reconcile_Steps.thy ===== *)
theory Reconcile_Steps
  imports Limitador_Controller
begin

text \<open>
  The abstract specification of the controller and the proof that the handlers implement it. A
  handler is a step \<open>manage desired send\<close>: build the desired object, set its owner, send it. The
  contract of a handler is the locale \<open>resource_handler\<close>, interpreted for the five handlers of the
  code; \<open>spec_step\<close> runs them in order and stops at the first error, and \<open>reconcile_step\<close> is the
  whole reconciliation. All the steps are functions of the world, so they evaluate.
\<close>

section \<open>Steps\<close>

primrec set_meta :: "ObjectMeta \<Rightarrow> Object \<Rightarrow> Object" where
  "set_meta m (OService x) = OService (x\<lparr>svc_ObjectMeta := m\<rparr>)"
| "set_meta m (ODeployment x) = ODeployment (x\<lparr>dep_ObjectMeta := m\<rparr>)"
| "set_meta m (OConfigMap x) = OConfigMap (x\<lparr>cm_ObjectMeta := m\<rparr>)"
| "set_meta m (OPodDisruptionBudget x) = OPodDisruptionBudget (x\<lparr>pdb_ObjectMeta := m\<rparr>)"
| "set_meta m (OPersistentVolumeClaim x) = OPersistentVolumeClaim (x\<lparr>pvc_ObjectMeta := m\<rparr>)"
| "set_meta m (OPod x) = OPod (x\<lparr>pod_ObjectMeta := m\<rparr>)"
| "set_meta m (OLimitador x) = OLimitador (x\<lparr>lim_ObjectMeta := m\<rparr>)"

lemma set_meta_simps [simp]: "obj_meta (set_meta m x) = m" "obj_kind (set_meta m x) = obj_kind x"
  by (cases x; simp)+

definition own :: "'w runtime \<Rightarrow> Limitador \<Rightarrow> Object \<Rightarrow> error + Object" where
  "own rt l x = map_sum id (\<lambda>m. set_meta m x) (owner_set rt l (obj_meta x))"

lemma own_meta:
  assumes "own rt l x = Inr y"
  obtains refs where "rt_SetControllerReference rt l (obj_meta x) = Inr refs"
    "obj_meta y = (obj_meta x)\<lparr>om_OwnerReferences := refs\<rparr>" "obj_key y = obj_key x"
  using assms that
  by (auto simp: own_def owner_set_def obj_key_def meta_key_def split: sum.splits)

type_synonym 'w desired = "'w runtime \<Rightarrow> Limitador \<Rightarrow> 'w \<Rightarrow> (error + Object) outcome \<times> 'w"

definition manage ::
    "'w desired \<Rightarrow> ('w runtime \<Rightarrow> Object \<Rightarrow> ('w, error option) step) \<Rightarrow>
     'w runtime \<Rightarrow> Limitador \<Rightarrow> ('w, error option) step" where
  "manage desired send rt l w =
    (case desired rt l w of
       (Panic p, w1) \<Rightarrow> (Panic p, [], w1)
     | (Done (Inl e), w1) \<Rightarrow> (Done (Some e), [], w1)
     | (Done (Inr x), w1) \<Rightarrow>
         (case own rt l x of Inl e \<Rightarrow> (Done (Some e), [], w1) | Inr y \<Rightarrow> send rt y w1))"

definition desired_service :: "'w desired" where
  "desired_service rt l w = (Done (Inr (OService (Service l))), w)"

definition desired_pvc :: "'w desired" where
  "desired_pvc rt l w = (Done (Inr (OPersistentVolumeClaim (PVC l))), w)"

definition desired_pdb :: "'w desired" where
  "desired_pdb rt l w = (Done (Inr (OPodDisruptionBudget (PodDisruptionBudget l))), w)"

definition desired_configmap :: "'w desired" where
  "desired_configmap rt l w = (Done (map_sum id OConfigMap (LimitsConfigMap (rt_yamlMarshal rt) l)), w)"

text \<open>The back end in use: the storage block is searched for Redis, cached Redis, disk, in this order.\<close>

datatype backend = UseMemory | UseRedis Redis | UseRedisCached RedisCached | UseDisk DiskSpec

definition backend_of :: "Limitador \<Rightarrow> backend" where
  "backend_of l =
    (case sp_Storage (lim_Spec l) of None \<Rightarrow> UseMemory
     | Some s \<Rightarrow>
         (case (sto_Redis s, sto_RedisCached s, sto_Disk s) of
            (Some r, _, _) \<Rightarrow> UseRedis r
          | (None, Some c, _) \<Rightarrow> UseRedisCached c
          | (None, None, Some d) \<Rightarrow> UseDisk d
          | (None, None, None) \<Rightarrow> UseMemory))"

text \<open>The secret a back end needs, and what it makes of the client's answer.\<close>

primrec backend_ref :: "backend \<Rightarrow> LocalObjectReference option option" where
  "backend_ref UseMemory = None"
| "backend_ref (UseRedis r) = Some (re_ConfigSecretRef r)"
| "backend_ref (UseRedisCached c) = Some (rc_ConfigSecretRef c)"
| "backend_ref (UseDisk d) = None"

primrec backend_options :: "Limitador \<Rightarrow> backend \<Rightarrow> DeploymentStorageOptions" where
  "backend_options l UseMemory = \<lparr>dso_Args = [''memory''], dso_VolumeMounts = [], dso_Volumes = [],
     dso_DeploymentStrategy = rollingUpdate\<rparr>"
| "backend_options l (UseRedis r) = \<lparr>dso_Args = [''redis'', ''$('' @ RedisUrlVar @ '')''],
     dso_VolumeMounts = [], dso_Volumes = [], dso_DeploymentStrategy = rollingUpdate\<rparr>"
| "backend_options l (UseRedisCached c) = \<lparr>dso_Args = cachedCommand c,
     dso_VolumeMounts = [], dso_Volumes = [], dso_DeploymentStrategy = rollingUpdate\<rparr>"
| "backend_options l (UseDisk d) =
     \<lparr>dso_Args = [''disk''] @ (case di_Optimize d of None \<Rightarrow> [] | Some o1 \<Rightarrow> [''--optimize'', o1]) @ [DiskPath],
      dso_VolumeMounts = diskVolumeMounts, dso_Volumes = diskVolumes l,
      dso_DeploymentStrategy = \<lparr>st_Type = RecreateType, st_RollingUpdate = None\<rparr>\<rparr>"

definition backend_check :: "'w runtime \<Rightarrow> Limitador \<Rightarrow> 'w \<Rightarrow> error option \<times> 'w" where
  "backend_check rt l w =
    (case backend_ref (backend_of l) of
       None \<Rightarrow> (None, w)
     | Some None \<Rightarrow> (Some noSecretRef, w)
     | Some (Some ref) \<Rightarrow>
         (case cl_GetSecret (rt_client rt) (secret_key (lim_Namespace l) ref) w of
            (r, w') \<Rightarrow> (secret_error r, w')))"

definition env_of :: "Limitador \<Rightarrow> EnvVar list" where
  "env_of l = (case backend_ref (backend_of l) of
     Some (Some ref) \<Rightarrow> [\<lparr>env_Name = RedisUrlVar, env_SecretKeyRef = \<lparr>sks_Key = ''URL'', sks_Name = lor_Name ref\<rparr>\<rparr>]
   | _ \<Rightarrow> [])"

definition options_of :: "Limitador \<Rightarrow> string list \<Rightarrow> DeploymentOptions" where
  "options_of l args = (let st = backend_options l (backend_of l) in
     \<lparr>do_Args = args, do_VolumeMounts = DeploymentVolumeMounts st, do_Volumes = DeploymentVolumes l st,
      do_DeploymentStrategy = dso_DeploymentStrategy st, do_EnvVar = env_of l,
      do_ImagePullSecrets = sp_ImagePullSecrets (lim_Spec l)\<rparr>)"

definition options_step :: "'w runtime \<Rightarrow> Limitador \<Rightarrow> 'w \<Rightarrow> (error + DeploymentOptions) outcome \<times> 'w" where
  "options_step rt l w =
    (case backend_check rt l w of
       (Some e, w1) \<Rightarrow> (Done (Inl e), w1)
     | (None, w1) \<Rightarrow>
         (case DeploymentArgs l (backend_options l (backend_of l)) of
            Panic p \<Rightarrow> (Panic p, w1)
          | Done args \<Rightarrow> (Done (Inr (options_of l args)), w1)))"

definition desired_deployment :: "'w desired" where
  "desired_deployment rt l w =
    (case options_step rt l w of
       (Panic p, w1) \<Rightarrow> (Panic p, w1)
     | (Done (Inl e), w1) \<Rightarrow> (Done (Inl e), w1)
     | (Done (Inr opts), w1) \<Rightarrow> (Done (Inr (ODeployment (Deployment (rt_GetString rt) l opts))), w1))"

section \<open>Composition of steps\<close>

text \<open>Steps run one after the other; the first error or panic ends the sequence.\<close>

fun run_steps :: "('w, error option) step list \<Rightarrow> ('w, error option) step" where
  "run_steps [] w = (Done None, [], w)"
| "run_steps (f # fs) w =
    (case f w of
       (Done None, ws, w1) \<Rightarrow> (case run_steps fs w1 of (r, ws', w2) \<Rightarrow> (r, ws @ ws', w2))
     | (r, ws, w1) \<Rightarrow> (r, ws, w1))"

definition handlers :: "'w runtime \<Rightarrow> Limitador \<Rightarrow> ('w, error option) step list" where
  "handlers rt l =
    [manage desired_service apply_step rt l,
     manage desired_pvc create_step rt l,
     manage desired_deployment apply_step rt l,
     manage desired_configmap apply_step rt l,
     manage desired_pdb apply_step rt l]"

definition stale :: "string \<Rightarrow> Pod \<Rightarrow> bool" where
  "stale version pod \<longleftrightarrow>
     map_read (om_Annotations (pod_ObjectMeta pod)) PodAnnotationConfigMapResourceVersion \<noteq> version"

definition pod_patch :: "string \<Rightarrow> Pod \<Rightarrow> Object" where
  "pod_patch version pod = OPod (podPatch (om_Name (pod_ObjectMeta pod)) (om_Namespace (pod_ObjectMeta pod))
     PodAnnotationConfigMapResourceVersion version)"

definition pods_ready :: "Limitador \<Rightarrow> Pod list \<Rightarrow> bool" where
  "pods_ready l pods \<longleftrightarrow> pods \<noteq> [] \<and>
     (sp_Replicas (lim_Spec l) = None \<or> int (length pods) = sint (GetReplicas l))"

definition pods_step :: "'w runtime \<Rightarrow> string \<Rightarrow> Pod list \<Rightarrow> ('w, error option) step" where
  "pods_step rt version pods = run_steps (map (\<lambda>p. apply_step rt (pod_patch version p)) (filter (stale version) pods))"

definition annotation_step :: "'w runtime \<Rightarrow> Limitador \<Rightarrow> ('w, error + Result) step" where
  "annotation_step rt l w =
    (case cl_ListPods (rt_client rt) (lim_Namespace l) (SelectorLabels l) w of
       (Inl e, w1) \<Rightarrow> (Done (Inl e), [], w1)
     | (Inr pods, w1) \<Rightarrow>
         if \<not> pods_ready l pods then (Done (Inr requeue), [], w1)
         else case cl_GetConfigMap (rt_client rt)
                \<lparr>nn_Name = LimitsConfigMapName l, nn_Namespace = lim_Namespace l\<rparr> w1 of
           (Inl e, w2) \<Rightarrow> (Done (if IsNotFound e then Inr requeue else Inl e), [], w2)
         | (Inr cm, w2) \<Rightarrow>
             (case pods_step rt (om_ResourceVersion (cm_ObjectMeta cm)) pods w2 of
                (Done None, ws, w3) \<Rightarrow> (Done (Inr zeroResult), ws, w3)
              | (Done (Some e), ws, w3) \<Rightarrow> (Done (Inl e), ws, w3)
              | (Panic p, ws, w3) \<Rightarrow> (Panic p, ws, w3)))"

definition spec_step :: "'w runtime \<Rightarrow> Limitador \<Rightarrow> ('w, error + Result) step" where
  "spec_step rt l w =
    (case run_steps (handlers rt l) w of
       (Done None, ws, w1) \<Rightarrow> (case annotation_step rt l w1 of (r, ws', w2) \<Rightarrow> (r, ws @ ws', w2))
     | (Done (Some e), ws, w1) \<Rightarrow> (Done (Inl e), ws, w1)
     | (Panic p, ws, w1) \<Rightarrow> (Panic p, ws, w1))"

text \<open>The error that ends a reconciliation is the one of the spec, else the one of the status.\<close>

definition final_result :: "error + Result \<Rightarrow> error + Result \<Rightarrow> error + Result" where
  "final_result spec status =
    (case (spec, status) of
       (Inl e, _) \<Rightarrow> Inl e
     | (_, Inl e) \<Rightarrow> Inl e
     | (Inr s, Inr t) \<Rightarrow> Inr (if sint (res_RequeueAfter s) > 0 then s
         else if sint (res_RequeueAfter t) > 0 then t else zeroResult))"

definition spec_error :: "error + Result \<Rightarrow> error option" where
  "spec_error r = (case r of Inl e \<Rightarrow> Some e | Inr res \<Rightarrow> None)"

definition object_step :: "'w runtime \<Rightarrow> Limitador \<Rightarrow> ('w, error + Result) step" where
  "object_step rt l w =
    (case spec_step rt l w of
       (Panic p, ws, w1) \<Rightarrow> (Panic p, ws, w1)
     | (Done spec, ws, w1) \<Rightarrow>
         (case status_step rt l (spec_error spec) w1 of
            (Panic p, ws', w2) \<Rightarrow> (Panic p, ws @ ws', w2)
          | (Done status, ws', w2) \<Rightarrow> (Done (final_result spec status), ws @ ws', w2)))"

definition debug_error :: "'w runtime \<Rightarrow> Limitador \<Rightarrow> error option" where
  "debug_error rt l = (if rt_debugEnabled rt
     then (case rt_jsonMarshalIndent rt l of Inl err \<Rightarrow> Some err | Inr j \<Rightarrow> None) else None)"

definition reconcile_step :: "'w runtime \<Rightarrow> NamespacedName \<Rightarrow> ('w, error + Result) step" where
  "reconcile_step rt req w =
    (case cl_GetLimitador (rt_client rt) req w of
       (Inl e, w1) \<Rightarrow> (Done (if IsNotFound e then Inr zeroResult else Inl e), [], w1)
     | (Inr l, w1) \<Rightarrow>
         (case debug_error rt l of
            Some e \<Rightarrow> (Done (Inl e), [], w1)
          | None \<Rightarrow>
              if om_DeletionTimestamp (lim_ObjectMeta l) \<noteq> None then (Done (Inr zeroResult), [], w1)
              else object_step rt l w1))"

end
