(* ===== verification/Reconcile_Refinement.thy ===== *)
theory Reconcile_Refinement
  imports Reconcile_Steps
begin

text \<open>
  The handlers of the controller implement the steps of the abstract specification. The tail every
  handler has - set the owner, send, record - is dealt with once.
\<close>

section \<open>Options of the deployment\<close>

lemma performs_getDeploymentStorageOptions:
  "performs S (getDeploymentStorageOptions rt l) (\<lambda>w. case backend_check rt l w of
     (Some e, w') \<Rightarrow> (Done (Inl e), [], w')
   | (None, w') \<Rightarrow> (Done (Inr (backend_options l (backend_of l))), [], w'))"
  unfolding getDeploymentStorageOptions_def
  by (rule performsI)
    (auto simp: backend_check_def backend_of_def InMemoryDeploymentOptions_def DiskDeploymentOptions_def
      Let_def intro!: does_ret does_RedisDeploymentOptions does_RedisCachedDeploymentOptions
      split: option.splits prod.splits)

lemma getDeploymentEnvVar_env_of:
  assumes "backend_ref (backend_of l) \<noteq> Some None"
  shows "getDeploymentEnvVar l = Inr (env_of l)"
  using assms
  by (auto simp: getDeploymentEnvVar_def env_of_def backend_of_def DeploymentEnvVar_def
      split: option.splits)

lemma backend_check_ref: "backend_check rt l w = (None, w') \<Longrightarrow> backend_ref (backend_of l) \<noteq> Some None"
  by (auto simp: backend_check_def)

lemma does_raise: "Q (Panic p) [] w \<Longrightarrow> does S (raise p) w Q"
  using does_lift_outcome [of Q "Panic p"] by simp

lemma performs_getDeploymentOptions:
  "performs S (getDeploymentOptions rt l) (\<lambda>w. case options_step rt l w of (r, w') \<Rightarrow> (r, [], w'))"
  unfolding getDeploymentOptions_def
  by (rule performsI, rule does_or_err, rule does_performs [OF performs_getDeploymentStorageOptions])
    (auto simp: options_step_def options_of_def getDeploymentImagePullSecrets_def Let_def
      getDeploymentEnvVar_env_of backend_check_ref
      intro!: does_ret does_bind_go does_raise
      split: option.splits prod.splits outcome.splits)

section \<open>The tail of a handler\<close>

lemma or_err_ret_Inr: "or_err (ret (Inr y)) h rest = rest y"
  by (simp add: or_err_def)

lemma does_own_send:
  assumes "i \<in> S" and send: "\<And>m. performs S (send m) (f m)"
  shows "does S (or_err (SetOwnerReference rt l (t, meta))
      (\<lambda>err. and_then (RecordError i err d) (ret (Some err)))
      (\<lambda>m. bind_go (send m) (\<lambda>err. and_then (Log_Info lg 1 msg [(''error'', LErr err)])
        (if_err (ret err) (\<lambda>err. and_then (RecordError i err d') (ret (Some err)))
        (and_then (span_SetStatus i CodeOk '''') (ret None)))))) w
    (\<lambda>r ws w'. (r, ws, w') = (case owner_set rt l meta of
        Inl e \<Rightarrow> (Done (Some e), [], w) | Inr m \<Rightarrow> f m w))"
proof (rule does_or_err, rule does_performs [OF performs_SetOwnerReference])
  let ?R = "\<lambda>e. and_then (RecordError i e d) (ret (Some e))"
  have tail: "does S (bind_go (send m) (\<lambda>err. and_then (Log_Info lg 1 msg [(''error'', LErr err)])
      (if_err (ret err) (\<lambda>err. and_then (RecordError i err d') (ret (Some err)))
        (and_then (span_SetStatus i CodeOk '''') (ret None))))) w
    (\<lambda>r ws w'. (r, ws, w') = f m w)" for m
    by (rule does_bind_go, rule does_performs [OF send])
      (auto intro!: does_records_then [of i, OF _ assms(1)] does_log_then does_ret does_if_err
        split: option.splits outcome.splits prod.splits)
  show "case (Done (owner_set rt l (snd (t, meta))), [], w) of (r, ws1, w1) \<Rightarrow> (case r of
      Done x \<Rightarrow> does S (case x of Inl e \<Rightarrow> ?R e
        | Inr m \<Rightarrow> bind_go (send m) (\<lambda>err. and_then (Log_Info lg 1 msg [(''error'', LErr err)])
            (if_err (ret err) (\<lambda>err. and_then (RecordError i err d') (ret (Some err)))
            (and_then (span_SetStatus i CodeOk '''') (ret None))))) w1
        (\<lambda>r' ws2 w2. (r', ws1 @ ws2, w2) = (case owner_set rt l meta of
           Inl e \<Rightarrow> (Done (Some e), [], w) | Inr m \<Rightarrow> f m w))
    | Panic p \<Rightarrow> (Panic p, ws1, w1) = (case owner_set rt l meta of
           Inl e \<Rightarrow> (Done (Some e), [], w) | Inr m \<Rightarrow> f m w))"
    by (auto intro!: does_records_then [of i, OF _ assms(1)] does_ret does_mono [OF tail]
        simp del: One_nat_def split: sum.split)
qed

text \<open>The step of a handler whose object was built, in terms of the metadata that were set.\<close>

lemma manage_Done:
  assumes "desired rt l w = (Done (Inr x), w1)"
  shows "manage desired send rt l w = (case owner_set rt l (obj_meta x) of
     Inl e \<Rightarrow> (Done (Some e), [], w1) | Inr m \<Rightarrow> send rt (set_meta m x) w1)"
  using assms by (simp add: manage_def own_def split: sum.split)

lemmas handler_start = does_StartResourceSpan [OF ctx_ok_base]

lemma performs_reconcileService:
  assumes "ctx_ok ctx"
  shows "performs S (reconcileService rt ctx l) (manage desired_service apply_step rt l)"
  unfolding reconcileService_def ReconcileService_def Let_def
  by (rule performsI, rule handler_start [OF assms], rule does_or_err_FromContext, erule body_ctxD,
      rule does_mono, rule does_own_send, rule insertI1, erule performs_ReconcileResource, rule insertI1)
    (simp add: manage_Done [OF desired_service_def] cong: sum.case_cong)

lemma performs_reconcilePdb:
  assumes "ctx_ok ctx"
  shows "performs S (reconcilePdb rt ctx l) (manage desired_pdb apply_step rt l)"
  unfolding reconcilePdb_def ReconcilePodDisruptionBudget_def Let_def
  by (rule performsI, rule handler_start [OF assms], rule does_or_err_FromContext, erule body_ctxD,
      rule does_mono, rule does_own_send, rule insertI1, erule performs_ReconcileResource, rule insertI1)
    (simp add: manage_Done [OF desired_pdb_def] cong: sum.case_cong)

lemma performs_reconcilePVC:
  assumes "ctx_ok ctx"
  shows "performs S (reconcilePVC rt ctx l) (manage desired_pvc create_step rt l)"
  unfolding reconcilePVC_def Let_def
  by (rule performsI, rule handler_start [OF assms], rule does_or_err_FromContext, erule body_ctxD,
      rule does_mono, rule does_own_send, rule insertI1, erule performs_ReconcilePersistentVolumeClaim,
      rule insertI1)
    (simp add: manage_Done [OF desired_pvc_def] cong: sum.case_cong)

lemma performs_reconcileLimitsConfigMap:
  assumes "ctx_ok ctx"
  shows "performs S (reconcileLimitsConfigMap rt ctx l) (manage desired_configmap apply_step rt l)"
proof (cases "LimitsConfigMap (rt_yamlMarshal rt) l")
  case (Inl e)
  then show ?thesis
    unfolding reconcileLimitsConfigMap_def
    by (intro performsI handler_start [OF assms], intro does_or_err_FromContext)
      (auto simp: desired_configmap_def manage_def or_err_def dest: body_ctxD
        intro!: does_records_then does_ret)
next
  case (Inr cm)
  then have d: "desired_configmap rt l w = (Done (Inr (OConfigMap cm)), w)" for w
    by (simp add: desired_configmap_def)
  show ?thesis
    unfolding reconcileLimitsConfigMap_def ReconcileConfigMap_def Inr or_err_ret_Inr
    by (rule performsI, rule handler_start [OF assms], rule does_or_err_FromContext, erule body_ctxD,
        rule does_mono, rule does_own_send, rule insertI1, erule performs_ReconcileResource, rule insertI1)
      (simp add: manage_Done [of desired_configmap, OF d] cong: sum.case_cong)
qed

lemma performs_reconcileDeployment:
  assumes "ctx_ok ctx"
  shows "performs S (reconcileDeployment rt ctx l) (manage desired_deployment apply_step rt l)"
  unfolding reconcileDeployment_def ReconcileDeployment_def Let_def
proof (rule performsI, rule handler_start [OF assms], rule does_or_err_FromContext, erule body_ctxD,
    rule does_or_err, rule does_performs [OF performs_getDeploymentOptions])
  fix w i ctx' assume ctx': "body_ctx i ctx'"
  let ?S = "insert i S"
  let ?dep = "\<lambda>opts. Deployment (rt_GetString rt) l opts"
  let ?tail = "\<lambda>lg opts. or_err (SetOwnerReference rt l (dep_TypeMeta (?dep opts), dep_ObjectMeta (?dep opts)))
      (\<lambda>err. and_then (RecordError i err ''failed to set owner reference'') (ret (Some err)))
      (\<lambda>m. bind_go (ReconcileResource rt ctx' (ODeployment (?dep opts\<lparr>dep_ObjectMeta := m\<rparr>))) (\<lambda>err.
        and_then (Log_Info lg 1 ''reconcile deployment'' [(''error'', LErr err)])
        (if_err (ret err)
          (\<lambda>err. and_then (RecordError i err ''failed to reconcile deployment'') (ret (Some err)))
          (and_then (span_SetStatus i CodeOk '''') (ret None)))))"
  fix lg
  have tail: "does ?S (?tail lg opts) w1 (\<lambda>r ws w'. (r, ws, w') = manage desired_deployment apply_step rt l w)"
    if "options_step rt l w = (Done (Inr opts), w1)" for opts w1
  proof -
    have d: "desired_deployment rt l w = (Done (Inr (ODeployment (?dep opts))), w1)"
      using that by (simp add: desired_deployment_def)
    show ?thesis
      by (rule does_mono, rule does_own_send, rule insertI1,
          rule performs_ReconcileResource [OF ctx'], rule insertI1)
        (simp add: manage_Done [of desired_deployment, OF d] cong: sum.case_cong)
  qed
  show "case case options_step rt l w of (r, w') \<Rightarrow> (r, [], w') of
     (r, ws1, w1) \<Rightarrow> (case r of
        Done x \<Rightarrow> does ?S (case x of
            Inl e \<Rightarrow> and_then (RecordError i e ''failed to get deployment options'') (ret (Some e))
          | Inr opts \<Rightarrow> ?tail lg opts) w1
          (\<lambda>r' ws2 w2. (r', ws1 @ ws2, w2) = manage desired_deployment apply_step rt l w)
      | Panic p \<Rightarrow> (Panic p, ws1, w1) = manage desired_deployment apply_step rt l w)"
    by (auto intro!: does_mono [OF tail] does_records_then [of i] does_ret
        simp: manage_def desired_deployment_def simp del: One_nat_def split: prod.split outcome.split sum.split)
qed

section \<open>The contract of a handler\<close>

text \<open>The object a write is about.\<close>

primrec request_object :: "request \<Rightarrow> Object option" where
  "request_object (ReqGet k n) = None"
| "request_object (ReqListPods n s) = None"
| "request_object (ReqCreate x) = Some x"
| "request_object (ReqUpdate x) = Some x"
| "request_object (ReqDelete x) = Some x"
| "request_object (ReqApply x f m) = Some x"
| "request_object (ReqStatusApply x f m) = Some x"

text \<open>
  \<open>handler\<close> performs the step of \<open>desired\<close> and \<open>send\<close>; the desired object is the one with key \<open>key l\<close>, it
  has the labels of the resource and no owner yet, and sending it writes nothing else, at most
  once, by a create, an apply or a delete.
\<close>

text \<open>An object as it is sent: the labels of the resource, and the owner references that were set on it.\<close>

definition sent_for :: "'w runtime \<Rightarrow> Limitador \<Rightarrow> Object \<Rightarrow> bool" where
  "sent_for rt l y \<longleftrightarrow> om_Labels (obj_meta y) = Some (Labels l) \<and>
     rt_SetControllerReference rt l ((obj_meta y)\<lparr>om_OwnerReferences := []\<rparr>) = Inr (om_OwnerReferences (obj_meta y))"

locale resource_handler =
  fixes handler :: "'w runtime \<Rightarrow> Context \<Rightarrow> Limitador \<Rightarrow> ('w, error option) op"
    and desired :: "'w desired"
    and send :: "'w runtime \<Rightarrow> Object \<Rightarrow> ('w, error option) step"
    and key :: "Limitador \<Rightarrow> kind \<times> NamespacedName"
  assumes handler_performs: "ctx_ok ctx \<Longrightarrow> performs S (handler rt ctx l) (manage desired send rt l)"
    and desired_key: "desired rt l w = (Done (Inr x), w1) \<Longrightarrow> obj_key x = key l"
    and desired_meta: "desired rt l w = (Done (Inr x), w1) \<Longrightarrow>
      om_Labels (obj_meta x) = Some (Labels l) \<and> om_OwnerReferences (obj_meta x) = []"
    and send_once: "send rt x w = (r, ws, w') \<Longrightarrow>
      ws \<in> {[], [ReqCreate x], [ReqDelete x], [ReqApply x True FieldManagerName]}"
begin

text \<open>What a step of the handler writes: nothing, or its own object with the owner that was set.\<close>

lemma manage_writes:
  assumes "manage desired send rt l w = (r, ws, w')"
  shows "ws = [] \<or> (\<exists>y q. ws = [q] \<and> request_object q = Some y \<and> obj_key y = key l \<and> sent_for rt l y)"
proof (cases "\<exists>x w1 y. desired rt l w = (Done (Inr x), w1) \<and> own rt l x = Inr y")
  case True
  then obtain x w1 y where d: "desired rt l w = (Done (Inr x), w1)" and y: "own rt l x = Inr y"
    by blast
  from y obtain refs where refs: "rt_SetControllerReference rt l (obj_meta x) = Inr refs"
    "obj_meta y = (obj_meta x)\<lparr>om_OwnerReferences := refs\<rparr>" "obj_key y = obj_key x"
    by (rule own_meta)
  from assms d y have "send rt y w1 = (r, ws, w')" by (simp add: manage_def)
  from send_once [OF this] consider "ws = []" | q where "ws = [q]" "request_object q = Some y" by auto
  moreover have same: "(obj_meta x)\<lparr>om_OwnerReferences := []\<rparr> = obj_meta x"
    using desired_meta [OF d] by (intro ObjectMeta.equality) simp_all
  have "rt_SetControllerReference rt l ((obj_meta x)\<lparr>om_OwnerReferences := []\<rparr>) = Inr refs"
    using refs(1) by (simp only: same)
  with refs(2) desired_meta [OF d] have "sent_for rt l y" by (simp add: sent_for_def)
  ultimately show ?thesis using refs(3) desired_key [OF d] by cases auto
next
  case False
  with assms show ?thesis
    by (auto simp: manage_def split: prod.splits outcome.splits sum.splits)
qed

lemma handler_writes:
  assumes "ctx_ok ctx"
  shows "does S (handler rt ctx l) w (\<lambda>r ws w'. length ws \<le> 1 \<and>
     (\<forall>q \<in> set ws. \<exists>y. request_object q = Some y \<and> obj_key y = key l))"
proof (rule does_performs [OF handler_performs [OF assms]])
  obtain r ws w' where "manage desired send rt l w = (r, ws, w')" by (cases "manage desired send rt l w")
  with manage_writes [OF this] show "case manage desired send rt l w of (r, ws, w') \<Rightarrow> length ws \<le> 1 \<and>
     (\<forall>q \<in> set ws. \<exists>y. request_object q = Some y \<and> obj_key y = key l)"
    by auto
qed

text \<open>As a part of a longer reconciliation: run the handler, go on unless it failed.\<close>

lemma does_handler_then:
  assumes "ctx_ok ctx" "i \<in> S"
    and "\<And>w. does S rest w (\<lambda>r ws w'. (r, ws, w') = g w)"
  shows "does S (if_err (handler rt ctx l) (\<lambda>err. and_then (RecordError i err d) (ret (Inl err))) rest) w
    (\<lambda>r ws w'. (r, ws, w') = (case manage desired send rt l w of
        (Done None, ws1, w1) \<Rightarrow> (case g w1 of (r, ws2, w2) \<Rightarrow> (r, ws1 @ ws2, w2))
      | (Done (Some e), ws1, w1) \<Rightarrow> (Done (Inl e), ws1, w1)
      | (Panic p, ws1, w1) \<Rightarrow> (Panic p, ws1, w1)))"
  by (rule does_if_err, rule does_performs [OF handler_performs [OF assms(1)]])
    (auto intro!: does_records_then [of i] does_ret assms(2) does_mono [OF assms(3)]
      split: prod.splits outcome.splits option.splits)

end

lemma delete_step_once: "delete_step rt x w = (r, ws, w') \<Longrightarrow> ws = [ReqDelete x]"
  by (auto simp: delete_step_def split: prod.splits)

lemma apply_step_once:
  "apply_step rt x w = (r, ws, w') \<Longrightarrow>
   ws \<in> {[], [ReqCreate x], [ReqDelete x], [ReqApply x True FieldManagerName]}"
  by (auto simp: apply_step_def dest: delete_step_once split: prod.splits if_splits)

lemma create_step_once:
  "create_step rt x w = (r, ws, w') \<Longrightarrow>
   ws \<in> {[], [ReqCreate x], [ReqDelete x], [ReqApply x True FieldManagerName]}"
  by (auto simp: create_step_def dest: delete_step_once split: prod.splits if_splits sum.splits)

abbreviation lim_key :: "kind \<Rightarrow> (Limitador \<Rightarrow> string) \<Rightarrow> Limitador \<Rightarrow> kind \<times> NamespacedName" where
  "lim_key k name l \<equiv> (k, \<lparr>nn_Name = name l, nn_Namespace = lim_Namespace l\<rparr>)"

interpretation service_handler: resource_handler
  reconcileService desired_service apply_step "lim_key KService ServiceName"
  by unfold_locales
    (auto simp: desired_service_def obj_key_def performs_reconcileService service.build_key [simplified]
      service.build_labels [simplified] service.build_unowned [simplified]
      dest: apply_step_once)

interpretation pvc_handler: resource_handler
  reconcilePVC desired_pvc create_step "lim_key KPersistentVolumeClaim PVCName"
  by unfold_locales
    (auto simp: desired_pvc_def obj_key_def performs_reconcilePVC pvc.build_key [simplified]
      pvc.build_labels [simplified] pvc.build_unowned [simplified]
      dest: create_step_once)

lemma built_meta:
  "om_Labels (dep_ObjectMeta (Deployment g l opts)) = Some (Labels l)"
  "om_OwnerReferences (dep_ObjectMeta (Deployment g l opts)) = []"
  "om_Labels (cm_ObjectMeta (limitsConfigMapOf t l)) = Some (Labels l)"
  "om_OwnerReferences (cm_ObjectMeta (limitsConfigMapOf t l)) = []"
  "meta_key (dep_ObjectMeta (Deployment g l opts)) = deployment_key l"
  "meta_key (cm_ObjectMeta (limitsConfigMapOf t l)) =
     \<lparr>nn_Name = LimitsConfigMapName l, nn_Namespace = lim_Namespace l\<rparr>"
  using deployment.build_key [where l = l and GetString = g and opts = "\<lambda>_. opts"]
    configmap.build_key [where l = l and limits = "\<lambda>_. t"]
    deployment.build_labels [where l = l and GetString = g and opts = "\<lambda>_. opts"]
    configmap.build_labels [where l = l and limits = "\<lambda>_. t"]
    deployment.build_unowned [where l = l and GetString = g and opts = "\<lambda>_. opts"]
    configmap.build_unowned [where l = l and limits = "\<lambda>_. t"]
  by simp_all

interpretation deployment_handler: resource_handler
  reconcileDeployment desired_deployment apply_step "lim_key KDeployment DeploymentName"
  by unfold_locales
    (auto simp: desired_deployment_def obj_key_def performs_reconcileDeployment
      built_meta dest: apply_step_once split: prod.splits outcome.splits sum.splits)

interpretation configmap_handler: resource_handler
  reconcileLimitsConfigMap desired_configmap apply_step "lim_key KConfigMap LimitsConfigMapName"
  by unfold_locales
    (auto simp: desired_configmap_def obj_key_def performs_reconcileLimitsConfigMap LimitsConfigMap_eq
      built_meta dest: apply_step_once split: sum.splits)

interpretation pdb_handler: resource_handler
  reconcilePdb desired_pdb apply_step "lim_key KPodDisruptionBudget PodDisruptionBudgetName"
  by unfold_locales
    (auto simp: desired_pdb_def obj_key_def performs_reconcilePdb pdb.build_key [simplified]
      pdb.build_labels [simplified] pdb.build_unowned [simplified]
      dest: apply_step_once)

section \<open>The reconciliation\<close>

lemma performs_annotatePods:
  assumes "body_ctx i ctx" "i \<in> S"
  shows "performs S (annotatePods rt ctx i version pods) (\<lambda>w.
     case pods_step rt version pods w of
       (Done None, ws, w') \<Rightarrow> (Done (Inr zeroResult), ws, w')
     | (Done (Some e), ws, w') \<Rightarrow> (Done (Inl e), ws, w')
     | (Panic p, ws, w') \<Rightarrow> (Panic p, ws, w'))"
proof (induction pods)
  case Nil
  show ?case by (auto simp: pods_step_def intro!: performsI does_records_then [of i] does_ret assms(2))
next
  case (Cons pod pods)
  note IH = does_performs [OF Cons.IH]
  show ?case
  proof (cases "stale version pod")
    case True
    then have "performs S (if_err (ReconcilePodAnnotation rt ctx (om_Name (pod_ObjectMeta pod))
           (om_Namespace (pod_ObjectMeta pod)) PodAnnotationConfigMapResourceVersion version)
         (\<lambda>err. and_then (RecordError i err d) (ret (Inl err))) (annotatePods rt ctx i version pods))
       (\<lambda>w. case pods_step rt version (pod # pods) w of
          (Done None, ws, w') \<Rightarrow> (Done (Inr zeroResult), ws, w')
        | (Done (Some e), ws, w') \<Rightarrow> (Done (Inl e), ws, w')
        | (Panic p, ws, w') \<Rightarrow> (Panic p, ws, w'))" for d
      by (intro performsI does_if_err does_performs [OF performs_ReconcilePodAnnotation [OF assms]])
        (auto simp: pods_step_def pod_patch_def intro!: IH does_records_then [of i] does_ret assms(2)
          split: prod.splits outcome.splits option.splits)
    with True show ?thesis by (simp add: stale_def)
  next
    case False
    with Cons.IH show ?thesis by (simp add: pods_step_def stale_def)
  qed
qed

lemma does_reconcilePodList:
  assumes ctx: "body_ctx i ctx" "i \<in> S"
    and list: "cl_ListPods (rt_client rt) (lim_Namespace l) (SelectorLabels l) w = (Inr items, w1)"
  shows "does S (reconcilePodList rt ctx i l items) w1 (\<lambda>r ws w'. (r, ws, w') = annotation_step rt l w)"
proof (cases "pods_ready l items")
  case True
  then have "reconcilePodList rt ctx i l items =
     or_err (Client_GetConfigMap rt \<lparr>nn_Name = LimitsConfigMapName l, nn_Namespace = lim_Namespace l\<rparr>)
       (\<lambda>err. if IsNotFound err
          then and_then (span_SetStatus i CodeOk '''') (ret (Inr requeue))
          else and_then (RecordError i err ''failed to get limits ConfigMap'') (ret (Inl err)))
       (\<lambda>cm. annotatePods rt ctx i (om_ResourceVersion (cm_ObjectMeta cm)) items)"
    by (auto simp: reconcilePodList_def pods_ready_def)
  then show ?thesis
    by (simp only:, intro does_or_err does_Get)
      (use True list in \<open>auto simp: annotation_step_def intro!: does_performs [OF performs_annotatePods [OF ctx]]
        does_records_then [of i, OF _ ctx(2)] does_ret split: sum.splits prod.splits outcome.splits option.splits\<close>)
next
  case False
  with list show ?thesis
    by (auto simp: reconcilePodList_def pods_ready_def annotation_step_def
        intro!: does_records_then [of i, OF _ ctx(2)] does_ret)
qed

lemma annotation_step_Inl:
  "fst (cl_ListPods (rt_client rt) (lim_Namespace l) (SelectorLabels l) w) = Inl e \<Longrightarrow>
   annotation_step rt l w = (Done (Inl e), [], snd (cl_ListPods (rt_client rt) (lim_Namespace l) (SelectorLabels l) w))"
  by (auto simp: annotation_step_def split: prod.splits)

lemma performs_reconcilePodLimitsHashAnnotation:
  assumes "ctx_ok ctx"
  shows "performs S (reconcilePodLimitsHashAnnotation rt ctx l) (annotation_step rt l)"
  unfolding reconcilePodLimitsHashAnnotation_def
  by (rule performsI, rule handler_start [OF assms], rule does_or_err, rule does_Get)
    (auto intro!: does_reconcilePodList does_records_then does_ret
      simp: annotation_step_Inl prod_eq_iff [of "cl_ListPods c ns sel w" for c ns sel w] split: sum.split)

text \<open>Running one more step before a sequence that ends in a result.\<close>

definition before :: "('w, error option) step \<Rightarrow> ('w, error + 'b) step \<Rightarrow> ('w, error + 'b) step" where
  "before f g w = (case f w of
      (Done None, ws1, w1) \<Rightarrow> (case g w1 of (r, ws2, w2) \<Rightarrow> (r, ws1 @ ws2, w2))
    | (Done (Some e), ws1, w1) \<Rightarrow> (Done (Inl e), ws1, w1)
    | (Panic p, ws1, w1) \<Rightarrow> (Panic p, ws1, w1))"

lemma before_run_steps_Cons:
  "before (run_steps (f # fs)) g = before f (before (run_steps fs) g)"
  by (rule ext) (simp add: before_def split: prod.split outcome.split option.split)

lemma before_run_steps_Nil: "before (run_steps []) g = g"
  by (rule ext) (simp add: before_def split: prod.split)

lemma spec_step_before:
  "spec_step rt l = before (run_steps (handlers rt l)) (annotation_step rt l)"
  by (rule ext) (simp add: spec_step_def before_def)

lemma performs_reconcileSpec:
  assumes "ctx_ok ctx"
  shows "performs S (reconcileSpec rt ctx l) (spec_step rt l)"
  unfolding reconcileSpec_def spec_step_before handlers_def before_run_steps_Cons before_run_steps_Nil
proof (rule performsI, rule does_StartReconcileSpecSpan [OF ctx_ok_base [OF assms]])
  fix w i ctx' assume ctx': "body_ctx i ctx'"
  let ?S = "insert i S"
  note ok = body_ctxD(1) [OF ctx']
  note step = service_handler.does_handler_then pvc_handler.does_handler_then
    deployment_handler.does_handler_then configmap_handler.does_handler_then pdb_handler.does_handler_then
  have last: "does ?S (or_err (reconcilePodLimitsHashAnnotation rt ctx' l)
        (\<lambda>err. and_then (RecordError i err d) (ret (Inl err)))
        (\<lambda>result. and_then (RecordSpecCompleted i) (ret (Inr result)))) w
      (\<lambda>r ws w'. (r, ws, w') = annotation_step rt l w)" for w d
    by (rule does_or_err, rule does_performs [OF performs_reconcilePodLimitsHashAnnotation [OF ok]])
      (auto intro!: does_records_then [of i] does_ret split: prod.split outcome.split sum.split)
  show "does ?S (if_err (reconcileService rt ctx' l)
        (\<lambda>err. and_then (RecordError i err ''failed to reconcile service'') (ret (Inl err)))
     (if_err (reconcilePVC rt ctx' l)
        (\<lambda>err. and_then (RecordError i err ''failed to reconcile PVC'') (ret (Inl err)))
     (if_err (reconcileDeployment rt ctx' l)
        (\<lambda>err. and_then (RecordError i err ''failed to reconcile deployment'') (ret (Inl err)))
     (if_err (reconcileLimitsConfigMap rt ctx' l)
        (\<lambda>err. and_then (RecordError i err ''failed to reconcile limits ConfigMap'') (ret (Inl err)))
     (if_err (reconcilePdb rt ctx' l)
        (\<lambda>err. and_then (RecordError i err ''failed to reconcile PodDisruptionBudget'') (ret (Inl err)))
     (or_err (reconcilePodLimitsHashAnnotation rt ctx' l)
        (\<lambda>err. and_then (RecordError i err ''failed to reconcile pod annotations'') (ret (Inl err)))
        (\<lambda>result. and_then (RecordSpecCompleted i) (ret (Inr result))))))))) w
     (\<lambda>r ws w'. (r, ws, w') = before (manage desired_service apply_step rt l)
        (before (manage desired_pvc create_step rt l)
        (before (manage desired_deployment apply_step rt l)
        (before (manage desired_configmap apply_step rt l)
        (before (manage desired_pdb apply_step rt l) (annotation_step rt l))))) w)"
    unfolding before_def
    by (rule step [OF ok insertI1], rule step [OF ok insertI1], rule step [OF ok insertI1],
        rule step [OF ok insertI1], rule step [OF ok insertI1], rule last)
qed

lemma records_when_go: "records i m \<Longrightarrow> records i (when_go b m)"
  by (auto simp: when_go_def records_def intro!: yields_ret)

lemma performs_reconcileObject:
  assumes "body_ctx i ctx" "i \<in> S"
  shows "performs S (reconcileObject rt ctx lg i l) (object_step rt l)"
  unfolding reconcileObject_def Let_def
  by (rule performsI, rule does_bind_go, rule does_performs [OF performs_reconcileSpec [OF body_ctxD(1) [OF assms(1)]]])
    (auto simp: object_step_def spec_error_def final_result_def
      intro!: does_bind_go does_performs [OF performs_reconcileStatus [OF body_ctxD(1) [OF assms(1)]]]
        does_records_then [of i, OF _ assms(2)] does_log_then does_ret
      split: prod.split outcome.split sum.splits)

text \<open>The dump of the resource in a debug line.\<close>

lemma performs_debug:
  "performs S (if rt_debugEnabled rt
     then (case rt_jsonMarshalIndent rt l of
         Inl err \<Rightarrow> ret (Some err)
       | Inr jsonData \<Rightarrow> and_then (Log_Info lg v jsonData []) (ret None))
     else ret None) (\<lambda>w. (Done (debug_error rt l), [], w))"
  by (rule performsI) (auto simp: debug_error_def intro!: does_log_then does_ret split: sum.split)

lemma performs_reconcileFound:
  assumes "body_ctx i ctx" "i \<in> S"
  shows "performs S (reconcileFound rt ctx lg i l) (\<lambda>w. case debug_error rt l of
       Some e \<Rightarrow> (Done (Inl e), [], w)
     | None \<Rightarrow> if om_DeletionTimestamp (lim_ObjectMeta l) \<noteq> None then (Done (Inr zeroResult), [], w)
         else object_step rt l w)"
  unfolding reconcileFound_def Let_def
  by (rule performsI, intro does_records_then [of i] records_when_go records_ops records_helpers assms(2),
      rule does_if_err, rule does_performs [OF performs_debug])
    (auto intro!: does_records_then [of i, OF _ assms(2)] does_ret does_performs [OF performs_reconcileObject [OF assms]]
      split: option.split prod.split)

lemma performs_Reconcile:
  "performs S (Reconcile rt eventCtx req) (reconcile_step rt req)"
  unfolding Reconcile_def Let_def
proof (rule performsI, rule does_StartReconcileSpan, simp add: StoreBaseLogger_def, rule does_log_then,
    rule does_or_err, rule does_Get, goal_cases)
  case (1 w i ctx)
  note found = does_performs [OF performs_reconcileFound [OF 1 insertI1 [of i S]]]
  show ?case
    by (cases "cl_GetLimitador (rt_client rt) req w")
      (auto simp: reconcile_step_def intro!: found does_log_then does_records_then [of i] does_ret
        split: sum.split option.split)
qed

end
