(* ===== verification/Sample_Cluster.thy ===== *)
theory Sample_Cluster
  imports Reconcile_Refinement
begin

text \<open>
  A small API server that evaluates, on which the properties with hypotheses are exercised: objects
  by kind and name, secrets, and the pods in a list. Apply and create store the object, delete
  removes it, reads that find nothing answer not-found. \<open>sample_runtime\<close> completes it to a runtime.
\<close>

record cluster =
  cl_objects :: "kind \<times> NamespacedName \<Rightarrow> Object option"
  cl_secrets :: "NamespacedName \<Rightarrow> Secret option"
  cl_pods :: "Pod list"

definition notFound :: error where
  "notFound = ErrApi True ''not found''"

definition conflict :: error where
  "conflict = ErrApi False ''conflict''"

definition put :: "Object \<Rightarrow> cluster \<Rightarrow> error option \<times> cluster" where
  "put x c = (None, c\<lparr>cl_objects := (cl_objects c)(obj_key x := Some x)\<rparr>)"

definition remove_object :: "Object \<Rightarrow> cluster \<Rightarrow> error option \<times> cluster" where
  "remove_object x c = (if cl_objects c (obj_key x) = None then (Some notFound, c)
     else (None, c\<lparr>cl_objects := (cl_objects c)(obj_key x := None)\<rparr>))"

definition sample_client :: "cluster client" where
  "sample_client =
    \<lparr>cl_GetLimitador = (\<lambda>k c. (case cl_objects c (KLimitador, k) of
        Some (OLimitador l) \<Rightarrow> Inr l | _ \<Rightarrow> Inl notFound, c)),
     cl_GetDeployment = (\<lambda>k c. (case cl_objects c (KDeployment, k) of
        Some (ODeployment d) \<Rightarrow> Inr d | _ \<Rightarrow> Inl notFound, c)),
     cl_GetConfigMap = (\<lambda>k c. (case cl_objects c (KConfigMap, k) of
        Some (OConfigMap m) \<Rightarrow> Inr m | _ \<Rightarrow> Inl notFound, c)),
     cl_GetPersistentVolumeClaim = (\<lambda>k c. (case cl_objects c (KPersistentVolumeClaim, k) of
        Some (OPersistentVolumeClaim p) \<Rightarrow> Inr p | _ \<Rightarrow> Inl notFound, c)),
     cl_GetSecret = (\<lambda>k c. (case cl_secrets c k of Some s \<Rightarrow> Inr s | None \<Rightarrow> Inl notFound, c)),
     cl_ListPods = (\<lambda>ns sel c. (Inr (cl_pods c), c)),
     cl_Create = (\<lambda>x c. put x c),
     cl_Update = (\<lambda>x c. put x c),
     cl_Delete = (\<lambda>x c. remove_object x c),
     cl_Apply = (\<lambda>x f m c. put x c),
     cl_StatusApply = (\<lambda>x f m c. put x c)\<rparr>"

text \<open>A condition is replaced when it changes, and appended when there is none of its type.\<close>

fun set_condition :: "Condition list \<Rightarrow> Condition \<Rightarrow> Condition list" where
  "set_condition [] c = [c]"
| "set_condition (d # cs) c =
    (if cond_Type d = cond_Type c
     then (if cond_Status d = cond_Status c \<and> cond_Reason d = cond_Reason c
             \<and> cond_Message d = cond_Message c \<and> cond_ObservedGeneration d = cond_ObservedGeneration c
           then d else c) # cs
     else d # set_condition cs c)"

definition sample_runtime :: "cluster runtime" where
  "sample_runtime =
    \<lparr>rt_client = sample_client,
     rt_SetControllerReference = (\<lambda>l m. Inr
       [\<lparr>or_Kind = ''Limitador'', or_Name = lim_Name l, or_Controller = True\<rparr>]),
     rt_SetStatusCondition = set_condition,
     rt_yamlMarshal = (\<lambda>rls. Inr ''[]''),
     rt_jsonMarshalIndent = (\<lambda>l. Inr ''{}''),
     rt_GetString = (\<lambda>k d. d),
     rt_Logger = [],
     rt_debugEnabled = False,
     rt_SpanContext = (\<lambda>i. invalidSpanContext),
     rt_IsRecording = (\<lambda>i. False),
     rt_Extract = (\<lambda>m. invalidSpanContext)\<rparr>"

definition sample :: Limitador where
  "sample = \<lparr>lim_TypeMeta = \<lparr>tm_Kind = ''Limitador'', tm_APIVersion = GroupVersionString\<rparr>,
     lim_ObjectMeta = zeroMeta\<lparr>om_Name := ''sample'', om_Namespace := ''ns'', om_Generation := 1\<rparr>,
     lim_Spec = zeroSpec, lim_Status = zeroStatus\<rparr>"

definition empty_cluster :: cluster where
  "empty_cluster = \<lparr>cl_objects = (\<lambda>k. None), cl_secrets = (\<lambda>k. None), cl_pods = []\<rparr>"

definition with_limitador :: "Limitador \<Rightarrow> cluster" where
  "with_limitador l = empty_cluster\<lparr>cl_objects :=
     (\<lambda>k. if k = (KLimitador, meta_key (lim_ObjectMeta l)) then Some (OLimitador l) else None)\<rparr>"

abbreviation sample_req :: NamespacedName where
  "sample_req \<equiv> \<lparr>nn_Name = ''sample'', nn_Namespace = ''ns''\<rparr>"

abbreviation no_context :: Context where
  "no_context \<equiv> \<lparr>cx_baseLogger = None, cx_logger = None, cx_span = None\<rparr>"

text \<open>A client whose applies are refused.\<close>

definition refusing :: "cluster runtime" where
  "refusing = sample_runtime\<lparr>rt_client := sample_client\<lparr>cl_Apply := (\<lambda>x f m c. (Some conflict, c))\<rparr>\<rparr>"

lemma sample_simps [simp]:
  "lim_Name sample = ''sample''" "lim_Namespace sample = ''ns''" "lim_Spec sample = zeroSpec"
  "lim_Status sample = zeroStatus" "om_DeletionTimestamp (lim_ObjectMeta sample) = None"
  "lim_Generation sample = 1"
  "meta_key (lim_ObjectMeta sample) = sample_req"
  by (simp_all add: sample_def meta_key_def)

lemma runtime_simps [simp]:
  "rt_client sample_runtime = sample_client"
  "rt_SetControllerReference sample_runtime l m = Inr
     [\<lparr>or_Kind = ''Limitador'', or_Name = lim_Name l, or_Controller = True\<rparr>]"
  "rt_SetStatusCondition sample_runtime = set_condition"
  "rt_yamlMarshal sample_runtime rls = Inr ''[]''"
  "rt_debugEnabled sample_runtime = False"
  "rt_debugEnabled refusing = False"
  by (simp_all add: sample_runtime_def refusing_def)

lemma get_with_limitador [simp]:
  "cl_GetLimitador sample_client (meta_key (lim_ObjectMeta l)) (with_limitador l) = (Inr l, with_limitador l)"
  by (simp add: sample_client_def with_limitador_def)

lemma get_sample [simp]:
  "cl_GetLimitador sample_client sample_req (with_limitador sample) = (Inr sample, with_limitador sample)"
  "cl_GetLimitador (rt_client refusing) sample_req (with_limitador sample) = (Inr sample, with_limitador sample)"
  using get_with_limitador [of sample] by (simp_all add: refusing_def sample_client_def)

end
