(* ===== verification/Reconcile_Properties.thy ===== *)
theory Reconcile_Properties
  imports Sample_Cluster "HOL-Library.Sublist"
begin

text \<open>
  The properties of a whole reconciliation: what it returns, what it writes and in which order, for
  every client. They are read off the abstract steps through the refinement.
\<close>

section \<open>What steps write\<close>

definition step_writes :: "(request \<Rightarrow> bool) \<Rightarrow> ('w, 'a) step \<Rightarrow> bool" where
  "step_writes P f \<longleftrightarrow> (\<forall>w r ws w'. f w = (r, ws, w') \<longrightarrow> (\<forall>q \<in> set ws. P q))"

lemma step_writesI: "(\<And>w r ws w' q. f w = (r, ws, w') \<Longrightarrow> q \<in> set ws \<Longrightarrow> P q) \<Longrightarrow> step_writes P f"
  by (auto simp: step_writes_def)

lemma step_writesD: "step_writes P f \<Longrightarrow> f w = (r, ws, w') \<Longrightarrow> q \<in> set ws \<Longrightarrow> P q"
  by (auto simp: step_writes_def)

lemma step_writes_run_steps: "(\<And>f. f \<in> set fs \<Longrightarrow> step_writes P f) \<Longrightarrow> step_writes P (run_steps fs)"
proof (induction fs)
  case Nil
  then show ?case by (auto intro!: step_writesI)
next
  case (Cons f fs)
  then have f: "step_writes P f" and fs: "step_writes P (run_steps fs)" by auto
  show ?case
    by (rule step_writesI)
      (auto dest: step_writesD [OF f] step_writesD [OF fs] split: prod.splits outcome.splits option.splits)
qed

lemma step_writes_before: "step_writes P f \<Longrightarrow> step_writes P g \<Longrightarrow> step_writes P (before f g)"
  by (rule step_writesI)
    (auto simp: before_def dest: step_writesD split: prod.splits outcome.splits option.splits)

text \<open>The keys of the objects a Limitador owns.\<close>

definition owned_keys :: "Limitador \<Rightarrow> (kind \<times> NamespacedName) set" where
  "owned_keys l =
    {lim_key KService ServiceName l, lim_key KPersistentVolumeClaim PVCName l,
     lim_key KDeployment DeploymentName l, lim_key KConfigMap LimitsConfigMapName l,
     lim_key KPodDisruptionBudget PodDisruptionBudgetName l}"

text \<open>A pod patch sends the name and one annotation of a pod the selector of the resource returned.\<close>

definition pod_write :: "'w runtime \<Rightarrow> Limitador \<Rightarrow> request \<Rightarrow> bool" where
  "pod_write rt l q \<longleftrightarrow> (\<exists>w pods w' p version. cl_ListPods (rt_client rt) (lim_Namespace l) (SelectorLabels l) w = (Inr pods, w')
     \<and> p \<in> set pods \<and> q = ReqApply (pod_patch version p) True FieldManagerName)"

definition status_write :: "Limitador \<Rightarrow> request \<Rightarrow> bool" where
  "status_write l q \<longleftrightarrow> (\<exists>st. q = ReqStatusApply (OLimitador (statusPatch l st)) True FieldManagerName)"

definition own_write :: "'w runtime \<Rightarrow> Limitador \<Rightarrow> request \<Rightarrow> bool" where
  "own_write rt l q \<longleftrightarrow> pod_write rt l q \<or> status_write l q \<or>
     (\<exists>y. request_object q = Some y \<and> obj_key y \<in> owned_keys l \<and> sent_for rt l y)"

lemma handlers_own: "f \<in> set (handlers rt l) \<Longrightarrow> step_writes (own_write rt l) f"
  by (auto simp: handlers_def own_write_def owned_keys_def intro!: step_writesI
      dest!: service_handler.manage_writes pvc_handler.manage_writes deployment_handler.manage_writes
        configmap_handler.manage_writes pdb_handler.manage_writes)

lemma pod_patch_untagged [simp]: "IsObjectTaggedToDelete (obj_meta (pod_patch version p)) = False"
  by (simp add: pod_patch_def podPatch_def IsObjectTaggedToDelete_def)

lemma apply_pod_patch:
  "apply_step rt (pod_patch version p) w =
    (case cl_Apply (rt_client rt) (pod_patch version p) True FieldManagerName w of
       (err, w') \<Rightarrow> (Done err, [ReqApply (pod_patch version p) True FieldManagerName], w'))"
  by (simp add: apply_step_def)

lemma annotation_step_own: "step_writes (pod_write rt l) (annotation_step rt l)"
proof (rule step_writesI)
  fix w r ws w' q assume a: "annotation_step rt l w = (r, ws, w')" "q \<in> set ws"
  from a obtain pods w1 version w2 r' where
    list: "cl_ListPods (rt_client rt) (lim_Namespace l) (SelectorLabels l) w = (Inr pods, w1)"
    and step: "pods_step rt version pods w2 = (r', ws, w')"
    by (auto simp: annotation_step_def split: prod.splits sum.splits if_splits outcome.splits option.splits)
  have "pod_write rt l (ReqApply (pod_patch version p) True FieldManagerName)" if "p \<in> set pods" for p
    unfolding pod_write_def using list that by blast
  then have "step_writes (pod_write rt l) (pods_step rt version pods)"
    unfolding pods_step_def
    by (intro step_writes_run_steps) (auto simp: apply_pod_patch intro!: step_writesI split: prod.splits)
  from step_writesD [OF this step a(2)] show "pod_write rt l q" .
qed

lemma spec_step_own: "step_writes (own_write rt l) (spec_step rt l)"
  unfolding spec_step_before
proof (rule step_writes_before)
  show "step_writes (own_write rt l) (run_steps (handlers rt l))"
    by (rule step_writes_run_steps) (rule handlers_own)
  show "step_writes (own_write rt l) (annotation_step rt l)"
    using annotation_step_own [of rt l] by (auto simp: step_writes_def own_write_def)
qed

lemma status_step_writes:
  assumes "status_step rt l specErr w = (r, ws, w')"
  shows "ws = [] \<or> (\<exists>c. fst (condition_of rt l specErr w) = Inr c \<and>
    ws = [ReqStatusApply (OLimitador (statusPatch l (status_with rt l c))) True FieldManagerName])"
  using assms by (auto simp: status_step_def Let_def split: prod.splits sum.splits if_splits option.splits)

lemma status_step_returns:
  assumes "status_step rt l specErr w = (r, ws, w')"
  shows "\<exists>x. r = Done x \<and> (\<forall>res. x = Inr res \<longrightarrow> res = zeroResult)"
  using assms by (auto simp: status_step_def Let_def split: prod.splits sum.splits if_splits option.splits)

lemma status_step_own: "step_writes (own_write rt l) (status_step rt l specErr)"
  by (rule step_writesI)
    (auto dest!: status_step_writes simp: own_write_def status_write_def)

lemma object_step_own: "step_writes (own_write rt l) (object_step rt l)"
  by (rule step_writesI)
    (auto simp: object_step_def split: prod.splits outcome.splits
      dest: step_writesD [OF spec_step_own] step_writesD [OF status_step_own])

text \<open>A reconciliation that goes beyond its early returns is an \<open>object_step\<close>.\<close>

lemma reconcile_step_cases:
  assumes "reconcile_step rt req w = (r, ws, w')"
  obtains (early) "ws = []" "r = Done (Inr zeroResult) \<or> (\<exists>e. r = Done (Inl e))"
  | (object) l w1 where "cl_GetLimitador (rt_client rt) req w = (Inr l, w1)"
      "object_step rt l w1 = (r, ws, w')" "om_DeletionTimestamp (lim_ObjectMeta l) = None"
      "debug_error rt l = None"
  using assms by (auto simp: reconcile_step_def split: prod.splits sum.splits option.splits if_splits)

section \<open>Refinement and safety\<close>

text \<open>
  C1: Every run of \<^verbatim>\<open>Reconcile\<close>, for every client and runtime, extends the trace by a well-bracketed
  list of events (each span it starts is ended, spans nest, and nothing is recorded on a span
  outside its life, on every return and on a panic); its outcome, its writes in order and the
  world it leaves are those of the abstract specification \<open>reconcile_step\<close>.
\<close>

theorem Reconcile_refines_plan:
  "\<exists>tr. trace (snd (Reconcile rt ctx req s)) = trace s @ tr \<and> bracketed {} tr \<and>
     (fst (Reconcile rt ctx req s), writes tr, world (snd (Reconcile rt ctx req s)))
       = reconcile_step rt req (world s)"
  using performs_Reconcile [of "{}" rt ctx req]
  by (auto simp: performs_def does_def elim!: yieldsD allE [where x = "world s"])

text \<open>
  C4: A reconciliation writes nothing but objects of the resource it read: its service, claim,
  deployment, limits config map and disruption budget (by kind, name and namespace, each sent with
  the labels of the resource and with the owner references that \<^verbatim>\<open>SetControllerReference\<close> gave it),
  one annotation on pods that its own selector returned, and the status of the resource itself.
\<close>

theorem Reconcile_writes_own_objects:
  "does {} (Reconcile rt ctx req) w (\<lambda>r ws w'. list_all (\<lambda>q. \<exists>l.
     fst (cl_GetLimitador (rt_client rt) req w) = Inr l \<and> own_write rt l q) ws)"
proof (rule does_performs [OF performs_Reconcile])
  obtain r ws w' where step: "reconcile_step rt req w = (r, ws, w')" by (cases "reconcile_step rt req w")
  then show "case reconcile_step rt req w of (r, ws, w') \<Rightarrow> list_all (\<lambda>q. \<exists>l.
     fst (cl_GetLimitador (rt_client rt) req w) = Inr l \<and> own_write rt l q) ws"
    by (cases rule: reconcile_step_cases)
      (auto simp: step list_all_iff dest: step_writesD [OF object_step_own])
qed

section \<open>Order of the writes\<close>

definition write_kinds :: "request list \<Rightarrow> kind list" where
  "write_kinds ws = map (\<lambda>q. case request_object q of Some x \<Rightarrow> obj_kind x | None \<Rightarrow> KSecret) ws"

lemma write_kinds_simps [simp]:
  "write_kinds [] = []" "write_kinds (ws @ ws') = write_kinds ws @ write_kinds ws'"
  by (simp_all add: write_kinds_def)

definition spec_order :: "kind list" where
  "spec_order = [KService, KPersistentVolumeClaim, KDeployment, KConfigMap, KPodDisruptionBudget]"

text \<open>Steps each of which writes at most one object, of its kind, write in the order of the kinds.\<close>

definition kind_step :: "('w, 'a) step \<Rightarrow> kind \<Rightarrow> bool" where
  "kind_step f k \<longleftrightarrow> (\<forall>w r ws w'. f w = (r, ws, w') \<longrightarrow> ws = [] \<or> write_kinds ws = [k])"

lemma run_steps_order:
  assumes "list_all2 kind_step fs ks" "run_steps fs w = (r, ws, w')"
  shows "subseq (write_kinds ws) ks"
  using assms
proof (induction arbitrary: w r ws w' rule: list_all2_induct)
  case (Cons f fs k ks)
  have one: "subseq (write_kinds ws0) [k]" if "f w = (r0, ws0, w0)" for r0 ws0 w0
  proof -
    from Cons.hyps(1) that have "ws0 = [] \<or> write_kinds ws0 = [k]" unfolding kind_step_def by blast
    then show ?thesis by auto
  qed
  from Cons.prems consider r1 where "f w = (r1, ws, w')"
    | ws1 w1 ws2 where "f w = (Done None, ws1, w1)" "run_steps fs w1 = (r, ws2, w')" "ws = ws1 @ ws2"
    by (auto split: prod.splits outcome.splits option.splits)
  then show ?case
  proof cases
    case 1
    have "subseq [k] (k # ks)" by simp
    with one [OF 1] show ?thesis by (rule subseq_order.order_trans)
  next
    case 2
    from one [OF 2(1)] Cons.IH [OF 2(2)] have "subseq (write_kinds ws1 @ write_kinds ws2) ([k] @ ks)"
      by (rule list_emb_append_mono)
    with 2(3) show ?thesis by (simp add: write_kinds_def)
  qed
qed (auto simp: write_kinds_def)

lemma handlers_order: "list_all2 kind_step (handlers rt l) spec_order"
  by (auto simp: handlers_def spec_order_def kind_step_def write_kinds_def obj_key_def
      dest!: service_handler.manage_writes pvc_handler.manage_writes deployment_handler.manage_writes
        configmap_handler.manage_writes pdb_handler.manage_writes)

lemma annotation_step_kinds:
  assumes "annotation_step rt l w = (r, ws, w')"
  shows "write_kinds ws = replicate (length ws) KPod"
proof -
  have "pod_write rt l q \<Longrightarrow> (case request_object q of Some x \<Rightarrow> obj_kind x | None \<Rightarrow> KSecret) = KPod" for q
    by (auto simp: pod_write_def pod_patch_def)
  with step_writesD [OF annotation_step_own assms] show ?thesis
    by (auto simp: write_kinds_def map_replicate_const [symmetric])
qed

lemma spec_step_order:
  assumes "spec_step rt l w = (r, ws, w')"
  shows "\<exists>n. subseq (write_kinds ws) (spec_order @ replicate n KPod)"
proof -
  from assms consider (stopped) r1 where "run_steps (handlers rt l) w = (r1, ws, w')"
    | (full) ws1 w1 ws2 where "run_steps (handlers rt l) w = (Done None, ws1, w1)"
        "annotation_step rt l w1 = (r, ws2, w')" "ws = ws1 @ ws2"
    by (auto simp: spec_step_def split: prod.splits outcome.splits option.splits)
  then show ?thesis
  proof cases
    case stopped
    with run_steps_order [OF handlers_order] have "subseq (write_kinds ws) (spec_order @ replicate 0 KPod)"
      by simp
    then show ?thesis by blast
  next
    case full
    have "subseq (write_kinds ws1 @ write_kinds ws2) (spec_order @ replicate (length ws2) KPod)"
      using run_steps_order [OF handlers_order full(1)] annotation_step_kinds [OF full(2)]
      by (intro list_emb_append_mono) simp_all
    with full(3) show ?thesis by (auto simp: write_kinds_def)
  qed
qed

text \<open>
  C5: The writes of a reconciliation come in one order: service, claim, deployment, limits config map,
  disruption budget (each at most once), then pod annotations, and the status of the resource
  last. The deployment is never sent before the service and the claim it refers to, and pods are
  annotated only after the config map was sent.
\<close>

theorem Reconcile_write_order:
  "does {} (Reconcile rt ctx req) w (\<lambda>r ws w'. \<exists>n.
     subseq (write_kinds ws) (spec_order @ replicate n KPod @ [KLimitador]))"
proof (rule does_performs [OF performs_Reconcile])
  have status: "subseq (write_kinds ws) [KLimitador]" if "status_step rt l e w1 = (r, ws, w')" for l e w1 r ws w'
    using status_step_writes [OF that] by (auto simp: write_kinds_def)
  have "\<exists>n. subseq (write_kinds ws) (spec_order @ replicate n KPod @ [KLimitador])"
    if "object_step rt l w1 = (r, ws, w')" for l w1 r ws w'
  proof -
    from that obtain r1 ws1 w2 ws2 where spec: "spec_step rt l w1 = (r1, ws1, w2)" and "ws = ws1 @ ws2"
      "subseq (write_kinds ws2) [KLimitador]"
      by (auto simp: object_step_def split: prod.splits outcome.splits dest: status)
    moreover from spec_step_order [OF spec] obtain n
      where "subseq (write_kinds ws1) (spec_order @ replicate n KPod)" ..
    ultimately have "subseq (write_kinds ws1 @ write_kinds ws2) ((spec_order @ replicate n KPod) @ [KLimitador])"
      by (intro list_emb_append_mono)
    with \<open>ws = ws1 @ ws2\<close> show ?thesis by (auto simp: write_kinds_def)
  qed
  then show "case reconcile_step rt req w of (r, ws, w') \<Rightarrow> \<exists>n.
     subseq (write_kinds ws) (spec_order @ replicate n KPod @ [KLimitador])"
    by (auto simp: write_kinds_def split: prod.split elim!: reconcile_step_cases)
qed

section \<open>Results\<close>

text \<open>
  C6: When the resource cannot be read or is being deleted, nothing is written: a resource that is not
  found ends the reconciliation without an error, any other read error is returned, and a
  resource with a deletion timestamp is left alone.
\<close>

theorem Reconcile_early_returns:
  "does {} (Reconcile rt ctx req) w (\<lambda>r ws w'. case cl_GetLimitador (rt_client rt) req w of
     (Inl e, w1) \<Rightarrow> ws = [] \<and> w' = w1 \<and> r = Done (if IsNotFound e then Inr zeroResult else Inl e)
   | (Inr l, w1) \<Rightarrow>
       if om_DeletionTimestamp (lim_ObjectMeta l) = None then True
       else ws = [] \<and> w' = w1 \<and> r = Done (case debug_error rt l of Some e \<Rightarrow> Inl e | None \<Rightarrow> Inr zeroResult))"
  by (rule does_performs [OF performs_Reconcile])
    (auto simp: reconcile_step_def split: prod.split sum.split option.split)

lemma run_steps_panic:
  assumes "run_steps fs w = (Panic p, ws, w')"
  shows "\<exists>f w1 ws1 w2. f \<in> set fs \<and> f w1 = (Panic p, ws1, w2)"
  using assms
proof (induction fs arbitrary: w ws w')
  case (Cons f fs)
  then show ?case
    by (auto split: prod.splits outcome.splits option.splits) metis+
qed simp

lemma send_no_panic:
  "apply_step rt x w \<noteq> (Panic p, ws, w')" "create_step rt x w \<noteq> (Panic p, ws, w')"
  by (auto simp: apply_step_def create_step_def delete_step_def split: prod.splits sum.splits if_splits)

lemma handlers_panic:
  assumes "f \<in> set (handlers rt l)" "f w = (Panic p, ws, w')"
  shows "\<not> valid_verbosity l"
proof -
  have "DeploymentArgs l (backend_options l (backend_of l)) = Panic p"
    using assms
    by (auto simp: handlers_def manage_def desired_service_def desired_pvc_def desired_pdb_def
        desired_configmap_def desired_deployment_def options_step_def send_no_panic
        split: prod.splits outcome.splits sum.splits option.splits)
  then show ?thesis using DeploymentArgs_total [of l "backend_options l (backend_of l)"] by auto
qed

lemma pods_step_no_panic: "pods_step rt version pods w \<noteq> (Panic p, ws, w')"
  by (auto simp: pods_step_def dest!: run_steps_panic) (simp add: send_no_panic)

lemma spec_step_panic:
  assumes "spec_step rt l w = (Panic p, ws, w')"
  shows "\<not> valid_verbosity l"
proof -
  have "annotation_step rt l w1 \<noteq> (Panic p, ws1, w2)" for w1 ws1 w2
    by (auto simp: annotation_step_def pods_step_no_panic split: prod.splits sum.splits outcome.splits option.splits)
  with assms obtain w1 ws1 where "run_steps (handlers rt l) w = (Panic p, ws1, w1)"
    by (auto simp: spec_step_def split: prod.splits outcome.splits option.splits)
  then show ?thesis using handlers_panic run_steps_panic by metis
qed

text \<open>
  C7: The only panic a reconciliation can run into is the one of a negative verbosity, which
  the bounds of the custom resource definition exclude; no answer of the client leads to one.
\<close>

theorem Reconcile_panics_only_on_verbosity:
  "does {} (Reconcile rt ctx req) w (\<lambda>r ws w'. case r of
     Panic p \<Rightarrow> (\<exists>l. fst (cl_GetLimitador (rt_client rt) req w) = Inr l \<and> \<not> valid_verbosity l)
   | Done x \<Rightarrow> True)"
proof (rule does_performs [OF performs_Reconcile])
  have "\<not> valid_verbosity l" if "object_step rt l w1 = (Panic p, ws, w')" for l w1 p ws w'
    using that spec_step_panic status_step_returns
    by (fastforce simp: object_step_def split: prod.splits outcome.splits)
  then show "case reconcile_step rt req w of (r, ws, w') \<Rightarrow> case r of
     Panic p \<Rightarrow> (\<exists>l. fst (cl_GetLimitador (rt_client rt) req w) = Inr l \<and> \<not> valid_verbosity l)
   | Done x \<Rightarrow> True"
    by (auto split: prod.split outcome.split elim!: reconcile_step_cases)
qed

lemma spec_step_result:
  assumes "spec_step rt l w = (Done (Inr res), ws, w')"
  shows "res = requeue \<or> res = zeroResult"
  using assms
  by (auto simp: spec_step_def annotation_step_def split: prod.splits outcome.splits sum.splits option.splits if_splits)

lemma final_result_zero:
  assumes "spec_step rt l w = (Done spec, ws, w1)" "status_step rt l e w1 = (Done status, ws', w2)"
    "final_result spec status = Inr res"
  shows "res = zeroResult"
proof -
  from assms(3) obtain a b where "spec = Inr a" "status = Inr b"
    by (auto simp: final_result_def split: sum.splits)
  moreover from this assms(1,2) have "res_RequeueAfter a = 0" "b = zeroResult"
    using spec_step_result status_step_returns by (fastforce simp: requeue_def zeroResult_def)+
  ultimately show ?thesis using assms(3) by (simp add: final_result_def zeroResult_def)
qed

text \<open>
  C8: A reconciliation that returns without an error never asks to be requeued. \<^verbatim>\<open>Reconcile\<close> looks at
  \<^verbatim>\<open>RequeueAfter\<close> only, and no handler sets it: the \<^verbatim>\<open>Requeue: true\<close> that the pod annotation step
  returns (no pods yet, wrong number of pods, no config map) is dropped.
\<close>

theorem Reconcile_never_requeues:
  "does {} (Reconcile rt ctx req) w (\<lambda>r ws w'. case r of Done (Inr res) \<Rightarrow> res = zeroResult | _ \<Rightarrow> True)"
proof (rule does_performs [OF performs_Reconcile])
  have "res = zeroResult" if "object_step rt l w1 = (Done (Inr res), ws, w')" for l w1 res ws w'
    using that final_result_zero
    by (fastforce simp: object_step_def split: prod.splits outcome.splits)
  then show "case reconcile_step rt req w of (r, ws, w') \<Rightarrow> case r of Done (Inr res) \<Rightarrow> res = zeroResult | _ \<Rightarrow> True"
    by (auto split: prod.split outcome.split sum.split elim!: reconcile_step_cases)
qed

text \<open>
  C9: When the spec reconciliation fails with an error, the status is still reconciled: \<^verbatim>\<open>Reconcile\<close>
  returns that error, and after the writes of the spec it sends the status whose \<^verbatim>\<open>Ready\<close> condition
  is false, with reason \<^verbatim>\<open>ReconcilliationError\<close> and the error as its message - unless the resource
  already has that status.
\<close>

theorem Reconcile_reports_spec_error:
  assumes "cl_GetLimitador (rt_client rt) req w = (Inr l, w1)"
    and "om_DeletionTimestamp (lim_ObjectMeta l) = None" "debug_error rt l = None"
    and "spec_step rt l w1 = (Done (Inl e), ws1, w2)"
  shows "does {} (Reconcile rt ctx req) w (\<lambda>r ws w'.
     let st = status_with rt l (not_ready ''ReconcilliationError'' (Error e))
     in r = Done (Inl e) \<and>
        ws = ws1 @ (if status_current l st then []
          else [ReqStatusApply (OLimitador (statusPatch l st)) True FieldManagerName]))"
  by (rule does_performs [OF performs_Reconcile])
    (use assms in \<open>auto simp: reconcile_step_def object_step_def status_step_def condition_of_def
      spec_error_def final_result_def Let_def split: prod.splits\<close>)

lemma refusing_spec_step:
  "spec_step refusing sample w = (Done (Inl conflict),
     [ReqApply (set_meta (objectMeta (ServiceName sample) sample\<lparr>om_OwnerReferences :=
        [\<lparr>or_Kind = ''Limitador'', or_Name = ''sample'', or_Controller = True\<rparr>]\<rparr>) (OService (Service sample)))
        True FieldManagerName], w)"
  by (simp add: spec_step_def handlers_def manage_def desired_service_def own_def owner_set_def
      apply_step_def refusing_def sample_runtime_def Service_def)

theorem Reconcile_reports_spec_error_witness:
  "does {} (Reconcile refusing no_context sample_req) (with_limitador sample) (\<lambda>r ws w'.
     r = Done (Inl conflict) \<and> length ws = 2)"
proof -
  let ?c = "not_ready ''ReconcilliationError'' (Error conflict)"
  have "\<not> status_current sample (status_with refusing sample ?c)"
    by (simp add: status_current_def zeroStatus_def)
  moreover have "debug_error refusing sample = None" by (simp add: debug_error_def)
  ultimately show ?thesis
    using Reconcile_reports_spec_error [OF get_sample(2) _ _ refusing_spec_step, of no_context]
    by (auto simp: Let_def elim: does_mono)
qed

end
