(* ===== verification/Convergence.thy ===== *)
theory Convergence
  imports Reconcile_Properties
begin

text \<open>
  What a successful reconciliation leaves in the cluster. \<open>serves\<close> states the documented behaviour of
  the API server that this needs, over an arbitrary view \<open>stored\<close> of what is stored: a successful apply
  or create leaves an object that conforms to the one sent (the server may add fields of other
  managers and defaults), a delete removes the object or marks it for deletion, and a call changes
  no other object and reads change none - that is, nobody else writes during the reconciliation.
\<close>

type_synonym 'w view = "'w \<Rightarrow> kind \<times> NamespacedName \<Rightarrow> Object option"

definition same_view :: "'w view \<Rightarrow> 'w \<Rightarrow> 'w \<Rightarrow> bool" where
  "same_view stored w w' \<longleftrightarrow> stored w' = stored w"

definition only_at :: "'w view \<Rightarrow> (kind \<times> NamespacedName) \<Rightarrow> 'w \<Rightarrow> 'w \<Rightarrow> bool" where
  "only_at stored k w w' \<longleftrightarrow> (\<forall>k'. k' \<noteq> k \<longrightarrow> stored w' k' = stored w k')"

definition conforming :: "(Object \<Rightarrow> Object \<Rightarrow> bool) \<Rightarrow> Object \<Rightarrow> Object option \<Rightarrow> bool" where
  "conforming conforms x o1 \<longleftrightarrow> (\<exists>y. o1 = Some y \<and> conforms x y)"

definition gone :: "Object option \<Rightarrow> bool" where
  "gone o1 \<longleftrightarrow> (\<forall>y. o1 = Some y \<longrightarrow> om_DeletionTimestamp (obj_meta y) \<noteq> None)"

definition serves :: "'w view \<Rightarrow> (Object \<Rightarrow> Object \<Rightarrow> bool) \<Rightarrow> 'w client \<Rightarrow> bool" where
  "serves stored conforms c \<longleftrightarrow>
    (\<forall>w.
      (\<forall>k. same_view stored w (snd (cl_GetLimitador c k w)))
    \<and> (\<forall>k. same_view stored w (snd (cl_GetDeployment c k w)))
    \<and> (\<forall>k. same_view stored w (snd (cl_GetConfigMap c k w)))
    \<and> (\<forall>k. same_view stored w (snd (cl_GetPersistentVolumeClaim c k w)))
    \<and> (\<forall>k. same_view stored w (snd (cl_GetSecret c k w)))
    \<and> (\<forall>ns sel. same_view stored w (snd (cl_ListPods c ns sel w)))
    \<and> (\<forall>x f m w'. cl_Apply c x f m w = (None, w') \<longrightarrow>
         conforming conforms x (stored w' (obj_key x)) \<and> only_at stored (obj_key x) w w')
    \<and> (\<forall>x w'. cl_Create c x w = (None, w') \<longrightarrow>
         conforming conforms x (stored w' (obj_key x)) \<and> only_at stored (obj_key x) w w')
    \<and> (\<forall>x err w'. cl_Delete c x w = (err, w') \<longrightarrow> only_at stored (obj_key x) w w' \<and>
         (case err of None \<Rightarrow> gone (stored w' (obj_key x)) | Some e \<Rightarrow> IsNotFound e \<longrightarrow> gone (stored w' (obj_key x))))
    \<and> (\<forall>x f m err w'. cl_StatusApply c x f m w = (err, w') \<longrightarrow> only_at stored (obj_key x) w w'))"

lemma servesD:
  assumes "serves stored conforms c"
  shows "same_view stored w (snd (cl_GetLimitador c k w))"
    and "same_view stored w (snd (cl_GetDeployment c k w))"
    and "same_view stored w (snd (cl_GetConfigMap c k w))"
    and "same_view stored w (snd (cl_GetPersistentVolumeClaim c k w))"
    and "same_view stored w (snd (cl_GetSecret c k w))"
    and "same_view stored w (snd (cl_ListPods c ns sel w))"
    and "cl_Apply c x f m w = (None, w') \<Longrightarrow> conforming conforms x (stored w' (obj_key x)) \<and> only_at stored (obj_key x) w w'"
    and "cl_Create c x w = (None, w') \<Longrightarrow> conforming conforms x (stored w' (obj_key x)) \<and> only_at stored (obj_key x) w w'"
    and "cl_Delete c x w = (err, w') \<Longrightarrow> ignore_not_found err = None \<Longrightarrow> gone (stored w' (obj_key x)) \<and> only_at stored (obj_key x) w w'"
    and "cl_StatusApply c x f m w = (err, w') \<Longrightarrow> only_at stored (obj_key x) w w'"
  using assms unfolding serves_def
  by (fastforce simp: ignore_not_found_def IgnoreNotFound_def split: option.splits if_splits)+

section \<open>Steps that establish an object\<close>

text \<open>
  A step that succeeds leaves at its key what is asked for and changes nothing else. A sequence of
  such steps with distinct keys leaves at each key what its step established.
\<close>

definition establishes ::
    "'w view \<Rightarrow> ('w, error option) step \<Rightarrow> (kind \<times> NamespacedName) \<Rightarrow> (Object option \<Rightarrow> bool) \<Rightarrow> bool" where
  "establishes stored f k P \<longleftrightarrow> (\<forall>w ws w'. f w = (Done None, ws, w') \<longrightarrow> P (stored w' k) \<and> only_at stored k w w')"

lemma run_steps_establish:
  assumes "list_all (\<lambda>(f, k, P). establishes stored f k P) ts" "distinct (map (fst \<circ> snd) ts)"
    and "run_steps (map fst ts) w = (Done None, ws, w')"
  shows "list_all (\<lambda>(f, k, P). P (stored w' k)) ts \<and> (\<forall>k. k \<notin> fst ` snd ` set ts \<longrightarrow> stored w' k = stored w k)"
  using assms
proof (induction ts arbitrary: w ws)
  case (Cons t ts)
  obtain f k P where t: "t = (f, k, P)" by (rule prod_cases3)
  from Cons.prems(3) t obtain ws1 w1 ws2 where f: "f w = (Done None, ws1, w1)"
    and rest: "run_steps (map fst ts) w1 = (Done None, ws2, w')"
    by (auto split: prod.splits outcome.splits option.splits)
  from Cons.prems(1) t f have "P (stored w1 k)" and other: "only_at stored k w w1"
    by (auto simp: establishes_def)
  moreover from Cons.IH [OF _ _ rest] Cons.prems(1,2)
  have IH: "list_all (\<lambda>(f, k, P). P (stored w' k)) ts"
    "\<forall>k. k \<notin> fst ` snd ` set ts \<longrightarrow> stored w' k = stored w1 k" by auto
  moreover have "k \<notin> fst ` snd ` set ts" using Cons.prems(2) t by (force simp: image_iff)
  moreover from IH(2) this have "stored w' k = stored w1 k" by blast
  ultimately show ?case using t by (auto simp: only_at_def)
qed auto

lemma only_atD: "only_at stored k w w' \<Longrightarrow> k' \<noteq> k \<Longrightarrow> stored w' k' = stored w k'"
  unfolding only_at_def by blast

text \<open>The desired object of a handler, once owned, is what the handler establishes.\<close>

definition wants :: "'w desired \<Rightarrow> 'w runtime \<Rightarrow> Limitador \<Rightarrow> Object \<Rightarrow> bool" where
  "wants desired rt l y \<longleftrightarrow> (\<exists>w x w1. desired rt l w = (Done (Inr x), w1) \<and> own rt l x = Inr y)"

definition in_place ::
    "(Object \<Rightarrow> Object \<Rightarrow> bool) \<Rightarrow> 'w desired \<Rightarrow> 'w runtime \<Rightarrow> Limitador \<Rightarrow> Object option \<Rightarrow> bool" where
  "in_place conforms desired rt l o1 \<longleftrightarrow> (\<exists>y. wants desired rt l y \<and>
     (if IsObjectTaggedToDelete (obj_meta y) then gone o1 else conforming conforms y o1))"

lemma manage_Some_own:
  assumes "manage desired send rt l w = (Done None, ws, w')"
  obtains x w1 y where "desired rt l w = (Done (Inr x), w1)" "own rt l x = Inr y" "send rt y w1 = (Done None, ws, w')"
  using assms by (auto simp: manage_def split: prod.splits outcome.splits sum.splits)

lemma apply_step_establishes:
  assumes "serves stored conforms (rt_client rt)" "apply_step rt y w = (Done None, ws, w')"
  shows "(if IsObjectTaggedToDelete (obj_meta y) then gone (stored w' (obj_key y))
     else conforming conforms y (stored w' (obj_key y))) \<and> only_at stored (obj_key y) w w'"
  using assms(2) servesD(7,9) [OF assms(1)]
  by (auto simp: apply_step_def delete_step_def split: prod.splits if_splits)

lemma create_step_establishes:
  assumes "serves stored conforms (rt_client rt)" "create_step rt y w = (Done None, ws, w')"
  shows "only_at stored (obj_key y) w w'"
proof -
  have get: "stored w1 = stored w" if "cl_GetPersistentVolumeClaim (rt_client rt) k w = (r, w1)" for k r w1
    using servesD(4) [OF assms(1), of w k] that by (simp add: same_view_def)
  show ?thesis
    using assms(2) servesD(8,9) [OF assms(1)] get
    by (auto simp: create_step_def delete_step_def only_at_def split: prod.splits if_splits sum.splits)
qed

lemma desired_views:
  assumes "serves stored conforms (rt_client rt)"
  shows "desired_service rt l w = (r, w1) \<Longrightarrow> stored w1 = stored w"
    and "desired_pvc rt l w = (r, w1) \<Longrightarrow> stored w1 = stored w"
    and "desired_deployment rt l w = (r, w1) \<Longrightarrow> stored w1 = stored w"
    and "desired_configmap rt l w = (r, w1) \<Longrightarrow> stored w1 = stored w"
    and "desired_pdb rt l w = (r, w1) \<Longrightarrow> stored w1 = stored w"
proof -
  have "stored w1 = stored w" if "cl_GetSecret (rt_client rt) k w = (r, w1)" for k r w1
    using servesD(5) [OF assms, of w k] that by (simp add: same_view_def)
  then show "desired_deployment rt l w = (r, w1) \<Longrightarrow> stored w1 = stored w"
    by (auto simp: desired_deployment_def options_step_def backend_check_def
        split: prod.splits outcome.splits sum.splits option.splits)
qed (auto simp: desired_service_def desired_pvc_def desired_configmap_def desired_pdb_def)

lemma manage_establishes:
  assumes "serves stored conforms (rt_client rt)"
    and "\<And>w r w1. desired rt l w = (r, w1) \<Longrightarrow> stored w1 = stored w"
    and "\<And>w x w1. desired rt l w = (Done (Inr x), w1) \<Longrightarrow> obj_key x = k"
  shows "establishes stored (manage desired apply_step rt l) k (in_place conforms desired rt l)"
  unfolding establishes_def
proof (intro allI impI)
  fix w ws w' assume "manage desired apply_step rt l w = (Done None, ws, w')"
  then obtain x w1 y where d: "desired rt l w = (Done (Inr x), w1)" and y: "own rt l x = Inr y"
    and s: "apply_step rt y w1 = (Done None, ws, w')" by (rule manage_Some_own)
  from y have "obj_key y = obj_key x" by (rule own_meta)
  with assms(3) [OF d] have "obj_key y = k" by simp
  moreover have "wants desired rt l y" using d y unfolding wants_def by blast
  ultimately show "in_place conforms desired rt l (stored w' k) \<and> only_at stored k w w'"
    using apply_step_establishes [OF assms(1) s] assms(2) [OF d] unfolding in_place_def only_at_def by auto
qed

lemma pvc_establishes:
  assumes "serves stored conforms (rt_client rt)"
  shows "establishes stored (manage desired_pvc create_step rt l) (lim_key KPersistentVolumeClaim PVCName l) (\<lambda>_. True)"
  unfolding establishes_def
proof (intro allI impI)
  fix w ws w' assume "manage desired_pvc create_step rt l w = (Done None, ws, w')"
  then obtain x w1 y where d: "desired_pvc rt l w = (Done (Inr x), w1)" and y: "own rt l x = Inr y"
    and s: "create_step rt y w1 = (Done None, ws, w')" by (rule manage_Some_own)
  from y have "obj_key y = obj_key x" by (rule own_meta)
  with create_step_establishes [OF assms s] desired_views(2) [OF assms d] pvc_handler.desired_key [OF d]
  show "True \<and> only_at stored (lim_key KPersistentVolumeClaim PVCName l) w w'" by (simp add: only_at_def)
qed

lemma handlers_establish:
  assumes "serves stored conforms (rt_client rt)"
  shows "establishes stored (manage desired_service apply_step rt l)
      (lim_key KService ServiceName l) (in_place conforms desired_service rt l)"
    and "establishes stored (manage desired_deployment apply_step rt l)
      (lim_key KDeployment DeploymentName l) (in_place conforms desired_deployment rt l)"
    and "establishes stored (manage desired_configmap apply_step rt l)
      (lim_key KConfigMap LimitsConfigMapName l) (in_place conforms desired_configmap rt l)"
    and "establishes stored (manage desired_pdb apply_step rt l)
      (lim_key KPodDisruptionBudget PodDisruptionBudgetName l) (in_place conforms desired_pdb rt l)"
  by (rule manage_establishes [OF assms], erule desired_views [OF assms],
      erule service_handler.desired_key deployment_handler.desired_key configmap_handler.desired_key
        pdb_handler.desired_key)+

section \<open>The whole reconciliation\<close>

definition all_in_place :: "'w view \<Rightarrow> (Object \<Rightarrow> Object \<Rightarrow> bool) \<Rightarrow> 'w runtime \<Rightarrow> Limitador \<Rightarrow> 'w \<Rightarrow> bool" where
  "all_in_place stored conforms rt l w \<longleftrightarrow>
     in_place conforms desired_service rt l (stored w (lim_key KService ServiceName l))
   \<and> in_place conforms desired_deployment rt l (stored w (lim_key KDeployment DeploymentName l))
   \<and> in_place conforms desired_configmap rt l (stored w (lim_key KConfigMap LimitsConfigMapName l))
   \<and> in_place conforms desired_pdb rt l (stored w (lim_key KPodDisruptionBudget PodDisruptionBudgetName l))"

lemma handlers_in_place:
  assumes "serves stored conforms (rt_client rt)"
    and "run_steps (handlers rt l) w = (Done None, ws, w')"
  shows "all_in_place stored conforms rt l w'"
proof -
  let ?ts = "[(manage desired_service apply_step rt l, lim_key KService ServiceName l, in_place conforms desired_service rt l),
     (manage desired_pvc create_step rt l, lim_key KPersistentVolumeClaim PVCName l, (\<lambda>_. True)),
     (manage desired_deployment apply_step rt l, lim_key KDeployment DeploymentName l, in_place conforms desired_deployment rt l),
     (manage desired_configmap apply_step rt l, lim_key KConfigMap LimitsConfigMapName l, in_place conforms desired_configmap rt l),
     (manage desired_pdb apply_step rt l, lim_key KPodDisruptionBudget PodDisruptionBudgetName l, in_place conforms desired_pdb rt l)]"
  have "list_all (\<lambda>(f, k, P). establishes stored f k P) ?ts"
    by (simp add: pvc_establishes [OF assms(1)] handlers_establish [OF assms(1)])
  moreover have "run_steps (map fst ?ts) w = (Done None, ws, w')"
    using assms(2) by (simp only: handlers_def list.map fst_conv)
  ultimately have "list_all (\<lambda>(f, k, P). P (stored w' k)) ?ts"
    using run_steps_establish [of stored ?ts w ws w'] by simp
  then show ?thesis by (simp add: all_in_place_def)
qed

lemma all_in_place_frame:
  assumes "\<And>k. fst k \<notin> {KPod, KLimitador} \<Longrightarrow> stored w' k = stored w k"
  shows "all_in_place stored conforms rt l w' = all_in_place stored conforms rt l w"
  using assms by (simp add: all_in_place_def)

lemma pods_step_frame:
  assumes "serves stored conforms (rt_client rt)" "pods_step rt version pods w = (Done None, ws, w')" "fst k \<noteq> KPod"
  shows "stored w' k = stored w k"
proof -
  have "stored w' k = stored w k"
    if "run_steps (map (\<lambda>p. apply_step rt (pod_patch version p)) ps) w = (Done None, ws, w')" for ps w ws
    using that
  proof (induction ps arbitrary: w ws)
    case (Cons p ps)
    then obtain ws1 w1 ws2 where p: "apply_step rt (pod_patch version p) w = (Done None, ws1, w1)"
      and "run_steps (map (\<lambda>p. apply_step rt (pod_patch version p)) ps) w1 = (Done None, ws2, w')"
      by (auto split: prod.splits outcome.splits option.splits)
    moreover have "k \<noteq> obj_key (pod_patch version p)" using assms(3) by (auto simp: obj_key_def pod_patch_def)
    with apply_step_establishes [OF assms(1) p] have "stored w1 k = stored w k" by (auto elim: only_atD)
    ultimately show ?case using Cons.IH by metis
  qed simp
  with assms(2) show ?thesis by (simp add: pods_step_def)
qed

lemma annotation_step_frame:
  assumes "serves stored conforms (rt_client rt)" "annotation_step rt l w = (Done (Inr res), ws, w')" "fst k \<noteq> KPod"
  shows "stored w' k = stored w k"
proof -
  have list: "stored w1 = stored w" if "cl_ListPods (rt_client rt) ns sel w = (r, w1)" for ns sel r w1
    using servesD(6) [OF assms(1), of w ns sel] that by (simp add: same_view_def)
  have get: "stored w2 = stored w1" if "cl_GetConfigMap (rt_client rt) n w1 = (r, w2)" for n r w1 w2
    using servesD(3) [OF assms(1), of w1 n] that by (simp add: same_view_def)
  show ?thesis
    using assms(2)
    by (auto simp: annotation_step_def split: prod.splits sum.splits if_splits outcome.splits option.splits
        dest!: list get pods_step_frame [OF assms(1) _ assms(3)])
qed

lemma status_step_frame:
  assumes "serves stored conforms (rt_client rt)" "status_step rt l e w = (r, ws, w')" "fst k \<noteq> KLimitador"
  shows "stored w' k = stored w k"
proof -
  have cond: "stored w1 = stored w" if "condition_of rt l e w = (c, w1)" for c w1
    using that servesD(2) [OF assms(1), of w "deployment_key l"]
    by (auto simp: condition_of_def same_view_def split: option.splits prod.splits)
  have app: "stored w2 k = stored w1 k"
    if "cl_StatusApply (rt_client rt) (OLimitador (statusPatch l st)) f m w1 = (err, w2)" for st f m w1 err w2
    using servesD(10) [OF assms(1) that] by (rule only_atD) (use assms(3) in \<open>auto simp: obj_key_def\<close>)
  show ?thesis
    using assms(2) by (auto simp: status_step_def Let_def split: prod.splits sum.splits if_splits dest!: cond app)
qed

text \<open>
  C16: Convergence. Against an API server that behaves as documented and with nobody else writing, a
  reconciliation that returns without an error leaves the service, the deployment and the limits
  config map of the resource stored as the spec asks for (with the owner set), and the disruption
  budget stored when the spec asks for one and gone or going when it does not.
\<close>

theorem Reconcile_converges:
  assumes "serves stored conforms (rt_client rt)"
    and "cl_GetLimitador (rt_client rt) req w = (Inr l, w1)"
    and "om_DeletionTimestamp (lim_ObjectMeta l) = None"
  shows "does {} (Reconcile rt ctx req) w (\<lambda>r ws w'. case r of
     Done (Inr res) \<Rightarrow> all_in_place stored conforms rt l w' | _ \<Rightarrow> True)"
proof (rule does_performs [OF performs_Reconcile])
  have "all_in_place stored conforms rt l w'"
    if ok: "reconcile_step rt req w = (Done (Inr res), ws, w')" for res ws w'
  proof -
    from ok assms(2,3) have "object_step rt l w1 = (Done (Inr res), ws, w')"
      by (auto simp: reconcile_step_def split: option.splits)
    then obtain spec ws1 w2 status ws2 where spec: "spec_step rt l w1 = (Done (Inr spec), ws1, w2)"
      and status: "status_step rt l None w2 = (Done status, ws2, w')"
      by (auto simp: object_step_def final_result_def spec_error_def split: prod.splits outcome.splits sum.splits)
    from spec obtain ws3 w3 ws4 where hs: "run_steps (handlers rt l) w1 = (Done None, ws3, w3)"
      and ann: "annotation_step rt l w3 = (Done (Inr spec), ws4, w2)"
      by (auto simp: spec_step_def split: prod.splits outcome.splits option.splits)
    have "all_in_place stored conforms rt l w2"
      using handlers_in_place [OF assms(1) hs] annotation_step_frame [OF assms(1) ann]
      by (subst all_in_place_frame [of stored w2 w3]) auto
    then show ?thesis
      using status_step_frame [OF assms(1) status] by (subst all_in_place_frame [of stored w' w2]) auto
  qed
  then show "case reconcile_step rt req w of (r, ws, w') \<Rightarrow> case r of
     Done (Inr res) \<Rightarrow> all_in_place stored conforms rt l w' | _ \<Rightarrow> True"
    by (auto split: prod.split outcome.split sum.split)
qed

lemma sample_serves: "serves cl_objects (=) sample_client"
  by (auto simp: serves_def same_view_def sample_client_def put_def remove_object_def conforming_def only_at_def
      gone_def notFound_def split: if_splits)

text \<open>On that server the reconciliation of the sample resource succeeds.\<close>

lemma sample_manage:
  assumes "\<exists>x. desired sample_runtime sample w = (Done (Inr x), w)"
  shows "\<exists>ws w'. manage desired apply_step sample_runtime sample w = (Done None, ws, w') \<and> cl_pods w' = cl_pods w"
    and "\<exists>ws w'. manage desired create_step sample_runtime sample w = (Done None, ws, w') \<and> cl_pods w' = cl_pods w"
  using assms
  by (auto simp: manage_def own_def owner_set_def apply_step_def create_step_def delete_step_def
      sample_client_def put_def remove_object_def ignore_not_found_def IgnoreNotFound_def notFound_def
      split: if_splits prod.splits sum.splits option.splits Object.splits)

lemma sample_deployment: "\<exists>x. desired_deployment sample_runtime sample w = (Done (Inr x), w)"
proof -
  have "valid_verbosity sample" by (simp add: valid_verbosity_def zeroSpec_def)
  then obtain args where "DeploymentArgs sample (backend_options sample (backend_of sample)) = Done args"
    using DeploymentArgs_total by blast
  then show ?thesis
    by (simp add: desired_deployment_def options_step_def backend_check_def backend_of_def zeroSpec_def)
qed

lemma run_steps_total:
  assumes "list_all (\<lambda>f. \<forall>w. \<exists>ws w'. f w = (Done None, ws, w') \<and> cl_pods w' = cl_pods w) fs"
  shows "\<exists>ws w'. run_steps fs w = (Done None, ws, w') \<and> cl_pods w' = cl_pods w"
  using assms
proof (induction fs arbitrary: w)
  case (Cons f fs)
  then obtain ws w1 where f: "f w = (Done None, ws, w1)" "cl_pods w1 = cl_pods w" by fastforce
  from Cons obtain ws' w2 where "run_steps fs w1 = (Done None, ws', w2)" "cl_pods w2 = cl_pods w1" by fastforce
  with f show ?case by simp
qed simp

lemma sample_handlers:
  "\<exists>ws w'. run_steps (handlers sample_runtime sample) w = (Done None, ws, w') \<and> cl_pods w' = cl_pods w"
proof (rule run_steps_total)
  have "\<exists>x. desired_service sample_runtime sample w = (Done (Inr x), w)"
    "\<exists>x. desired_pvc sample_runtime sample w = (Done (Inr x), w)"
    "\<exists>x. desired_configmap sample_runtime sample w = (Done (Inr x), w)"
    "\<exists>x. desired_pdb sample_runtime sample w = (Done (Inr x), w)" for w
    by (simp_all add: desired_service_def desired_pvc_def desired_configmap_def desired_pdb_def LimitsConfigMap_eq)
  then show "list_all (\<lambda>f. \<forall>w. \<exists>ws w'. f w = (Done None, ws, w') \<and> cl_pods w' = cl_pods w) (handlers sample_runtime sample)"
    using sample_deployment by (auto simp: handlers_def intro!: sample_manage)
qed

lemma sample_reconcile:
  "\<exists>ws w'. reconcile_step sample_runtime sample_req (with_limitador sample) = (Done (Inr zeroResult), ws, w')"
proof -
  obtain ws w1 where h: "run_steps (handlers sample_runtime sample) (with_limitador sample) = (Done None, ws, w1)"
    "cl_pods w1 = []" using sample_handlers [of "with_limitador sample"] by (auto simp: with_limitador_def empty_cluster_def)
  then have "spec_step sample_runtime sample (with_limitador sample) = (Done (Inr requeue), ws, w1)"
    by (simp add: spec_step_def annotation_step_def sample_client_def pods_ready_def)
  moreover obtain c where "condition_of sample_runtime sample None w1 = (Inr c, w1)"
  proof (cases "fst (cl_GetDeployment sample_client (deployment_key sample) w1)")
    case (Inl e)
    then have "e = notFound" by (auto simp: sample_client_def split: option.splits Object.splits)
    with Inl that show ?thesis by (auto simp: condition_of_def availability_def notFound_def sample_client_def)
  qed (use that in \<open>auto simp: condition_of_def availability_def sample_client_def\<close>)
  then obtain ws' w2 where "status_step sample_runtime sample None w1 = (Done (Inr zeroResult), ws', w2)"
    by (cases "status_current sample (status_with sample_runtime sample c)")
      (auto simp: status_step_def sample_client_def put_def Let_def)
  ultimately show ?thesis
    by (auto simp: reconcile_step_def debug_error_def object_step_def spec_error_def final_result_def requeue_def zeroResult_def)
qed

lemma does_conj: "does S m w Q \<Longrightarrow> does S m w R \<Longrightarrow> does S m w (\<lambda>r ws w'. Q r ws w' \<and> R r ws w')"
  unfolding does_def by (drule (1) yields_conj, erule yields_mono) blast

theorem Reconcile_converges_witness:
  "does {} (Reconcile sample_runtime no_context sample_req) (with_limitador sample) (\<lambda>r ws w'.
     r = Done (Inr zeroResult) \<and> all_in_place cl_objects (=) sample_runtime sample w')"
proof -
  have "does {} (Reconcile sample_runtime no_context sample_req) (with_limitador sample)
      (\<lambda>r ws w'. r = Done (Inr zeroResult))"
    using sample_reconcile by (intro does_performs [OF performs_Reconcile]) auto
  moreover have "does {} (Reconcile sample_runtime no_context sample_req) (with_limitador sample) (\<lambda>r ws w'.
      case r of Done (Inr res) \<Rightarrow> all_in_place cl_objects (=) sample_runtime sample w' | _ \<Rightarrow> True)"
    using Reconcile_converges [of cl_objects "(=)" sample_runtime sample_req "with_limitador sample" sample
        "with_limitador sample" no_context]
    by (simp add: sample_serves)
  ultimately show ?thesis by (rule does_mono [OF does_conj]) auto
qed

end
