(* ===== verification/Go_Flag.thy ===== *)
theory Go_Flag
  imports Go_Prelude
begin

text \<open>
  Truth values as \<^verbatim>\<open>strconv\<close> reads them, and what \<^verbatim>\<open>main.go\<close> uses of Go's \<^verbatim>\<open>flag\<close> package: variables bound to flags, and \<^verbatim>\<open>flag.Parse\<close> on the
  command line of the process, which ends the process when an argument is wrong. The usage text that
  is printed then is not modelled.
\<close>

text \<open>
  A flag sets a string or a truth value among the variables \<open>'v\<close>; one that a library declares keeps its
  own value and only accepts or refuses what it is given.
\<close>

datatype 'v formal =
    StringVar "string \<Rightarrow> 'v \<Rightarrow> 'v"
  | BoolVar "bool \<Rightarrow> 'v \<Rightarrow> 'v"
  | LibraryVar (lib_bool: bool) (lib_accepts: "string \<Rightarrow> bool")

text \<open>\<^verbatim>\<open>strconv.ParseBool\<close>.\<close>

definition ParseBool :: "string \<Rightarrow> error + bool" where
  "ParseBool s =
    (if s \<in> {''1'', ''t'', ''T'', ''TRUE'', ''true'', ''True''} then Inr True
     else if s \<in> {''0'', ''f'', ''F'', ''FALSE'', ''false'', ''False''} then Inr False
     else Inl (ErrExt (''strconv.ParseBool: parsing '' @ s @ '': invalid syntax'')))"

definition IsBoolFlag :: "'v formal \<Rightarrow> bool" where
  "IsBoolFlag f = (case f of StringVar g \<Rightarrow> False | BoolVar g \<Rightarrow> True | LibraryVar b accepts \<Rightarrow> b)"

definition Set_flag :: "'v formal \<Rightarrow> string \<Rightarrow> 'v \<Rightarrow> 'v option" where
  "Set_flag f s v =
    (case f of
       StringVar g \<Rightarrow> Some (g s v)
     | BoolVar g \<Rightarrow> (case ParseBool s of Inl e \<Rightarrow> None | Inr b \<Rightarrow> Some (g b v))
     | LibraryVar b accepts \<Rightarrow> if accepts s then Some v else None)"

text \<open>One argument: an operand or the terminator, which end the flags, or a flag with or without a value.\<close>

datatype flag_arg = NoFlag | BadFlag | Flag string "string option"

definition flag_arg :: "string \<Rightarrow> flag_arg" where
  "flag_arg s =
    (if length s < 2 \<or> s ! 0 \<noteq> CHR ''-'' \<or> s = ''--'' then NoFlag
     else let name = (if s ! 1 = CHR ''-'' then drop 2 s else drop 1 s)
       in if name = [] \<or> hd name = CHR ''-'' \<or> hd name = CHR ''='' then BadFlag
          else case dropWhile (\<lambda>c. c \<noteq> CHR ''='') name of
                 [] \<Rightarrow> Flag name None
               | _ # value \<Rightarrow> Flag (takeWhile (\<lambda>c. c \<noteq> CHR ''='') name) (Some value))"

text \<open>The errors of the parser, and the status the process exits with.\<close>

datatype flag_error = HelpRequested | FlagError

definition flag_status :: "flag_error \<Rightarrow> int" where
  "flag_status e = (case e of HelpRequested \<Rightarrow> 0 | FlagError \<Rightarrow> 2)"

fun flag_Parse :: "(string \<Rightarrow> 'v formal option) \<Rightarrow> string list \<Rightarrow> 'v \<Rightarrow> flag_error + 'v" where
  "flag_Parse formal [] v = Inr v"
| "flag_Parse formal (s # args) v =
    (case flag_arg s of
       NoFlag \<Rightarrow> Inr v
     | BadFlag \<Rightarrow> Inl FlagError
     | Flag name value \<Rightarrow>
         (case formal name of
            None \<Rightarrow> Inl (if name = ''help'' \<or> name = ''h'' then HelpRequested else FlagError)
          | Some f \<Rightarrow>
              if IsBoolFlag f \<or> value \<noteq> None
              then (case Set_flag f (case value of None \<Rightarrow> ''true'' | Some x \<Rightarrow> x) v of
                      None \<Rightarrow> Inl FlagError | Some v1 \<Rightarrow> flag_Parse formal args v1)
              else (case args of
                      [] \<Rightarrow> Inl FlagError
                    | x # args1 \<Rightarrow>
                        (case Set_flag f x v of
                           None \<Rightarrow> Inl FlagError | Some v1 \<Rightarrow> flag_Parse formal args1 v1))))"

text \<open>A flag with its value, as it is written with two dashes.\<close>

lemma flag_arg_value:
  assumes "name \<noteq> []" "hd name \<noteq> CHR ''-''" "CHR ''='' \<notin> set name"
  shows "flag_arg (''--'' @ name @ ''='' @ value) = Flag name (Some value)"
proof -
  have "hd name \<noteq> CHR ''=''" using assms(1,3) by (metis list.set_sel(1))
  moreover have "takeWhile (\<lambda>c. c \<noteq> CHR ''='') (name @ ''='' @ value) = name"
    "dropWhile (\<lambda>c. c \<noteq> CHR ''='') (name @ ''='' @ value) = ''='' @ value"
    using assms(3) by (subst takeWhile_append2 dropWhile_append2; auto)+
  ultimately show ?thesis using assms(1,2) by (simp add: flag_arg_def)
qed

lemma flag_Parse_value:
  assumes "name \<noteq> []" "hd name \<noteq> CHR ''-''" "CHR ''='' \<notin> set name"
    and "formal name = Some f" "Set_flag f value v = Some v1"
  shows "flag_Parse formal ((''--'' @ name @ ''='' @ value) # args) v = flag_Parse formal args v1"
  using assms(4,5) by (simp only: flag_Parse.simps flag_arg_value [OF assms(1-3)]) simp

end
