(* ===== verification/Op_Log.thy ===== *)
theory Op_Log
  imports Op_Runtime
begin

text \<open>
  \<^verbatim>\<open>pkg/log/log.go\<close>: log levels and modes and the options of the logger. The decoder of level names
  (\<^verbatim>\<open>zapcore.Level.UnmarshalText\<close>) is a parameter. The levels are ordered as zap orders them.
\<close>

section \<open>Levels\<close>

datatype Level = DebugLevel | InfoLevel | WarnLevel | ErrorLevel | DPanicLevel | PanicLevel | FatalLevel

primrec level_value :: "Level \<Rightarrow> int" where
  "level_value DebugLevel = -1"
| "level_value InfoLevel = 0"
| "level_value WarnLevel = 1"
| "level_value ErrorLevel = 2"
| "level_value DPanicLevel = 3"
| "level_value PanicLevel = 4"
| "level_value FatalLevel = 5"

lemma level_value_inject: "level_value a = level_value b \<longleftrightarrow> a = b"
  by (cases a; cases b; simp)

instantiation Level :: linorder
begin

definition less_eq_Level :: "Level \<Rightarrow> Level \<Rightarrow> bool" where
  "less_eq_Level a b \<longleftrightarrow> level_value a \<le> level_value b"

definition less_Level :: "Level \<Rightarrow> Level \<Rightarrow> bool" where
  "less_Level a b \<longleftrightarrow> level_value a < level_value b"

instance
  by standard (auto simp: less_eq_Level_def less_Level_def level_value_inject)

end

text \<open>The zero value of a level is the one with value 0.\<close>

definition zeroLevel :: Level where
  "zeroLevel = InfoLevel"

definition ToLevel :: "(string \<Rightarrow> error + Level) \<Rightarrow> string \<Rightarrow> Level outcome" where
  "ToLevel UnmarshalText level =
    (case UnmarshalText level of Inl err \<Rightarrow> Panic (Error err) | Inr l \<Rightarrow> Done l)"

section \<open>Modes\<close>

datatype Mode = ModeProd | ModeDev

text \<open>
  \<^verbatim>\<open>strings.ToLower\<close> as far as a comparison with an ASCII text can see it: the ASCII letters, and the two
  runes outside ASCII whose lower case is an ASCII letter (U+0130 and U+212A). Every other rune has a
  lower case outside ASCII; it is kept.
\<close>

fun ToLower :: "string \<Rightarrow> string" where
  "ToLower [] = []"
| "ToLower (c # cs) =
    (if c = char_of (0xC4 :: nat) \<and> cs \<noteq> [] \<and> hd cs = char_of (0xB0 :: nat) then CHR ''i'' # ToLower (tl cs)
     else if c = char_of (0xE2 :: nat) \<and> length cs \<ge> 2 \<and> take 2 cs = [char_of (0x84 :: nat), char_of (0xAA :: nat)]
     then CHR ''k'' # ToLower (drop 2 cs)
     else if 65 \<le> (of_char c :: nat) \<and> (of_char c :: nat) \<le> 90 then char_of ((of_char c :: nat) + 32) # ToLower cs
     else c # ToLower cs)"

definition ToMode :: "string \<Rightarrow> Mode outcome" where
  "ToMode mode =
    (if ToLower mode = ''production'' then Done ModeProd
     else if ToLower mode = ''development'' then Done ModeDev
     else Panic (''unknown log mode: '' @ mode))"

section \<open>Options\<close>

datatype writer = Stderr | Stdout

record Options =
  op_LogLevel :: Level
  op_LogMode :: Mode
  op_DestWriter :: "writer option"

type_synonym Opts = "Options \<Rightarrow> Options"

definition WriteTo :: "writer \<Rightarrow> Opts" where
  "WriteTo out o1 = o1\<lparr>op_DestWriter := Some out\<rparr>"

definition SetLevel :: "Level \<Rightarrow> Opts" where
  "SetLevel level o1 = o1\<lparr>op_LogLevel := level\<rparr>"

definition SetMode :: "Mode \<Rightarrow> Opts" where
  "SetMode mode o1 = o1\<lparr>op_LogMode := mode\<rparr>"

text \<open>The arguments of \<^verbatim>\<open>zap.New\<close>.\<close>

record zap_logger =
  zl_Level :: Level
  zl_DevMode :: bool
  zl_Dest :: writer

definition NewLogger :: "Opts list \<Rightarrow> zap_logger" where
  "NewLogger opts =
    (let o1 = fold (\<lambda>opt o1. opt o1) opts \<lparr>op_LogLevel = zeroLevel, op_LogMode = ModeProd, op_DestWriter = None\<rparr>;
         dest = (case op_DestWriter o1 of None \<Rightarrow> Stderr | Some d \<Rightarrow> d)
     in \<lparr>zl_Level = op_LogLevel o1, zl_DevMode = (op_LogMode o1 = ModeDev), zl_Dest = dest\<rparr>)"

text \<open>The loggers a process keeps: the package's own, controller-runtime's and klog's.\<close>

record 'l loggers =
  lg_Log :: 'l
  lg_ctrl :: 'l
  lg_klog :: 'l

definition SetLogger :: "'l \<Rightarrow> 'l loggers \<Rightarrow> 'l loggers" where
  "SetLogger logger ls = ls\<lparr>lg_Log := logger, lg_ctrl := logger, lg_klog := logger\<rparr>"

section \<open>Lower case\<close>

lemma ToLower_ascii:
  "list_all (\<lambda>c. 97 \<le> (of_char c :: nat) \<and> (of_char c :: nat) \<le> 122) s \<Longrightarrow> ToLower s = s"
proof (induction s)
  case (Cons c cs)
  then have c: "97 \<le> (of_char c :: nat)" "(of_char c :: nat) \<le> 122" by auto
  have "c \<noteq> char_of (0xC4 :: nat)" "c \<noteq> char_of (0xE2 :: nat)" using c by (auto simp: of_char_of)
  with Cons c show ?case by simp
qed simp

end
