(* ===== verification/Reconciler_Wiring.thy ===== *)
theory Reconciler_Wiring
  imports Op_Log
begin

text \<open>
  What \<^verbatim>\<open>main\<close> puts together before the manager starts: the API group and its registration in a scheme
  (\<^verbatim>\<open>api/v1alpha1/groupversion_info.go\<close> and the \<^verbatim>\<open>init\<close> of \<^verbatim>\<open>limitador_types.go\<close>), the tracer
  (\<^verbatim>\<open>pkg/observability/tracer.go\<close>) and the base reconciler with its accessors
  (\<^verbatim>\<open>pkg/reconcilers/base_reconciler.go\<close>). Objects of the libraries - clients, recorders, tracers - are
  opaque values of type \<open>'o\<close>.
\<close>

section \<open>The API group\<close>

record schema_GroupVersion =
  gv_Group :: string
  gv_Version :: string

definition GroupVersion :: schema_GroupVersion where
  "GroupVersion = \<lparr>gv_Group = ''limitador.kuadrant.io'', gv_Version = ''v1alpha1''\<rparr>"

text \<open>\<^verbatim>\<open>GroupVersion.String()\<close>: the core group is left out.\<close>

definition gv_String :: "schema_GroupVersion \<Rightarrow> string" where
  "gv_String gv = (if gv_Group gv = [] then gv_Version gv else gv_Group gv @ ''/'' @ gv_Version gv)"

text \<open>
  A scheme knows Go types by group version and kind. A builder of controller-runtime has a group
  version and collects types; \<^verbatim>\<open>Register\<close> and \<^verbatim>\<open>AddToScheme\<close> are functions of the library, as is the
  registration of the built-in types.
\<close>

type_synonym scheme = "(schema_GroupVersion \<times> string) list"

record Builder =
  bu_GroupVersion :: schema_GroupVersion
  bu_types :: "string list"

record scheme_lib =
  lib_Register :: "Builder \<Rightarrow> string list \<Rightarrow> Builder"
  lib_AddToScheme :: "Builder \<Rightarrow> scheme \<Rightarrow> error + scheme"
  clientgoscheme_AddToScheme :: "scheme \<Rightarrow> error + scheme"

definition SchemeBuilder :: Builder where
  "SchemeBuilder = \<lparr>bu_GroupVersion = GroupVersion, bu_types = []\<rparr>"

text \<open>The package's \<^verbatim>\<open>init\<close>: what the builder is when \<^verbatim>\<open>AddToScheme\<close> is called.\<close>

definition types_init :: "scheme_lib \<Rightarrow> Builder" where
  "types_init lib = lib_Register lib SchemeBuilder [''Limitador'', ''LimitadorList'']"

definition AddToScheme :: "scheme_lib \<Rightarrow> scheme \<Rightarrow> error + scheme" where
  "AddToScheme lib = lib_AddToScheme lib (types_init lib)"

text \<open>\<^verbatim>\<open>utilruntime.Must\<close>.\<close>

definition Must :: "error + 'a \<Rightarrow> 'a outcome" where
  "Must r = (case r of Inl err \<Rightarrow> Panic (Error err) | Inr x \<Rightarrow> Done x)"

text \<open>
  The documented behaviour: \<^verbatim>\<open>Register\<close> adds types to a builder, \<^verbatim>\<open>AddToScheme\<close> makes them known under the
  group version of the builder and keeps what a scheme knows.
\<close>

definition registers :: "scheme_lib \<Rightarrow> bool" where
  "registers lib \<longleftrightarrow>
     (\<forall>b ts. bu_GroupVersion (lib_Register lib b ts) = bu_GroupVersion b \<and>
        set (bu_types (lib_Register lib b ts)) = set (bu_types b) \<union> set ts) \<and>
     (\<forall>b sch sch'. lib_AddToScheme lib b sch = Inr sch' \<longrightarrow>
        set sch \<union> Pair (bu_GroupVersion b) ` set (bu_types b) \<subseteq> set sch')"

lemma AddToScheme_known:
  assumes "registers lib" "AddToScheme lib sch = Inr sch'"
  shows "set sch \<subseteq> set sch'" "(GroupVersion, ''Limitador'') \<in> set sch'"
    "(GroupVersion, ''LimitadorList'') \<in> set sch'"
proof -
  have "bu_GroupVersion (types_init lib) = GroupVersion"
    "set (bu_types (types_init lib)) = {''Limitador'', ''LimitadorList''}"
    using assms(1) by (auto simp: registers_def types_init_def SchemeBuilder_def)
  moreover have "set sch \<union> Pair (bu_GroupVersion (types_init lib)) ` set (bu_types (types_init lib)) \<subseteq> set sch'"
    using assms unfolding registers_def AddToScheme_def by blast
  ultimately show "set sch \<subseteq> set sch'" "(GroupVersion, ''Limitador'') \<in> set sch'"
    "(GroupVersion, ''LimitadorList'') \<in> set sch'" by auto
qed

section \<open>The tracer and the base reconciler\<close>

abbreviation tracerName :: string where
  "tracerName \<equiv> ''limitador-operator''"

record 'o Tracer =
  tr_tracer :: 'o

definition NewTracer :: "(string \<Rightarrow> 'o) \<Rightarrow> 'o Tracer" where
  "NewTracer otelTracer = \<lparr>tr_tracer = otelTracer tracerName\<rparr>"

text \<open>A logger with the names it was given by \<^verbatim>\<open>WithName\<close>.\<close>

record named_logger =
  nl_base :: zap_logger
  nl_names :: "string list"

definition WithName :: "zap_logger \<Rightarrow> string \<Rightarrow> named_logger" where
  "WithName l name = \<lparr>nl_base = l, nl_names = [name]\<rparr>"

record 'o BaseReconciler =
  br_client :: 'o
  br_scheme :: scheme
  br_apiClientReader :: 'o
  br_logger :: named_logger
  br_recorder :: 'o
  br_tracer :: "'o Tracer"

definition NewBaseReconciler ::
    "(string \<Rightarrow> 'o) \<Rightarrow> 'o \<Rightarrow> scheme \<Rightarrow> 'o \<Rightarrow> named_logger \<Rightarrow> 'o \<Rightarrow> 'o BaseReconciler" where
  "NewBaseReconciler otelTracer client scheme apiClientReader logger recorder =
    \<lparr>br_client = client, br_scheme = scheme, br_apiClientReader = apiClientReader,
     br_logger = logger, br_recorder = recorder, br_tracer = NewTracer otelTracer\<rparr>"

definition Client :: "'o BaseReconciler \<Rightarrow> 'o" where
  "Client b = br_client b"

definition APIClientReader :: "'o BaseReconciler \<Rightarrow> 'o" where
  "APIClientReader b = br_apiClientReader b"

definition Scheme :: "'o BaseReconciler \<Rightarrow> scheme" where
  "Scheme b = br_scheme b"

definition Logger :: "'o BaseReconciler \<Rightarrow> named_logger" where
  "Logger b = br_logger b"

definition EventRecorder :: "'o BaseReconciler \<Rightarrow> 'o" where
  "EventRecorder b = br_recorder b"

definition BaseTracer :: "'o BaseReconciler \<Rightarrow> 'o Tracer" where
  "BaseTracer b = br_tracer b"

lemmas accessor_defs = Client_def APIClientReader_def Scheme_def Logger_def EventRecorder_def BaseTracer_def

end
