(* ===== verification/Main_Setup.thy ===== *)
theory Main_Setup
  imports Otel_Config Reconciler_Wiring Op_Names Go_Flag
begin

text \<open>
  \<^verbatim>\<open>main.go\<close>: the start of the operator. The outcome of every library call is a parameter; the model
  is the list of effects in order and how the process ends. \<^verbatim>\<open>os.Exit\<close> ends the process without
  running the deferred shutdown of the trace provider.
\<close>

section \<open>Options of the manager\<close>

definition appSelector :: "string \<rightharpoonup> string" where
  "appSelector = [LabelKeyApp \<mapsto> LimitadorAppName]"

text \<open>The label selectors of the cache, by kind; a kind without one is cached whole.\<close>

definition cacheOptions :: "kind \<Rightarrow> (string \<rightharpoonup> string) option" where
  "cacheOptions k =
    (case k of KConfigMap \<Rightarrow> Some appSelector | KDeployment \<Rightarrow> Some appSelector
     | KPodDisruptionBudget \<Rightarrow> Some appSelector | KPod \<Rightarrow> Some appSelector
     | KPersistentVolumeClaim \<Rightarrow> Some appSelector | _ \<Rightarrow> None)"

record flags =
  fl_metricsAddr :: string
  fl_probeAddr :: string
  fl_leaderElection :: bool

definition defaultFlags :: flags where
  "defaultFlags = \<lparr>fl_metricsAddr = '':8080'', fl_probeAddr = '':8081'', fl_leaderElection = False\<rparr>"

text \<open>The flags of the command line: those of \<^verbatim>\<open>main\<close>, and those of libraries under other names.\<close>

definition formal_flags :: "(string \<Rightarrow> flags formal option) \<Rightarrow> string \<Rightarrow> flags formal option" where
  "formal_flags library name =
    (if name = ''metrics-bind-address'' then Some (StringVar (\<lambda>s fl. fl\<lparr>fl_metricsAddr := s\<rparr>))
     else if name = ''health-probe-bind-address'' then Some (StringVar (\<lambda>s fl. fl\<lparr>fl_probeAddr := s\<rparr>))
     else if name = ''leader-elect'' then Some (BoolVar (\<lambda>b fl. fl\<lparr>fl_leaderElection := b\<rparr>))
     else library name)"

record manager_options =
  mo_Scheme :: scheme
  mo_Cache :: "kind \<Rightarrow> (string \<rightharpoonup> string) option"
  mo_DisableFor :: "kind list"
  mo_MetricsBindAddress :: string
  mo_WebhookPort :: nat
  mo_HealthProbeBindAddress :: string
  mo_LeaderElection :: bool
  mo_LeaderElectionID :: string

definition managerOptions :: "scheme \<Rightarrow> flags \<Rightarrow> manager_options" where
  "managerOptions scheme fl =
    \<lparr>mo_Scheme = scheme, mo_Cache = cacheOptions, mo_DisableFor = [KSecret], mo_MetricsBindAddress = fl_metricsAddr fl,
     mo_WebhookPort = 9443, mo_HealthProbeBindAddress = fl_probeAddr fl,
     mo_LeaderElection = fl_leaderElection fl, mo_LeaderElectionID = ''3745a16e.kuadrant.io''\<rparr>"

section \<open>Start and end of the process\<close>

datatype 'o main_event =
    MLogInfo string "(string \<times> string) list"
  | MInitProvider Config
  | MGetConfigOrDie
  | MNewManager manager_options
  | MSetupWithManager "'o BaseReconciler"
  | MAddHealthzCheck string
  | MAddReadyzCheck string
  | MStart
  | MShutdown
  | MLogError error string

datatype process_end = Returned | Exited int | Crashed string

text \<open>
  The command line and the answers of the libraries. \<open>me_GetConfigOrDie\<close> is the status the process exits with
  when the configuration of the cluster cannot be loaded.
\<close>

record build_info =
  bi_version :: string
  bi_gitSHA :: string
  bi_dirty :: string

record ('res, 'o) main_env =
  me_build :: build_info
  me_goVersion :: string
  me_GOOS :: string
  me_GOARCH :: string
  me_schemes :: scheme_lib
  me_NewScheme :: scheme
  me_GetString :: "string \<Rightarrow> string \<Rightarrow> string"
  me_UnmarshalText :: "string \<Rightarrow> error + Level"
  me_Args :: "string list"
  me_libraryFlags :: "string \<Rightarrow> flags formal option"
  me_lib :: "'res otel_lib"
  me_globals :: "'res otel_globals"
  me_GetConfigOrDie :: "int option"
  me_NewManager :: "manager_options \<Rightarrow> error option"
  me_GetClient :: 'o
  me_GetScheme :: "manager_options \<Rightarrow> scheme"
  me_GetAPIReader :: 'o
  me_GetEventRecorderFor :: "string \<Rightarrow> 'o"
  me_otelTracer :: "string \<Rightarrow> 'o"
  me_SetupWithManager :: "error option"
  me_AddHealthzCheck :: "error option"
  me_AddReadyzCheck :: "error option"
  me_Start :: "error option"

text \<open>\<^verbatim>\<open>init\<close> makes the logger; an unknown level or mode panics before \<^verbatim>\<open>main\<close> runs.\<close>

definition logLevel :: "('res, 'o) main_env \<Rightarrow> string" where
  "logLevel env = me_GetString env ''LOG_LEVEL'' ''info''"

definition logMode :: "('res, 'o) main_env \<Rightarrow> string" where
  "logMode env = me_GetString env ''LOG_MODE'' ''production''"

definition init_logger :: "('res, 'o) main_env \<Rightarrow> zap_logger loggers \<Rightarrow> zap_logger loggers outcome" where
  "init_logger env loggers =
    (case ToLevel (me_UnmarshalText env) (logLevel env) of
       Panic p \<Rightarrow> Panic p
     | Done level \<Rightarrow>
         (case ToMode (logMode env) of
            Panic p \<Rightarrow> Panic p
          | Done mode \<Rightarrow>
              (let logger = NewLogger [SetLevel level, SetMode mode, WriteTo Stdout]
               in Done (SetLogger logger loggers))))"

text \<open>
  The \<^verbatim>\<open>init\<close> of \<^verbatim>\<open>main\<close>: the built-in types and those of the operator are registered in the scheme, then
  the logger is made. It runs after the \<^verbatim>\<open>init\<close> of the imported packages.
\<close>

definition main_init ::
    "('res, 'o) main_env \<Rightarrow> zap_logger loggers \<Rightarrow> (scheme \<times> zap_logger loggers) outcome" where
  "main_init env loggers =
    (case Must (clientgoscheme_AddToScheme (me_schemes env) (me_NewScheme env)) of
       Panic p \<Rightarrow> Panic p
     | Done sch \<Rightarrow>
         (case Must (AddToScheme (me_schemes env) sch) of
            Panic p \<Rightarrow> Panic p
          | Done scheme \<Rightarrow>
              (case init_logger env loggers of Panic p \<Rightarrow> Panic p | Done ls \<Rightarrow> Done (scheme, ls))))"

text \<open>The lines that are logged, as message and key/value pairs.\<close>

definition printControllerMetaInfo :: "('res, 'o) main_env \<Rightarrow> 'o main_event list" where
  "printControllerMetaInfo env =
    [MLogInfo (''go version: '' @ me_goVersion env) [],
     MLogInfo (''go os/arch: '' @ me_GOOS env @ ''/'' @ me_GOARCH env) [],
     MLogInfo ''base logger'' [(''log level'', logLevel env), (''log mode'', logMode env)],
     MLogInfo ''build information'' [(''version'', bi_version (me_build env)),
       (''commit'', bi_gitSHA (me_build env)), (''dirty'', bi_dirty (me_build env))]]"

text \<open>A call that may fail: on an error, the message is logged and the process exits with 1.\<close>

definition or_exit ::
    "'o main_event \<Rightarrow> error option \<Rightarrow> string \<Rightarrow> 'o main_event list \<times> process_end \<Rightarrow> 'o main_event list \<times> process_end" where
  "or_exit call err msg rest =
    (case err of
       Some e \<Rightarrow> ([call, MLogError e msg], Exited 1)
     | None \<Rightarrow> (case rest of (evs, end1) \<Rightarrow> (call # evs, end1)))"

text \<open>A call that may end the process itself.\<close>

definition or_die :: "'o main_event \<Rightarrow> int option \<Rightarrow> 'o main_event list \<times> process_end \<Rightarrow> 'o main_event list \<times> process_end" where
  "or_die call status rest =
    (case status of
       Some c \<Rightarrow> ([call], Exited c)
     | None \<Rightarrow> (case rest of (evs, end1) \<Rightarrow> (call # evs, end1)))"

text \<open>The deferred shutdown runs when \<^verbatim>\<open>main\<close> returns, and only then.\<close>

definition with_shutdown :: "error option \<Rightarrow> 'o main_event list \<times> process_end \<Rightarrow> 'o main_event list \<times> process_end" where
  "with_shutdown shutdownErr body =
    (case body of (evs, end1) \<Rightarrow>
       (if end1 = Returned
        then evs @ [MShutdown] @ (case shutdownErr of None \<Rightarrow> []
               | Some e \<Rightarrow> [MLogError e ''error shutting down OpenTelemetry''])
        else evs, end1))"

text \<open>Lines logged before the rest of the function.\<close>

definition logged :: "'o main_event list \<Rightarrow> 'o main_event list \<times> process_end \<Rightarrow> 'o main_event list \<times> process_end" where
  "logged lines rest = (case rest of (evs, end1) \<Rightarrow> (lines @ evs, end1))"

definition tracingInfo :: "Config \<Rightarrow> 'o main_event list" where
  "tracingInfo cfg =
    (if cfg_Endpoint cfg = [] then [MLogInfo ''OpenTelemetry tracing disabled'' []]
     else [MLogInfo ''OpenTelemetry tracing initialized'' [(''endpoint'', cfg_Endpoint cfg)]])"

definition limitadorBaseReconciler ::
    "('res, 'o) main_env \<Rightarrow> manager_options \<Rightarrow> zap_logger loggers \<Rightarrow> 'o BaseReconciler" where
  "limitadorBaseReconciler env opts loggers =
     NewBaseReconciler (me_otelTracer env) (me_GetClient env) (me_GetScheme env opts) (me_GetAPIReader env)
       (WithName (lg_Log loggers) ''limitador'') (me_GetEventRecorderFor env ''Limitador'')"

text \<open>\<^verbatim>\<open>main\<close> after the flags are parsed, and \<^verbatim>\<open>main\<close>.\<close>

definition main_setup ::
    "('res, 'o) main_env \<Rightarrow> flags \<Rightarrow> scheme \<Rightarrow> zap_logger loggers \<Rightarrow> 'o main_event list \<times> process_end" where
  "main_setup env fl scheme loggers =
    (let otelConfig = NewConfig (me_GetString env) (bi_version (me_build env))
     in case fst (InitProvider (me_lib env) otelConfig (me_globals env)) of
          Inl err \<Rightarrow> ([MInitProvider otelConfig, MLogError err ''unable to initialize OpenTelemetry''], Exited 1)
        | Inr provider \<Rightarrow> logged [MInitProvider otelConfig]
            (with_shutdown (pv_Shutdown provider) (logged (tracingInfo otelConfig)
               (let opts = managerOptions scheme fl;
                    reconciler = limitadorBaseReconciler env opts loggers
                in or_die MGetConfigOrDie (me_GetConfigOrDie env)
                  (or_exit (MNewManager opts) (me_NewManager env opts) ''unable to start manager''
                  (or_exit (MSetupWithManager reconciler) (me_SetupWithManager env) ''unable to create Limitador controller''
                  (or_exit (MAddHealthzCheck ''healthz'') (me_AddHealthzCheck env) ''unable to set up health check''
                  (or_exit (MAddReadyzCheck ''readyz'') (me_AddReadyzCheck env) ''unable to set up ready check''
                  (logged [MLogInfo ''starting manager'' []]
                  (or_exit MStart (me_Start env) ''problem running manager''
                  ([], Returned)))))))))))"

definition main_run ::
    "('res, 'o) main_env \<Rightarrow> scheme \<Rightarrow> zap_logger loggers \<Rightarrow> 'o main_event list \<times> process_end" where
  "main_run env scheme loggers = logged (printControllerMetaInfo env)
    (case flag_Parse (formal_flags (me_libraryFlags env)) (me_Args env) defaultFlags of
       Inl stop \<Rightarrow> ([], Exited (flag_status stop))
     | Inr fl \<Rightarrow> main_setup env fl scheme loggers)"

definition process ::
    "('res, 'o) main_env \<Rightarrow> zap_logger loggers \<Rightarrow> 'o main_event list \<times> process_end" where
  "process env loggers =
    (case main_init env loggers of Panic p \<Rightarrow> ([], Crashed p)
     | Done (scheme, ls) \<Rightarrow> main_run env scheme ls)"

end
