(* ===== verification/Cluster_System.thy ===== *)
theory Cluster_System
  imports Convergence Main_Setup
begin

text \<open>
  The operator in its cluster as a state machine. The API server, the caches of the manager, the
  notifications on their way and the queue of the controller are one state. Anybody may write any
  object at any time; notifications arrive in the order of the writes, late, and put the requests in
  the queue that \<^verbatim>\<open>SetupWithManager\<close> asks for; the one worker of the controller takes a request and
  runs \<^verbatim>\<open>Reconcile\<close>, during which the others go on. A failed reconciliation puts its request back.
  The process may be restarted. The predicates that a reconciliation leaves behind are stable under
  the moves of everybody else, and so hold in all reachable states.
\<close>

section \<open>The state\<close>

type_synonym key = "kind \<times> NamespacedName"

text \<open>
  An object is known to the cache as it was some time ago; \<open>sy_events\<close> are the later versions, in
  order, of which the cache was not told yet. \<open>sy_else\<close> is whatever else the clients depend on.
\<close>

record 'e sys =
  sy_cache :: "key \<Rightarrow> Object option"
  sy_events :: "key \<Rightarrow> Object option list"
  sy_queue :: "NamespacedName set"
  sy_else :: 'e

definition versions :: "'e sys \<Rightarrow> key \<Rightarrow> Object option list" where
  "versions s k = sy_cache s k # sy_events s k"

definition server :: "'e sys \<Rightarrow> key \<Rightarrow> Object option" where
  "server s k = last (versions s k)"

text \<open>The selectors of the manager's options decide which objects the caches hold.\<close>

definition seen :: "key \<Rightarrow> Object option \<Rightarrow> Object option" where
  "seen k x = (case x of None \<Rightarrow> None
     | Some y \<Rightarrow> (case cacheOptions (fst k) of None \<Rightarrow> Some y
         | Some sel \<Rightarrow> if selector_matches sel (om_Labels (obj_meta y)) then Some y else None))"

text \<open>The requests for an object: its controller, when that is a Limitador.\<close>

definition owner_requests :: "Object option \<Rightarrow> NamespacedName set" where
  "owner_requests x = (case x of None \<Rightarrow> {}
     | Some y \<Rightarrow> (\<lambda>r. \<lparr>nn_Name = or_Name r, nn_Namespace = om_Namespace (obj_meta y)\<rparr>) `
         set (filter (\<lambda>r. or_Controller r \<and> or_Kind r = ''Limitador'') (om_OwnerReferences (obj_meta y))))"

text \<open>What a notification puts in the queue, by the kinds given to \<^verbatim>\<open>For\<close> and \<^verbatim>\<open>Owns\<close>.\<close>

definition notified :: "key \<Rightarrow> Object option \<Rightarrow> Object option \<Rightarrow> NamespacedName set" where
  "notified k old new =
    (if fst k = fst SetupWithManager then {snd k}
     else if fst k \<in> set (snd SetupWithManager)
     then owner_requests (seen k old) \<union> owner_requests (seen k new)
     else {})"

section \<open>Moves of the others\<close>

text \<open>A write that changes nothing is not noticed.\<close>

definition changed :: "key \<Rightarrow> Object option \<Rightarrow> 'e sys \<Rightarrow> 'e sys" where
  "changed k x s = (if server s k = x then s
     else s\<lparr>sy_events := (sy_events s)(k := sy_events s k @ [x])\<rparr>)"

definition delivered :: "key \<Rightarrow> 'e sys \<Rightarrow> 'e sys" where
  "delivered k s = (case sy_events s k of [] \<Rightarrow> s
     | x # xs \<Rightarrow> s\<lparr>sy_cache := (sy_cache s)(k := x), sy_events := (sy_events s)(k := xs),
         sy_queue := sy_queue s \<union> notified k (sy_cache s k) x\<rparr>)"

inductive moves :: "'e sys \<Rightarrow> 'e sys \<Rightarrow> bool" where
  change: "moves s (changed k x s)"
| deliver: "moves s (delivered k s)"
| resync: "moves s (s\<lparr>sy_queue := insert n (sy_queue s)\<rparr>)"
| elsewhere: "moves s (s\<lparr>sy_else := e\<rparr>)"

section \<open>The controller\<close>

text \<open>
  A request that failed, panicked or asks for it is put back. A new process knows no object and is
  told all of them.
\<close>

definition put_back :: "NamespacedName \<Rightarrow> (error + Result) outcome \<Rightarrow> NamespacedName set" where
  "put_back n r = (case r of
     Done (Inr res) \<Rightarrow> if res_Requeue res \<or> sint (res_RequeueAfter res) > 0 then {n} else {}
   | _ \<Rightarrow> {n})"

definition restarted :: "'e sys \<Rightarrow> 'e sys" where
  "restarted s = s\<lparr>sy_cache := (\<lambda>k. None),
     sy_events := (\<lambda>k. if server s k = None then [] else [server s k]), sy_queue := {}\<rparr>"

inductive system_step :: "'e sys runtime \<Rightarrow> 'e sys \<Rightarrow> 'e sys \<Rightarrow> bool" for rt where
  others: "moves s s' \<Longrightarrow> system_step rt s s'"
| work: "n \<in> sy_queue s \<Longrightarrow>
    Reconcile rt ctx n \<lparr>world = s\<lparr>sy_queue := sy_queue s - {n}\<rparr>, trace = tr, next_span = i\<rparr> = (r, st) \<Longrightarrow>
    system_step rt s ((world st)\<lparr>sy_queue := sy_queue (world st) \<union> put_back n r\<rparr>)"
| restart: "system_step rt s (restarted s)"

inductive reachable :: "'e sys runtime \<Rightarrow> 'e sys \<Rightarrow> bool" for rt where
  start: "sy_cache s = (\<lambda>k. None) \<Longrightarrow> sy_queue s = {} \<Longrightarrow> reachable rt s"
| step: "reachable rt s \<Longrightarrow> system_step rt s s' \<Longrightarrow> reachable rt s'"

section \<open>What is on its way\<close>

text \<open>A notification on its way that will put the request in the queue.\<close>

fun owes :: "NamespacedName \<Rightarrow> key \<Rightarrow> Object option list \<Rightarrow> bool" where
  "owes n k (x # y # xs) \<longleftrightarrow> n \<in> notified k x y \<or> owes n k (y # xs)"
| "owes n k xs \<longleftrightarrow> False"

lemma owes_append: "xs \<noteq> [] \<Longrightarrow> owes n k (xs @ [y]) \<longleftrightarrow> owes n k xs \<or> n \<in> notified k (last xs) y"
  by (induction n k xs rule: owes.induct) auto

definition settled :: "NamespacedName \<Rightarrow> key \<Rightarrow> (Object option \<Rightarrow> bool) \<Rightarrow> 'e sys \<Rightarrow> bool" where
  "settled n k P s \<longleftrightarrow> n \<in> sy_queue s \<or> owes n k (versions s k) \<or> P (server s k)"

text \<open>A predicate that cannot be left without a notification of the request.\<close>

definition watched :: "NamespacedName \<Rightarrow> key \<Rightarrow> (Object option \<Rightarrow> bool) \<Rightarrow> bool" where
  "watched n k P \<longleftrightarrow> (\<forall>x y. P x \<longrightarrow> \<not> P y \<longrightarrow> n \<in> notified k x y)"

definition enduring :: "('e sys \<Rightarrow> bool) \<Rightarrow> bool" where
  "enduring Q \<longleftrightarrow> (\<forall>s s'. Q s \<longrightarrow> moves s s' \<longrightarrow> Q s')"

lemma enduring_moves: "moves\<^sup>*\<^sup>* s s' \<Longrightarrow> enduring Q \<Longrightarrow> Q s \<Longrightarrow> Q s'"
  by (induction rule: rtranclp_induct) (auto simp: enduring_def)

lemma enduring_disj: "enduring P \<Longrightarrow> enduring Q \<Longrightarrow> enduring (\<lambda>s. P s \<or> Q s)"
  unfolding enduring_def by blast

lemma enduring_conj: "enduring P \<Longrightarrow> enduring Q \<Longrightarrow> enduring (\<lambda>s. P s \<and> Q s)"
  unfolding enduring_def by blast

lemma enduring_ex: "(\<And>x. enduring (P x)) \<Longrightarrow> enduring (\<lambda>s. \<exists>x. P x s)"
  unfolding enduring_def by blast

lemma enduring_const: "enduring (\<lambda>s. c)"
  unfolding enduring_def by blast

lemma versions_changed:
  "versions (changed k x s) k' = (if k' = k \<and> server s k \<noteq> x then versions s k @ [x] else versions s k')"
  by (auto simp: changed_def versions_def)

lemma changed_simps [simp]:
  "sy_queue (changed k x s) = sy_queue s" "sy_cache (changed k x s) = sy_cache s"
  by (simp_all add: changed_def)

lemma server_changed: "server (changed k x s) k' = (if k' = k then x else server s k')"
  by (auto simp: server_def versions_changed)

lemma server_delivered [simp]: "server (delivered k s) k' = server s k'"
  by (auto simp: server_def versions_def delivered_def split: list.split)

lemma versions_delivered:
  "versions (delivered k s) k' = (if k' = k \<and> sy_events s k \<noteq> [] then sy_events s k else versions s k')"
  by (auto simp: versions_def delivered_def split: list.split)

lemma owes_delivered:
  assumes "owes n k' (versions s k')"
  shows "n \<in> sy_queue (delivered k s) \<or> owes n k' (versions (delivered k s) k')"
  using assms by (cases "sy_events s k") (auto simp: versions_def delivered_def)

lemma sy_queue_delivered: "sy_queue s \<subseteq> sy_queue (delivered k s)"
  by (auto simp: delivered_def split: list.split)

lemma settled_enduring:
  assumes "watched n k P"
  shows "enduring (settled n k P)"
  unfolding enduring_def
proof (intro allI impI)
  fix s s' :: "'e sys" assume s: "settled n k P s" and "moves s s'"
  from this(2) show "settled n k P s'"
  proof cases
    case (change k' x)
    show ?thesis
    proof (cases "k' = k \<and> server s k \<noteq> x")
      case True
      have ne: "versions s k \<noteq> []" by (simp add: versions_def)
      show ?thesis
        using s True assms unfolding settled_def change(1)
        by (auto simp: versions_changed server_changed owes_append [OF ne] server_def watched_def)
    qed (use s change in \<open>auto simp: settled_def versions_changed server_changed\<close>)
  next
    case (deliver k')
    with s show ?thesis
      using owes_delivered [of n k s k'] sy_queue_delivered [of s k'] by (auto simp: settled_def)
  qed (use s in \<open>auto simp: settled_def versions_def server_def\<close>)
qed

section \<open>The client\<close>

text \<open>
  What is relied on of the client and the server: every call takes some time, in which the others
  move. A read of a resource or a deployment answers what the cache holds at one moment. A successful
  apply leaves an object that conforms to the one sent, a successful delete one that is gone or
  going, a successful write of the status the resource with that status (which has no other
  manager). A failed call may have had any effect.
\<close>

definition at_some_time :: "'e sys \<Rightarrow> 'e sys \<Rightarrow> ('e sys \<Rightarrow> bool) \<Rightarrow> bool" where
  "at_some_time s s' Q \<longleftrightarrow> (\<exists>u. moves\<^sup>*\<^sup>* s u \<and> Q u \<and> moves\<^sup>*\<^sup>* u s')"

definition writes_at_some_time ::
    "'e sys \<Rightarrow> 'e sys \<Rightarrow> key \<Rightarrow> (Object option \<Rightarrow> bool) \<Rightarrow> bool" where
  "writes_at_some_time s s' k Q \<longleftrightarrow> (\<exists>u x. moves\<^sup>*\<^sup>* s u \<and> Q x \<and> moves\<^sup>*\<^sup>* (changed k x u) s')"

definition has_status :: "LimitadorStatus \<Rightarrow> Object option \<Rightarrow> bool" where
  "has_status st x \<longleftrightarrow> (\<exists>l. x = Some (OLimitador l) \<and> lim_Status l = st)"

definition read_limitador :: "NamespacedName \<Rightarrow> error + Limitador \<Rightarrow> 'e sys \<Rightarrow> bool" where
  "read_limitador n r u \<longleftrightarrow> (case r of
       Inr l \<Rightarrow> sy_cache u (KLimitador, n) = Some (OLimitador l)
     | Inl e \<Rightarrow> IsNotFound e \<longrightarrow> sy_cache u (KLimitador, n) = None)"

definition read_deployment :: "NamespacedName \<Rightarrow> error + Deployment \<Rightarrow> 'e sys \<Rightarrow> bool" where
  "read_deployment n r u \<longleftrightarrow> (case r of
       Inr d \<Rightarrow> seen (KDeployment, n) (sy_cache u (KDeployment, n)) = Some (ODeployment d)
     | Inl e \<Rightarrow> IsNotFound e \<longrightarrow> seen (KDeployment, n) (sy_cache u (KDeployment, n)) = None)"

definition reads_cache :: "'e sys client \<Rightarrow> bool" where
  "reads_cache c \<longleftrightarrow> (\<forall>n s.
     at_some_time s (snd (cl_GetLimitador c n s)) (read_limitador n (fst (cl_GetLimitador c n s)))
   \<and> at_some_time s (snd (cl_GetDeployment c n s)) (read_deployment n (fst (cl_GetDeployment c n s))))"

definition takes_time :: "'e sys client \<Rightarrow> bool" where
  "takes_time c \<longleftrightarrow> (\<forall>s n ns sel x f m.
     moves\<^sup>*\<^sup>* s (snd (cl_GetConfigMap c n s)) \<and> moves\<^sup>*\<^sup>* s (snd (cl_GetPersistentVolumeClaim c n s))
   \<and> moves\<^sup>*\<^sup>* s (snd (cl_GetSecret c n s)) \<and> moves\<^sup>*\<^sup>* s (snd (cl_ListPods c ns sel s))
   \<and> moves\<^sup>*\<^sup>* s (snd (cl_Create c x s)) \<and> moves\<^sup>*\<^sup>* s (snd (cl_Apply c x f m s))
   \<and> moves\<^sup>*\<^sup>* s (snd (cl_Delete c x s)) \<and> moves\<^sup>*\<^sup>* s (snd (cl_StatusApply c x f m s)))"

definition writes_server :: "(Object \<Rightarrow> Object \<Rightarrow> bool) \<Rightarrow> 'e sys client \<Rightarrow> bool" where
  "writes_server conforms c \<longleftrightarrow> (\<forall>s x l f m.
     (fst (cl_Apply c x f m s) = None \<longrightarrow>
        writes_at_some_time s (snd (cl_Apply c x f m s)) (obj_key x) (conforming conforms x))
   \<and> (ignore_not_found (fst (cl_Delete c x s)) = None \<longrightarrow>
        writes_at_some_time s (snd (cl_Delete c x s)) (obj_key x) gone)
   \<and> (fst (cl_StatusApply c (OLimitador l) f m s) = None \<longrightarrow>
        writes_at_some_time s (snd (cl_StatusApply c (OLimitador l) f m s))
          (KLimitador, meta_key (lim_ObjectMeta l)) (has_status (lim_Status l))))"

definition attached :: "(Object \<Rightarrow> Object \<Rightarrow> bool) \<Rightarrow> 'e sys client \<Rightarrow> bool" where
  "attached conforms c \<longleftrightarrow> reads_cache c \<and> takes_time c \<and> writes_server conforms c"

text \<open>
  An object that conforms to one that was sent has its key, its owners and its labels; and
  \<^verbatim>\<open>SetControllerReference\<close> makes the resource the controller.
\<close>

definition keeps_fields :: "(Object \<Rightarrow> Object \<Rightarrow> bool) \<Rightarrow> bool" where
  "keeps_fields conforms \<longleftrightarrow> (\<forall>x y. conforms x y \<longrightarrow> obj_key y = obj_key x
     \<and> set (om_OwnerReferences (obj_meta x)) \<subseteq> set (om_OwnerReferences (obj_meta y))
     \<and> (\<forall>sel. selector_matches sel (om_Labels (obj_meta x)) \<longrightarrow> selector_matches sel (om_Labels (obj_meta y))))"

definition sets_controller :: "'w runtime \<Rightarrow> bool" where
  "sets_controller rt \<longleftrightarrow> (\<forall>l m refs. rt_SetControllerReference rt l m = Inr refs \<longrightarrow>
     (\<exists>r \<in> set refs. or_Controller r \<and> or_Kind r = ''Limitador'' \<and> or_Name r = lim_Name l))"

lemma moves_via:
  "at_some_time s s' Q \<Longrightarrow> moves\<^sup>*\<^sup>* s s'"
  "writes_at_some_time s s' k R \<Longrightarrow> moves\<^sup>*\<^sup>* s s'"
  unfolding at_some_time_def writes_at_some_time_def
  by (auto intro: rtranclp_trans rtranclp.rtrancl_into_rtrancl moves.change)

lemma attached_reads:
  assumes "attached conforms c"
  shows "cl_GetLimitador c n s = (r, s') \<Longrightarrow> at_some_time s s' (read_limitador n r)"
    and "cl_GetDeployment c n s = (r', s') \<Longrightarrow> at_some_time s s' (read_deployment n r')"
proof -
  have "at_some_time s (snd (cl_GetLimitador c n s)) (read_limitador n (fst (cl_GetLimitador c n s)))"
    "at_some_time s (snd (cl_GetDeployment c n s)) (read_deployment n (fst (cl_GetDeployment c n s)))"
    using assms by (simp_all add: attached_def reads_cache_def)
  then show "cl_GetLimitador c n s = (r, s') \<Longrightarrow> at_some_time s s' (read_limitador n r)"
    and "cl_GetDeployment c n s = (r', s') \<Longrightarrow> at_some_time s s' (read_deployment n r')"
    by simp_all
qed

lemma attached_writes:
  assumes "attached conforms c"
  shows "cl_Apply c x f m s = (None, s') \<Longrightarrow> writes_at_some_time s s' (obj_key x) (conforming conforms x)"
    and "cl_Delete c x s = (r, s') \<Longrightarrow> ignore_not_found r = None \<Longrightarrow> writes_at_some_time s s' (obj_key x) gone"
    and "cl_StatusApply c (OLimitador l) f m s = (None, s') \<Longrightarrow>
       writes_at_some_time s s' (KLimitador, meta_key (lim_ObjectMeta l)) (has_status (lim_Status l))"
proof -
  have w: "(fst (cl_Apply c x f m s) = None \<longrightarrow>
        writes_at_some_time s (snd (cl_Apply c x f m s)) (obj_key x) (conforming conforms x))
   \<and> (ignore_not_found (fst (cl_Delete c x s)) = None \<longrightarrow>
        writes_at_some_time s (snd (cl_Delete c x s)) (obj_key x) gone)
   \<and> (fst (cl_StatusApply c (OLimitador l) f m s) = None \<longrightarrow>
        writes_at_some_time s (snd (cl_StatusApply c (OLimitador l) f m s))
          (KLimitador, meta_key (lim_ObjectMeta l)) (has_status (lim_Status l)))"
    using assms by (simp add: attached_def writes_server_def)
  show "cl_Apply c x f m s = (None, s') \<Longrightarrow> writes_at_some_time s s' (obj_key x) (conforming conforms x)"
    and "cl_Delete c x s = (r, s') \<Longrightarrow> ignore_not_found r = None \<Longrightarrow> writes_at_some_time s s' (obj_key x) gone"
    and "cl_StatusApply c (OLimitador l) f m s = (None, s') \<Longrightarrow>
       writes_at_some_time s s' (KLimitador, meta_key (lim_ObjectMeta l)) (has_status (lim_Status l))"
    using w by simp_all
qed

lemma attached_moves:
  assumes "attached conforms c"
  shows "cl_GetConfigMap c n s = (r3, s') \<Longrightarrow> moves\<^sup>*\<^sup>* s s'"
    and "cl_GetPersistentVolumeClaim c n s = (r4, s') \<Longrightarrow> moves\<^sup>*\<^sup>* s s'"
    and "cl_GetSecret c n s = (r5, s') \<Longrightarrow> moves\<^sup>*\<^sup>* s s'"
    and "cl_ListPods c ns sel s = (r6, s') \<Longrightarrow> moves\<^sup>*\<^sup>* s s'"
    and "cl_Create c x s = (r7, s') \<Longrightarrow> moves\<^sup>*\<^sup>* s s'"
    and "cl_Apply c x f m s = (r7, s') \<Longrightarrow> moves\<^sup>*\<^sup>* s s'"
    and "cl_Delete c x s = (r7, s') \<Longrightarrow> moves\<^sup>*\<^sup>* s s'"
    and "cl_StatusApply c x f m s = (r7, s') \<Longrightarrow> moves\<^sup>*\<^sup>* s s'"
    and "cl_GetLimitador c n s = (r1, s') \<Longrightarrow> moves\<^sup>*\<^sup>* s s'"
    and "cl_GetDeployment c n s = (r2, s') \<Longrightarrow> moves\<^sup>*\<^sup>* s s'"
proof -
  have t: "takes_time c" using assms by (simp add: attached_def)
  show "cl_GetConfigMap c n s = (r3, s') \<Longrightarrow> moves\<^sup>*\<^sup>* s s'"
    and "cl_GetPersistentVolumeClaim c n s = (r4, s') \<Longrightarrow> moves\<^sup>*\<^sup>* s s'"
    and "cl_GetSecret c n s = (r5, s') \<Longrightarrow> moves\<^sup>*\<^sup>* s s'"
    and "cl_ListPods c ns sel s = (r6, s') \<Longrightarrow> moves\<^sup>*\<^sup>* s s'"
    and "cl_Create c x s = (r7, s') \<Longrightarrow> moves\<^sup>*\<^sup>* s s'"
    and "cl_Apply c x f m s = (r7, s') \<Longrightarrow> moves\<^sup>*\<^sup>* s s'"
    and "cl_Delete c x s = (r7, s') \<Longrightarrow> moves\<^sup>*\<^sup>* s s'"
    and "cl_StatusApply c x f m s = (r7, s') \<Longrightarrow> moves\<^sup>*\<^sup>* s s'"
    using t unfolding takes_time_def by (metis snd_conv)+
qed (auto dest!: attached_reads [OF assms] moves_via(1))

end
