(* ===== verification/Controller_System.thy ===== *)
theory Controller_System
  imports Cluster_System
begin

text \<open>
  The controller tends its resources. Every step of a reconciliation moves the system only as
  anybody may; a handler that succeeds leaves its object settled and the status of the resource
  that of the deployment; what is settled endures. By rule induction every reachable state has all
  resources tended.
\<close>

section \<open>Reconciliations move\<close>

definition advances :: "('e sys, 'a) step \<Rightarrow> bool" where
  "advances f \<longleftrightarrow> (\<forall>s r ws s'. f s = (r, ws, s') \<longrightarrow> moves\<^sup>*\<^sup>* s s')"

lemma advancesD: "advances f \<Longrightarrow> f s = (r, ws, s') \<Longrightarrow> moves\<^sup>*\<^sup>* s s'"
  unfolding advances_def by blast

lemma advances_run_steps: "list_all advances fs \<Longrightarrow> advances (run_steps fs)"
  unfolding advances_def
proof (induction fs)
  case (Cons f fs)
  then show ?case
    by (fastforce split: prod.splits outcome.splits option.splits intro: rtranclp_trans)
qed simp

lemma advances_send:
  assumes "attached conforms (rt_client rt)"
  shows "advances (apply_step rt x)" "advances (create_step rt x)"
  by (auto simp: advances_def apply_step_def create_step_def delete_step_def
      split: prod.splits if_splits sum.splits dest!: attached_moves(2,5-7) [OF assms] elim: rtranclp_trans)

lemma desired_moves:
  assumes "attached conforms (rt_client rt)"
  shows "desired_service rt l s = (r, s1) \<Longrightarrow> moves\<^sup>*\<^sup>* s s1"
    and "desired_pvc rt l s = (r, s1) \<Longrightarrow> moves\<^sup>*\<^sup>* s s1"
    and "desired_deployment rt l s = (r, s1) \<Longrightarrow> moves\<^sup>*\<^sup>* s s1"
    and "desired_configmap rt l s = (r, s1) \<Longrightarrow> moves\<^sup>*\<^sup>* s s1"
    and "desired_pdb rt l s = (r, s1) \<Longrightarrow> moves\<^sup>*\<^sup>* s s1"
  using attached_moves(3) [OF assms]
  by (auto simp: desired_service_def desired_pvc_def desired_configmap_def desired_pdb_def
      desired_deployment_def options_step_def backend_check_def
      split: prod.splits outcome.splits sum.splits option.splits)

lemma advances_manage:
  assumes "\<And>s r s1. desired rt l s = (r, s1) \<Longrightarrow> moves\<^sup>*\<^sup>* s s1" "\<And>x. advances (send rt x)"
  shows "advances (manage desired send rt l)"
  unfolding advances_def
  by (auto simp: manage_def split: prod.splits outcome.splits sum.splits
      dest!: assms(1) advancesD [OF assms(2)] elim: rtranclp_trans)

lemma advances_handlers:
  assumes "attached conforms (rt_client rt)"
  shows "list_all advances (handlers rt l)"
  unfolding handlers_def
  by (simp, intro conjI advances_manage; (rule advances_send [OF assms] | erule desired_moves [OF assms]))

lemma advances_annotation:
  assumes "attached conforms (rt_client rt)"
  shows "advances (annotation_step rt l)"
proof -
  have pods: "advances (pods_step rt v pods)" for v pods
    unfolding pods_step_def by (rule advances_run_steps) (simp add: list_all_iff advances_send(1) [OF assms])
  show ?thesis
    unfolding advances_def annotation_step_def
    by (auto split: prod.splits sum.splits if_splits outcome.splits option.splits
        dest!: advancesD [OF pods] attached_moves(1,4) [OF assms] elim: rtranclp_trans intro: rtranclp_trans)
qed

lemma condition_moves:
  assumes "attached conforms (rt_client rt)" "condition_of rt l e s = (r, s1)"
  shows "moves\<^sup>*\<^sup>* s s1"
  using assms(2) attached_moves(10) [OF assms(1)]
  by (auto simp: condition_of_def split: option.splits prod.splits)

lemma advances_status:
  assumes "attached conforms (rt_client rt)"
  shows "advances (status_step rt l e)"
  unfolding advances_def status_step_def Let_def
  by (auto split: prod.splits sum.splits if_splits
      dest!: condition_moves [OF assms] attached_moves(8) [OF assms] elim: rtranclp_trans)

lemma advances_spec:
  assumes "attached conforms (rt_client rt)"
  shows "advances (spec_step rt l)"
  unfolding advances_def spec_step_def
  by (auto split: prod.splits outcome.splits option.splits
      dest!: advancesD [OF advances_run_steps [OF advances_handlers [OF assms]]]
        advancesD [OF advances_annotation [OF assms]] elim: rtranclp_trans)

lemma advances_object:
  assumes "attached conforms (rt_client rt)"
  shows "advances (object_step rt l)"
  unfolding advances_def object_step_def
  by (auto split: prod.splits outcome.splits
      dest!: advancesD [OF advances_spec [OF assms]] advancesD [OF advances_status [OF assms]]
      elim: rtranclp_trans)

lemma advances_reconcile:
  assumes "attached conforms (rt_client rt)"
  shows "advances (reconcile_step rt n)"
  unfolding advances_def reconcile_step_def
  by (auto split: prod.splits sum.splits option.splits if_splits
      dest!: advancesD [OF advances_object [OF assms]] attached_moves(9) [OF assms] elim: rtranclp_trans)

section \<open>Objects that are kept\<close>

abbreviation request_of :: "Limitador \<Rightarrow> NamespacedName" where
  "request_of l \<equiv> meta_key (lim_ObjectMeta l)"

text \<open>
  The object at a key is as the resource asks for. Where nothing is asked for it is gone or going, or
  it is not an object of the resource that the controller can see.
\<close>

definition kept ::
    "(Object \<Rightarrow> Object \<Rightarrow> bool) \<Rightarrow> 'w desired \<Rightarrow> 'w runtime \<Rightarrow> Limitador \<Rightarrow> key \<Rightarrow> Object option \<Rightarrow> bool" where
  "kept conforms desired rt l k x \<longleftrightarrow> (\<exists>y. wants desired rt l y \<and>
     (if IsObjectTaggedToDelete (obj_meta y) then gone x \<or> request_of l \<notin> owner_requests (seen k x)
      else conforming conforms y x))"

text \<open>The objects whose kinds are watched.\<close>

definition watched_objects :: "Limitador \<Rightarrow> ('w desired \<times> key) list" where
  "watched_objects l =
    [(desired_deployment, lim_key KDeployment DeploymentName l),
     (desired_configmap, lim_key KConfigMap LimitsConfigMapName l),
     (desired_pdb, lim_key KPodDisruptionBudget PodDisruptionBudgetName l)]"

lemma seen_labelled:
  "om_Labels (obj_meta y) = Some (Labels l) \<Longrightarrow> keeps_fields conforms \<Longrightarrow> conforms y z \<Longrightarrow> seen k (Some z) = Some z"
  by (auto simp: seen_def keeps_fields_def cacheOptions_def appSelector_def map_le_def
      split: kind.splits option.splits)

lemma wants_meta:
  assumes "(desired, k) \<in> set (watched_objects l)" "wants desired rt l y"
  obtains m where "obj_key y = k" "om_Labels (obj_meta y) = Some (Labels l)"
    "rt_SetControllerReference rt l m = Inr (om_OwnerReferences (obj_meta y))"
proof -
  from assms(2) obtain w x w1 where d: "desired rt l w = (Done (Inr x), w1)" and "own rt l x = Inr y"
    unfolding wants_def by blast
  from this(2) obtain refs where refs: "rt_SetControllerReference rt l (obj_meta x) = Inr refs"
    "obj_meta y = (obj_meta x)\<lparr>om_OwnerReferences := refs\<rparr>" "obj_key y = obj_key x" by (rule own_meta)
  have "obj_key x = k" "om_Labels (obj_meta x) = Some (Labels l)"
    using assms(1) d unfolding watched_objects_def
    by (auto dest: deployment_handler.desired_key configmap_handler.desired_key pdb_handler.desired_key
        deployment_handler.desired_meta configmap_handler.desired_meta pdb_handler.desired_meta)
  with refs that [of "obj_meta x"] show thesis by simp
qed

lemma conforming_owned:
  assumes "(desired, k) \<in> set (watched_objects l)" "wants desired rt l y" "conforming conforms y x"
    and "keeps_fields conforms" "sets_controller rt"
  shows "request_of l \<in> owner_requests (seen k x)"
proof -
  from assms(3) obtain z where z: "x = Some z" "conforms y z" by (auto simp: conforming_def)
  from assms(1,2) obtain m where y: "obj_key y = k" "om_Labels (obj_meta y) = Some (Labels l)"
    "rt_SetControllerReference rt l m = Inr (om_OwnerReferences (obj_meta y))" by (rule wants_meta)
  from assms(5) y(3) obtain r where r: "r \<in> set (om_OwnerReferences (obj_meta y))" "or_Controller r"
    "or_Kind r = ''Limitador''" "or_Name r = lim_Name l" unfolding sets_controller_def by blast
  have "obj_key z = k" "r \<in> set (om_OwnerReferences (obj_meta z))"
    using assms(4) z(2) y(1) r(1) unfolding keeps_fields_def by (blast, blast)
  moreover have "nn_Namespace (snd k) = lim_Namespace l" using assms(1) by (auto simp: watched_objects_def)
  ultimately have "om_Namespace (obj_meta z) = lim_Namespace l" by (auto simp: obj_key_def meta_key_def)
  with r(2-4) \<open>r \<in> set (om_OwnerReferences (obj_meta z))\<close> show ?thesis
    unfolding z(1) seen_labelled [OF y(2) assms(4) z(2)]
    by (auto simp: owner_requests_def meta_key_def image_iff intro!: bexI [of _ r])
qed

lemma watched_kept:
  assumes "(desired, k) \<in> set (watched_objects l)" "keeps_fields conforms" "sets_controller rt"
  shows "watched (request_of l) k (kept conforms desired rt l k)"
  unfolding watched_def
proof (intro allI impI)
  fix x y assume x: "kept conforms desired rt l k x" and y: "\<not> kept conforms desired rt l k y"
  from x obtain o1 where o1: "wants desired rt l o1" "if IsObjectTaggedToDelete (obj_meta o1)
      then gone x \<or> request_of l \<notin> owner_requests (seen k x) else conforming conforms o1 x"
    by (auto simp: kept_def)
  have "request_of l \<in> owner_requests (seen k x) \<union> owner_requests (seen k y)"
  proof (cases "IsObjectTaggedToDelete (obj_meta o1)")
    case True
    with y o1(1) show ?thesis by (auto simp: kept_def)
  next
    case False
    with o1 show ?thesis using conforming_owned [OF assms(1) o1(1) _ assms(2,3)] by simp
  qed
  moreover have "fst k \<in> set (snd SetupWithManager)" "fst k \<noteq> fst SetupWithManager"
    using assms(1) by (auto simp: watched_objects_def SetupWithManager_def)
  ultimately show "request_of l \<in> notified k x y" by (simp add: notified_def)
qed

lemma settled_written:
  assumes "writes_at_some_time s s' k Q" "\<And>x. Q x \<Longrightarrow> P x" "watched n k P"
  shows "settled n k P s'"
proof -
  from assms(1) obtain u x where x: "Q x" and u: "moves\<^sup>*\<^sup>* (changed k x u) s'"
    by (auto simp: writes_at_some_time_def)
  have "settled n k P (changed k x u)" using x assms(2) by (simp add: settled_def server_changed)
  with u settled_enduring [OF assms(3)] show ?thesis by (rule enduring_moves)
qed

lemma manage_settles:
  assumes "attached conforms (rt_client rt)" "keeps_fields conforms" "sets_controller rt"
    and "(desired, k) \<in> set (watched_objects l)" "manage desired apply_step rt l s = (Done None, ws, s')"
  shows "settled (request_of l) k (kept conforms desired rt l k) s'"
proof -
  from assms(5) obtain x s1 y where d: "desired rt l s = (Done (Inr x), s1)" and y: "own rt l x = Inr y"
    and send: "apply_step rt y s1 = (Done None, ws, s')" by (rule manage_Some_own)
  have wants: "wants desired rt l y" using d y unfolding wants_def by blast
  with assms(4) obtain m where "obj_key y = k" by (rule wants_meta)
  note written = settled_written [OF _ _ watched_kept [OF assms(4,2,3)]]
  show ?thesis
  proof (cases "IsObjectTaggedToDelete (obj_meta y)")
    case True
    with send obtain r where "cl_Delete (rt_client rt) y s1 = (r, s')" "ignore_not_found r = None"
      by (auto simp: apply_step_def delete_step_def split: prod.splits)
    from attached_writes(2) [OF assms(1) this] \<open>obj_key y = k\<close> have "writes_at_some_time s1 s' k gone" by simp
    then show ?thesis by (rule written) (use True wants in \<open>auto simp: kept_def\<close>)
  next
    case False
    with send have "cl_Apply (rt_client rt) y True FieldManagerName s1 = (None, s')"
      by (auto simp: apply_step_def split: prod.splits)
    from attached_writes(1) [OF assms(1) this] \<open>obj_key y = k\<close>
    have "writes_at_some_time s1 s' k (conforming conforms y)" by simp
    then show ?thesis by (rule written) (use False wants in \<open>auto simp: kept_def\<close>)
  qed
qed

section \<open>The status\<close>

abbreviation dep_key :: "Limitador \<Rightarrow> key" where
  "dep_key l \<equiv> lim_key KDeployment DeploymentName l"

definition deployment_condition :: "Deployment \<Rightarrow> Condition" where
  "deployment_condition d = (case unavailable_reason d of None \<Rightarrow> readyCond
     | Some msg \<Rightarrow> not_ready ''LimitadorNotAvailable'' msg)"

text \<open>The stored deployment is the one of the resource and gives this condition.\<close>

definition gives :: "Limitador \<Rightarrow> Condition \<Rightarrow> Object option \<Rightarrow> bool" where
  "gives l c x \<longleftrightarrow> request_of l \<in> owner_requests (seen (dep_key l) x) \<and>
     (\<exists>d. seen (dep_key l) x = Some (ODeployment d) \<and> deployment_condition d = c)"

lemma notified_deployment:
  "notified (dep_key l) x y = owner_requests (seen (dep_key l) x) \<union> owner_requests (seen (dep_key l) y)"
  by (simp add: notified_def SetupWithManager_def)

lemma watched_gives: "watched (request_of l) (dep_key l) (gives l c)"
  by (auto simp: watched_def gives_def notified_deployment)

text \<open>Some version that is known or on its way belongs to the resource.\<close>

lemma owes_member: "owes n (dep_key l) xs \<Longrightarrow> \<exists>x \<in> set xs. n \<in> owner_requests (seen (dep_key l) x)"
  by (induction n "dep_key l" xs rule: owes.induct) (auto simp: notified_deployment)

lemma owes_later:
  "x \<in> set xs \<Longrightarrow> n \<in> owner_requests (seen (dep_key l) x) \<Longrightarrow> owes n (dep_key l) (y # xs)"
  by (induction xs arbitrary: y) (auto simp: notified_deployment)

lemma wants_untagged:
  "wants desired_deployment rt l y \<Longrightarrow> \<not> IsObjectTaggedToDelete (obj_meta y)"
  "wants desired_configmap rt l y \<Longrightarrow> \<not> IsObjectTaggedToDelete (obj_meta y)"
proof -
  assume "wants desired_deployment rt l y"
  then obtain w x w1 where d: "desired_deployment rt l w = (Done (Inr x), w1)" "own rt l x = Inr y"
    unfolding wants_def by blast
  from d(1) obtain opts where "x = ODeployment (Deployment (rt_GetString rt) l opts)"
    by (auto simp: desired_deployment_def split: prod.splits outcome.splits sum.splits)
  with d(2) show "\<not> IsObjectTaggedToDelete (obj_meta y)"
    by (auto elim!: own_meta simp: IsObjectTaggedToDelete_def Deployment_def)
next
  assume "wants desired_configmap rt l y"
  then obtain t where "own rt l (OConfigMap (limitsConfigMapOf t l)) = Inr y"
    by (auto simp: wants_def desired_configmap_def LimitsConfigMap_eq split: sum.splits)
  then show "\<not> IsObjectTaggedToDelete (obj_meta y)"
    by (auto elim!: own_meta simp: IsObjectTaggedToDelete_def limitsConfigMapOf_def)
qed

lemma kept_conforming:
  "kept conforms desired_deployment rt l k x \<Longrightarrow> \<exists>y. wants desired_deployment rt l y \<and> conforming conforms y x"
  "kept conforms desired_configmap rt l k x \<Longrightarrow> \<exists>y. wants desired_configmap rt l y \<and> conforming conforms y x"
  unfolding kept_def using wants_untagged by metis+

lemma kept_deployment_owned:
  assumes "keeps_fields conforms" "sets_controller rt" "kept conforms desired_deployment rt l (dep_key l) x"
  shows "request_of l \<in> owner_requests (seen (dep_key l) x)"
  using kept_conforming(1) [OF assms(3)] conforming_owned [OF _ _ _ assms(1,2), of desired_deployment "dep_key l"]
  by (auto simp: watched_objects_def)

lemma deployment_read_gives:
  assumes "settled (request_of l) (dep_key l) (\<lambda>x. request_of l \<in> owner_requests (seen (dep_key l) x)) u"
    and "read_deployment (deployment_key l) r u" "availability r = Inr reason"
    and "c = (case reason of None \<Rightarrow> readyCond | Some msg \<Rightarrow> not_ready ''LimitadorNotAvailable'' msg)"
  shows "settled (request_of l) (dep_key l) (gives l c) u"
proof -
  let ?n = "request_of l" and ?k = "dep_key l"
  have "?n \<in> sy_queue u \<or> (\<exists>x \<in> set (versions u ?k). ?n \<in> owner_requests (seen ?k x))"
    using assms(1) owes_member [of ?n l "versions u ?k"] by (auto simp: settled_def server_def versions_def split: if_splits dest: last_in_set)
  then consider "?n \<in> sy_queue u" | "owes ?n ?k (versions u ?k)"
    | "?n \<in> owner_requests (seen ?k (sy_cache u ?k))" "sy_events u ?k = []"
    by (cases "sy_events u ?k") (auto simp: versions_def notified_deployment dest: owes_later)
  then show ?thesis
  proof cases
    case 3
    then obtain d where "r = Inr d" "seen ?k (sy_cache u ?k) = Some (ODeployment d)"
      using assms(2,3)
      by (auto simp: read_deployment_def availability_def owner_requests_def split: sum.splits if_splits)
    with 3 assms(3,4) show ?thesis
      by (auto simp: settled_def server_def versions_def gives_def deployment_condition_def availability_def)
  qed (auto simp: settled_def)
qed

lemma condition_settles:
  assumes "attached conforms (rt_client rt)" "condition_of rt l None s = (Inr c, s')"
    and "settled (request_of l) (dep_key l) (\<lambda>x. request_of l \<in> owner_requests (seen (dep_key l) x)) s"
  shows "settled (request_of l) (dep_key l) (gives l c) s'"
proof -
  have owned: "watched (request_of l) (dep_key l) (\<lambda>x. request_of l \<in> owner_requests (seen (dep_key l) x))"
    by (auto simp: watched_def notified_deployment)
  obtain r s1 where get: "cl_GetDeployment (rt_client rt) (deployment_key l) s = (r, s1)" by (rule prod.exhaust)
  with assms(2) obtain reason where r: "cl_GetDeployment (rt_client rt) (deployment_key l) s = (r, s')"
    "availability r = Inr reason" "c = (case reason of None \<Rightarrow> readyCond | Some msg \<Rightarrow> not_ready ''LimitadorNotAvailable'' msg)"
    by (cases "availability r") (auto simp: condition_of_def)
  from attached_reads(2) [OF assms(1) r(1)] obtain u where u: "moves\<^sup>*\<^sup>* s u"
    "read_deployment (deployment_key l) r u" "moves\<^sup>*\<^sup>* u s'" by (auto simp: at_some_time_def)
  from enduring_moves [OF u(1) settled_enduring [OF owned] assms(3)]
  have "settled (request_of l) (dep_key l) (gives l c) u" by (rule deployment_read_gives) (use u(2) r in auto)
  with u(3) settled_enduring [OF watched_gives] show ?thesis by (rule enduring_moves)
qed

section \<open>The invariant\<close>

text \<open>
  A resource is tended: its request is in the queue or on its way, or its watched objects are kept
  and its status is the one of the stored deployment - up to notifications of those objects that
  are on their way.
\<close>

definition reported :: "'w runtime \<Rightarrow> Limitador \<Rightarrow> 'e sys \<Rightarrow> bool" where
  "reported rt l s \<longleftrightarrow> (\<exists>c. settled (request_of l) (dep_key l) (gives l c) s \<and> status_current l (status_with rt l c))"

definition tended :: "(Object \<Rightarrow> Object \<Rightarrow> bool) \<Rightarrow> 'w runtime \<Rightarrow> Limitador \<Rightarrow> 'e sys \<Rightarrow> bool" where
  "tended conforms rt l s \<longleftrightarrow> settled (request_of l) (KLimitador, request_of l) (\<lambda>x. False) s \<or>
     (\<forall>(desired, k) \<in> set (watched_objects l). settled (request_of l) k (kept conforms desired rt l k) s)
     \<and> reported rt l s"

definition all_tended :: "(Object \<Rightarrow> Object \<Rightarrow> bool) \<Rightarrow> 'w runtime \<Rightarrow> 'e sys \<Rightarrow> bool" where
  "all_tended conforms rt s \<longleftrightarrow> (\<forall>l. sy_cache s (KLimitador, request_of l) = Some (OLimitador l)
     \<and> om_DeletionTimestamp (lim_ObjectMeta l) = None \<longrightarrow> tended conforms rt l s)"

lemma tended_queued: "request_of l \<in> sy_queue s \<Longrightarrow> tended conforms rt l s"
  by (simp add: tended_def settled_def)

lemma tended_enduring:
  assumes "keeps_fields conforms" "sets_controller rt"
  shows "enduring (tended conforms rt l)"
proof -
  have "watched (request_of l) (KLimitador, request_of l) (\<lambda>x. False)" by (simp add: watched_def)
  moreover have "enduring (\<lambda>s. \<forall>(desired, k) \<in> set (watched_objects l).
      settled (request_of l) k (kept conforms desired rt l k) s)"
    using settled_enduring [OF watched_kept [OF _ assms]] unfolding enduring_def by blast
  ultimately show ?thesis
    unfolding tended_def reported_def
    by (intro enduring_disj enduring_conj enduring_ex enduring_const settled_enduring watched_gives)
qed

text \<open>The cache of a resource changes only with a notification that queues its request.\<close>

lemma cache_enduring: "enduring (\<lambda>s. n \<in> sy_queue s \<or> sy_cache s (KLimitador, n) = x)"
  unfolding enduring_def
proof (intro allI impI)
  fix s s' :: "'e sys"
  assume "n \<in> sy_queue s \<or> sy_cache s (KLimitador, n) = x" "moves s s'"
  from this(2,1) show "n \<in> sy_queue s' \<or> sy_cache s' (KLimitador, n) = x"
    by cases (auto simp: delivered_def notified_def SetupWithManager_def split: list.split)
qed

lemma all_tended_enduring:
  assumes "keeps_fields conforms" "sets_controller rt"
  shows "enduring (all_tended conforms rt)"
  unfolding enduring_def all_tended_def
proof (intro allI impI, elim conjE)
  fix s s' :: "'e sys" and l
  assume all: "\<forall>l. sy_cache s (KLimitador, request_of l) = Some (OLimitador l)
      \<and> om_DeletionTimestamp (lim_ObjectMeta l) = None \<longrightarrow> tended conforms rt l s"
    and m: "moves s s'" and l: "sy_cache s' (KLimitador, request_of l) = Some (OLimitador l)"
      "om_DeletionTimestamp (lim_ObjectMeta l) = None"
  show "tended conforms rt l s'"
  proof (cases "sy_cache s (KLimitador, request_of l) = Some (OLimitador l)")
    case True
    with all l(2) have "tended conforms rt l s" by blast
    with m tended_enduring [OF assms, of l] show ?thesis unfolding enduring_def by blast
  next
    case False
    then have "request_of l \<in> sy_queue s'"
      using m l(1) cache_enduring [of "request_of l" "sy_cache s (KLimitador, request_of l)"]
      unfolding enduring_def by metis
    then show ?thesis by (rule tended_queued)
  qed
qed

section \<open>A reconciliation tends its resource\<close>

lemma run_steps_secure:
  assumes "list_all advances fs" "list_all2 (\<lambda>f Q. \<forall>s ws s'. f s = (Done None, ws, s') \<longrightarrow> Q s') fs Qs"
    and "\<forall>Q \<in> set Qs. enduring Q" "run_steps fs s = (Done None, ws, s')"
  shows "\<forall>Q \<in> set Qs. Q s'"
  using assms(2,1,3,4)
proof (induction arbitrary: s ws rule: list_all2_induct)
  case (Cons f fs Q Qs)
  from Cons.prems(3) obtain ws1 s1 ws2 where f: "f s = (Done None, ws1, s1)"
    and rest: "run_steps fs s1 = (Done None, ws2, s')"
    by (auto split: prod.splits outcome.splits option.splits)
  from rest Cons.prems(1) have "moves\<^sup>*\<^sup>* s1 s'" using advancesD [OF advances_run_steps] by auto
  moreover have "Q s1" using Cons.hyps(1) f by blast
  ultimately have "Q s'" using Cons.prems(2) by (auto intro: enduring_moves)
  with Cons.IH [OF _ _ rest] Cons.prems(1,2) show ?case by simp
qed simp

lemma handlers_settle:
  assumes "attached conforms (rt_client rt)" "keeps_fields conforms" "sets_controller rt"
    and "run_steps (handlers rt l) s = (Done None, ws, s')" "(desired, k) \<in> set (watched_objects l)"
  shows "settled (request_of l) k (kept conforms desired rt l k) s'"
proof -
  let ?Q = "\<lambda>(desired, k). settled (request_of l) k (kept conforms desired rt l k)"
  let ?Qs = "[\<lambda>s. True, \<lambda>s. True] @ map ?Q (watched_objects l)"
  have "\<forall>Q \<in> set ?Qs. Q s'"
  proof (rule run_steps_secure [OF advances_handlers [OF assms(1), of l] _ _ assms(4)])
    show "list_all2 (\<lambda>f Q. \<forall>s ws s'. f s = (Done None, ws, s') \<longrightarrow> Q s') (handlers rt l) ?Qs"
      using manage_settles [OF assms(1-3), where l = l] by (simp add: handlers_def watched_objects_def)
    show "\<forall>Q \<in> set ?Qs. enduring Q"
      using settled_enduring [OF watched_kept [OF _ assms(2,3)]] by (auto simp: enduring_const)
  qed
  with assms(5) show ?thesis by force
qed

lemma spec_settles:
  assumes "attached conforms (rt_client rt)" "keeps_fields conforms" "sets_controller rt"
    and "spec_step rt l s = (Done (Inr res), ws, s')" "(desired, k) \<in> set (watched_objects l)"
  shows "settled (request_of l) k (kept conforms desired rt l k) s'"
proof -
  from assms(4) obtain ws1 s1 ws2 where h: "run_steps (handlers rt l) s = (Done None, ws1, s1)"
    and a: "annotation_step rt l s1 = (Done (Inr res), ws2, s')"
    by (auto simp: spec_step_def split: prod.splits outcome.splits option.splits)
  from advancesD [OF advances_annotation [OF assms(1)] a] settled_enduring [OF watched_kept [OF assms(5,2,3)]]
    handlers_settle [OF assms(1-3) h assms(5)]
  show ?thesis by (rule enduring_moves)
qed

text \<open>
  The status was found to be current, or it is written: then the resource as it is stored has the
  status, or its new version is on its way.
\<close>

lemma status_reports:
  assumes "attached conforms (rt_client rt)" "status_step rt l None s = (Done (Inr res), ws, s')"
    and "settled (request_of l) (dep_key l) (\<lambda>x. request_of l \<in> owner_requests (seen (dep_key l) x)) s"
    and "request_of l \<in> sy_queue s' \<or> sy_cache s' (KLimitador, request_of l) = Some (OLimitador l)"
  shows "settled (request_of l) (KLimitador, request_of l) (\<lambda>x. False) s' \<or> reported rt l s'"
proof -
  let ?k = "(KLimitador, request_of l)"
  from assms(2) obtain c s1 where c: "condition_of rt l None s = (Inr c, s1)"
    and rest: "if status_current l (status_with rt l c) then s1 = s'
      else cl_StatusApply (rt_client rt) (OLimitador (statusPatch l (status_with rt l c))) True FieldManagerName s1 = (None, s')"
    by (auto simp: status_step_def Let_def split: prod.splits sum.splits if_splits option.splits)
  note gives1 = condition_settles [OF assms(1) c assms(3)]
  show ?thesis
  proof (cases "status_current l (status_with rt l c)")
    case True
    with rest gives1 show ?thesis unfolding reported_def by auto
  next
    case False
    let ?st = "status_with rt l c"
    from False rest have app: "cl_StatusApply (rt_client rt) (OLimitador (statusPatch l ?st)) True FieldManagerName s1 = (None, s')"
      by simp
    have same: "request_of (statusPatch l ?st) = request_of l" "lim_Status (statusPatch l ?st) = ?st"
      by (simp_all add: statusPatch_def meta_key_def)
    have w: "watched (request_of l) ?k (has_status ?st)" by (auto simp: watched_def notified_def SetupWithManager_def)
    have "settled (request_of l) ?k (has_status ?st) s'"
      using attached_writes(3) [OF assms(1) app] w unfolding same by (intro settled_written) auto
    moreover have "owes (request_of l) ?k (versions s' ?k)" if "sy_events s' ?k \<noteq> []"
      using that by (cases "sy_events s' ?k") (auto simp: versions_def notified_def SetupWithManager_def)
    moreover have "Equals st st" "sta_ObservedGeneration ?st = lim_Generation l" for st
      by (simp_all add: Equals_def status_with_def)
    with False have "lim_Status l \<noteq> ?st" unfolding status_current_def by metis
    ultimately show ?thesis
      using assms(4) by (auto simp: settled_def server_def versions_def has_status_def split: if_splits)
  qed
qed

lemma reconcile_tends:
  assumes "attached conforms (rt_client rt)" "keeps_fields conforms" "sets_controller rt"
    and "reconcile_step rt n s = (Done (Inr res), ws, s')"
    and "sy_cache s' (KLimitador, n) = Some (OLimitador l)" "request_of l = n"
    and "om_DeletionTimestamp (lim_ObjectMeta l) = None"
  shows "tended conforms rt l s'"
proof -
  obtain r s1 where get: "cl_GetLimitador (rt_client rt) n s = (r, s1)" by (rule prod.exhaust)
  from attached_reads(1) [OF assms(1) get] obtain u where u: "read_limitador n r u" "moves\<^sup>*\<^sup>* u s1"
    by (auto simp: at_some_time_def)
  have "moves\<^sup>*\<^sup>* s1 s'"
    using assms(4) get advancesD [OF advances_object [OF assms(1)]]
    by (auto simp: reconcile_step_def split: sum.splits option.splits if_splits)
  with u(2) have "moves\<^sup>*\<^sup>* u s'" by (rule rtranclp_trans)
  then have cached: "n \<in> sy_queue s' \<or> sy_cache s' (KLimitador, n) = sy_cache u (KLimitador, n)"
    by (rule enduring_moves [OF _ cache_enduring]) simp
  show ?thesis
  proof (cases "n \<in> sy_queue s'")
    case True
    with assms(6) show ?thesis by (simp add: tended_queued)
  next
    case False
    with cached assms(5) have cu: "sy_cache u (KLimitador, n) = Some (OLimitador l)" by simp
    with u(1) assms(4) get have "r = Inr l"
      by (auto simp: read_limitador_def reconcile_step_def split: sum.splits if_splits)
    with assms(4,7) get have "object_step rt l s1 = (Done (Inr res), ws, s')"
      by (auto simp: reconcile_step_def split: option.splits)
    then obtain spec ws1 s2 status ws2 where spec: "spec_step rt l s1 = (Done (Inr spec), ws1, s2)"
      and status: "status_step rt l None s2 = (Done (Inr status), ws2, s')"
      by (auto simp: object_step_def final_result_def spec_error_def split: prod.splits outcome.splits sum.splits)
    note kept2 = spec_settles [OF assms(1-3) spec]
    have "settled (request_of l) k (kept conforms desired rt l k) s'"
      if "(desired, k) \<in> set (watched_objects l)" for desired k
      using advancesD [OF advances_status [OF assms(1)] status] settled_enduring [OF watched_kept [OF that assms(2,3)]]
        kept2 [OF that] by (rule enduring_moves)
    moreover have "settled (request_of l) (dep_key l) (\<lambda>x. request_of l \<in> owner_requests (seen (dep_key l) x)) s2"
      using kept2 [of desired_deployment "dep_key l"] kept_deployment_owned [OF assms(2,3)]
      by (auto simp: watched_objects_def settled_def)
    from status_reports [OF assms(1) status this] assms(5,6)
    have "settled (request_of l) (KLimitador, request_of l) (\<lambda>x. False) s' \<or> reported rt l s'" by simp
    ultimately show ?thesis unfolding tended_def by blast
  qed
qed

section \<open>Every reachable state\<close>

lemma Reconcile_run:
  assumes "Reconcile rt ctx n st = (r, st')"
  shows "\<exists>ws. reconcile_step rt n (world st) = (r, ws, world st')"
proof -
  have "does {} (Reconcile rt ctx n) (world st) (\<lambda>r ws w'. (r, ws, w') = reconcile_step rt n (world st))"
    by (rule does_performs [OF performs_Reconcile]) (simp split: prod.split)
  then obtain tr where "(fst (Reconcile rt ctx n st), writes tr, world (snd (Reconcile rt ctx n st))) = reconcile_step rt n (world st)"
    unfolding does_def by (auto elim: yieldsD)
  with assms show ?thesis by (metis fst_conv snd_conv)
qed

lemma all_tended_unqueue:
  assumes "all_tended conforms rt s" "sy_cache s (KLimitador, request_of l) = Some (OLimitador l)"
    and "om_DeletionTimestamp (lim_ObjectMeta l) = None" "request_of l \<noteq> n"
  shows "tended conforms rt l (s\<lparr>sy_queue := sy_queue s - {n}\<rparr>)"
proof -
  from assms(1-3) have "tended conforms rt l s" unfolding all_tended_def by blast
  with assms(4) show ?thesis
    by (simp add: tended_def reported_def settled_def versions_def server_def)
qed

lemma all_tended_work:
  assumes "attached conforms (rt_client rt)" "keeps_fields conforms" "sets_controller rt"
    and "all_tended conforms rt s"
    and run: "reconcile_step rt n (s\<lparr>sy_queue := sy_queue s - {n}\<rparr>) = (r, ws, s')"
  shows "all_tended conforms rt (s'\<lparr>sy_queue := sy_queue s' \<union> put_back n r\<rparr>)"
  unfolding all_tended_def
proof (intro allI impI, elim conjE)
  fix l let ?s0 = "s\<lparr>sy_queue := sy_queue s - {n}\<rparr>" and ?s1 = "s'\<lparr>sy_queue := sy_queue s' \<union> put_back n r\<rparr>"
  assume "sy_cache ?s1 (KLimitador, request_of l) = Some (OLimitador l)"
    and d: "om_DeletionTimestamp (lim_ObjectMeta l) = None"
  then have l: "sy_cache s' (KLimitador, request_of l) = Some (OLimitador l)" by simp
  have up: "tended conforms rt l s' \<Longrightarrow> tended conforms rt l ?s1"
    by (auto simp: tended_def reported_def settled_def versions_def server_def)
  note m = advancesD [OF advances_reconcile [OF assms(1)] run]
  show "tended conforms rt l ?s1"
  proof (cases "request_of l = n")
    case True
    show ?thesis
    proof (cases "\<exists>res. r = Done (Inr res)")
      case True
      with reconcile_tends [OF assms(1-3) _ l refl d] run \<open>request_of l = n\<close> up show ?thesis by auto
    next
      case False
      with \<open>request_of l = n\<close> show ?thesis
        by (intro tended_queued) (auto simp: put_back_def split: outcome.split sum.split)
    qed
  next
    case False
    show ?thesis
    proof (rule up, cases "sy_cache s (KLimitador, request_of l) = Some (OLimitador l)")
      case True
      from m tended_enduring [OF assms(2,3)] all_tended_unqueue [OF assms(4) True d False]
      show "tended conforms rt l s'" by (rule enduring_moves)
    next
      case stale: False
      have "request_of l \<in> sy_queue s' \<or> sy_cache s' (KLimitador, request_of l) = sy_cache s (KLimitador, request_of l)"
        by (rule enduring_moves [OF m cache_enduring]) simp
      with stale l show "tended conforms rt l s'" by (simp add: tended_queued)
    qed
  qed
qed

lemma reachable_tended:
  assumes "attached conforms (rt_client rt)" "keeps_fields conforms" "sets_controller rt" "reachable rt s"
  shows "all_tended conforms rt s"
  using assms(4)
proof (induction rule: reachable.induct)
  case (step s s')
  from step.hyps(2) step.IH show ?case
  proof (induction rule: system_step.induct)
    case (others s s')
    with all_tended_enduring [OF assms(2,3)] show ?case unfolding enduring_def by blast
  next
    case (work n s ctx tr i r st)
    from Reconcile_run [OF work(2)] work(3) show ?case
      using all_tended_work [OF assms(1-3)] by auto
  next
    case (restart s)
    show ?case by (simp add: all_tended_def restarted_def)
  qed
qed (simp add: all_tended_def)

end
