(* ===== verification/Handler_Properties.thy ===== *)
theory Handler_Properties
  imports Sample_Cluster
begin

text \<open>
  The properties of the single handlers and of the status: what each returns and sends on every
  answer of the client.
\<close>

text \<open>
  The contexts the handlers get: a base logger was stored and the logger refreshed from the span,
  which is how \<^verbatim>\<open>Reconcile\<close> and the start of every span make them.
\<close>

definition logged :: "'w runtime \<Rightarrow> Context \<Rightarrow> logger \<Rightarrow> Context" where
  "logged rt ctx logger = RefreshLoggerWithCurrentSpan rt (StoreBaseLogger ctx logger)"

lemma ctx_ok_logged [simp]: "ctx_ok (logged rt ctx logger)"
  unfolding logged_def by (rule RefreshLogger_ctx_ok) (simp add: StoreBaseLogger_def)

section \<open>Pod annotations\<close>

abbreviation annotate_pod :: "string \<Rightarrow> Pod \<Rightarrow> request" where
  "annotate_pod version p \<equiv> ReqApply (pod_patch version p) True FieldManagerName"

lemma run_applies:
  assumes "run_steps (map (\<lambda>p. apply_step rt (pod_patch version p)) pods) w = (r, ws, w')"
  shows "case r of Done None \<Rightarrow> ws = map (annotate_pod version) pods
    | Done (Some e) \<Rightarrow> (\<exists>n. ws = map (annotate_pod version) (take n pods)) | Panic p \<Rightarrow> False"
  using assms
proof (induction pods arbitrary: w r ws w')
  case Nil
  then show ?case by auto
next
  case (Cons p pods)
  obtain err w1 where a: "cl_Apply (rt_client rt) (pod_patch version p) True FieldManagerName w = (err, w1)"
    by fastforce
  have "\<not> IsObjectTaggedToDelete (obj_meta (pod_patch version p))"
    by (simp add: pod_patch_def podPatch_def IsObjectTaggedToDelete_def)
  with a have step: "apply_step rt (pod_patch version p) w = (Done err, [annotate_pod version p], w1)"
    by (simp add: apply_step_def)
  show ?case
  proof (cases err)
    case None
    obtain r2 ws2 w2 where rest: "run_steps (map (\<lambda>p. apply_step rt (pod_patch version p)) pods) w1 = (r2, ws2, w2)"
      by (rule prod_cases3)
    with Cons.prems step None have "r = r2" "ws = annotate_pod version p # ws2" by simp_all
    moreover have "\<exists>n. annotate_pod version p # map (annotate_pod version) (take m pods)
        = map (annotate_pod version) (take n (p # pods))" for m
      by (rule exI [of _ "Suc m"]) simp
    ultimately show ?thesis
      using Cons.IH [OF rest] by (auto split: outcome.splits option.splits)
  next
    case (Some e)
    with Cons.prems step have "r = Done (Some e)" "ws = map (annotate_pod version) (take 1 (p # pods))" by simp_all
    then show ?thesis by (simp only: outcome.case option.case) blast
  qed
qed

text \<open>
  C10: The pod annotation step. It asks for a requeue, and writes nothing, unless pods were listed (as
  many as replicas are asked for, when they are) and the limits config map was found. Else it
  patches exactly the pods whose annotation differs from the version of that config map, once
  each and in the order of the list; an error ends it after a prefix of them.
\<close>

theorem pod_annotation_patches_stale_pods:
  "does S (reconcilePodLimitsHashAnnotation rt (logged rt ctx logger) l) w (\<lambda>r ws w'.
     case cl_ListPods (rt_client rt) (lim_Namespace l) (SelectorLabels l) w of
       (Inl e, w1) \<Rightarrow> r = Done (Inl e) \<and> ws = []
     | (Inr pods, w1) \<Rightarrow>
         if \<not> pods_ready l pods then r = Done (Inr requeue) \<and> ws = []
         else case fst (cl_GetConfigMap (rt_client rt) (snd (lim_key KConfigMap LimitsConfigMapName l)) w1) of
           Inl e \<Rightarrow> r = Done (if IsNotFound e then Inr requeue else Inl e) \<and> ws = []
         | Inr cm \<Rightarrow>
             (let version = om_ResourceVersion (cm_ObjectMeta cm); todo = filter (stale version) pods
              in case r of
                   Done (Inr res) \<Rightarrow> res = zeroResult \<and> ws = map (annotate_pod version) todo
                 | Done (Inl e) \<Rightarrow> \<exists>n. ws = map (annotate_pod version) (take n todo)
                 | Panic p \<Rightarrow> False))"
  by (rule does_performs [OF performs_reconcilePodLimitsHashAnnotation [OF ctx_ok_logged]])
    (auto simp: annotation_step_def pods_step_def Let_def
      split: prod.split sum.split outcome.split option.split dest!: run_applies)

section \<open>The handlers of the owned objects\<close>

text \<open>
  C11: A claim is never changed. The handler creates it only after the client answered that it does not
  exist, sends nothing when it exists or when the read fails (whose error it returns), and
  deletes it exactly when the spec has no disk storage.
\<close>

theorem reconcilePVC_create_only:
  "does S (reconcilePVC rt (logged rt ctx logger) l) w (\<lambda>r ws w'.
     case own rt l (OPersistentVolumeClaim (PVC l)) of
       Inl e \<Rightarrow> r = Done (Some e) \<and> ws = []
     | Inr y \<Rightarrow>
         if no_disk l then ws = [ReqDelete y] \<and> r = Done (ignore_not_found (fst (cl_Delete (rt_client rt) y w)))
         else (case cl_GetPersistentVolumeClaim (rt_client rt) (snd (lim_key KPersistentVolumeClaim PVCName l)) w of
             (Inr p, w1) \<Rightarrow> r = Done None \<and> ws = []
           | (Inl e, w1) \<Rightarrow>
               if IsNotFound e then ws = [ReqCreate y] \<and> r = Done (fst (cl_Create (rt_client rt) y w1))
               else r = Done (Some e) \<and> ws = []))"
proof (rule does_performs [OF performs_reconcilePVC [OF ctx_ok_logged]], cases "own rt l (OPersistentVolumeClaim (PVC l))")
  case (Inr y)
  then obtain refs where y: "obj_meta y = pvc_ObjectMeta (PVC l)\<lparr>om_OwnerReferences := refs\<rparr>"
    by (auto elim: own_meta)
  have "IsObjectTaggedToDelete (obj_meta y) = no_disk l"
    using pvc.build_tagged [of l] y by (simp add: IsObjectTaggedToDelete_def)
  moreover have "meta_key (obj_meta y) = snd (lim_key KPersistentVolumeClaim PVCName l)"
    using pvc.build_key [of l] y by (simp add: meta_key_def)
  ultimately show "case manage desired_pvc create_step rt l w of (r, ws, w') \<Rightarrow>
     case own rt l (OPersistentVolumeClaim (PVC l)) of
       Inl e \<Rightarrow> r = Done (Some e) \<and> ws = []
     | Inr y \<Rightarrow>
         if no_disk l then ws = [ReqDelete y] \<and> r = Done (ignore_not_found (fst (cl_Delete (rt_client rt) y w)))
         else (case cl_GetPersistentVolumeClaim (rt_client rt) (snd (lim_key KPersistentVolumeClaim PVCName l)) w of
             (Inr p, w1) \<Rightarrow> r = Done None \<and> ws = []
           | (Inl e, w1) \<Rightarrow>
               if IsNotFound e then ws = [ReqCreate y] \<and> r = Done (fst (cl_Create (rt_client rt) y w1))
               else r = Done (Some e) \<and> ws = [])"
    using Inr by (auto simp: manage_def desired_pvc_def create_step_def delete_step_def split: prod.split sum.split)
qed (auto simp: manage_def desired_pvc_def)

text \<open>
  C12: The disruption budget is applied when the spec asks for one and deleted, if it is there, when the
  spec does not; a delete that finds nothing is a success.
\<close>

theorem reconcilePdb_applies_or_deletes:
  "does S (reconcilePdb rt (logged rt ctx logger) l) w (\<lambda>r ws w'.
     case own rt l (OPodDisruptionBudget (PodDisruptionBudget l)) of
       Inl e \<Rightarrow> r = Done (Some e) \<and> ws = []
     | Inr y \<Rightarrow>
         if sp_PodDisruptionBudget (lim_Spec l) = None
         then ws = [ReqDelete y] \<and> r = Done (case fst (cl_Delete (rt_client rt) y w) of
              None \<Rightarrow> None | Some e \<Rightarrow> if IsNotFound e then None else Some e)
         else ws = [ReqApply y True FieldManagerName] \<and> r = Done (fst (cl_Apply (rt_client rt) y True FieldManagerName w)))"
proof (rule does_performs [OF performs_reconcilePdb [OF ctx_ok_logged]],
    cases "own rt l (OPodDisruptionBudget (PodDisruptionBudget l))")
  case (Inr y)
  then obtain refs where "obj_meta y = pdb_ObjectMeta (PodDisruptionBudget l)\<lparr>om_OwnerReferences := refs\<rparr>"
    by (auto elim: own_meta)
  then have "IsObjectTaggedToDelete (obj_meta y) = no_pdb l"
    using pdb.build_tagged [of l] by (simp add: IsObjectTaggedToDelete_def)
  with Inr show "case manage desired_pdb apply_step rt l w of (r, ws, w') \<Rightarrow>
     case own rt l (OPodDisruptionBudget (PodDisruptionBudget l)) of
       Inl e \<Rightarrow> r = Done (Some e) \<and> ws = []
     | Inr y \<Rightarrow>
         if sp_PodDisruptionBudget (lim_Spec l) = None
         then ws = [ReqDelete y] \<and> r = Done (case fst (cl_Delete (rt_client rt) y w) of
              None \<Rightarrow> None | Some e \<Rightarrow> if IsNotFound e then None else Some e)
         else ws = [ReqApply y True FieldManagerName] \<and> r = Done (fst (cl_Apply (rt_client rt) y True FieldManagerName w))"
    by (auto simp: manage_def desired_pdb_def apply_step_def delete_step_def no_pdb_def
        ignore_not_found_def IgnoreNotFound_def split: prod.split option.split)
qed (auto simp: manage_def desired_pdb_def)

text \<open>
  C13: With a Redis back end, plain or cached, no deployment is sent unless the secret it names was
  read from the namespace of the resource and has the field \<^verbatim>\<open>URL\<close>: the missing reference, the
  read error or the missing field is the error of the handler.
\<close>

theorem reconcileDeployment_needs_redis_secret:
  "does S (reconcileDeployment rt (logged rt ctx logger) l) w (\<lambda>r ws w'.
     case backend_ref (backend_of l) of
       None \<Rightarrow> True
     | Some None \<Rightarrow> r = Done (Some noSecretRef) \<and> ws = []
     | Some (Some ref) \<Rightarrow>
         (case fst (cl_GetSecret (rt_client rt) (secret_key (lim_Namespace l) ref) w) of
            Inl e \<Rightarrow> r = Done (Some e) \<and> ws = []
          | Inr secret \<Rightarrow> if map_get (sec_Data secret) ''URL'' \<noteq> None then True
              else r = Done (Some noUrlField) \<and> ws = []))"
  by (rule does_performs [OF performs_reconcileDeployment [OF ctx_ok_logged]])
    (auto simp: manage_def desired_deployment_def options_step_def backend_check_def secret_error_def
      split: prod.split option.split sum.split)

text \<open>
  Past those checks the handler sends one forced apply of the deployment built from the spec, with
  its owner set, and returns the error of the client, if any.
\<close>

lemma reconcileDeployment_applies:
  assumes "backend_check rt l w = (None, w1)"
    and "DeploymentArgs l (backend_options l (backend_of l)) = Done args"
    and "own rt l (ODeployment (Deployment (rt_GetString rt) l (options_of l args))) = Inr y"
  shows "does S (reconcileDeployment rt (logged rt ctx logger) l) w (\<lambda>r ws w'.
     ws = [ReqApply y True FieldManagerName] \<and> (r, w') = map_prod Done id (cl_Apply (rt_client rt) y True FieldManagerName w1))"
proof -
  from assms(3) obtain refs where
    "obj_meta y = dep_ObjectMeta (Deployment (rt_GetString rt) l (options_of l args))\<lparr>om_OwnerReferences := refs\<rparr>"
    by (auto elim: own_meta)
  then have "\<not> IsObjectTaggedToDelete (obj_meta y)"
    by (simp add: IsObjectTaggedToDelete_def Deployment_def)
  with assms show ?thesis
    by (intro does_performs [OF performs_reconcileDeployment [OF ctx_ok_logged]])
      (auto simp: manage_def desired_deployment_def options_step_def apply_step_def split: prod.split)
qed

lemma reconcileDeployment_applies_example:
  "\<exists>y. obj_key y = lim_key KDeployment DeploymentName sample \<and>
     does {} (reconcileDeployment sample_runtime (logged sample_runtime no_context []) sample) empty_cluster
       (\<lambda>r ws w'. ws = [ReqApply y True FieldManagerName] \<and> r = Done None)"
proof -
  have check: "backend_check sample_runtime sample empty_cluster = (None, empty_cluster)"
    by (simp add: backend_check_def backend_of_def zeroSpec_def)
  have "valid_verbosity sample" by (simp add: valid_verbosity_def zeroSpec_def)
  then obtain args where args: "DeploymentArgs sample (backend_options sample (backend_of sample)) = Done args"
    using DeploymentArgs_total by blast
  obtain y where y: "own sample_runtime sample
      (ODeployment (Deployment (rt_GetString sample_runtime) sample (options_of sample args))) = Inr y"
    by (simp add: own_def owner_set_def)
  have "obj_key y = lim_key KDeployment DeploymentName sample"
    using y by (rule own_meta) (simp add: obj_key_def built_meta)
  moreover have "does {} (reconcileDeployment sample_runtime (logged sample_runtime no_context []) sample) empty_cluster
       (\<lambda>r ws w'. ws = [ReqApply y True FieldManagerName] \<and> r = Done None)"
    by (rule does_mono [OF reconcileDeployment_applies [OF check args y]])
      (simp add: sample_client_def put_def)
  ultimately show ?thesis by blast
qed

end
