(* ===== verification/Status_Properties.thy ===== *)
theory Status_Properties
  imports Handler_Properties
begin

text \<open>
  The properties of the status: when the resource counts as ready, what is written, and that a
  status once written is not written again.
\<close>

section \<open>Readiness\<close>

text \<open>
  A deployment that is rolled out: its controller saw the latest generation, it is available, and
  every replica is ready.
\<close>

definition rolled_out :: "Deployment \<Rightarrow> bool" where
  "rolled_out d \<longleftrightarrow>
     dst_ObservedGeneration (dep_Status d) = om_Generation (dep_ObjectMeta d)
     \<and> (\<exists>c. find (\<lambda>c. dc_Type c = ''Available'') (dst_Conditions (dep_Status d)) = Some c \<and> dc_Status c = ConditionTrue)
     \<and> dst_UnavailableReplicas (dep_Status d) = 0
     \<and> dst_ReadyReplicas (dep_Status d) = dst_Replicas (dep_Status d)"

lemma unavailable_reason_None: "unavailable_reason d = None \<longleftrightarrow> rolled_out d"
  by (auto simp: unavailable_reason_def rolled_out_def Let_def split: option.split)

text \<open>
  C14: The \<^verbatim>\<open>Ready\<close> condition is true exactly when the spec was reconciled without an error and the
  deployment of the resource was found rolled out. A deployment that does not exist yet makes it
  false; only another read error makes the computation fail. Nothing is written.
\<close>

theorem readyCondition_iff_rolled_out:
  "does S (readyCondition rt l specErr) w (\<lambda>r ws w'. ws = [] \<and> (case r of
     Done (Inr c) \<Rightarrow> cond_Type c = StatusConditionReady \<and>
       (if specErr = None \<and> (\<exists>d. fst (cl_GetDeployment (rt_client rt) (deployment_key l) w) = Inr d \<and> rolled_out d)
        then cond_Status c = ConditionTrue else cond_Status c = ConditionFalse)
   | Done (Inl e) \<Rightarrow> specErr = None \<and> fst (cl_GetDeployment (rt_client rt) (deployment_key l) w) = Inl e \<and> \<not> IsNotFound e
   | Panic p \<Rightarrow> False))"
  by (rule does_performs [OF performs_readyCondition])
    (auto simp: condition_of_def availability_def not_ready_def readyCond_def unavailable_reason_None [symmetric]
      split: option.splits prod.splits sum.splits)

section \<open>Writing the status\<close>

text \<open>
  What the status code relies on of \<^verbatim>\<open>meta.SetStatusCondition\<close>: a list whose condition of that type
  already has the status, reason, message and generation is left as it is, and afterwards the
  first condition of the type has them.
\<close>

definition agrees :: "Condition \<Rightarrow> Condition \<Rightarrow> bool" where
  "agrees d c \<longleftrightarrow> cond_Type d = cond_Type c \<and> cond_Status d = cond_Status c \<and> cond_Reason d = cond_Reason c
     \<and> cond_Message d = cond_Message c \<and> cond_ObservedGeneration d = cond_ObservedGeneration c"

definition sets_status_condition :: "(Condition list \<Rightarrow> Condition \<Rightarrow> Condition list) \<Rightarrow> bool" where
  "sets_status_condition set_cond \<longleftrightarrow>
    (\<forall>cs c. (\<exists>d. find (\<lambda>d. cond_Type d = cond_Type c) (set_cond cs c) = Some d \<and> agrees d c)
       \<and> (\<forall>d. find (\<lambda>d. cond_Type d = cond_Type c) cs = Some d \<and> agrees d c \<longrightarrow> set_cond cs c = cs))"

lemma sets_status_conditionD:
  assumes "sets_status_condition f"
  shows "f (f cs c) c = f cs c" "\<exists>d. find (\<lambda>d. cond_Type d = cond_Type c) (f cs c) = Some d \<and> agrees d c"
  using assms unfolding sets_status_condition_def by blast+

lemma set_condition_sets: "sets_status_condition set_condition"
proof -
  have "\<exists>d. find (\<lambda>d. cond_Type d = cond_Type c) (set_condition cs c) = Some d \<and> agrees d c" for cs c
    by (induction cs) (auto simp: agrees_def)
  moreover have "find (\<lambda>d. cond_Type d = cond_Type c) cs = Some d \<Longrightarrow> agrees d c \<Longrightarrow> set_condition cs c = cs" for cs c d
    by (induction cs) (auto simp: agrees_def split: if_splits)
  ultimately show ?thesis unfolding sets_status_condition_def by blast
qed

text \<open>
  A status that was written is not written again: once the resource has the status of a
  reconciliation, and as long as its generation, its ports and the condition it gets do not change,
  \<^verbatim>\<open>reconcileStatus\<close> sends nothing.
\<close>

lemma reconcileStatus_steady:
  assumes "sets_status_condition (rt_SetStatusCondition rt)"
    and "condition_of rt l specErr w = (Inr c, w1)"
    and "lim_Status l' = status_with rt l c"
    and "lim_ObjectMeta l' = lim_ObjectMeta l" "lim_Spec l' = lim_Spec l"
  shows "does S (reconcileStatus rt (logged rt ctx logger) l' specErr) w
     (\<lambda>r ws w'. r = Done (Inr zeroResult) \<and> ws = [])"
proof (rule does_performs [OF performs_reconcileStatus [OF ctx_ok_logged]])
  have "condition_of rt l' specErr w = (Inr c, w1)"
    using assms(2,4) by (cases specErr) (simp_all add: condition_of_def DeploymentName_def)
  moreover have "status_with rt l' c = status_with rt l c"
    using assms(3-5) sets_status_conditionD(1) [OF assms(1)]
    by (simp add: status_with_def buildServiceHost_def ServiceName_def HTTPPort_def GRPCPort_def)
  moreover have "status_current l' (status_with rt l c)"
    using assms(3,4) by (simp add: status_current_def status_with_def)
  ultimately show "case status_step rt l' specErr w of (r, ws, w') \<Rightarrow> r = Done (Inr zeroResult) \<and> ws = []"
    by (simp add: status_step_def)
qed

lemma reconcileStatus_steady_example:
  "does {} (reconcileStatus sample_runtime (logged sample_runtime no_context [])
      (sample\<lparr>lim_Status := status_with sample_runtime sample (not_ready ''LimitadorNotAvailable'' ''not found'')\<rparr>) None)
    empty_cluster (\<lambda>r ws w'. r = Done (Inr zeroResult) \<and> ws = [])"
proof -
  have "condition_of sample_runtime sample None empty_cluster
      = (Inr (not_ready ''LimitadorNotAvailable'' ''not found''), empty_cluster)"
    by (simp add: condition_of_def sample_client_def empty_cluster_def availability_def notFound_def)
  from reconcileStatus_steady [OF _ this] show ?thesis by (simp add: set_condition_sets)
qed

text \<open>
  C15: A status that is written is written once, by a forced apply to the status of the resource
  (its type, name and namespace, no spec), and says: the generation that was reconciled, the host
  and the ports of the service, and a \<^verbatim>\<open>Ready\<close> condition with the outcome. It is written exactly
  when it differs from the one that was read; a failed write is wrapped and returned.
\<close>

theorem reconcileStatus_writes_status:
  assumes "condition_of rt l specErr w = (Inr c, w1)"
    and "sets_status_condition (rt_SetStatusCondition rt)"
  shows "does S (reconcileStatus rt (logged rt ctx logger) l specErr) w (\<lambda>r ws w'.
     \<exists>st. sta_ObservedGeneration st = lim_Generation l
      \<and> sta_Service st = Some \<lparr>lsv_Host = ''limitador-'' @ lim_Name l @ ''.'' @ lim_Namespace l @ ''.svc.cluster.local'',
           lsv_Ports = \<lparr>po_HTTP = HTTPPort l, po_GRPC = GRPCPort l\<rparr>\<rparr>
      \<and> (\<exists>d. find (\<lambda>d. cond_Type d = cond_Type c) (sta_Conditions st) = Some d \<and> agrees d c)
      \<and> (if Equals (lim_Status l) st then ws = [] \<and> r = Done (Inr zeroResult)
         else ws = [ReqStatusApply (OLimitador (statusPatch l st)) True FieldManagerName]
           \<and> r = Done (case fst (cl_StatusApply (rt_client rt) (OLimitador (statusPatch l st)) True FieldManagerName w1) of
                None \<Rightarrow> Inr zeroResult | Some e \<Rightarrow> Inl (ErrWrap ''failed to update status'' e))))"
proof (rule does_performs [OF performs_reconcileStatus [OF ctx_ok_logged]])
  let ?st = "status_with rt l c" and ?P = "\<lambda>st r ws. sta_ObservedGeneration st = lim_Generation l
      \<and> sta_Service st = Some \<lparr>lsv_Host = ''limitador-'' @ lim_Name l @ ''.'' @ lim_Namespace l @ ''.svc.cluster.local'',
           lsv_Ports = \<lparr>po_HTTP = HTTPPort l, po_GRPC = GRPCPort l\<rparr>\<rparr>
      \<and> (\<exists>d. find (\<lambda>d. cond_Type d = cond_Type c) (sta_Conditions st) = Some d \<and> agrees d c)
      \<and> (if Equals (lim_Status l) st then ws = [] \<and> r = Done (Inr zeroResult)
         else ws = [ReqStatusApply (OLimitador (statusPatch l st)) True FieldManagerName]
           \<and> r = Done (case fst (cl_StatusApply (rt_client rt) (OLimitador (statusPatch l st)) True FieldManagerName w1) of
                None \<Rightarrow> Inr zeroResult | Some e \<Rightarrow> Inl (ErrWrap ''failed to update status'' e)))"
  have "status_current l ?st \<longleftrightarrow> Equals (lim_Status l) ?st"
    by (auto simp: status_current_def Equals_def status_with_def)
  moreover have "sta_ObservedGeneration ?st = lim_Generation l"
    "sta_Service ?st = Some \<lparr>lsv_Host = ''limitador-'' @ lim_Name l @ ''.'' @ lim_Namespace l @ ''.svc.cluster.local'',
           lsv_Ports = \<lparr>po_HTTP = HTTPPort l, po_GRPC = GRPCPort l\<rparr>\<rparr>"
    "\<exists>d. find (\<lambda>d. cond_Type d = cond_Type c) (sta_Conditions ?st) = Some d \<and> agrees d c"
    using sets_status_conditionD(2) [OF assms(2)]
    by (simp_all add: status_with_def buildServiceHost_def ServiceName_def)
  ultimately have "?P ?st r ws" if "status_step rt l specErr w = (r, ws, w')" for r ws w'
    using that assms(1) by (auto simp: status_step_def Let_def split: prod.splits if_splits)
  then show "case status_step rt l specErr w of (r, ws, w') \<Rightarrow> \<exists>st. ?P st r ws" by (auto split: prod.split)
qed

theorem reconcileStatus_writes_status_witness:
  "does {} (reconcileStatus sample_runtime (logged sample_runtime no_context []) sample (Some conflict)) empty_cluster
     (\<lambda>r ws w'. \<exists>st. sta_ObservedGeneration st = 1 \<and>
        ws = [ReqStatusApply (OLimitador (statusPatch sample st)) True FieldManagerName])"
proof -
  have cond: "condition_of sample_runtime sample (Some conflict) empty_cluster
      = (Inr (not_ready ''ReconcilliationError'' ''conflict''), empty_cluster)"
    by (simp add: condition_of_def conflict_def)
  have "\<not> Equals (lim_Status sample) st" if "sta_ObservedGeneration st = 1" for st
    using that by (simp add: Equals_def zeroStatus_def)
  then show ?thesis
    using reconcileStatus_writes_status [OF cond, of "{}" no_context "[]"]
    by (auto simp: set_condition_sets elim!: does_mono)
qed

end
