(* ===== verification/Steady_State.thy ===== *)
theory Steady_State
  imports Convergence Status_Properties
begin

text \<open>
  A reconciliation of a resource that is in order changes nothing. \<open>idle\<close> says what is relied on of the
  API server in one world: reads change nothing, an apply that the stored object already conforms to
  changes nothing, and neither does the deletion of an object that is gone or going.
\<close>

definition idle :: "'w view \<Rightarrow> (Object \<Rightarrow> Object \<Rightarrow> bool) \<Rightarrow> 'w client \<Rightarrow> 'w \<Rightarrow> bool" where
  "idle stored conforms c w \<longleftrightarrow>
    (\<forall>x f m. conforming conforms x (stored w (obj_key x)) \<longrightarrow> cl_Apply c x f m w = (None, w))
  \<and> (\<forall>x. gone (stored w (obj_key x)) \<longrightarrow> snd (cl_Delete c x w) = w \<and> ignore_not_found (fst (cl_Delete c x w)) = None)
  \<and> (\<forall>k. snd (cl_GetDeployment c k w) = w) \<and> (\<forall>k. snd (cl_GetSecret c k w) = w)
  \<and> (\<forall>k. snd (cl_GetPersistentVolumeClaim c k w) = w) \<and> (\<forall>k. snd (cl_GetConfigMap c k w) = w)
  \<and> (\<forall>ns sel. snd (cl_ListPods c ns sel w) = w)"

text \<open>The object a handler asks for in this world, with its owner, and that it is in place.\<close>

definition asked :: "'w desired \<Rightarrow> 'w runtime \<Rightarrow> Limitador \<Rightarrow> 'w \<Rightarrow> Object \<Rightarrow> bool" where
  "asked desired rt l w y \<longleftrightarrow> (\<exists>x w1. desired rt l w = (Done (Inr x), w1) \<and> own rt l x = Inr y)"

definition present :: "'w view \<Rightarrow> (Object \<Rightarrow> Object \<Rightarrow> bool) \<Rightarrow> 'w desired \<Rightarrow> 'w runtime \<Rightarrow> Limitador \<Rightarrow> 'w \<Rightarrow> bool" where
  "present stored conforms desired rt l w \<longleftrightarrow> (\<exists>y. asked desired rt l w y \<and>
     (if IsObjectTaggedToDelete (obj_meta y) then gone (stored w (obj_key y))
      else conforming conforms y (stored w (obj_key y))))"

text \<open>A claim is only looked for; its contents do not matter.\<close>

definition claim_present :: "'w view \<Rightarrow> 'w runtime \<Rightarrow> Limitador \<Rightarrow> 'w \<Rightarrow> bool" where
  "claim_present stored rt l w \<longleftrightarrow> (\<exists>y. asked desired_pvc rt l w y \<and>
     (if IsObjectTaggedToDelete (obj_meta y) then gone (stored w (obj_key y))
      else \<exists>p. fst (cl_GetPersistentVolumeClaim (rt_client rt) (meta_key (obj_meta y)) w) = Inr p))"

definition pods_current :: "'w runtime \<Rightarrow> Limitador \<Rightarrow> 'w \<Rightarrow> bool" where
  "pods_current rt l w \<longleftrightarrow> (\<exists>pods. fst (cl_ListPods (rt_client rt) (lim_Namespace l) (SelectorLabels l) w) = Inr pods \<and>
     (pods_ready l pods \<longrightarrow> (\<exists>cm. fst (cl_GetConfigMap (rt_client rt)
          \<lparr>nn_Name = LimitsConfigMapName l, nn_Namespace = lim_Namespace l\<rparr> w) = Inr cm
        \<and> list_all (\<lambda>p. \<not> stale (om_ResourceVersion (cm_ObjectMeta cm)) p) pods)))"

definition orderly :: "'w view \<Rightarrow> (Object \<Rightarrow> Object \<Rightarrow> bool) \<Rightarrow> 'w runtime \<Rightarrow> Limitador \<Rightarrow> 'w \<Rightarrow> bool" where
  "orderly stored conforms rt l w \<longleftrightarrow>
     list_all (\<lambda>desired. present stored conforms desired rt l w)
       [desired_service, desired_deployment, desired_configmap, desired_pdb]
   \<and> claim_present stored rt l w \<and> pods_current rt l w
   \<and> (\<exists>c. fst (condition_of rt l None w) = Inr c \<and> status_current l (status_with rt l c))"

lemma idleD:
  assumes "idle stored conforms c w"
  shows "conforming conforms x (stored w (obj_key x)) \<Longrightarrow> cl_Apply c x f m w = (None, w)"
    and "gone (stored w (obj_key x)) \<Longrightarrow> \<exists>e. cl_Delete c x w = (e, w) \<and> ignore_not_found e = None"
    and "cl_GetDeployment c k w = (r1, w') \<Longrightarrow> w' = w" and "cl_GetSecret c k w = (r2, w') \<Longrightarrow> w' = w"
    and "cl_GetPersistentVolumeClaim c k w = (r3, w') \<Longrightarrow> w' = w" and "cl_GetConfigMap c k w = (r4, w') \<Longrightarrow> w' = w"
    and "cl_ListPods c ns sel w = (r5, w') \<Longrightarrow> w' = w"
  using assms by (simp_all add: idle_def prod_eq_iff)

definition unmoved :: "('w, error option) step \<Rightarrow> 'w \<Rightarrow> bool" where
  "unmoved f w \<longleftrightarrow> (\<exists>ws. f w = (Done None, ws, w))"

lemma unmoved_run_steps: "list_all (\<lambda>f. unmoved f w) fs \<Longrightarrow> unmoved (run_steps fs) w"
  by (induction fs) (auto simp: unmoved_def)

lemma desired_idle:
  assumes "idle stored conforms (rt_client rt) w"
  shows "desired_service rt l w = (r, w1) \<Longrightarrow> w1 = w" "desired_pvc rt l w = (r, w1) \<Longrightarrow> w1 = w"
    and "desired_deployment rt l w = (r, w1) \<Longrightarrow> w1 = w" "desired_configmap rt l w = (r, w1) \<Longrightarrow> w1 = w"
    and "desired_pdb rt l w = (r, w1) \<Longrightarrow> w1 = w"
  using idleD(4) [OF assms]
  by (auto simp: desired_service_def desired_pvc_def desired_configmap_def desired_pdb_def
      desired_deployment_def options_step_def backend_check_def
      split: prod.splits outcome.splits sum.splits option.splits)

lemma unmoved_apply:
  assumes "idle stored conforms (rt_client rt) w" "present stored conforms desired rt l w"
    and "\<And>r w1. desired rt l w = (r, w1) \<Longrightarrow> w1 = w"
  shows "unmoved (manage desired apply_step rt l) w"
proof -
  from assms(2,3) obtain x y where x: "desired rt l w = (Done (Inr x), w)" "own rt l x = Inr y"
    "if IsObjectTaggedToDelete (obj_meta y) then gone (stored w (obj_key y)) else conforming conforms y (stored w (obj_key y))"
    unfolding present_def asked_def by blast
  have "unmoved (apply_step rt y) w"
    using idleD(1,2) [OF assms(1)] x(3)
    by (cases "IsObjectTaggedToDelete (obj_meta y)") (fastforce simp: unmoved_def apply_step_def delete_step_def)+
  with x(1,2) show ?thesis by (simp add: unmoved_def manage_def)
qed

lemma unmoved_claim:
  assumes "idle stored conforms (rt_client rt) w" "claim_present stored rt l w"
  shows "unmoved (manage desired_pvc create_step rt l) w"
proof -
  from assms(2) desired_idle(2) [OF assms(1)] obtain x y where x: "desired_pvc rt l w = (Done (Inr x), w)" "own rt l x = Inr y"
    "if IsObjectTaggedToDelete (obj_meta y) then gone (stored w (obj_key y))
     else \<exists>p. fst (cl_GetPersistentVolumeClaim (rt_client rt) (meta_key (obj_meta y)) w) = Inr p"
    unfolding claim_present_def asked_def by blast
  have "unmoved (create_step rt y) w"
    using idleD(2,5) [OF assms(1)] x(3)
    by (cases "IsObjectTaggedToDelete (obj_meta y)")
      (fastforce simp: unmoved_def create_step_def delete_step_def split: prod.splits)+
  with x(1,2) show ?thesis by (simp add: unmoved_def manage_def)
qed

lemma annotation_idle:
  assumes "idle stored conforms (rt_client rt) w" "pods_current rt l w"
  shows "\<exists>res. annotation_step rt l w = (Done (Inr res), [], w) \<and> sint (res_RequeueAfter res) = 0"
proof -
  from assms(2) obtain pods where pods: "cl_ListPods (rt_client rt) (lim_Namespace l) (SelectorLabels l) w = (Inr pods, w)"
    and ready: "pods_ready l pods \<Longrightarrow> \<exists>cm. cl_GetConfigMap (rt_client rt)
          \<lparr>nn_Name = LimitsConfigMapName l, nn_Namespace = lim_Namespace l\<rparr> w = (Inr cm, w)
        \<and> filter (stale (om_ResourceVersion (cm_ObjectMeta cm))) pods = []"
    using idleD(6,7) [OF assms(1)] unfolding pods_current_def
    by (auto simp: prod_eq_iff filter_empty_conv list_all_iff)
  show ?thesis
    using pods ready by (cases "pods_ready l pods")
      (auto simp: annotation_step_def pods_step_def requeue_def zeroResult_def)
qed

lemma reconcile_orderly:
  assumes "idle stored conforms (rt_client rt) w" "orderly stored conforms rt l w"
    and "cl_GetLimitador (rt_client rt) req w = (Inr l, w)"
    and "om_DeletionTimestamp (lim_ObjectMeta l) = None" "debug_error rt l = None"
  shows "\<exists>ws. reconcile_step rt req w = (Done (Inr zeroResult), ws, w)"
proof -
  have "unmoved (manage desired_service apply_step rt l) w" "unmoved (manage desired_deployment apply_step rt l) w"
    "unmoved (manage desired_configmap apply_step rt l) w" "unmoved (manage desired_pdb apply_step rt l) w"
    using assms(2) unfolding orderly_def list.pred_inject
    by - (elim conjE, erule unmoved_apply [OF assms(1)], erule desired_idle [OF assms(1)])+
  moreover have "unmoved (manage desired_pvc create_step rt l) w"
    by (rule unmoved_claim [OF assms(1)]) (use assms(2) in \<open>simp add: orderly_def\<close>)
  ultimately have "list_all (\<lambda>f. unmoved f w) (handlers rt l)" by (simp add: handlers_def)
  from unmoved_run_steps [OF this] obtain ws where h: "run_steps (handlers rt l) w = (Done None, ws, w)"
    by (auto simp: unmoved_def)
  from assms(2) annotation_idle [OF assms(1), of l] obtain res
    where "annotation_step rt l w = (Done (Inr res), [], w)" "sint (res_RequeueAfter res) = 0"
    unfolding orderly_def by blast
  moreover have "status_step rt l None w = (Done (Inr zeroResult), [], w)"
  proof -
    from assms(2) obtain c w1 where c: "condition_of rt l None w = (Inr c, w1)" "status_current l (status_with rt l c)"
      unfolding orderly_def by (metis prod.collapse)
    moreover have "w1 = w" using c(1) idleD(3) [OF assms(1)] by (auto simp: condition_of_def split: prod.splits)
    ultimately show ?thesis by (simp add: status_step_def)
  qed
  ultimately show ?thesis
    using h assms(3-5)
    by (simp add: reconcile_step_def object_step_def spec_step_def spec_error_def final_result_def zeroResult_def)
qed

text \<open>
  C17: A resource that is in order is left alone. When the objects the spec asks for are in place, the
  claim exists exactly if it is asked for, no pod is stale and the status is current, a
  reconciliation succeeds, asks for no other one, and leaves the cluster as it is - so it causes no
  notification that would start the next one.
\<close>

theorem Reconcile_leaves_orderly:
  assumes "idle stored conforms (rt_client rt) w" "orderly stored conforms rt l w"
    and "cl_GetLimitador (rt_client rt) req w = (Inr l, w)"
    and "om_DeletionTimestamp (lim_ObjectMeta l) = None" "debug_error rt l = None"
  shows "does {} (Reconcile rt ctx req) w (\<lambda>r ws w'. r = Done (Inr zeroResult) \<and> w' = w)"
  using reconcile_orderly [OF assms] by (intro does_performs [OF performs_Reconcile]) auto

end
