(* ===== verification/System_Properties.thy ===== *)
theory System_Properties
  imports Controller_System Steady_State
begin

text \<open>
  The properties of the operator in its cluster, and a small system on which they are exercised: its
  client answers from the caches and writes to the server at once.
\<close>

section \<open>A system that evaluates\<close>

definition sys_client :: "unit sys client" where
  "sys_client =
    \<lparr>cl_GetLimitador = (\<lambda>n s. (case sy_cache s (KLimitador, n) of None \<Rightarrow> Inl notFound
        | Some x \<Rightarrow> (case x of OLimitador l \<Rightarrow> Inr l | _ \<Rightarrow> Inl conflict), s)),
     cl_GetDeployment = (\<lambda>n s. (case seen (KDeployment, n) (sy_cache s (KDeployment, n)) of None \<Rightarrow> Inl notFound
        | Some x \<Rightarrow> (case x of ODeployment d \<Rightarrow> Inr d | _ \<Rightarrow> Inl conflict), s)),
     cl_GetConfigMap = (\<lambda>n s. (case sy_cache s (KConfigMap, n) of Some (OConfigMap m) \<Rightarrow> Inr m | _ \<Rightarrow> Inl notFound, s)),
     cl_GetPersistentVolumeClaim = (\<lambda>n s. (case seen (KPersistentVolumeClaim, n) (sy_cache s (KPersistentVolumeClaim, n)) of
        Some (OPersistentVolumeClaim p) \<Rightarrow> Inr p | _ \<Rightarrow> Inl notFound, s)),
     cl_GetSecret = (\<lambda>n s. (Inl notFound, s)),
     cl_ListPods = (\<lambda>ns sel s. (Inr [], s)),
     cl_Create = (\<lambda>x s. if server s (obj_key x) = None then (None, changed (obj_key x) (Some x) s) else (Some conflict, s)),
     cl_Update = (\<lambda>x s. (None, changed (obj_key x) (Some x) s)),
     cl_Delete = (\<lambda>x s. case server s (obj_key x) of None \<Rightarrow> (Some notFound, s)
        | Some y \<Rightarrow> if om_DeletionTimestamp (obj_meta y) = None then (None, changed (obj_key x) None s) else (None, s)),
     cl_Apply = (\<lambda>x f m s. (None, changed (obj_key x) (Some x) s)),
     cl_StatusApply = (\<lambda>x f m s. case server s (obj_key x) of
        Some (OLimitador l) \<Rightarrow> (case x of
            OLimitador p \<Rightarrow> (None, changed (obj_key x) (Some (OLimitador (l\<lparr>lim_Status := lim_Status p\<rparr>))) s)
          | _ \<Rightarrow> (Some conflict, s))
      | _ \<Rightarrow> (Some notFound, s))\<rparr>"

definition controller_ref :: "Limitador \<Rightarrow> OwnerReference" where
  "controller_ref l = \<lparr>or_Kind = ''Limitador'', or_Name = lim_Name l, or_Controller = True\<rparr>"

definition sys_runtime :: "unit sys runtime" where
  "sys_runtime =
    \<lparr>rt_client = sys_client, rt_SetControllerReference = (\<lambda>l m. Inr [controller_ref l]),
     rt_SetStatusCondition = set_condition, rt_yamlMarshal = (\<lambda>rls. Inr ''[]''),
     rt_jsonMarshalIndent = (\<lambda>l. Inr ''{}''), rt_GetString = (\<lambda>k d. d), rt_Logger = [],
     rt_debugEnabled = False, rt_SpanContext = (\<lambda>i. invalidSpanContext), rt_IsRecording = (\<lambda>i. False),
     rt_Extract = (\<lambda>m. invalidSpanContext)\<rparr>"

lemma sys_runtime_simps [simp]:
  "rt_client sys_runtime = sys_client" "rt_SetControllerReference sys_runtime l m = Inr [controller_ref l]"
  "rt_SetStatusCondition sys_runtime = set_condition" "rt_debugEnabled sys_runtime = False"
  by (simp_all add: sys_runtime_def)

lemma sys_attached: "attached (=) sys_client"
proof -
  have now: "Q s \<Longrightarrow> at_some_time s s Q" "moves\<^sup>*\<^sup>* s (changed k x s)"
    "P x \<Longrightarrow> writes_at_some_time s (changed k x s) k P" for s :: "unit sys" and Q k x P
    by (auto simp: at_some_time_def writes_at_some_time_def intro: moves.change)
  have no_op: "P (server s k) \<Longrightarrow> writes_at_some_time s s k P" for s :: "unit sys" and k P
    using now(3) [of P "server s k" s k] by (simp add: changed_def)
  have "reads_cache sys_client"
    by (auto simp: reads_cache_def read_limitador_def read_deployment_def sys_client_def notFound_def conflict_def
        intro!: now(1) split: option.split Object.split)
  moreover have "takes_time sys_client"
    by (auto simp: takes_time_def sys_client_def now(2) split: option.split Object.split)
  moreover have "writes_server (=) sys_client"
    by (auto simp: writes_server_def sys_client_def conforming_def gone_def has_status_def obj_key_def
        ignore_not_found_def IgnoreNotFound_def notFound_def conflict_def
        intro!: now(3) no_op split: option.splits Object.splits if_splits)
  ultimately show ?thesis by (simp add: attached_def)
qed

lemma sys_laws: "keeps_fields (=)" "sets_controller sys_runtime"
  by (auto simp: keeps_fields_def sets_controller_def controller_ref_def)

text \<open>A resource with a current status, and its objects.\<close>

definition steady_condition :: Condition where
  "steady_condition = not_ready ''LimitadorNotAvailable'' ''Available condition not found''"

definition steady :: Limitador where
  "steady = sample\<lparr>lim_Status := status_with sys_runtime sample steady_condition\<rparr>"

definition owned :: "Object \<Rightarrow> Object" where
  "owned x = set_meta ((obj_meta x)\<lparr>om_OwnerReferences := [controller_ref steady]\<rparr>) x"

definition steady_args :: "string list" where
  "steady_args = (case DeploymentArgs steady (backend_options steady (backend_of steady)) of
     Done args \<Rightarrow> args | Panic p \<Rightarrow> [])"

definition steady_deployment :: Deployment where
  "steady_deployment = Deployment (rt_GetString sys_runtime) steady (options_of steady steady_args)"

definition steady_objects :: "Object list" where
  "steady_objects = [OLimitador steady, owned (OService (Service steady)), owned (ODeployment steady_deployment),
     owned (OConfigMap (limitsConfigMapOf ''[]'' steady))]"

definition steady_store :: "key \<Rightarrow> Object option" where
  "steady_store = map_of (map (\<lambda>x. (obj_key x, x)) steady_objects)"

text \<open>The process starts, is told of the objects, and reconciles the resource once.\<close>

definition started :: "unit sys" where
  "started = \<lparr>sy_cache = (\<lambda>k. None),
     sy_events = (\<lambda>k. case steady_store k of None \<Rightarrow> [] | Some x \<Rightarrow> [Some x]), sy_queue = {}, sy_else = ()\<rparr>"

definition told :: "unit sys" where
  "told = fold (\<lambda>x. delivered (obj_key x)) steady_objects started"

definition quiet :: "unit sys" where
  "quiet = \<lparr>sy_cache = steady_store, sy_events = (\<lambda>k. []), sy_queue = {}, sy_else = ()\<rparr>"

lemma steady_simps [simp]:
  "lim_ObjectMeta steady = lim_ObjectMeta sample" "lim_Spec steady = zeroSpec"
  by (simp_all add: steady_def)

lemma own_owned: "own sys_runtime steady x = Inr (owned x)"
  by (simp add: own_def owner_set_def owned_def)

lemma owned_simps [simp]:
  "obj_kind (owned x) = obj_kind x" "om_Labels (obj_meta (owned x)) = om_Labels (obj_meta x)"
  "obj_key (owned x) = obj_key x" "om_Annotations (obj_meta (owned x)) = om_Annotations (obj_meta x)"
  by (simp_all add: owned_def obj_key_def meta_key_def)

lemma steady_keys:
  "obj_key (OLimitador steady) = (KLimitador, sample_req)"
  "obj_key (OService (Service steady)) = lim_key KService ServiceName steady"
  "obj_key (ODeployment steady_deployment) = dep_key steady"
  "obj_key (OConfigMap (limitsConfigMapOf t steady)) = lim_key KConfigMap LimitsConfigMapName steady"
  using service_handler.desired_key [of sys_runtime steady undefined "OService (Service steady)"]
  by (auto simp: obj_key_def desired_service_def steady_deployment_def built_meta)

lemma steady_store_at:
  "steady_store (KLimitador, sample_req) = Some (OLimitador steady)"
  "steady_store (lim_key KService ServiceName steady) = Some (owned (OService (Service steady)))"
  "steady_store (dep_key steady) = Some (owned (ODeployment steady_deployment))"
  "steady_store (lim_key KConfigMap LimitsConfigMapName steady) = Some (owned (OConfigMap (limitsConfigMapOf ''[]'' steady)))"
  "steady_store (KPodDisruptionBudget, n) = None" "steady_store (KPersistentVolumeClaim, n) = None"
  by (simp_all add: steady_store_def steady_objects_def steady_keys)

lemmas steady_at = steady_keys steady_store_at steady_keys [simplified] steady_store_at [simplified]

lemma steady_store_else: "k \<notin> obj_key ` set steady_objects \<Longrightarrow> steady_store k = None"
  by (auto simp: steady_store_def map_of_eq_None_iff)

lemma steady_seen: "seen k (Some (owned x)) = Some (owned x)" if "om_Labels (obj_meta x) = Some (Labels steady)"
  using that seen_labelled [of "owned x" steady "(=)" "owned x"] sys_laws(1) by simp

lemma owned_request:
  assumes "om_Labels (obj_meta x) = Some (Labels steady)" "om_Namespace (obj_meta x) = ''ns''"
  shows "owner_requests (seen k (Some (owned x))) = {sample_req}"
  using assms by (simp add: steady_seen) (simp add: owner_requests_def owned_def controller_ref_def)

lemma steady_meta:
  "om_Labels (obj_meta (ODeployment steady_deployment)) = Some (Labels steady)"
  "om_Labels (obj_meta (OConfigMap (limitsConfigMapOf t steady))) = Some (Labels steady)"
  "om_Namespace (obj_meta (ODeployment steady_deployment)) = ''ns''"
  "om_Namespace (obj_meta (OConfigMap (limitsConfigMapOf t steady))) = ''ns''"
  using steady_keys(3) steady_keys(4) [of t]
  by (simp_all add: built_meta steady_deployment_def obj_key_def meta_key_def)

lemma steady_requests:
  "owner_requests (seen k (Some (owned (ODeployment steady_deployment)))) = {sample_req}"
  "owner_requests (seen k (Some (owned (OConfigMap (limitsConfigMapOf t steady))))) = {sample_req}"
  by (rule owned_request [OF steady_meta(1,3)], rule owned_request [OF steady_meta(2,4)])

lemma seen_None [simp]: "seen k None = None" "owner_requests None = {}"
  by (simp_all add: seen_def owner_requests_def)

lemma told_eq: "told = quiet\<lparr>sy_queue := {sample_req}\<rparr>"
proof -
  let ?keys = "[(KLimitador, sample_req), lim_key KService ServiceName steady, dep_key steady,
    lim_key KConfigMap LimitsConfigMapName steady]"
  have none: "steady_store k = None" if "k \<notin> set ?keys" for k
    using that by (intro steady_store_else) (auto simp: steady_objects_def steady_keys)
  have "sy_cache told = steady_store"
  proof
    fix k show "sy_cache told k = steady_store k"
      using none [of k]
      by (cases "k \<in> set ?keys") (auto simp: told_def steady_objects_def started_def delivered_def steady_at)
  qed
  moreover have "sy_events told = (\<lambda>k. [])"
  proof
    fix k show "sy_events told k = []"
      using none [of k]
      by (cases "k \<in> set ?keys") (auto simp: told_def steady_objects_def started_def delivered_def steady_at)
  qed
  moreover have "sy_queue told = {sample_req}"
    by (simp add: told_def steady_objects_def started_def delivered_def steady_at notified_def
        SetupWithManager_def steady_requests)
  ultimately show ?thesis by (simp add: quiet_def)
qed

lemma reachable_told: "reachable sys_runtime told"
proof -
  have "reachable sys_runtime started" by (rule reachable.start) (simp_all add: started_def)
  then have "reachable sys_runtime (fold (\<lambda>x. delivered (obj_key x)) xs s)" if "reachable sys_runtime s" for xs s
    using that by (induction xs arbitrary: s) (auto intro: reachable.step [OF _ system_step.others [OF moves.deliver]])
  then show ?thesis unfolding told_def using \<open>reachable sys_runtime started\<close> by blast
qed

text \<open>In that state the resource is in order, so the reconciliation changes nothing.\<close>

lemma server_quiet [simp]:
  "server quiet = steady_store" "sy_cache quiet = steady_store" "sy_queue quiet = {}" "sy_events quiet k = []"
  by (simp_all add: quiet_def server_def versions_def fun_eq_iff)

lemma quiet_idle: "idle server (=) sys_client quiet"
  by (auto simp: idle_def sys_client_def conforming_def changed_def gone_def ignore_not_found_def IgnoreNotFound_def
      notFound_def split: option.splits)

lemma steady_desired:
  "desired_deployment sys_runtime steady w = (Done (Inr (ODeployment steady_deployment)), w)"
  "desired_configmap sys_runtime steady w = (Done (Inr (OConfigMap (limitsConfigMapOf ''[]'' steady))), w)"
proof -
  have "valid_verbosity steady" by (simp add: valid_verbosity_def zeroSpec_def)
  then obtain args where "DeploymentArgs steady (backend_options steady (backend_of steady)) = Done args"
    using DeploymentArgs_total by blast
  then show "desired_deployment sys_runtime steady w = (Done (Inr (ODeployment steady_deployment)), w)"
    by (simp add: desired_deployment_def options_step_def backend_check_def steady_deployment_def steady_args_def)
      (simp add: backend_of_def zeroSpec_def)
qed (simp add: desired_configmap_def LimitsConfigMap_eq sys_runtime_def)

lemma quiet_orderly: "orderly server (=) sys_runtime steady quiet"
proof -
  have "present server (=) desired_service sys_runtime steady quiet"
    using service.build_tagged [of steady]
    by (auto simp: present_def asked_def desired_service_def own_owned conforming_def steady_at IsObjectTaggedToDelete_def)
  moreover have "present server (=) desired_deployment sys_runtime steady quiet"
    using wants_untagged(1) [of sys_runtime steady "owned (ODeployment steady_deployment)"]
    by (auto simp: present_def asked_def steady_desired own_owned conforming_def steady_at wants_def)
  moreover have "present server (=) desired_configmap sys_runtime steady quiet"
    using wants_untagged(2) [of sys_runtime steady "owned (OConfigMap (limitsConfigMapOf ''[]'' steady))"]
    by (auto simp: present_def asked_def steady_desired own_owned conforming_def steady_at wants_def)
  moreover have "present server (=) desired_pdb sys_runtime steady quiet"
    using pdb.build_tagged [of steady]
    by (auto simp: present_def asked_def desired_pdb_def own_owned gone_def obj_key_def steady_at
        IsObjectTaggedToDelete_def no_pdb_def zeroSpec_def)
  moreover have "claim_present server sys_runtime steady quiet"
    using pvc.build_tagged [of steady]
    by (auto simp: claim_present_def asked_def desired_pvc_def own_owned gone_def obj_key_def steady_at
        IsObjectTaggedToDelete_def no_disk_def zeroSpec_def)
  moreover have "pods_current sys_runtime steady quiet"
    by (simp add: pods_current_def sys_client_def pods_ready_def)
  moreover have "fst (condition_of sys_runtime steady None quiet) = Inr steady_condition"
  proof -
    have "unavailable_reason (steady_deployment\<lparr>dep_ObjectMeta := (dep_ObjectMeta steady_deployment)\<lparr>om_OwnerReferences := refs\<rparr>\<rparr>)
        = Some ''Available condition not found''" for refs
      by (simp add: unavailable_reason_def steady_deployment_def Deployment_def zeroDeploymentStatus_def objectMeta_def zeroMeta_def)
    then show ?thesis
      by (simp add: condition_of_def sys_client_def steady_at steady_seen [OF steady_meta(1)])
        (simp add: owned_def availability_def steady_condition_def)
  qed
  moreover have "status_current steady (status_with sys_runtime steady steady_condition)"
    by (simp add: status_current_def Equals_def steady_def status_with_def HTTPPort_def GRPCPort_def
        buildServiceHost_def ServiceName_def zeroStatus_def)
  ultimately show ?thesis by (auto simp: orderly_def)
qed

lemma quiet_get: "cl_GetLimitador sys_client sample_req quiet = (Inr steady, quiet)"
  by (simp add: sys_client_def steady_at)

lemma steady_debug: "debug_error sys_runtime steady = None"
  by (simp add: debug_error_def)

lemma reachable_quiet: "reachable sys_runtime quiet"
proof (rule reachable.step [OF reachable_told])
  let ?st = "\<lparr>world = told\<lparr>sy_queue := sy_queue told - {sample_req}\<rparr>, trace = [], next_span = 0\<rparr>"
  have q: "told\<lparr>sy_queue := sy_queue told - {sample_req}\<rparr> = quiet" by (simp add: told_eq quiet_def)
  obtain r st where run: "Reconcile sys_runtime no_context sample_req ?st = (r, st)" by (rule prod.exhaust)
  from Reconcile_run [OF this] reconcile_orderly [of server "(=)" sys_runtime quiet steady sample_req]
  have "r = Done (Inr zeroResult)" "world st = quiet"
    by (auto simp: q quiet_idle quiet_orderly quiet_get steady_debug)
  with system_step.work [OF _ run] show "system_step sys_runtime told quiet"
    by (simp add: told_eq put_back_def zeroResult_def) (simp add: quiet_def)
qed

section \<open>Convergence\<close>

text \<open>What a resource with nothing queued and nothing on its way has.\<close>

definition converged :: "(Object \<Rightarrow> Object \<Rightarrow> bool) \<Rightarrow> 'e sys runtime \<Rightarrow> Limitador \<Rightarrow> 'e sys \<Rightarrow> bool" where
  "converged conforms rt l s \<longleftrightarrow>
     (\<exists>y. wants desired_deployment rt l y \<and> conforming conforms y (server s (lim_key KDeployment DeploymentName l)))
    \<and> (\<exists>y. wants desired_configmap rt l y \<and> conforming conforms y (server s (lim_key KConfigMap LimitsConfigMapName l)))
    \<and> kept conforms desired_pdb rt l (lim_key KPodDisruptionBudget PodDisruptionBudgetName l)
        (server s (lim_key KPodDisruptionBudget PodDisruptionBudgetName l))
    \<and> (\<exists>d. server s (lim_key KDeployment DeploymentName l) = Some (ODeployment d)
        \<and> Equals (lim_Status l) (status_with rt l (deployment_condition d))
        \<and> sta_ObservedGeneration (lim_Status l) = lim_Generation l)"

lemma quiet_converged:
  assumes "attached conforms (rt_client rt)" "keeps_fields conforms" "sets_controller rt"
    and "reachable rt s"
    and "server s (KLimitador, request_of l) = Some (OLimitador l)" "om_DeletionTimestamp (lim_ObjectMeta l) = None"
    and "request_of l \<notin> sy_queue s"
    and "\<forall>k \<in> {(KLimitador, request_of l), lim_key KDeployment DeploymentName l,
           lim_key KConfigMap LimitsConfigMapName l, lim_key KPodDisruptionBudget PodDisruptionBudgetName l}.
         sy_events s k = []"
  shows "converged conforms rt l s"
proof -
  have settledD: "P (server s k)" if "settled (request_of l) k P s" "sy_events s k = []" for k P
    using that assms(7) by (simp add: settled_def versions_def)
  have "sy_cache s (KLimitador, request_of l) = Some (OLimitador l)"
    using assms(5,8) by (simp add: server_def versions_def)
  with reachable_tended [OF assms(1-4)] assms(6) have "tended conforms rt l s" unfolding all_tended_def by blast
  then have kept: "\<forall>(desired, k) \<in> set (watched_objects l). settled (request_of l) k (kept conforms desired rt l k) s"
    and rep: "reported rt l s"
    using settledD [of "(KLimitador, request_of l)" "\<lambda>x. False"] assms(8) by (auto simp: tended_def)
  have k: "kept conforms desired rt l k (server s k)" if "(desired, k) \<in> set (watched_objects l)" for desired k
  proof (rule settledD)
    show "sy_events s k = []" using that assms(8) by (auto simp: watched_objects_def)
  qed (use that kept in blast)
  from rep assms(8) obtain c where "gives l c (server s (dep_key l))" "status_current l (status_with rt l c)"
    using settledD by (auto simp: reported_def)
  then have "\<exists>d. server s (dep_key l) = Some (ODeployment d) \<and> Equals (lim_Status l) (status_with rt l (deployment_condition d))
      \<and> sta_ObservedGeneration (lim_Status l) = lim_Generation l"
    by (auto simp: gives_def status_current_def seen_def split: option.splits if_splits)
  moreover have "kept conforms desired_deployment rt l (dep_key l) (server s (dep_key l))"
    and "kept conforms desired_configmap rt l (lim_key KConfigMap LimitsConfigMapName l)
      (server s (lim_key KConfigMap LimitsConfigMapName l))"
    and "kept conforms desired_pdb rt l (lim_key KPodDisruptionBudget PodDisruptionBudgetName l)
      (server s (lim_key KPodDisruptionBudget PodDisruptionBudgetName l))"
    by (rule k, simp add: watched_objects_def)+
  ultimately show ?thesis unfolding converged_def using kept_conforming by blast
qed

text \<open>
  C2: The operator converges among others. In every state that the system can reach - whoever wrote
  what in between, during reconciliations too, however late the caches were, and however often a
  reconciliation failed or the process was restarted - a resource that is not being deleted, whose
  request is not queued and for whose objects no notification is on its way, has its deployment and
  its limits stored as its spec asks for and owned by it, has its disruption budget as asked for
  (or none of its own), and shows in its status the generation and the condition of the deployment
  that is stored.
\<close>

theorem quiet_resource_converged:
  assumes "attached conforms (rt_client rt)" "keeps_fields conforms" "sets_controller rt"
    and "reachable rt s"
    and "server s (KLimitador, request_of l) = Some (OLimitador l)" "om_DeletionTimestamp (lim_ObjectMeta l) = None"
    and "request_of l \<notin> sy_queue s"
    and "\<forall>k \<in> {(KLimitador, request_of l), lim_key KDeployment DeploymentName l,
           lim_key KConfigMap LimitsConfigMapName l, lim_key KPodDisruptionBudget PodDisruptionBudgetName l}.
         sy_events s k = []"
  shows "(\<exists>y. wants desired_deployment rt l y \<and> conforming conforms y (server s (lim_key KDeployment DeploymentName l)))
    \<and> (\<exists>y. wants desired_configmap rt l y \<and> conforming conforms y (server s (lim_key KConfigMap LimitsConfigMapName l)))
    \<and> kept conforms desired_pdb rt l (lim_key KPodDisruptionBudget PodDisruptionBudgetName l)
        (server s (lim_key KPodDisruptionBudget PodDisruptionBudgetName l))
    \<and> (\<exists>d. server s (lim_key KDeployment DeploymentName l) = Some (ODeployment d)
        \<and> Equals (lim_Status l) (status_with rt l (deployment_condition d))
        \<and> sta_ObservedGeneration (lim_Status l) = lim_Generation l)"
  using quiet_converged [OF assms] by (simp add: converged_def)

theorem quiet_resource_converged_witness:
  "reachable sys_runtime quiet \<and> sy_queue quiet = {} \<and>
   (\<exists>d. server quiet (dep_key steady) = Some (ODeployment d) \<and>
      Equals (lim_Status steady) (status_with sys_runtime steady (deployment_condition d)))"
  using quiet_resource_converged [of "(=)" sys_runtime quiet steady] reachable_quiet sys_attached sys_laws
  by (auto simp: steady_at)

theorem Reconcile_leaves_orderly_witness:
  "does {} (Reconcile sys_runtime no_context sample_req) quiet (\<lambda>r ws w'. r = Done (Inr zeroResult) \<and> w' = quiet)"
  using Reconcile_leaves_orderly [of server "(=)" sys_runtime quiet steady sample_req no_context]
    quiet_idle quiet_orderly quiet_get steady_debug by simp

section \<open>Kinds that are not watched\<close>

lemma moves_deliver_all:
  assumes "fst k \<in> {KService, KPersistentVolumeClaim}"
  shows "moves\<^sup>*\<^sup>* s (s\<lparr>sy_cache := (sy_cache s)(k := server s k), sy_events := (sy_events s)(k := [])\<rparr>)"
proof (induction "sy_events s k" arbitrary: s)
  case Nil
  then have "s\<lparr>sy_cache := (sy_cache s)(k := server s k), sy_events := (sy_events s)(k := [])\<rparr> = s"
    by (simp add: server_def versions_def fun_upd_idem)
  then show ?case by (metis rtranclp.rtrancl_refl)
next
  case (Cons x xs)
  have "notified k y z = {}" for y z using assms by (auto simp: notified_def SetupWithManager_def)
  with Cons.hyps(2) [symmetric]
  have d: "delivered k s = s\<lparr>sy_cache := (sy_cache s)(k := x), sy_events := (sy_events s)(k := xs)\<rparr>"
    by (simp add: delivered_def)
  from Cons.hyps(1) [of "delivered k s"]
  have "moves\<^sup>*\<^sup>* (delivered k s) (s\<lparr>sy_cache := (sy_cache s)(k := server s k), sy_events := (sy_events s)(k := [])\<rparr>)"
    by (simp add: d) (simp add: d [symmetric])
  with moves.deliver [of s k] show ?case by (rule converse_rtranclp_into_rtranclp)
qed

lemma reachable_moves: "moves\<^sup>*\<^sup>* s s' \<Longrightarrow> reachable rt s \<Longrightarrow> reachable rt s'"
  by (induction rule: rtranclp_induct) (auto intro: reachable.step system_step.others)

text \<open>
  C18: Services and claims are kept by every reconciliation but not watched. From any reachable state
  the service or the claim of a resource - any service or claim - can be changed or deleted, and the
  caches can have learned of it, without a request in the queue: only another event leads to a
  reconciliation that puts the service back.
\<close>

theorem unwatched_drift:
  assumes "reachable rt s" "fst k \<in> {KService, KPersistentVolumeClaim}"
  shows "\<exists>s'. reachable rt s' \<and> sy_queue s' = sy_queue s \<and> server s' = (server s)(k := x)
     \<and> sy_events s' = (sy_events s)(k := [])"
proof (intro exI conjI)
  let ?c = "changed k x s"
  let ?s = "?c\<lparr>sy_cache := (sy_cache ?c)(k := server ?c k), sy_events := (sy_events ?c)(k := [])\<rparr>"
  have "moves\<^sup>*\<^sup>* s ?s"
    using moves.change moves_deliver_all [OF assms(2), of ?c] by (rule converse_rtranclp_into_rtranclp)
  then show "reachable rt ?s" using assms(1) by (rule reachable_moves)
  show "sy_queue ?s = sy_queue s" by simp
  show "server ?s = (server s)(k := x)"
    by (auto simp: fun_eq_iff server_def versions_def changed_def)
  show "sy_events ?s = (sy_events s)(k := [])" by (auto simp: fun_eq_iff changed_def)
qed

theorem unwatched_drift_witness:
  "\<exists>s'. reachable sys_runtime s' \<and> sy_queue s' = {} \<and> server s' (lim_key KService ServiceName steady) = None
     \<and> sy_events s' = (\<lambda>k. [])"
proof -
  from unwatched_drift [OF reachable_quiet, of "lim_key KService ServiceName steady" None]
  obtain s' where "reachable sys_runtime s'" "sy_queue s' = sy_queue quiet"
    "server s' = (server quiet)(lim_key KService ServiceName steady := None)"
    "sy_events s' = (sy_events quiet)(lim_key KService ServiceName steady := [])" by auto
  then show ?thesis by (intro exI [of _ s']) auto
qed

end
