(* ===== verification/Calm_Cluster.thy ===== *)
theory Calm_Cluster
  imports System_Properties
begin

text \<open>
  A cluster that has calmed down. In a calm state the calls of the client succeed at once: reads
  answer what the caches hold, writes have their effect and nobody else moves. The steps of a
  reconciliation are followed through such states: which objects they touch, and that they touch
  nothing that is already as it should be.
\<close>

section \<open>Calm states\<close>

text \<open>
  \<open>calm conforms c e\<close>: the documented behaviour of client and server in the states whose \<open>sy_else\<close> is \<open>e\<close>. An
  apply that the stored object already conforms to and a deletion of an object that is gone change
  nothing; a creation of an object that is there fails; a write of the status changes the status and the resource version.
\<close>

definition with_status :: "string \<Rightarrow> LimitadorStatus \<Rightarrow> Limitador \<Rightarrow> Limitador" where
  "with_status v st l = l\<lparr>lim_ObjectMeta := (lim_ObjectMeta l)\<lparr>om_ResourceVersion := v\<rparr>, lim_Status := st\<rparr>"

definition absent :: "error + 'a \<Rightarrow> bool" where
  "absent r = (case r of Inl err \<Rightarrow> IsNotFound err | Inr x \<Rightarrow> False)"

definition calm_reads :: "'e sys client \<Rightarrow> 'e sys \<Rightarrow> bool" where
  "calm_reads c s \<longleftrightarrow>
     (\<forall>n l. sy_cache s (KLimitador, n) = Some (OLimitador l) \<longrightarrow> cl_GetLimitador c n s = (Inr l, s))
   \<and> (\<forall>n. snd (cl_GetDeployment c n s) = s \<and> (case seen (KDeployment, n) (sy_cache s (KDeployment, n)) of
          None \<Rightarrow> absent (fst (cl_GetDeployment c n s))
        | Some x \<Rightarrow> (\<forall>d. x = ODeployment d \<longrightarrow> fst (cl_GetDeployment c n s) = Inr d)))
   \<and> (\<forall>n. snd (cl_GetPersistentVolumeClaim c n s) = s \<and>
        (case seen (KPersistentVolumeClaim, n) (sy_cache s (KPersistentVolumeClaim, n)) of
          Some (OPersistentVolumeClaim p) \<Rightarrow> fst (cl_GetPersistentVolumeClaim c n s) = Inr p
        | _ \<Rightarrow> absent (fst (cl_GetPersistentVolumeClaim c n s))))
   \<and> (\<forall>n. snd (cl_GetConfigMap c n s) = s \<and>
        (case fst (cl_GetConfigMap c n s) of Inl err \<Rightarrow> IsNotFound err | Inr cm \<Rightarrow> True))
   \<and> (\<forall>ns sel. \<exists>pods. cl_ListPods c ns sel s = (Inr pods, s))"

definition calm_writes :: "(Object \<Rightarrow> Object \<Rightarrow> bool) \<Rightarrow> 'e sys client \<Rightarrow> 'e sys \<Rightarrow> bool" where
  "calm_writes conforms c s \<longleftrightarrow>
     (\<forall>x f m. \<exists>z. cl_Apply c x f m s = (None, changed (obj_key x) (Some z) s) \<and> conforms x z
        \<and> (conforming conforms x (server s (obj_key x)) \<longrightarrow> server s (obj_key x) = Some z))
   \<and> (\<forall>x. \<exists>r z. cl_Delete c x s = (r, changed (obj_key x) z s) \<and> ignore_not_found r = None \<and> gone z
        \<and> (gone (server s (obj_key x)) \<longrightarrow> server s (obj_key x) = z))
   \<and> (\<forall>x. server s (obj_key x) = None \<longrightarrow>
        (\<exists>z. cl_Create c x s = (None, changed (obj_key x) (Some z) s) \<and> conforms x z))
   \<and> (\<forall>x. server s (obj_key x) \<noteq> None \<longrightarrow> (\<exists>err. cl_Create c x s = (Some err, s)))
   \<and> (\<forall>p l f m. server s (obj_key (OLimitador p)) = Some (OLimitador l) \<longrightarrow>
        (\<exists>v. cl_StatusApply c (OLimitador p) f m s =
           (None, changed (obj_key (OLimitador p)) (Some (OLimitador (with_status v (lim_Status p) l))) s)))"

definition calm :: "(Object \<Rightarrow> Object \<Rightarrow> bool) \<Rightarrow> 'e sys client \<Rightarrow> 'e \<Rightarrow> bool" where
  "calm conforms c e \<longleftrightarrow> (\<forall>s. sy_else s = e \<longrightarrow> calm_reads c s \<and> calm_writes conforms c s)"

section \<open>Steps that touch few objects\<close>

definition touches :: "key set \<Rightarrow> 'e sys \<Rightarrow> 'e sys \<Rightarrow> bool" where
  "touches K s s' \<longleftrightarrow> sy_cache s' = sy_cache s \<and> sy_queue s' = sy_queue s \<and> sy_else s' = sy_else s
     \<and> (\<forall>k. k \<notin> K \<longrightarrow> sy_events s' k = sy_events s k)"

lemma touches_refl [simp]: "touches K s s"
  by (simp add: touches_def)

lemma touches_trans: "touches K s s1 \<Longrightarrow> touches L s1 s2 \<Longrightarrow> touches (K \<union> L) s s2"
  by (simp add: touches_def)

lemma touches_mono: "touches K s s' \<Longrightarrow> K \<subseteq> L \<Longrightarrow> touches L s s'"
  by (auto simp: touches_def)

lemma touches_changed [simp]: "touches {k} s (changed k x s)"
  by (auto simp: touches_def changed_def)

lemma touchesD:
  assumes "touches K s s'"
  shows "sy_cache s' = sy_cache s" "sy_queue s' = sy_queue s" "sy_else s' = sy_else s"
    and "k \<notin> K \<Longrightarrow> sy_events s' k = sy_events s k" "k \<notin> K \<Longrightarrow> server s' k = server s k"
proof -
  show ev: "sy_events s' k = sy_events s k" if "k \<notin> K" using assms that unfolding touches_def by blast
  show cache: "sy_cache s' = sy_cache s" and "sy_queue s' = sy_queue s" and "sy_else s' = sy_else s"
    using assms by (simp_all add: touches_def)
  show "server s' k = server s k" if "k \<notin> K" using cache ev [OF that] by (simp add: server_def versions_def)
qed

lemma changed_same [simp]: "changed k (server s k) s = s"
  by (simp add: changed_def)

text \<open>
  A step that succeeds, touches one object, leaves it as \<open>P\<close> asks for, and touches nothing when \<open>P\<close> holds
  already - in the states with \<open>e\<close> and cache \<open>C\<close> in which the object satisfies \<open>Q\<close>.
\<close>

definition tends ::
    "'e \<Rightarrow> (key \<Rightarrow> Object option) \<Rightarrow> ('e sys, error option) step \<times> key \<times> (Object option \<Rightarrow> bool) \<times> (Object option \<Rightarrow> bool) \<Rightarrow> bool" where
  "tends e C t \<longleftrightarrow> (case t of (f, k, Q, P) \<Rightarrow>
     \<forall>s. sy_else s = e \<longrightarrow> sy_cache s = C \<longrightarrow> Q (server s k) \<longrightarrow>
       (\<exists>ws s'. f s = (Done None, ws, s') \<and> touches {k} s s' \<and> P (server s' k) \<and> (P (server s k) \<longrightarrow> s' = s)))"

lemma run_steps_tend:
  assumes "list_all (tends e C) ts" "distinct (map (fst \<circ> snd) ts)" "sy_else s = e" "sy_cache s = C"
    and "list_all (\<lambda>(f, k, Q, P). Q (server s k)) ts"
  shows "\<exists>ws s'. run_steps (map fst ts) s = (Done None, ws, s') \<and> touches (set (map (fst \<circ> snd) ts)) s s'
     \<and> list_all (\<lambda>(f, k, Q, P). P (server s' k)) ts
     \<and> (list_all (\<lambda>(f, k, Q, P). P (server s k)) ts \<longrightarrow> s' = s)"
  using assms
proof (induction ts arbitrary: s)
  case (Cons t ts)
  obtain f k Q P where t: "t = (f, k, Q, P)" by (metis prod_cases4)
  from Cons.prems t obtain ws s1 where f: "f s = (Done None, ws, s1)" "touches {k} s s1" "P (server s1 k)"
    "P (server s k) \<longrightarrow> s1 = s" by (fastforce simp: tends_def)
  have k: "k \<notin> set (map (fst \<circ> snd) ts)" using Cons.prems(2) t by simp
  have other: "server s1 k' = server s k'" if "k' \<in> set (map (fst \<circ> snd) ts)" for k'
    using touchesD(5) [OF f(2), of k'] that k by auto
  have "list_all (\<lambda>(f, k, Q, P). R Q P (server s1 k)) ts = list_all (\<lambda>(f, k, Q, P). R Q P (server s k)) ts" for R
    using other by (force simp: list_all_iff split: prod.splits)
  note same = this [of "\<lambda>Q P. Q"] this [of "\<lambda>Q P. P"]
  have "list_all (\<lambda>(f, k, Q, P). Q (server s1 k)) ts" using Cons.prems(5) same(1) by simp
  with Cons.IH [of s1] Cons.prems touchesD [OF f(2)] obtain ws' s' where
    r: "run_steps (map fst ts) s1 = (Done None, ws', s')" "touches (set (map (fst \<circ> snd) ts)) s1 s'"
      "list_all (\<lambda>(f, k, Q, P). P (server s' k)) ts" "list_all (\<lambda>(f, k, Q, P). P (server s1 k)) ts \<longrightarrow> s' = s1"
    by auto
  have "server s' k = server s1 k" using touchesD(5) [OF r(2) k] .
  moreover have "touches (set (map (fst \<circ> snd) (t # ts))) s s'"
    using touches_trans [OF f(2) r(2)] t by simp
  ultimately show ?case using f r same(2) t by (intro exI [of _ "ws @ ws'"] exI [of _ s']) auto
qed simp

section \<open>The steps of a reconciliation\<close>

definition good :: "(Object \<Rightarrow> Object \<Rightarrow> bool) \<Rightarrow> Object \<Rightarrow> Object option \<Rightarrow> bool" where
  "good conforms y x \<longleftrightarrow> (if IsObjectTaggedToDelete (obj_meta y) then gone x else conforming conforms y x)"

text \<open>A claim is only looked for: one that is there and that the cache shows is good, whatever it holds.\<close>

definition shown :: "key \<Rightarrow> Object option \<Rightarrow> bool" where
  "shown k x \<longleftrightarrow> seen k x = x \<and> (\<forall>z. x = Some z \<longrightarrow> obj_kind z = KPersistentVolumeClaim)"

definition good_claim :: "Object \<Rightarrow> Object option \<Rightarrow> bool" where
  "good_claim y x \<longleftrightarrow> (if IsObjectTaggedToDelete (obj_meta y) then gone x else x \<noteq> None \<and> shown (obj_key y) x)"

lemma calmD:
  assumes "calm conforms c e" "sy_else s = e"
  shows "calm_reads c s" "calm_writes conforms c s"
  using assms by (auto simp: calm_def)

lemma apply_tends:
  assumes "calm conforms (rt_client rt) e" "sy_else s = e"
  shows "\<exists>ws s'. apply_step rt y s = (Done None, ws, s') \<and> touches {obj_key y} s s'
     \<and> good conforms y (server s' (obj_key y)) \<and> (good conforms y (server s (obj_key y)) \<longrightarrow> s' = s)"
proof (cases "IsObjectTaggedToDelete (obj_meta y)")
  case True
  from calmD(2) [OF assms] obtain r z where "cl_Delete (rt_client rt) y s = (r, changed (obj_key y) z s)"
    "ignore_not_found r = None" "gone z" "gone (server s (obj_key y)) \<longrightarrow> server s (obj_key y) = z"
    unfolding calm_writes_def by blast
  with True show ?thesis
    by (auto simp: apply_step_def delete_step_def good_def server_changed)
next
  case False
  from calmD(2) [OF assms] obtain z where
    "cl_Apply (rt_client rt) y True FieldManagerName s = (None, changed (obj_key y) (Some z) s)" "conforms y z"
    "conforming conforms y (server s (obj_key y)) \<longrightarrow> server s (obj_key y) = Some z"
    unfolding calm_writes_def by blast
  with False show ?thesis
    by (auto simp: apply_step_def good_def server_changed) (auto simp: conforming_def)
qed

text \<open>A claim that is asked for: the cache knows what is stored, and shows it.\<close>

definition claim_seen :: "Object \<Rightarrow> (key \<Rightarrow> Object option) \<Rightarrow> Object option \<Rightarrow> bool" where
  "claim_seen y C x \<longleftrightarrow> IsObjectTaggedToDelete (obj_meta y) \<or> C (obj_key y) = x \<and> shown (obj_key y) x"

lemma obj_kind_pvc: "obj_kind z = KPersistentVolumeClaim \<longleftrightarrow> (\<exists>p. z = OPersistentVolumeClaim p)"
  by (cases z) auto

lemma create_tends:
  assumes "calm conforms (rt_client rt) e" "sy_else s = e" "obj_key y = (KPersistentVolumeClaim, n)"
    and "claim_seen y (sy_cache s) (server s (obj_key y))" "\<And>z. conforms y z \<Longrightarrow> shown (obj_key y) (Some z)"
  shows "\<exists>ws s'. create_step rt y s = (Done None, ws, s') \<and> touches {obj_key y} s s'
     \<and> good_claim y (server s' (obj_key y)) \<and> (good_claim y (server s (obj_key y)) \<longrightarrow> s' = s)"
proof (cases "IsObjectTaggedToDelete (obj_meta y)")
  case True
  then show ?thesis
    using apply_tends [OF assms(1,2), of y] by (simp add: create_step_def apply_step_def good_def good_claim_def)
next
  case False
  have n: "meta_key (obj_meta y) = n" using assms(3) by (simp add: obj_key_def)
  have get: "snd (cl_GetPersistentVolumeClaim (rt_client rt) n s) = s"
    "case seen (obj_key y) (sy_cache s (obj_key y)) of
          Some (OPersistentVolumeClaim p) \<Rightarrow> fst (cl_GetPersistentVolumeClaim (rt_client rt) n s) = Inr p
        | _ \<Rightarrow> absent (fst (cl_GetPersistentVolumeClaim (rt_client rt) n s))"
    using calmD(1) [OF assms(1,2)] unfolding calm_reads_def assms(3) by blast+
  show ?thesis
  proof (cases "server s (obj_key y)")
    case None
    from calmD(2) [OF assms(1,2)] None obtain z where
      "cl_Create (rt_client rt) y s = (None, changed (obj_key y) (Some z) s)" "conforms y z"
      unfolding calm_writes_def by blast
    with False None get assms(4) assms(5) [OF this(2)] show ?thesis
      by (cases "cl_GetPersistentVolumeClaim (rt_client rt) n s")
        (auto simp: create_step_def n claim_seen_def shown_def good_claim_def server_changed absent_def split: sum.splits)
  next
    case (Some z)
    with assms(4) False obtain p where "z = OPersistentVolumeClaim p"
      by (auto simp: claim_seen_def shown_def obj_kind_pvc)
    with False Some get assms(4) show ?thesis
      by (cases "cl_GetPersistentVolumeClaim (rt_client rt) n s")
        (auto simp: create_step_def n claim_seen_def shown_def good_claim_def)
  qed
qed


text \<open>What a handler builds, the same in all states with \<open>e\<close>.\<close>

definition builds :: "'e sys desired \<Rightarrow> 'e sys runtime \<Rightarrow> Limitador \<Rightarrow> 'e \<Rightarrow> Object \<Rightarrow> bool" where
  "builds desired rt l e y \<longleftrightarrow>
     (\<exists>x. own rt l x = Inr y \<and> (\<forall>s. sy_else s = e \<longrightarrow> desired rt l s = (Done (Inr x), s)))"

lemma builds_manage:
  "builds desired rt l e y \<Longrightarrow> sy_else s = e \<Longrightarrow> manage desired send rt l s = send rt y s"
  by (auto simp: builds_def manage_def)

lemma builds_wants: "builds desired rt l (sy_else (s :: 'e sys)) y \<Longrightarrow> wants desired rt l y"
  unfolding builds_def wants_def by blast

lemma builds_key:
  fixes s :: "'e sys"
  assumes "builds desired rt l (sy_else s) y" "\<And>w x w1. desired rt l w = (Done (Inr x), w1) \<Longrightarrow> obj_key x = k"
  shows "obj_key y = k"
proof -
  from assms(1) obtain x where x: "own rt l x = Inr y" "desired rt l s = (Done (Inr x), s)" unfolding builds_def by blast
  from x(1) have "obj_key y = obj_key x" by (rule own_meta)
  with assms(2) [OF x(2)] show ?thesis by simp
qed

lemma manage_tends:
  assumes "calm conforms (rt_client rt) e" "builds desired rt l e y" "obj_key y = k"
  shows "tends e C (manage desired apply_step rt l, k, (\<lambda>x. True), good conforms y)"
  using assms(3) apply_tends [OF assms(1)] by (auto simp: tends_def builds_manage [OF assms(2)])

lemma claim_tends:
  fixes s :: "'e sys"
  assumes "calm conforms (rt_client rt) (sy_else s)" "keeps_fields conforms" "builds desired_pvc rt l (sy_else s) y"
  shows "tends (sy_else s) C
    (manage desired_pvc create_step rt l, lim_key KPersistentVolumeClaim PVCName l, claim_seen y C, good_claim y)"
proof -
  have key: "obj_key y = lim_key KPersistentVolumeClaim PVCName l"
    by (rule builds_key [OF assms(3) pvc_handler.desired_key])
  from assms(3) obtain x where x: "own rt l x = Inr y" "desired_pvc rt l s = (Done (Inr x), s)" unfolding builds_def by blast
  from x(1) pvc_handler.desired_meta [OF x(2)] have "om_Labels (obj_meta y) = Some (Labels l)" by (auto elim: own_meta)
  then have "shown (obj_key y) (Some z)" if "conforms y z" for z
    using that assms(2) key seen_labelled [OF _ assms(2) that] by (auto simp: shown_def keeps_fields_def obj_key_def)
  from create_tends [OF assms(1) _ key _ this] show ?thesis
    unfolding tends_def using key by (auto simp: builds_manage [OF assms(3)])
qed

section \<open>The spec\<close>

abbreviation pvc_key :: "Limitador \<Rightarrow> key" where
  "pvc_key l \<equiv> lim_key KPersistentVolumeClaim PVCName l"

text \<open>The objects that a resource asks for, and that they are in place.\<close>

record blueprint =
  bp_service :: Object
  bp_claim :: Object
  bp_deployment :: Object
  bp_configmap :: Object
  bp_pdb :: Object

definition designed :: "'e sys runtime \<Rightarrow> Limitador \<Rightarrow> 'e \<Rightarrow> blueprint \<Rightarrow> bool" where
  "designed rt l e b \<longleftrightarrow> builds desired_service rt l e (bp_service b) \<and> builds desired_pvc rt l e (bp_claim b)
     \<and> builds desired_deployment rt l e (bp_deployment b) \<and> builds desired_configmap rt l e (bp_configmap b)
     \<and> builds desired_pdb rt l e (bp_pdb b)"

definition built :: "(Object \<Rightarrow> Object \<Rightarrow> bool) \<Rightarrow> blueprint \<Rightarrow> Limitador \<Rightarrow> 'e sys \<Rightarrow> bool" where
  "built conforms b l s \<longleftrightarrow>
     good conforms (bp_service b) (server s (lim_key KService ServiceName l))
   \<and> good_claim (bp_claim b) (server s (pvc_key l))
   \<and> good conforms (bp_deployment b) (server s (dep_key l))
   \<and> good conforms (bp_configmap b) (server s (lim_key KConfigMap LimitsConfigMapName l))
   \<and> good conforms (bp_pdb b) (server s (lim_key KPodDisruptionBudget PodDisruptionBudgetName l))"

definition object_keys :: "Limitador \<Rightarrow> key list" where
  "object_keys l = [lim_key KService ServiceName l, pvc_key l, dep_key l,
     lim_key KConfigMap LimitsConfigMapName l, lim_key KPodDisruptionBudget PodDisruptionBudgetName l]"

lemma handlers_tend:
  fixes s :: "'e sys"
  assumes "calm conforms (rt_client rt) (sy_else s)" "designed rt l (sy_else s) b"
    and "claim_seen (bp_claim b) (sy_cache s) (server s (pvc_key l))" "keeps_fields conforms"
  shows "\<exists>ws s'. run_steps (handlers rt l) s = (Done None, ws, s') \<and> touches (set (object_keys l)) s s'
     \<and> built conforms b l s' \<and> (built conforms b l s \<longrightarrow> s' = s)"
proof -
  let ?ts = "[(manage desired_service apply_step rt l, lim_key KService ServiceName l, (\<lambda>x. True), good conforms (bp_service b)),
    (manage desired_pvc create_step rt l, pvc_key l, claim_seen (bp_claim b) (sy_cache s), good_claim (bp_claim b)),
    (manage desired_deployment apply_step rt l, dep_key l, (\<lambda>x. True), good conforms (bp_deployment b)),
    (manage desired_configmap apply_step rt l, lim_key KConfigMap LimitsConfigMapName l, (\<lambda>x. True), good conforms (bp_configmap b)),
    (manage desired_pdb apply_step rt l, lim_key KPodDisruptionBudget PodDisruptionBudgetName l, (\<lambda>x. True), good conforms (bp_pdb b))]"
  note d = assms(2) [unfolded designed_def]
  note keys = builds_key [OF _ service_handler.desired_key] builds_key [OF _ pvc_handler.desired_key]
    builds_key [OF _ deployment_handler.desired_key] builds_key [OF _ configmap_handler.desired_key]
    builds_key [OF _ pdb_handler.desired_key]
  have "list_all (tends (sy_else s) (sy_cache s)) ?ts"
    using d by (auto intro!: manage_tends [OF assms(1)] claim_tends [OF assms(1,4)] intro: keys)
  moreover have "list_all (\<lambda>(f, k, Q, P). Q (server s k)) ?ts" using assms(3) by simp
  ultimately have "\<exists>ws s'. run_steps (map fst ?ts) s = (Done None, ws, s') \<and> touches (set (map (fst \<circ> snd) ?ts)) s s'
     \<and> list_all (\<lambda>(f, k, Q, P). P (server s' k)) ?ts \<and> (list_all (\<lambda>(f, k, Q, P). P (server s k)) ?ts \<longrightarrow> s' = s)"
    by (intro run_steps_tend) simp_all
  then show ?thesis unfolding handlers_def object_keys_def built_def by simp
qed

text \<open>The pods: whatever is annotated, only pods are touched.\<close>

abbreviation pod_keys :: "key set" where
  "pod_keys \<equiv> {k. fst k = KPod}"

lemma pods_tend:
  fixes s :: "'e sys"
  assumes "calm conforms (rt_client rt) (sy_else s)"
  shows "\<exists>ws s'. pods_step rt v pods s = (Done None, ws, s') \<and> touches pod_keys s s'"
proof -
  have "\<exists>ws s'. run_steps (map (\<lambda>p. apply_step rt (pod_patch v p)) ps) s = (Done None, ws, s') \<and> touches pod_keys s s'" for ps
    using assms
  proof (induction ps arbitrary: s)
    case (Cons p ps)
    from apply_tends [OF Cons.prems refl, of "pod_patch v p"] obtain ws s1 where
      s1: "apply_step rt (pod_patch v p) s = (Done None, ws, s1)" "touches {obj_key (pod_patch v p)} s s1" by blast
    then have t: "touches pod_keys s s1" by (auto elim!: touches_mono simp: pod_patch_def obj_key_def)
    have "calm conforms (rt_client rt) (sy_else s1)" using Cons.prems touchesD(3) [OF t] by simp
    from Cons.IH [OF this] obtain ws' s' where
      "run_steps (map (\<lambda>p. apply_step rt (pod_patch v p)) ps) s1 = (Done None, ws', s')" "touches pod_keys s1 s'" by blast
    with s1(1) touches_trans [OF t this(2)] show ?case by simp
  qed simp
  then show ?thesis by (simp add: pods_step_def)
qed

lemma annotation_tends:
  fixes s :: "'e sys"
  assumes "calm conforms (rt_client rt) (sy_else s)"
  shows "\<exists>res ws s'. annotation_step rt l s = (Done (Inr res), ws, s') \<and> touches pod_keys s s'
     \<and> sint (res_RequeueAfter res) = 0"
proof -
  have reads: "calm_reads (rt_client rt) s" using calmD(1) [OF assms] by simp
  then obtain pods where pods: "cl_ListPods (rt_client rt) (lim_Namespace l) (SelectorLabels l) s = (Inr pods, s)"
    unfolding calm_reads_def by blast
  obtain r where cm: "cl_GetConfigMap (rt_client rt)
      \<lparr>nn_Name = LimitsConfigMapName l, nn_Namespace = lim_Namespace l\<rparr> s = (r, s)"
    "case r of Inl err \<Rightarrow> IsNotFound err | Inr cm \<Rightarrow> True"
    using reads unfolding calm_reads_def by (metis prod.collapse)
  show ?thesis
  proof (cases "pods_ready l pods \<and> (\<exists>c. r = Inr c)")
    case True
    then obtain c where "r = Inr c" by blast
    with True pods cm pods_tend [OF assms, of "om_ResourceVersion (cm_ObjectMeta c)" pods] show ?thesis
      by (auto simp: annotation_step_def zeroResult_def)
  next
    case False
    with pods cm show ?thesis
      by (auto simp: annotation_step_def requeue_def split: sum.splits)
  qed
qed


section \<open>The status\<close>

abbreviation res_key :: "Limitador \<Rightarrow> key" where
  "res_key l \<equiv> (KLimitador, request_of l)"

definition holds_kind :: "key \<Rightarrow> Object option \<Rightarrow> bool" where
  "holds_kind k x \<longleftrightarrow> (\<forall>y. x = Some y \<longrightarrow> obj_kind y = fst k)"

text \<open>The condition that the cached deployment gives.\<close>

lemma condition_calm:
  fixes s :: "'e sys"
  assumes "calm conforms (rt_client rt) (sy_else s)" "holds_kind (dep_key l) (sy_cache s (dep_key l))"
  shows "\<exists>c. condition_of rt l None s = (Inr c, s) \<and>
     (\<forall>d. seen (dep_key l) (sy_cache s (dep_key l)) = Some (ODeployment d) \<longrightarrow> c = deployment_condition d)"
proof -
  let ?get = "cl_GetDeployment (rt_client rt) (deployment_key l) s"
  have "snd ?get = s" "case seen (dep_key l) (sy_cache s (dep_key l)) of
      None \<Rightarrow> absent (fst ?get) | Some x \<Rightarrow> (\<forall>d. x = ODeployment d \<longrightarrow> fst ?get = Inr d)"
    using calmD(1) [OF assms(1) refl] unfolding calm_reads_def by blast+
  moreover have "\<exists>d. x = ODeployment d" if "seen (dep_key l) (sy_cache s (dep_key l)) = Some x" for x
    using that assms(2) by (cases x) (auto simp: holds_kind_def seen_def split: option.splits if_splits)
  ultimately show ?thesis
    by (cases ?get)
      (fastforce simp: condition_of_def availability_def absent_def deployment_condition_def
        split: option.splits sum.splits)
qed

lemma status_tends:
  fixes s :: "'e sys"
  assumes "calm conforms (rt_client rt) (sy_else s)" "server s (res_key l) = Some (OLimitador l)"
    and "condition_of rt l specErr s = (Inr c, s)"
  shows "\<exists>ws s'. status_step rt l specErr s = (Done (Inr zeroResult), ws, s') \<and>
     (if status_current l (status_with rt l c) then s' = s
      else touches {res_key l} s s' \<and> (\<exists>v. server s' (res_key l) = Some (OLimitador (with_status v (status_with rt l c) l))))"
proof (cases "status_current l (status_with rt l c)")
  case True
  with assms(3) show ?thesis by (simp add: status_step_def)
next
  case False
  let ?p = "statusPatch l (status_with rt l c)"
  have key: "obj_key (OLimitador ?p) = res_key l" by (simp add: obj_key_def statusPatch_def meta_key_def)
  have st: "lim_Status ?p = status_with rt l c" by (simp add: statusPatch_def)
  from calmD(2) [OF assms(1) refl] assms(2) obtain v where
    "cl_StatusApply (rt_client rt) (OLimitador ?p) True FieldManagerName s =
       (None, changed (res_key l) (Some (OLimitador (with_status v (status_with rt l c) l))) s)"
    unfolding calm_writes_def by (metis key st)
  with False assms(3) show ?thesis
    by (auto simp: status_step_def Let_def server_changed)
qed

section \<open>A reconciliation\<close>

definition untouched :: "bool \<Rightarrow> key set \<Rightarrow> key set" where
  "untouched b K = (if b then {} else K)"

lemma object_tends:
  fixes s :: "'e sys"
  assumes "calm conforms (rt_client rt) (sy_else s)" "designed rt l (sy_else s) b"
    and "claim_seen (bp_claim b) (sy_cache s) (server s (pvc_key l))" "keeps_fields conforms"
    and "server s (res_key l) = Some (OLimitador l)" "holds_kind (dep_key l) (sy_cache s (dep_key l))"
  shows "\<exists>ws s' c. object_step rt l s = (Done (Inr zeroResult), ws, s') \<and> built conforms b l s'
     \<and> (\<forall>d. seen (dep_key l) (sy_cache s (dep_key l)) = Some (ODeployment d) \<longrightarrow> c = deployment_condition d)
     \<and> touches (untouched (built conforms b l s) (set (object_keys l))
         \<union> untouched (status_current l (status_with rt l c)) {res_key l} \<union> pod_keys) s s'
     \<and> (status_current l (status_with rt l c) \<or>
          (\<exists>v. server s' (res_key l) = Some (OLimitador (with_status v (status_with rt l c) l))))"
proof -
  from handlers_tend [OF assms(1-4)] obtain ws1 s1 where h: "run_steps (handlers rt l) s = (Done None, ws1, s1)"
    "touches (untouched (built conforms b l s) (set (object_keys l))) s s1" "built conforms b l s1"
    by (fastforce simp: untouched_def)
  have e1: "sy_else s1 = sy_else s" "sy_cache s1 = sy_cache s" using touchesD [OF h(2)] by simp_all
  from annotation_tends [of conforms rt s1 l] assms(1) obtain res ws2 s2 where
    a: "annotation_step rt l s1 = (Done (Inr res), ws2, s2)" "touches pod_keys s1 s2" "sint (res_RequeueAfter res) = 0"
    by (auto simp: e1)
  have e2: "sy_else s2 = sy_else s" "sy_cache s2 = sy_cache s" using touchesD [OF a(2)] e1 by simp_all
  have res: "res_key l \<notin> set (object_keys l)" by (simp add: object_keys_def)
  have "server s1 (res_key l) = server s (res_key l)"
    by (rule touchesD(5) [OF h(2)]) (use res in \<open>auto simp: untouched_def\<close>)
  moreover have "server s2 (res_key l) = server s1 (res_key l)" by (rule touchesD(5) [OF a(2)]) simp
  ultimately have l: "server s2 (res_key l) = Some (OLimitador l)" using assms(5) by simp
  have calm2: "calm conforms (rt_client rt) (sy_else s2)" using assms(1) e2 by simp
  from condition_calm [OF calm2, of l] assms(6) obtain c where c: "condition_of rt l None s2 = (Inr c, s2)"
    "\<forall>d. seen (dep_key l) (sy_cache s (dep_key l)) = Some (ODeployment d) \<longrightarrow> c = deployment_condition d"
    by (auto simp: e2)
  from status_tends [OF calm2 l c(1)] obtain ws3 s3 where st: "status_step rt l None s2 = (Done (Inr zeroResult), ws3, s3)"
    "touches (untouched (status_current l (status_with rt l c)) {res_key l}) s2 s3"
    "status_current l (status_with rt l c) \<or> (\<exists>v. server s3 (res_key l) = Some (OLimitador (with_status v (status_with rt l c) l)))"
    by (cases "status_current l (status_with rt l c)") (auto simp: untouched_def)
  have "object_step rt l s = (Done (Inr zeroResult), ws1 @ ws2 @ ws3, s3)"
    using h(1) a(1,3) st(1) by (simp add: object_step_def spec_step_def spec_error_def final_result_def zeroResult_def)
  moreover have "built conforms b l s3"
  proof -
    have "server s3 k = server s1 k" if "fst k \<notin> {KPod, KLimitador}" for k
      using touchesD(5) [OF a(2), of k] touchesD(5) [OF st(2), of k] that
      by (cases k) (auto simp: untouched_def split: if_splits)
    with h(3) show ?thesis by (simp add: built_def)
  qed
  moreover note c(2)
  moreover have "touches (untouched (built conforms b l s) (set (object_keys l))
         \<union> untouched (status_current l (status_with rt l c)) {res_key l} \<union> pod_keys) s s3"
    by (rule touches_mono [OF touches_trans [OF h(2) touches_trans [OF a(2) st(2)]]]) blast
  ultimately show ?thesis using st(3) by blast
qed

end
