(* ===== verification/Stabilization.thy ===== *)
theory Stabilization
  imports Calm_Cluster
begin

text \<open>
  The operator is self-stabilising: whatever happened before, once the cluster is calm a resource is
  brought in order by at most three reconciliations. A round delivers the notifications about the
  resource and its objects and runs the reconciliation if it is asked for. The first round puts
  the objects in place, the second may write the status again, now from the deployment that is
  stored, and the third changes nothing.
\<close>

section \<open>Rounds\<close>

definition caught_up :: "key list \<Rightarrow> 'e sys \<Rightarrow> 'e sys" where
  "caught_up ks s = fold (\<lambda>k s. (delivered k ^^ length (sy_events s k)) s) ks s"

definition worked :: "'e sys runtime \<Rightarrow> Context \<Rightarrow> NamespacedName \<Rightarrow> 'e sys \<Rightarrow> 'e sys" where
  "worked rt ctx n s =
    (case Reconcile rt ctx n \<lparr>world = s\<lparr>sy_queue := sy_queue s - {n}\<rparr>, trace = [], next_span = 0\<rparr> of
       (r, st) \<Rightarrow> (world st)\<lparr>sy_queue := sy_queue (world st) \<union> put_back n r\<rparr>)"

definition resource_keys :: "Limitador \<Rightarrow> key list" where
  "resource_keys l = res_key l # object_keys l"

definition calm_round :: "'e sys runtime \<Rightarrow> Context \<Rightarrow> Limitador \<Rightarrow> 'e sys \<Rightarrow> 'e sys" where
  "calm_round rt ctx l s =
    (let s1 = caught_up (resource_keys l) s
     in if request_of l \<in> sy_queue s1 then worked rt ctx (request_of l) s1 else s1)"

text \<open>Delivering all notifications of a key.\<close>

lemma delivered_all:
  fixes s :: "'e sys"
  shows "server ((delivered k ^^ length (sy_events s k)) s) = server s"
    and "sy_else ((delivered k ^^ length (sy_events s k)) s) = sy_else s"
    and "sy_events ((delivered k ^^ length (sy_events s k)) s) = (sy_events s)(k := [])"
    and "moves\<^sup>*\<^sup>* s ((delivered k ^^ length (sy_events s k)) s)"
proof -
  have "server ((delivered k ^^ length (sy_events s k)) s) = server s
      \<and> sy_else ((delivered k ^^ length (sy_events s k)) s) = sy_else s
      \<and> sy_events ((delivered k ^^ length (sy_events s k)) s) = (sy_events s)(k := [])
      \<and> moves\<^sup>*\<^sup>* s ((delivered k ^^ length (sy_events s k)) s)"
  proof (induction "sy_events s k" arbitrary: s)
    case Nil
    then show ?case by (simp add: fun_upd_idem)
  next
    case (Cons x xs)
    have d: "sy_events (delivered k s) = (sy_events s)(k := xs)" "sy_else (delivered k s) = sy_else s"
      using Cons.hyps(2) [symmetric] by (simp_all add: delivered_def)
    have "(delivered k ^^ length (sy_events s k)) s = (delivered k ^^ length (sy_events (delivered k s) k)) (delivered k s)"
      using Cons.hyps(2) [symmetric] d(1) by (simp add: funpow_swap1)
    moreover have "server (delivered k s) = server s" by (simp add: fun_eq_iff)
    ultimately show ?case
      using Cons.hyps(1) [of "delivered k s"] d moves.deliver [of s k]
      by (auto intro: converse_rtranclp_into_rtranclp)
  qed
  then show "server ((delivered k ^^ length (sy_events s k)) s) = server s"
    and "sy_else ((delivered k ^^ length (sy_events s k)) s) = sy_else s"
    and "sy_events ((delivered k ^^ length (sy_events s k)) s) = (sy_events s)(k := [])"
    and "moves\<^sup>*\<^sup>* s ((delivered k ^^ length (sy_events s k)) s)" by blast+
qed

lemma caught_up_simps [simp]:
  fixes s :: "'e sys"
  shows "server (caught_up ks s) = server s" "sy_else (caught_up ks s) = sy_else s"
  unfolding caught_up_def by (induction ks arbitrary: s) (simp_all add: delivered_all)

lemma caught_up_events:
  fixes s :: "'e sys"
  shows "sy_events (caught_up ks s) = (\<lambda>k. if k \<in> set ks then [] else sy_events s k)"
  unfolding caught_up_def by (induction ks arbitrary: s) (auto simp: delivered_all fun_eq_iff)

lemma caught_up_moves:
  fixes s :: "'e sys"
  shows "moves\<^sup>*\<^sup>* s (caught_up ks s)"
  unfolding caught_up_def
proof (induction ks arbitrary: s)
  case (Cons k ks)
  from delivered_all(4) [of s k] Cons.IH show ?case by (auto intro: rtranclp_trans)
qed simp

lemma caught_up_idle: "\<forall>k \<in> set ks. sy_events s k = [] \<Longrightarrow> caught_up ks s = s"
  unfolding caught_up_def by (induction ks) auto

lemma server_known: "sy_events s k = [] \<Longrightarrow> server s k = sy_cache s k"
  by (simp add: server_def versions_def)

lemma caught_up_cache:
  fixes s :: "'e sys"
  assumes "k \<in> set ks"
  shows "sy_cache (caught_up ks s) k = server s k"
proof -
  have "sy_events (caught_up ks s) k = []" using assms by (simp add: caught_up_events)
  from server_known [OF this] show ?thesis by simp
qed

text \<open>Rounds are runs of the system.\<close>

lemma system_moves: "moves\<^sup>*\<^sup>* s s' \<Longrightarrow> (system_step rt)\<^sup>*\<^sup>* s s'"
  by (induction rule: rtranclp_induct) (auto intro: rtranclp.rtrancl_into_rtrancl system_step.others)

lemma round_runs: "(system_step rt)\<^sup>*\<^sup>* s (calm_round rt ctx l s)"
proof -
  let ?s1 = "caught_up (resource_keys l) s"
  obtain r st where run: "Reconcile rt ctx (request_of l)
      \<lparr>world = ?s1\<lparr>sy_queue := sy_queue ?s1 - {request_of l}\<rparr>, trace = [], next_span = 0\<rparr> = (r, st)"
    by (rule prod.exhaust)
  have "system_step rt ?s1 (worked rt ctx (request_of l) ?s1)" if "request_of l \<in> sy_queue ?s1"
    using system_step.work [OF that run] by (simp add: worked_def run)
  then show ?thesis
    using system_moves [OF caught_up_moves [of s "resource_keys l"], of rt]
    by (auto simp: calm_round_def Let_def intro: rtranclp.rtrancl_into_rtrancl)
qed

lemma reachable_runs: "(system_step rt)\<^sup>*\<^sup>* s s' \<Longrightarrow> reachable rt s \<Longrightarrow> reachable rt s'"
  by (induction rule: rtranclp_induct) (auto intro: reachable.step)

section \<open>The resource while its status changes\<close>

lemma with_status_simps [simp]:
  "lim_Spec (with_status v st l) = lim_Spec l" "lim_Status (with_status v st l) = st"
  "request_of (with_status v st l) = request_of l" "lim_Name (with_status v st l) = lim_Name l"
  "lim_Namespace (with_status v st l) = lim_Namespace l" "lim_Generation (with_status v st l) = lim_Generation l"
  "om_DeletionTimestamp (lim_ObjectMeta (with_status v st l)) = om_DeletionTimestamp (lim_ObjectMeta l)"
  "with_status v st (with_status v' st' l) = with_status v st l"
  by (simp_all add: with_status_def meta_key_def)

lemma with_status_id: "with_status (om_ResourceVersion (lim_ObjectMeta l)) (lim_Status l) l = l"
  by (simp add: with_status_def)

lemmas name_defs = ServiceName_def PVCName_def DeploymentName_def LimitsConfigMapName_def PodDisruptionBudgetName_def

lemma keys_with_status [simp]:
  "object_keys (with_status v st l) = object_keys l" "resource_keys (with_status v st l) = resource_keys l"
  by (simp_all add: object_keys_def resource_keys_def name_defs)

text \<open>The owner reference does not depend on the status or the version of the owner.\<close>

definition owner_stable :: "'w runtime \<Rightarrow> bool" where
  "owner_stable rt \<longleftrightarrow> (\<forall>v st l m.
     rt_SetControllerReference rt (with_status v st l) m = rt_SetControllerReference rt l m)"

lemma own_with_status: "owner_stable rt \<Longrightarrow> own rt (with_status v st l) x = own rt l x"
  by (simp add: own_def owner_set_def owner_stable_def)


lemma desired_with_status:
  "desired_service rt (with_status v st l) s = desired_service rt l s"
  "desired_pvc rt (with_status v st l) s = desired_pvc rt l s"
  "desired_configmap rt (with_status v st l) s = desired_configmap rt l s"
  "desired_pdb rt (with_status v st l) s = desired_pdb rt l s"
  "desired_deployment rt (with_status v st l) s = desired_deployment rt l s"
proof -
  have labels: "Labels (with_status v st l) = Labels l" "SelectorLabels (with_status v st l) = SelectorLabels l"
    by (simp_all add: Labels_def SelectorLabels_def)
  have meta: "objectMeta n (with_status v st l) = objectMeta n l" for n
    by (simp add: objectMeta_def labels)
  show "desired_service rt (with_status v st l) s = desired_service rt l s"
    by (simp add: desired_service_def Service_def meta labels name_defs HTTPPort_def GRPCPort_def)
  show "desired_pvc rt (with_status v st l) s = desired_pvc rt l s"
    by (simp add: desired_pvc_def PVC_def meta labels name_defs)
  show "desired_configmap rt (with_status v st l) s = desired_configmap rt l s"
    by (simp add: desired_configmap_def LimitsConfigMap_def meta name_defs Limits_def cong: sum.case_cong)
  show "desired_pdb rt (with_status v st l) s = desired_pdb rt l s"
    by (simp add: desired_pdb_def PodDisruptionBudget_def meta labels name_defs)
  have backend: "backend_of (with_status v st l) = backend_of l" by (simp add: backend_of_def)
  moreover have "backend_options (with_status v st l) b = backend_options l b" for b
    by (cases b) (simp_all add: name_defs diskVolumes_def)
  moreover have "DeploymentArgs (with_status v st l) o1 = DeploymentArgs l o1" for o1
    by (simp add: DeploymentArgs_def HTTPPort_def GRPCPort_def Let_def cong: outcome.case_cong)
  moreover have "options_of (with_status v st l) args = options_of l args" for args
    using calculation by (simp add: options_of_def env_of_def DeploymentVolumes_def name_defs)
  moreover have "Deployment g (with_status v st l) o1 = Deployment g l o1" for g o1
    by (simp add: Deployment_def meta labels name_defs GetReplicas_def deploymentImage_def statusProbe_def
        HTTPPort_def GRPCPort_def GetResourceRequirements_def)
  ultimately show "desired_deployment rt (with_status v st l) s = desired_deployment rt l s"
    by (simp add: desired_deployment_def options_step_def backend_check_def
        cong: option.case_cong outcome.case_cong prod.case_cong sum.case_cong)
qed


lemma designed_with_status:
  assumes "owner_stable rt" "designed rt l e b"
  shows "designed rt (with_status v st l) e b"
  using assms by (simp add: designed_def builds_def own_with_status desired_with_status)

lemma built_with_status [simp]: "built conforms b (with_status v st l) s = built conforms b l s"
  by (simp add: built_def name_defs)

text \<open>A status that was computed for a condition is current for it.\<close>

lemma status_with_again:
  assumes "sets_status_condition (rt_SetStatusCondition rt)"
  shows "status_current (with_status v (status_with rt l c) l) (status_with rt (with_status v (status_with rt l c) l) c)"
proof -
  have "status_with rt (with_status v (status_with rt l c) l) c = status_with rt l c"
    using sets_status_conditionD(1) [OF assms]
    by (simp add: status_with_def buildServiceHost_def ServiceName_def HTTPPort_def GRPCPort_def)
  then show ?thesis by (simp add: status_current_def Equals_def) (simp add: status_with_def)
qed

section \<open>One reconciliation\<close>

text \<open>The resource is stored, up to its status, and can be reconciled.\<close>

definition sound :: "(Object \<Rightarrow> Object \<Rightarrow> bool) \<Rightarrow> 'e sys runtime \<Rightarrow> Limitador \<Rightarrow> blueprint \<Rightarrow> 'e sys \<Rightarrow> bool" where
  "sound conforms rt l b s \<longleftrightarrow> calm conforms (rt_client rt) (sy_else s) \<and> designed rt l (sy_else s) b
     \<and> (\<exists>v st. server s (res_key l) = Some (OLimitador (with_status v st l)))
     \<and> (IsObjectTaggedToDelete (obj_meta (bp_claim b)) \<or> shown (pvc_key l) (server s (pvc_key l)))
     \<and> holds_kind (dep_key l) (server s (dep_key l))"

definition fit :: "(Object \<Rightarrow> Object \<Rightarrow> bool) \<Rightarrow> 'w runtime \<Rightarrow> Limitador \<Rightarrow> bool" where
  "fit conforms rt l \<longleftrightarrow> keeps_fields conforms \<and> owner_stable rt \<and> sets_status_condition (rt_SetStatusCondition rt)
     \<and> om_DeletionTimestamp (lim_ObjectMeta l) = None \<and> (\<forall>v st. debug_error rt (with_status v st l) = None)"

definition in_sync :: "Limitador \<Rightarrow> 'e sys \<Rightarrow> bool" where
  "in_sync l s \<longleftrightarrow> (\<forall>k \<in> set (resource_keys l). sy_events s k = [])"

lemma server_queue [simp]: "server (s\<lparr>sy_queue := q\<rparr>) = server s"
  by (simp add: server_def versions_def fun_eq_iff)

lemma built_queue [simp]: "built conforms b l (s\<lparr>sy_queue := q\<rparr>) = built conforms b l s"
  by (simp add: built_def)

text \<open>A deployment in place is seen, and gives one condition.\<close>

lemma built_deployment:
  assumes "keeps_fields conforms" "designed rt l (sy_else (s :: 'e sys)) b" "built conforms b l s"
  shows "\<exists>d. server s (dep_key l) = Some (ODeployment d) \<and> seen (dep_key l) (server s (dep_key l)) = Some (ODeployment d)"
proof -
  from assms(2) have b: "builds desired_deployment rt l (sy_else s) (bp_deployment b)" by (simp add: designed_def)
  note want = builds_wants [OF b]
  from assms(3) wants_untagged(1) [OF want] obtain z where z: "server s (dep_key l) = Some z" "conforms (bp_deployment b) z"
    by (auto simp: built_def good_def conforming_def)
  have "om_Labels (obj_meta (bp_deployment b)) = Some (Labels l)" "obj_key (bp_deployment b) = dep_key l"
    using wants_meta [of desired_deployment "dep_key l" l rt, OF _ want] by (auto simp: watched_objects_def)
  moreover from this(2) assms(1) z(2) have "obj_key z = dep_key l" by (simp add: keeps_fields_def)
  then obtain d where "z = ODeployment d" by (cases z) (auto simp: obj_key_def)
  ultimately show ?thesis using seen_labelled [OF _ assms(1) z(2)] z(1) by auto
qed

lemma worked_step:
  assumes "reconcile_step rt n (s\<lparr>sy_queue := sy_queue s - {n}\<rparr>) = (Done (Inr zeroResult), ws, s')"
  shows "worked rt ctx n s = s'"
proof -
  obtain r st where run: "Reconcile rt ctx n \<lparr>world = s\<lparr>sy_queue := sy_queue s - {n}\<rparr>, trace = [], next_span = 0\<rparr> = (r, st)"
    by (rule prod.exhaust)
  from Reconcile_run [OF run] assms have "r = Done (Inr zeroResult)" "world st = s'" by auto
  then show ?thesis by (simp add: worked_def run put_back_def zeroResult_def)
qed

lemma worked_tends:
  fixes s :: "'e sys"
  assumes "fit conforms rt l" "sound conforms rt l b s" "in_sync l s"
    and "server s (res_key l) = Some (OLimitador (with_status v st l))"
  defines "l1 \<equiv> with_status v st l"
  shows "\<exists>s' c. worked rt ctx (request_of l) s = s' \<and> built conforms b l s' \<and> sound conforms rt l b s'
     \<and> request_of l \<notin> sy_queue s'
     \<and> (\<forall>d. seen (dep_key l) (server s (dep_key l)) = Some (ODeployment d) \<longrightarrow> c = deployment_condition d)
     \<and> touches (untouched (built conforms b l s) (set (object_keys l))
         \<union> untouched (status_current l1 (status_with rt l1 c)) {res_key l} \<union> pod_keys)
         (s\<lparr>sy_queue := sy_queue s - {request_of l}\<rparr>) s'
     \<and> (status_current l1 (status_with rt l1 c) \<or>
          (\<exists>v'. server s' (res_key l) = Some (OLimitador (with_status v' (status_with rt l1 c) l1))))"
proof -
  let ?n = "request_of l"
  let ?s = "s\<lparr>sy_queue := sy_queue s - {?n}\<rparr>"
  have keys: "res_key l1 = res_key l" "pvc_key l1 = pvc_key l" "dep_key l1 = dep_key l" "object_keys l1 = object_keys l"
    by (simp_all add: l1_def name_defs)
  have calm: "calm conforms (rt_client rt) (sy_else ?s)" and des: "designed rt l (sy_else ?s) b"
    using assms(2) by (simp_all add: sound_def)
  have des1: "designed rt l1 (sy_else ?s) b"
    unfolding l1_def by (rule designed_with_status [OF _ des]) (use assms(1) in \<open>simp add: fit_def\<close>)
  have cached: "sy_cache s k = server s k" if "k \<in> set (resource_keys l)" for k
    using that assms(3) server_known [of s k] by (simp add: in_sync_def)
  have claim_key: "obj_key (bp_claim b) = pvc_key l"
    using des by (intro builds_key [OF _ pvc_handler.desired_key]) (auto simp: designed_def)
  have "claim_seen (bp_claim b) (sy_cache ?s) (server ?s (pvc_key l1))"
    using assms(2) cached [of "pvc_key l"]
    by (auto simp: claim_seen_def claim_key keys sound_def resource_keys_def object_keys_def)
  moreover have keeps: "keeps_fields conforms" using assms(1) by (simp add: fit_def)
  moreover have "server ?s (res_key l1) = Some (OLimitador l1)" unfolding keys(1) using assms(4) by (simp add: l1_def)
  moreover have dep1: "holds_kind (dep_key l1) (sy_cache ?s (dep_key l1))"
    using assms(2) cached [of "dep_key l"] by (simp add: keys sound_def resource_keys_def object_keys_def)
  ultimately obtain ws s' c where o1: "object_step rt l1 ?s = (Done (Inr zeroResult), ws, s')" and built: "built conforms b l1 s'"
    and c: "\<forall>d. seen (dep_key l1) (sy_cache ?s (dep_key l1)) = Some (ODeployment d) \<longrightarrow> c = deployment_condition d"
    and t: "touches (untouched (built conforms b l1 ?s) (set (object_keys l1))
         \<union> untouched (status_current l1 (status_with rt l1 c)) {res_key l1} \<union> pod_keys) ?s s'"
    and st: "status_current l1 (status_with rt l1 c) \<or>
          (\<exists>v. server s' (res_key l1) = Some (OLimitador (with_status v (status_with rt l1 c) l1)))"
    using object_tends [OF calm des1 _ _ _ dep1] by blast
  have "sy_cache ?s (res_key l) = Some (OLimitador l1)"
    using cached [of "res_key l"] assms(4) by (simp add: resource_keys_def l1_def)
  then have "cl_GetLimitador (rt_client rt) ?n ?s = (Inr l1, ?s)"
    using calmD(1) [OF calm refl] unfolding calm_reads_def by blast
  moreover have "debug_error rt l1 = None" "om_DeletionTimestamp (lim_ObjectMeta l1) = None"
    using assms(1) by (simp_all add: fit_def l1_def)
  ultimately have "reconcile_step rt ?n ?s = (Done (Inr zeroResult), ws, s')"
    using o1 by (simp add: reconcile_step_def)
  then have w: "worked rt ctx ?n s = s'" by (rule worked_step)
  have "sound conforms rt l b s'"
  proof -
    have e: "sy_else s' = sy_else s" using touchesD(3) [OF t] by simp
    then have des2: "designed rt l (sy_else s') b" using des by simp
    have "\<exists>v st. server s' (res_key l) = Some (OLimitador (with_status v st l))"
    proof (cases "status_current l1 (status_with rt l1 c)")
      case True
      then have "server s' (res_key l) = server ?s (res_key l)"
        by (intro touchesD(5) [OF t]) (auto simp: untouched_def object_keys_def)
      with assms(4) show ?thesis by (auto simp: server_def versions_def)
    next
      case False
      with st show ?thesis unfolding keys by (auto simp: l1_def)
    qed
    moreover have "holds_kind (dep_key l) (server s' (dep_key l))"
      using built_deployment [OF keeps des2] built by (auto simp: l1_def holds_kind_def)
    moreover have "good_claim (bp_claim b) (server s' (pvc_key l))" using built by (simp add: built_def l1_def name_defs)
    ultimately show ?thesis
      using calm des claim_key e by (auto simp: sound_def good_claim_def split: if_splits)
  qed
  moreover have "?n \<notin> sy_queue s'" using touchesD(2) [OF t] by simp
  moreover have "built conforms b l s'" using built by (simp add: l1_def)
  moreover have "\<forall>d. seen (dep_key l) (server s (dep_key l)) = Some (ODeployment d) \<longrightarrow> c = deployment_condition d"
    using c cached [of "dep_key l"] by (simp add: keys resource_keys_def object_keys_def)
  moreover have "touches (untouched (built conforms b l s) (set (object_keys l))
         \<union> untouched (status_current l1 (status_with rt l1 c)) {res_key l} \<union> pod_keys) ?s s'"
    using t unfolding keys by (simp add: l1_def)
  ultimately show ?thesis using w st unfolding keys by blast
qed


section \<open>Three rounds\<close>

lemma sound_caught_up [simp]: "sound conforms rt l b (caught_up ks s) = sound conforms rt l b s"
  by (simp add: sound_def)

lemma built_caught_up [simp]: "built conforms b l (caught_up ks s) = built conforms b l s"
  by (simp add: built_def)

lemma in_sync_caught_up [simp]: "in_sync l (caught_up (resource_keys l) s)"
  by (simp add: in_sync_def caught_up_events)

definition at_rest :: "Limitador \<Rightarrow> 'e sys \<Rightarrow> bool" where
  "at_rest l s \<longleftrightarrow> request_of l \<notin> sy_queue s \<and> in_sync l s"

lemma at_rest_round: "at_rest l s \<Longrightarrow> calm_round rt ctx l s = s"
  by (simp add: at_rest_def in_sync_def calm_round_def caught_up_idle)

lemma round_cases:
  obtains "at_rest l (calm_round rt ctx l s)" "calm_round rt ctx l s = caught_up (resource_keys l) s"
  | "calm_round rt ctx l s = worked rt ctx (request_of l) (caught_up (resource_keys l) s)"
  by (cases "request_of l \<in> sy_queue (caught_up (resource_keys l) s)") (auto simp: calm_round_def at_rest_def)

text \<open>The status shows the condition of the deployment that is stored.\<close>

definition status_fresh :: "'e sys runtime \<Rightarrow> Limitador \<Rightarrow> 'e sys \<Rightarrow> bool" where
  "status_fresh rt l s \<longleftrightarrow> (\<exists>v st d. server s (res_key l) = Some (OLimitador (with_status v st l))
     \<and> seen (dep_key l) (server s (dep_key l)) = Some (ODeployment d)
     \<and> status_current (with_status v st l) (status_with rt (with_status v st l) (deployment_condition d)))"

lemma round_sound:
  fixes s :: "'e sys"
  assumes "fit conforms rt l" "sound conforms rt l b s"
  shows "sound conforms rt l b (calm_round rt ctx l s)"
    and "at_rest l (calm_round rt ctx l s) \<or> built conforms b l (calm_round rt ctx l s)"
proof -
  have "sound conforms rt l b (calm_round rt ctx l s)
      \<and> (at_rest l (calm_round rt ctx l s) \<or> built conforms b l (calm_round rt ctx l s))"
  proof (cases rule: round_cases [of l rt ctx s])
    case 2
    from assms(2) obtain v st where l1: "server (caught_up (resource_keys l) s) (res_key l) = Some (OLimitador (with_status v st l))"
      by (auto simp: sound_def)
    from assms(2) have "sound conforms rt l b (caught_up (resource_keys l) s)" by simp
    from worked_tends [OF assms(1) this in_sync_caught_up l1, of ctx] show ?thesis by (auto simp: 2)
  qed (use assms in simp)
  then show "sound conforms rt l b (calm_round rt ctx l s)"
    and "at_rest l (calm_round rt ctx l s) \<or> built conforms b l (calm_round rt ctx l s)" by blast+
qed

lemma round_built:
  fixes s :: "'e sys"
  assumes fit: "fit conforms rt l" and "sound conforms rt l b s" "built conforms b l s"
  shows "at_rest l (calm_round rt ctx l s) \<or> built conforms b l (calm_round rt ctx l s) \<and> status_fresh rt l (calm_round rt ctx l s)"
    and "status_fresh rt l s \<Longrightarrow> at_rest l (calm_round rt ctx l s)"
proof -
  let ?s = "caught_up (resource_keys l) s" and ?s' = "calm_round rt ctx l s"
  have keeps: "keeps_fields conforms" and sets: "sets_status_condition (rt_SetStatusCondition rt)"
    using fit by (simp_all add: fit_def)
  have sound: "sound conforms rt l b ?s" and built: "built conforms b l ?s" using assms by simp_all
  from built_deployment [OF keeps _ assms(3)] assms(2) obtain d where
    d: "seen (dep_key l) (server s (dep_key l)) = Some (ODeployment d)" by (auto simp: sound_def)
  from assms(2) obtain v st where l1: "server s (res_key l) = Some (OLimitador (with_status v st l))"
    by (auto simp: sound_def)
  let ?l1 = "with_status v st l" and ?c = "deployment_condition d"
  let ?cur = "status_current ?l1 (status_with rt ?l1 ?c)"
  have fresh: "status_fresh rt l s \<longleftrightarrow> ?cur" using l1 d by (auto simp: status_fresh_def)
  have both: "(at_rest l ?s' \<or> built conforms b l ?s' \<and> status_fresh rt l ?s') \<and> (?cur \<longrightarrow> at_rest l ?s')"
  proof (cases rule: round_cases [of l rt ctx s])
    case 2
    from worked_tends [OF fit sound in_sync_caught_up, of v st ctx] l1 d built
    have w: "built conforms b l ?s'" "request_of l \<notin> sy_queue ?s'"
      "touches (untouched ?cur {res_key l} \<union> pod_keys) (?s\<lparr>sy_queue := sy_queue ?s - {request_of l}\<rparr>) ?s'"
      "?cur \<or> (\<exists>v'. server ?s' (res_key l) = Some (OLimitador (with_status v' (status_with rt ?l1 ?c) ?l1)))"
      by (auto simp: 2 untouched_def)
    show ?thesis
    proof (cases ?cur)
      case True
      have "sy_events ?s' k = []" if "k \<in> set (resource_keys l)" for k
      proof -
        from that have "k \<notin> pod_keys" by (auto simp: resource_keys_def object_keys_def)
        with touchesD(4) [OF w(3), of k] True that show ?thesis by (simp add: untouched_def caught_up_events)
      qed
      with w(2) have "at_rest l ?s'" by (simp add: at_rest_def in_sync_def)
      then show ?thesis by simp
    next
      case False
      with w(4) obtain v' where "server ?s' (res_key l) = Some (OLimitador (with_status v' (status_with rt ?l1 ?c) l))" by auto
      moreover have "server ?s' (dep_key l) = server s (dep_key l)"
        using touchesD(5) [OF w(3), of "dep_key l"] by (simp add: untouched_def)
      moreover have "status_current (with_status v' (status_with rt ?l1 ?c) l)
          (status_with rt (with_status v' (status_with rt ?l1 ?c) l) ?c)"
        using status_with_again [OF sets, of v' ?l1 ?c] by simp
      ultimately have "status_fresh rt l ?s'" using d by (auto simp: status_fresh_def)
      with w(1) False show ?thesis by blast
    qed
  qed simp
  then show "at_rest l ?s' \<or> built conforms b l ?s' \<and> status_fresh rt l ?s'" by blast
  show "at_rest l ?s'" if "status_fresh rt l s" using both that fresh by blast
qed

lemma three_rounds:
  fixes s :: "'e sys"
  assumes "fit conforms rt l" "sound conforms rt l b s"
  shows "at_rest l ((calm_round rt ctx l ^^ 3) s) \<and> sound conforms rt l b ((calm_round rt ctx l ^^ 3) s)"
proof -
  let ?R = "calm_round rt ctx l"
  note 1 = round_sound [OF assms, of ctx]
  note 2 = round_sound [OF assms(1) 1(1), of ctx]
  note 3 = round_sound [OF assms(1) 2(1), of ctx]
  have "at_rest l (?R (?R (?R s)))"
  proof (cases "at_rest l (?R s) \<or> at_rest l (?R (?R s))")
    case False
    with 1(2) have b: "built conforms b l (?R s)" by blast
    from round_built(1) [OF assms(1) 1(1) b] False
    have "built conforms b l (?R (?R s))" "status_fresh rt l (?R (?R s))" by blast+
    then show ?thesis by (rule round_built(2) [OF assms(1) 2(1)])
  qed (auto simp: at_rest_round)
  with 3(1) show ?thesis by (simp add: numeral_3_eq_3)
qed

section \<open>Stabilisation\<close>

text \<open>
  What a spec must give so that its objects can be built: a verbosity that is not negative, limits
  that can be printed, an owner reference that can be set, and with a Redis back end a secret that is
  named, is there and has the field \<^verbatim>\<open>URL\<close>.
\<close>

definition secret_ready :: "'w runtime \<Rightarrow> Limitador \<Rightarrow> 'w \<Rightarrow> bool" where
  "secret_ready rt l w \<longleftrightarrow> (case backend_ref (backend_of l) of
     None \<Rightarrow> True
   | Some None \<Rightarrow> False
   | Some (Some ref) \<Rightarrow> (\<exists>secret. cl_GetSecret (rt_client rt) (secret_key (lim_Namespace l) ref) w = (Inr secret, w)
       \<and> map_get (sec_Data secret) ''URL'' \<noteq> None))"

definition buildable :: "'e sys runtime \<Rightarrow> Limitador \<Rightarrow> 'e \<Rightarrow> bool" where
  "buildable rt l e \<longleftrightarrow> valid_verbosity l \<and> (\<exists>t. rt_yamlMarshal rt (Limits l) = Inr t)
     \<and> (\<forall>m. \<exists>refs. rt_SetControllerReference rt l m = Inr refs) \<and> (\<forall>s. sy_else s = e \<longrightarrow> secret_ready rt l s)"

lemma builds_ownable:
  assumes "\<forall>m. \<exists>refs. rt_SetControllerReference rt l m = Inr refs" "\<And>s. sy_else s = e \<Longrightarrow> desired rt l s = (Done (Inr x), s)"
  shows "\<exists>y. builds desired rt l e y \<and> own rt l x = Inr y"
proof -
  from assms(1) obtain refs where "rt_SetControllerReference rt l (obj_meta x) = Inr refs" by blast
  then have "own rt l x = Inr (set_meta ((obj_meta x)\<lparr>om_OwnerReferences := refs\<rparr>) x)"
    by (simp add: own_def owner_set_def)
  with assms(2) show ?thesis unfolding builds_def by blast
qed

lemma buildable_designed:
  assumes "buildable rt l e"
  obtains b where "designed rt l e b" "IsObjectTaggedToDelete (obj_meta (bp_claim b)) \<longleftrightarrow> no_disk l"
proof -
  have own: "\<forall>m. \<exists>refs. rt_SetControllerReference rt l m = Inr refs" using assms by (simp add: buildable_def)
  from assms obtain t where yaml: "rt_yamlMarshal rt (Limits l) = Inr t" by (auto simp: buildable_def)
  from assms obtain args where args: "DeploymentArgs l (backend_options l (backend_of l)) = Done args"
    using DeploymentArgs_total [of l "backend_options l (backend_of l)"] by (auto simp: buildable_def)
  have "backend_check rt l s = (None, s)" if "sy_else s = e" for s
  proof -
    from assms that have "secret_ready rt l s" by (simp add: buildable_def)
    then show ?thesis by (auto simp: secret_ready_def backend_check_def secret_error_def split: option.splits)
  qed
  then have dep: "desired_deployment rt l s = (Done (Inr (ODeployment (Deployment (rt_GetString rt) l (options_of l args)))), s)"
    if "sy_else s = e" for s
    using that args by (simp add: desired_deployment_def options_step_def)
  obtain s1 where s1: "builds desired_service rt l e s1"
    using builds_ownable [OF own, where desired = desired_service and x = "OService (Service l)"] by (auto simp: desired_service_def)
  obtain s2 where s2: "builds desired_pvc rt l e s2" "own rt l (OPersistentVolumeClaim (PVC l)) = Inr s2"
    using builds_ownable [OF own, where desired = desired_pvc and x = "OPersistentVolumeClaim (PVC l)"] by (auto simp: desired_pvc_def)
  obtain s3 where s3: "builds desired_deployment rt l e s3"
    using builds_ownable [OF own, where desired = desired_deployment] dep by blast
  obtain s4 where s4: "builds desired_configmap rt l e s4"
    using builds_ownable [OF own, where desired = desired_configmap and x = "OConfigMap (limitsConfigMapOf t l)"] yaml
    by (auto simp: desired_configmap_def LimitsConfigMap_eq)
  obtain s5 where s5: "builds desired_pdb rt l e s5"
    using builds_ownable [OF own, where desired = desired_pdb and x = "OPodDisruptionBudget (PodDisruptionBudget l)"]
    by (auto simp: desired_pdb_def)
  have "IsObjectTaggedToDelete (obj_meta s2) \<longleftrightarrow> no_disk l"
    using s2(2) pvc.build_tagged [of l] by (auto elim!: own_meta simp: IsObjectTaggedToDelete_def)
  with that [of "\<lparr>bp_service = s1, bp_claim = s2, bp_deployment = s3, bp_configmap = s4, bp_pdb = s5\<rparr>"] s1 s2(1) s3 s4 s5
  show thesis by (simp add: designed_def)
qed

text \<open>
  C3: The operator brings a resource in order once the cluster is calm. Take any state that the system
  can reach - objects missing or changed by others, notifications late, the process just restarted -
  in which the calls of the client succeed from now on and nobody else writes, and in it a resource
  that is not being deleted, can be printed, and whose objects can be built: its verbosity is not negative,
  its limits can be printed, and with a Redis back end its secret is named, is there and has the field
  \<^verbatim>\<open>URL\<close>. What is stored under the name of its deployment is a deployment, and if it asks for a disk,
  then what is stored under the name of its claim, if anything, is a claim that the label selector of
  the cache shows. Then three rounds of delivering the notifications about the resource and
  reconciling it when its request is queued are a run of the system to a state in which nothing is
  queued or on its way for the resource, only its status and version have changed, and its
  deployment, limits, disruption budget and status are as its spec asks for. (Without the secret no
  reconciliation succeeds, C34; with a hidden claim none does, C32.)
\<close>

theorem calm_resource_settles:
  fixes s :: "'e sys" and ctx :: Context
  assumes "attached conforms (rt_client rt)" "keeps_fields conforms" "sets_controller rt" "owner_stable rt"
    and "sets_status_condition (rt_SetStatusCondition rt)" "\<forall>v st. debug_error rt (with_status v st l) = None"
    and "reachable rt s" "calm conforms (rt_client rt) (sy_else s)"
    and "server s (KLimitador, request_of l) = Some (OLimitador l)" "om_DeletionTimestamp (lim_ObjectMeta l) = None"
    and "buildable rt l (sy_else s)" "holds_kind (dep_key l) (server s (dep_key l))"
    and "no_disk l \<or> shown (pvc_key l) (server s (pvc_key l))"
  defines "s' \<equiv> (calm_round rt ctx l ^^ 3) s"
  shows "(system_step rt)\<^sup>*\<^sup>* s s' \<and> request_of l \<notin> sy_queue s' \<and> (\<forall>k \<in> set (resource_keys l). sy_events s' k = [])
    \<and> (\<exists>v st. server s' (KLimitador, request_of l) = Some (OLimitador (with_status v st l))
        \<and> converged conforms rt (with_status v st l) s')"
proof -
  from assms(11) obtain b where b: "designed rt l (sy_else s) b" "IsObjectTaggedToDelete (obj_meta (bp_claim b)) \<longleftrightarrow> no_disk l"
    by (rule buildable_designed)
  have run: "(system_step rt)\<^sup>*\<^sup>* s s'"
    unfolding s'_def by (simp add: numeral_3_eq_3) (blast intro: rtranclp_trans round_runs)
  have "fit conforms rt l" using assms by (simp add: fit_def)
  moreover have "\<exists>v st. server s (res_key l) = Some (OLimitador (with_status v st l))"
    using assms(9) with_status_id [of l] by metis
  then have "sound conforms rt l b s" using assms b by (simp add: sound_def)
  ultimately have rest: "at_rest l s'" and "sound conforms rt l b s'" unfolding s'_def using three_rounds by blast+
  then obtain v st where l': "server s' (res_key l) = Some (OLimitador (with_status v st l))" by (auto simp: sound_def)
  have "converged conforms rt (with_status v st l) s'"
    by (rule quiet_converged [OF assms(1-3) reachable_runs [OF run assms(7)]])
      (use l' rest assms(10) in \<open>auto simp: at_rest_def in_sync_def resource_keys_def object_keys_def name_defs\<close>)
  with run rest l' show ?thesis by (auto simp: at_rest_def in_sync_def)
qed

text \<open>The process starts in a cluster with only the resource.\<close>

definition arrived :: "unit sys" where
  "arrived = \<lparr>sy_cache = (\<lambda>k. None), sy_events = (\<lambda>k. if k = (KLimitador, sample_req) then [Some (OLimitador sample)] else []),
     sy_queue = {}, sy_else = ()\<rparr>"

lemma server_arrived:
  "server arrived k = (if k = (KLimitador, sample_req) then Some (OLimitador sample) else None)"
  by (simp add: arrived_def server_def versions_def)

lemma sys_calm: "calm (=) sys_client e"
proof -
  have nf: "IsNotFound notFound" by (simp add: notFound_def)
  have "calm_reads sys_client s" for s :: "unit sys"
    using nf by (auto simp: calm_reads_def sys_client_def absent_def split: option.split Object.split)
  moreover have "\<exists>r z. cl_Delete sys_client x s = (r, changed (obj_key x) z s) \<and> ignore_not_found r = None \<and> gone z
      \<and> (gone (server s (obj_key x)) \<longrightarrow> server s (obj_key x) = z)" for x and s :: "unit sys"
  proof (cases "gone (server s (obj_key x))")
    case True
    then show ?thesis
      using nf by (intro exI [of _ "fst (cl_Delete sys_client x s)"] exI [of _ "server s (obj_key x)"])
        (auto simp: sys_client_def gone_def ignore_not_found_def IgnoreNotFound_def split: option.split)
  next
    case False
    then obtain y where "server s (obj_key x) = Some y" "om_DeletionTimestamp (obj_meta y) = None" by (auto simp: gone_def)
    then show ?thesis by (auto simp: sys_client_def gone_def ignore_not_found_def)
  qed
  moreover have "l\<lparr>lim_Status := st\<rparr> = with_status (om_ResourceVersion (lim_ObjectMeta l)) st l" for l st
    by (simp add: with_status_def)
  then have "\<exists>v. cl_StatusApply sys_client (OLimitador p) f m s =
      (None, changed (obj_key (OLimitador p)) (Some (OLimitador (with_status v (lim_Status p) l))) s)"
    if "server s (obj_key (OLimitador p)) = Some (OLimitador l)" for p l f m and s :: "unit sys"
    using that by (auto simp: sys_client_def)
  moreover have "cl_Apply sys_client x f m s = (None, changed (obj_key x) (Some x) s)"
    "cl_Create sys_client x s = (if server s (obj_key x) = None then (None, changed (obj_key x) (Some x) s) else (Some conflict, s))"
    for x f m and s :: "unit sys"
    by (simp_all add: sys_client_def)
  ultimately show ?thesis by (auto simp: calm_def calm_writes_def conforming_def)
qed

lemma sys_owner_stable: "owner_stable sys_runtime"
  by (simp add: owner_stable_def controller_ref_def)

lemma sample_buildable: "buildable sys_runtime sample e"
  by (simp add: buildable_def secret_ready_def valid_verbosity_def backend_of_def zeroSpec_def sys_runtime_def)

theorem calm_resource_settles_witness:
  "server arrived (dep_key sample) = None \<and> (\<exists>s'. (system_step sys_runtime)\<^sup>*\<^sup>* arrived s' \<and> request_of sample \<notin> sy_queue s' \<and>
     (\<exists>v st. converged (=) sys_runtime (with_status v st sample) s'))"
proof -
  have "no_disk sample \<or> shown (pvc_key sample) (server arrived (pvc_key sample))"
    by (simp add: server_arrived shown_def seen_def)
  moreover have "reachable sys_runtime arrived" by (rule reachable.start) (simp_all add: arrived_def)
  ultimately show ?thesis
    using calm_resource_settles [of "(=)" sys_runtime sample arrived no_context]
      sys_attached sys_laws sys_owner_stable set_condition_sets sys_calm sample_buildable
    by (auto simp: server_arrived holds_kind_def debug_error_def)
qed

end
