(* ===== verification/Hidden_Claim.thy ===== *)
theory Hidden_Claim
  imports Stabilization
begin

text \<open>
  A claim that the cache does not show. The manager caches only claims with the label of the
  operator, and reads of claims are answered from that cache. A claim under the name of the resource
  that lacks the label is therefore never found, and creating it fails because it is there.
\<close>

section \<open>Hidden objects\<close>

text \<open>What the selectors of the cache hide: the objects of five kinds that lack the label of the operator.\<close>

lemma hidden_iff:
  "seen k (Some z) = None \<longleftrightarrow>
     fst k \<in> {KConfigMap, KDeployment, KPodDisruptionBudget, KPod, KPersistentVolumeClaim}
     \<and> map_get (om_Labels (obj_meta z)) LabelKeyApp \<noteq> Some LimitadorAppName"
  by (cases "fst k") (auto simp: seen_def cacheOptions_def appSelector_def selector_matches_def map_le_def split: option.splits if_splits)

text \<open>An owned object is shown whenever the server kept the fields that were sent.\<close>

lemma sent_shown:
  assumes "keeps_fields conforms" "sent_for rt l y" "conforms y z"
  shows "seen k (Some z) = Some z"
  using seen_labelled [of y l conforms z k] assms by (simp add: sent_for_def)

section \<open>Reconciliations that never succeed\<close>

definition stuck :: "(Object \<Rightarrow> Object \<Rightarrow> bool) \<Rightarrow> 'e sys runtime \<Rightarrow> Limitador \<Rightarrow> Object \<Rightarrow> 'e sys \<Rightarrow> bool" where
  "stuck conforms rt l z s \<longleftrightarrow> calm conforms (rt_client rt) (sy_else s)
     \<and> (\<exists>v st. server s (res_key l) = Some (OLimitador (with_status v st l)))
     \<and> server s (pvc_key l) = Some z \<and> request_of l \<in> sy_queue s"

lemma queue_caught_up: "sy_queue s \<subseteq> sy_queue (caught_up ks (s :: 'e sys))"
proof -
  have pow: "sy_queue u \<subseteq> sy_queue ((delivered k ^^ n) u)" for k n and u :: "'e sys"
    by (induction n) (use sy_queue_delivered in fastforce)+
  show ?thesis unfolding caught_up_def
  proof (induction ks arbitrary: s)
    case (Cons k ks)
    show ?case using pow [where k = k and u = s and n = "length (sy_events s k)"] Cons.IH by fastforce
  qed simp
qed

lemma hidden_create:
  assumes "calm conforms (rt_client rt) (sy_else s)" "obj_key y = (KPersistentVolumeClaim, n)"
    and "\<not> IsObjectTaggedToDelete (obj_meta y)"
    and "server s (obj_key y) \<noteq> None" "seen (obj_key y) (sy_cache s (obj_key y)) = None"
  shows "\<exists>err ws. create_step rt y s = (Done (Some err), ws, s)"
proof -
  have n: "meta_key (obj_meta y) = n" using assms(2) by (simp add: obj_key_def)
  have "snd (cl_GetPersistentVolumeClaim (rt_client rt) n s) = s"
    "case seen (obj_key y) (sy_cache s (obj_key y)) of
          Some (OPersistentVolumeClaim p) \<Rightarrow> fst (cl_GetPersistentVolumeClaim (rt_client rt) n s) = Inr p
        | _ \<Rightarrow> absent (fst (cl_GetPersistentVolumeClaim (rt_client rt) n s))"
    using calmD(1) [OF assms(1) refl] unfolding calm_reads_def assms(2) by blast+
  then have get: "snd (cl_GetPersistentVolumeClaim (rt_client rt) n s) = s"
    "absent (fst (cl_GetPersistentVolumeClaim (rt_client rt) n s))" using assms(5) by simp_all
  from calmD(2) [OF assms(1) refl] assms(4) obtain err where "cl_Create (rt_client rt) y s = (Some err, s)"
    unfolding calm_writes_def by blast
  with get assms(3) show ?thesis
    by (cases "cl_GetPersistentVolumeClaim (rt_client rt) n s")
      (auto simp: create_step_def n absent_def split: sum.splits)
qed

lemma stuck_spec:
  fixes s :: "'e sys"
  assumes "calm conforms (rt_client rt) (sy_else s)" "\<forall>m. \<exists>refs. rt_SetControllerReference rt l m = Inr refs"
    and "\<not> no_disk l" "server s (pvc_key l) = Some z" "seen (pvc_key l) (Some z) = None" "sy_cache s (pvc_key l) = Some z"
  shows "\<exists>err ws s1. spec_step rt l s = (Done (Inl err), ws, s1) \<and> touches {lim_key KService ServiceName l} s s1"
proof -
  obtain y1 where b1: "builds desired_service rt l (sy_else s) y1"
    using builds_ownable [OF assms(2), where desired = desired_service and x = "OService (Service l)"] by (auto simp: desired_service_def)
  obtain y where b: "builds desired_pvc rt l (sy_else s) y" "own rt l (OPersistentVolumeClaim (PVC l)) = Inr y"
    using builds_ownable [OF assms(2), where desired = desired_pvc and x = "OPersistentVolumeClaim (PVC l)"] by (auto simp: desired_pvc_def)
  have key: "obj_key y = pvc_key l" by (rule builds_key [OF b(1) pvc_handler.desired_key])
  have untagged: "\<not> IsObjectTaggedToDelete (obj_meta y)"
    using b(2) pvc.build_tagged [of l] assms(3) by (auto elim!: own_meta simp: IsObjectTaggedToDelete_def)
  have "obj_key y1 = lim_key KService ServiceName l" by (rule builds_key [OF b1 service_handler.desired_key])
  from apply_tends [OF assms(1) refl, of y1] this builds_manage [OF b1 refl] obtain ws1 s1 where
    svc: "manage desired_service apply_step rt l s = (Done None, ws1, s1)" "touches {lim_key KService ServiceName l} s s1" by auto
  have s1: "sy_else s1 = sy_else s" "sy_cache s1 = sy_cache s" "server s1 (pvc_key l) = Some z"
    using touchesD [OF svc(2)] touchesD(5) [OF svc(2), of "pvc_key l"] assms(4) by simp_all
  from hidden_create [of conforms rt s1 y] key untagged assms(1,5,6) s1 obtain err ws2 where
    "create_step rt y s1 = (Done (Some err), ws2, s1)" by auto
  then have "manage desired_pvc create_step rt l s1 = (Done (Some err), ws2, s1)"
    using builds_manage [OF b(1), of s1] s1(1) by simp
  with svc show ?thesis by (auto simp: spec_step_def handlers_def)
qed

lemma stuck_round:
  fixes s :: "'e sys"
  assumes "owner_stable rt" "\<forall>m. \<exists>refs. rt_SetControllerReference rt l m = Inr refs"
    and "\<forall>v st. debug_error rt (with_status v st l) = None" "om_DeletionTimestamp (lim_ObjectMeta l) = None"
    and "\<not> no_disk l" "seen (pvc_key l) (Some z) = None" "stuck conforms rt l z s"
  shows "stuck conforms rt l z (calm_round rt ctx l s)"
    and "fst k \<in> {KDeployment, KConfigMap, KPodDisruptionBudget, KPersistentVolumeClaim, KPod} \<Longrightarrow>
      server (calm_round rt ctx l s) k = server s k"
proof -
  let ?n = "request_of l" and ?u = "caught_up (resource_keys l) s"
  let ?s = "?u\<lparr>sy_queue := sy_queue ?u - {?n}\<rparr>"
  from assms(7) have calm: "calm conforms (rt_client rt) (sy_else ?s)" and pvc: "server ?s (pvc_key l) = Some z"
    and queued: "?n \<in> sy_queue ?u" using queue_caught_up [of s "resource_keys l"] by (auto simp: stuck_def)
  from assms(7) obtain v st where l1: "server ?s (res_key l) = Some (OLimitador (with_status v st l))" by (auto simp: stuck_def)
  let ?l1 = "with_status v st l"
  have cached: "sy_cache ?s k = server ?s k" if "k \<in> set (resource_keys l)" for k
    using caught_up_cache [OF that, of s] by simp
  have keys: "pvc_key ?l1 = pvc_key l" "lim_key KService ServiceName ?l1 = lim_key KService ServiceName l"
    by (simp_all add: name_defs)
  have "\<forall>m. \<exists>refs. rt_SetControllerReference rt ?l1 m = Inr refs" "\<not> no_disk ?l1"
    using assms(1,2,5) by (simp_all add: owner_stable_def no_disk_def)
  moreover have "sy_cache ?s (pvc_key l) = Some z"
    using cached [of "pvc_key l"] pvc by (simp add: resource_keys_def object_keys_def)
  ultimately obtain err ws1 s1 where
    spec: "spec_step rt ?l1 ?s = (Done (Inl err), ws1, s1)" "touches {lim_key KService ServiceName l} ?s s1"
    using stuck_spec [OF calm, of ?l1 z, unfolded keys] pvc assms(6) by blast
  have e1: "sy_else s1 = sy_else ?s" "server s1 (res_key ?l1) = Some (OLimitador ?l1)"
    using touchesD [OF spec(2)] touchesD(5) [OF spec(2), of "res_key l"] l1 by simp_all
  from status_tends [of conforms rt s1 ?l1 "Some err" "not_ready ''ReconcilliationError'' (Error err)"] calm e1
  obtain ws2 s2 where st: "status_step rt ?l1 (Some err) s1 = (Done (Inr zeroResult), ws2, s2)"
    "s2 = s1 \<or> touches {res_key l} s1 s2 \<and> (\<exists>v st. server s2 (res_key l) = Some (OLimitador (with_status v st l)))"
    by (fastforce simp: condition_of_def split: if_splits)
  then have st': "touches {res_key l} s1 s2" "\<exists>v st. server s2 (res_key l) = Some (OLimitador (with_status v st l))"
    using e1(2) by auto
  have "cl_GetLimitador (rt_client rt) ?n ?s = (Inr ?l1, ?s)"
    using calmD(1) [OF calm refl] cached [of "res_key l"] l1 unfolding calm_reads_def by (simp add: resource_keys_def)
  with spec(1) st(1) assms(3,4) have step: "reconcile_step rt ?n ?s = (Done (Inl err), ws1 @ ws2, s2)"
    by (simp add: reconcile_step_def object_step_def spec_error_def final_result_def)
  obtain r w where run: "Reconcile rt ctx ?n \<lparr>world = ?s, trace = [], next_span = 0\<rparr> = (r, w)" by (rule prod.exhaust)
  from Reconcile_run [OF run] step have "r = Done (Inl err)" "world w = s2" by auto
  then have round: "calm_round rt ctx l s = s2\<lparr>sy_queue := sy_queue s2 \<union> {?n}\<rparr>"
    using queued run by (simp add: calm_round_def Let_def worked_def put_back_def)
  have t: "touches {lim_key KService ServiceName l, res_key l} ?s s2"
    using touches_trans [OF spec(2) st'(1)] by (simp add: insert_commute)
  have frame: "server (calm_round rt ctx l s) k = server s k"
    if "fst k \<in> {KDeployment, KConfigMap, KPodDisruptionBudget, KPersistentVolumeClaim, KPod}" for k
  proof -
    from that have "k \<notin> {lim_key KService ServiceName l, res_key l}" by auto
    with touchesD(5) [OF t] show ?thesis by (simp add: round)
  qed
  then show "fst k \<in> {KDeployment, KConfigMap, KPodDisruptionBudget, KPersistentVolumeClaim, KPod} \<Longrightarrow>
      server (calm_round rt ctx l s) k = server s k" .
  from frame [of "pvc_key l"] show "stuck conforms rt l z (calm_round rt ctx l s)"
    using assms(7) st'(2) touchesD(3) [OF t] by (simp add: stuck_def round)
qed

text \<open>
  C32: A claim that the selector of the cache hides blocks its resource. The operator means to keep a
  claim that is there; but if a resource asks for a disk and the claim stored under its name lacks the label
  \<^verbatim>\<open>app: limitador\<close>, then even in a calm cluster every reconciliation fails on that claim: after any
  number of rounds the request is still queued, and no deployment, config map, disruption budget,
  claim or pod - of this resource or of any other - was created, changed or deleted.
\<close>

theorem hidden_claim_blocks:
  fixes s :: "'e sys" and ctx :: Context and n :: nat
  assumes "owner_stable rt" "\<forall>m. \<exists>refs. rt_SetControllerReference rt l m = Inr refs"
    and "\<forall>v st. debug_error rt (with_status v st l) = None"
    and "calm conforms (rt_client rt) (sy_else s)"
    and "server s (KLimitador, request_of l) = Some (OLimitador l)" "om_DeletionTimestamp (lim_ObjectMeta l) = None"
    and "request_of l \<in> sy_queue s" "\<not> no_disk l"
    and "server s (pvc_key l) = Some z" "map_get (om_Labels (obj_meta z)) ''app'' \<noteq> Some ''limitador''"
  defines "s' \<equiv> (calm_round rt ctx l ^^ n) s"
  shows "(system_step rt)\<^sup>*\<^sup>* s s' \<and> request_of l \<in> sy_queue s'
    \<and> (\<forall>k. fst k \<in> {KDeployment, KConfigMap, KPodDisruptionBudget, KPersistentVolumeClaim, KPod} \<longrightarrow> server s' k = server s k)"
proof -
  have hidden: "seen (pvc_key l) (Some z) = None" using assms(10) by (simp add: hidden_iff)
  have "stuck conforms rt l z s"
    using assms(4,5,7,9) with_status_id [of l] unfolding stuck_def by metis
  then have "(system_step rt)\<^sup>*\<^sup>* s ((calm_round rt ctx l ^^ n) s) \<and> stuck conforms rt l z ((calm_round rt ctx l ^^ n) s)
      \<and> (\<forall>k. fst k \<in> {KDeployment, KConfigMap, KPodDisruptionBudget, KPersistentVolumeClaim, KPod} \<longrightarrow>
          server ((calm_round rt ctx l ^^ n) s) k = server s k)"
  proof (induction n)
    case (Suc n)
    then have IH: "stuck conforms rt l z ((calm_round rt ctx l ^^ n) s)" by blast
    note round = stuck_round [OF assms(1-3,6,8) hidden IH, where ctx = ctx]
    from Suc have "(system_step rt)\<^sup>*\<^sup>* s ((calm_round rt ctx l ^^ n) s)" by blast
    then have "(system_step rt)\<^sup>*\<^sup>* s ((calm_round rt ctx l ^^ Suc n) s)"
      using round_runs [of rt "(calm_round rt ctx l ^^ n) s" ctx l] by (simp add: rtranclp_trans)
    with Suc round show ?case by simp
  qed simp
  then show ?thesis unfolding s'_def stuck_def by blast
qed

text \<open>A resource with a disk whose claim was made by hand.\<close>

definition disk_sample :: Limitador where
  "disk_sample = sample\<lparr>lim_Spec := zeroSpec\<lparr>sp_Storage := Some \<lparr>sto_Redis = None, sto_RedisCached = None,
     sto_Disk = Some \<lparr>di_PVC = None, di_Optimize = None\<rparr>\<rparr>\<rparr>\<rparr>"

definition handmade :: Object where
  "handmade = OPersistentVolumeClaim ((PVC disk_sample)\<lparr>pvc_ObjectMeta :=
     (pvc_ObjectMeta (PVC disk_sample))\<lparr>om_Labels := None\<rparr>\<rparr>)"

definition blocked :: "unit sys" where
  "blocked = \<lparr>sy_cache = [res_key disk_sample \<mapsto> OLimitador disk_sample, pvc_key disk_sample \<mapsto> handmade],
     sy_events = (\<lambda>k. []), sy_queue = {sample_req}, sy_else = ()\<rparr>"

lemma disk_sample_simps [simp]:
  "lim_ObjectMeta disk_sample = lim_ObjectMeta sample" "\<not> no_disk disk_sample"
  by (simp_all add: disk_sample_def no_disk_def)

lemma server_blocked [simp]:
  "server blocked = [res_key disk_sample \<mapsto> OLimitador disk_sample, pvc_key disk_sample \<mapsto> handmade]"
  "sy_queue blocked = {sample_req}"
  by (simp_all add: blocked_def server_def versions_def fun_eq_iff)

theorem hidden_claim_blocks_witness:
  "\<forall>n. let s' = (calm_round sys_runtime no_context disk_sample ^^ n) blocked
     in sample_req \<in> sy_queue s' \<and> server s' (dep_key disk_sample) = None"
proof
  fix n
  let ?s' = "(calm_round sys_runtime no_context disk_sample ^^ n) blocked"
  have "map_get (om_Labels (obj_meta handmade)) ''app'' \<noteq> Some ''limitador''" by (simp add: handmade_def)
  then have "sample_req \<in> sy_queue ?s' \<and> server ?s' (dep_key disk_sample) = server blocked (dep_key disk_sample)"
    using hidden_claim_blocks [of sys_runtime disk_sample "(=)" blocked handmade n no_context] sys_owner_stable sys_calm
    by (simp add: debug_error_def)
  then show "let s' = ?s' in sample_req \<in> sy_queue s' \<and> server s' (dep_key disk_sample) = None"
    by simp
qed

end
