(* ===== verification/Object_Properties.thy ===== *)
theory Object_Properties
  imports Handler_Properties Reconcile_Properties
begin

text \<open>
  The objects of one resource fit together: selectors and labels, ports, volumes, the Redis
  variable, the command line; and the helpers behind them.
\<close>

section \<open>Labels and names\<close>

abbreviation pod_labels :: "Deployment \<Rightarrow> go_map" where
  "pod_labels d \<equiv> om_Labels (pt_ObjectMeta (ds_Template (dep_Spec d)))"

text \<open>
  C22: The selectors of the service, of the deployment and of the disruption budget of a resource match
  the pods of its deployment, and those of no resource of another name.
\<close>

theorem selectors_match_own_pods:
  "(selector_matches (ss_Selector (svc_Spec (Service l))) (pod_labels (Deployment g l' opts))
      \<longleftrightarrow> lim_Name l = lim_Name l')
   \<and> (selector_matches (ls_MatchLabels (ds_Selector (dep_Spec (Deployment g' l opts')))) (pod_labels (Deployment g l' opts))
      \<longleftrightarrow> lim_Name l = lim_Name l')
   \<and> (\<exists>sel. pds_Selector (pdb_Spec (PodDisruptionBudget l)) = Some sel \<and>
      (selector_matches (ls_MatchLabels sel) (pod_labels (Deployment g l' opts)) \<longleftrightarrow> lim_Name l = lim_Name l'))"
  using selector_selects_own [of l l']
  by (auto simp: Service_def Deployment_def PodDisruptionBudget_def Let_def split: option.split)

text \<open>
  The objects of two resources collide, in any kind, exactly when the resources have the same
  name and namespace.
\<close>

lemma owned_keys_disjoint:
  "owned_keys l \<inter> owned_keys l' \<noteq> {} \<longleftrightarrow> lim_Name l = lim_Name l' \<and> lim_Namespace l = lim_Namespace l'"
  by (auto simp: owned_keys_def name_defs)

section \<open>Ports\<close>

text \<open>
  C23: One pair of ports: every port of the service targets, by name, a port of the container with the
  same number; both probes go to the container's HTTP port; the server is told the same numbers on
  its command line (unless building it panics on a negative verbosity).
\<close>

theorem ports_agree:
  "list_all (\<lambda>sp. list_ex (\<lambda>ct. list_ex (\<lambda>cp. sp_TargetPort sp = StrVal (cp_Name cp) \<and> sp_Port sp = cp_ContainerPort cp)
       (ct_Ports ct)) (ps_Containers (pt_Spec (ds_Template (dep_Spec (Deployment g l opts))))))
     (ss_Ports (svc_Spec (Service l)))
   \<and> list_all (\<lambda>ct. list_ex (\<lambda>cp. cp_Name cp = ''http'' \<and> pr_Port (ct_LivenessProbe ct) = IntVal (cp_ContainerPort cp)
         \<and> pr_Port (ct_ReadinessProbe ct) = IntVal (cp_ContainerPort cp)) (ct_Ports ct))
     (ps_Containers (pt_Spec (ds_Template (dep_Spec (Deployment g l opts)))))
   \<and> (case DeploymentArgs l st of Panic p \<Rightarrow> \<not> valid_verbosity l
      | Done args \<Rightarrow> (\<exists>sa. parse_args args no_args = Some sa
          \<and> map (\<lambda>sp. Some (Itoa (sint (sp_Port sp)))) (ss_Ports (svc_Spec (Service l))) = [sa_http sa, sa_rls sa]))"
proof -
  have "case DeploymentArgs l st of Panic p \<Rightarrow> \<not> valid_verbosity l
      | Done args \<Rightarrow> (\<exists>sa. parse_args args no_args = Some sa
          \<and> map (\<lambda>sp. Some (Itoa (sint (sp_Port sp)))) (ss_Ports (svc_Spec (Service l))) = [sa_http sa, sa_rls sa])"
  proof (cases "DeploymentArgs l st")
    case (Done args)
    with parse_DeploymentArgs [OF Done] show ?thesis by (simp add: expected_args_def Service_def)
  next
    case (Panic p)
    with DeploymentArgs_total [of l st] show ?thesis by auto
  qed
  then show ?thesis by (simp add: Service_def Deployment_def statusProbe_def)
qed

section \<open>The command line\<close>

text \<open>
  C24: The command line of the server is built for every spec whose verbosity is not negative, and
  reading it back recovers every setting of the spec: rate-limit headers, exhaustive telemetry,
  tracing endpoint, verbosity, both ports, metric labels, the limits file and the arguments of the
  storage. A negative verbosity panics.
\<close>

theorem DeploymentArgs_roundtrip:
  "if valid_verbosity l
   then \<exists>args. DeploymentArgs l st = Done args \<and> parse_args args no_args = Some (expected_args l st)
   else \<exists>p. DeploymentArgs l st = Panic p"
proof (cases "DeploymentArgs l st")
  case (Done args)
  with parse_DeploymentArgs [OF Done] DeploymentArgs_total [of l st] show ?thesis by auto
next
  case (Panic p)
  with DeploymentArgs_total [of l st] show ?thesis by auto
qed

section \<open>Volumes and storage\<close>

lemma backend_options_wf: "\<exists>sub. wf_storage sub (backend_options l b)"
  by (cases b) (auto simp: wf_storage_def rollingUpdate_def cachedCommand_def diskVolumes_def diskVolumeMounts_def)

text \<open>The volume of the pod refers to an object the operator keeps in place for the resource.\<close>

definition volume_provided :: "Limitador \<Rightarrow> Volume \<Rightarrow> bool" where
  "volume_provided l v \<longleftrightarrow> (case vol_Source v of
     ConfigMapSource n \<Rightarrow> n = LimitsConfigMapName l
   | PersistentVolumeClaimSource n ro \<Rightarrow> n = om_Name (pvc_ObjectMeta (PVC l))
       \<and> \<not> IsObjectTaggedToDelete (pvc_ObjectMeta (PVC l)) \<and> \<not> ro)"

text \<open>A deployment as it is sent, with its volumes, mounts and rollout strategy.\<close>

definition volumes_in_order :: "Limitador \<Rightarrow> Deployment \<Rightarrow> bool" where
  "volumes_in_order l d \<longleftrightarrow>
    (let pod = pt_Spec (ds_Template (dep_Spec d)); volumes = ps_Volumes pod;
         claimed = list_ex (\<lambda>v. case vol_Source v of PersistentVolumeClaimSource n ro \<Rightarrow> True | _ \<Rightarrow> False) volumes
     in length (ps_Containers pod) = 1
      \<and> list_all (\<lambda>ct. map vm_Name (ct_VolumeMounts ct) = map vol_Name volumes) (ps_Containers pod)
      \<and> distinct (map vol_Name volumes)
      \<and> list_all (volume_provided l) volumes
      \<and> list_ex (\<lambda>v. vol_Source v = ConfigMapSource (LimitsConfigMapName l)) volumes
      \<and> (claimed \<longleftrightarrow> (\<exists>s d. sp_Storage (lim_Spec l) = Some s \<and> sto_Redis s = None \<and> sto_RedisCached s = None \<and> sto_Disk s = Some d))
      \<and> (st_Type (ds_Strategy (dep_Spec d)) = RecreateType \<longleftrightarrow> claimed))"

lemma options_volumes:
  "volumes_in_order l ((Deployment g l (options_of l args))\<lparr>dep_ObjectMeta := m\<rparr>)"
proof -
  obtain sub where wf: "wf_storage sub (backend_options l (backend_of l))" using backend_options_wf by blast
  let ?claims = "list_ex (\<lambda>v. case vol_Source v of PersistentVolumeClaimSource n ro \<Rightarrow> True | _ \<Rightarrow> False)
    (dso_Volumes (backend_options l (backend_of l)))"
  have disk: "(\<exists>d. backend_of l = UseDisk d) \<longleftrightarrow>
      (\<exists>s d. sp_Storage (lim_Spec l) = Some s \<and> sto_Redis s = None \<and> sto_RedisCached s = None \<and> sto_Disk s = Some d)"
    by (auto simp: backend_of_def split: option.splits)
  then have "\<not> no_disk l" if "backend_of l = UseDisk d" for d
    using that by (auto simp: no_disk_def)
  then have "list_all (volume_provided l) (dso_Volumes (backend_options l (backend_of l)))"
    by (cases "backend_of l") (auto simp: diskVolumes_def volume_provided_def PVC_meta)
  moreover have "?claims \<longleftrightarrow> (\<exists>d. backend_of l = UseDisk d)"
    "st_Type (dso_DeploymentStrategy (backend_options l (backend_of l))) = RecreateType \<longleftrightarrow> ?claims"
    by (cases "backend_of l"; auto simp: rollingUpdate_def diskVolumes_def)+
  ultimately show ?thesis
    using mounts_match_volumes [OF wf, of l] unfolding disk [symmetric] volumes_in_order_def
    by (simp add: options_of_def Let_def Deployment_def DeploymentVolumes_def volume_provided_def)
qed

lemma manage_deployment_volumes:
  assumes "manage desired_deployment apply_step rt l w = (r, ws, w')"
  shows "list_all (\<lambda>q. \<exists>d. q = ReqApply (ODeployment d) True FieldManagerName \<and> volumes_in_order l d) ws"
    and "r = Done None \<Longrightarrow> length ws = 1"
proof -
  have "list_all (\<lambda>q. \<exists>d. q = ReqApply (ODeployment d) True FieldManagerName \<and> volumes_in_order l d) ws
      \<and> (r = Done None \<longrightarrow> length ws = 1)"
  proof (cases "\<exists>opts w1. options_step rt l w = (Done (Inr opts), w1)")
    case True
    then obtain args w1 where step: "options_step rt l w = (Done (Inr (options_of l args)), w1)"
      by (auto simp: options_step_def split: prod.splits option.splits outcome.splits)
    let ?d = "Deployment (rt_GetString rt) l (options_of l args)"
    have "\<not> IsObjectTaggedToDelete ((dep_ObjectMeta ?d)\<lparr>om_OwnerReferences := refs\<rparr>)" for refs
      by (simp add: IsObjectTaggedToDelete_def Deployment_def)
    with step assms options_volumes [where l = l and g = "rt_GetString rt" and args = args] show ?thesis
      by (auto simp: manage_def desired_deployment_def own_def owner_set_def apply_step_def
          split: sum.splits prod.splits)
  next
    case False
    with assms show ?thesis
      by (auto simp: manage_def desired_deployment_def split: prod.splits outcome.splits sum.splits)
  qed
  then show "list_all (\<lambda>q. \<exists>d. q = ReqApply (ODeployment d) True FieldManagerName \<and> volumes_in_order l d) ws"
    and "r = Done None \<Longrightarrow> length ws = 1" by blast+
qed

text \<open>
  C25: The deployment that the handler sends, whatever the client answers: it sends nothing but forced
  applies of a deployment, exactly one when it succeeds. The container mounts each volume of the pod
  once, under distinct names, and every volume is provided: the limits come from the config map the
  operator applies, and the disk - there exactly when the spec asks for disk storage and for neither
  kind of Redis - from the claim the operator creates, which is then not marked for deletion. Pods
  are recreated, rather than rolled, exactly when they hold that claim.
\<close>

theorem deployment_volumes_provided:
  "does S (reconcileDeployment rt (logged rt ctx logger) l) w (\<lambda>r ws w'.
     list_all (\<lambda>q. \<exists>d. q = ReqApply (ODeployment d) True FieldManagerName \<and> volumes_in_order l d) ws
   \<and> (case r of Done None \<Rightarrow> length ws = 1 | _ \<Rightarrow> True))"
  by (rule does_performs [OF performs_reconcileDeployment [OF ctx_ok_logged]])
    (use manage_deployment_volumes [of rt l w] in \<open>auto split: prod.split outcome.split option.split\<close>)

text \<open>
  With a Redis back end that names its secret, the server gets the URL as a reference to the
  variable that the container defines from the field \<^verbatim>\<open>URL\<close> of that secret; no other back end
  defines a variable, and a Redis back end without a secret has no environment at all but an error.
\<close>

lemma redis_url_from_secret:
  "case backend_ref (backend_of l) of
     None \<Rightarrow> getDeploymentEnvVar l = Inr []
   | Some None \<Rightarrow> getDeploymentEnvVar l = Inl noSecretRef
   | Some (Some ref) \<Rightarrow> (\<exists>v sub rest. getDeploymentEnvVar l = Inr [v]
       \<and> env_SecretKeyRef v = \<lparr>sks_Key = ''URL'', sks_Name = lor_Name ref\<rparr>
       \<and> dso_Args (backend_options l (backend_of l)) = [sub, ''$('' @ env_Name v @ '')''] @ rest)"
  by (auto simp: getDeploymentEnvVar_def backend_of_def DeploymentEnvVar_def cachedCommand_def
      split: option.splits)

text \<open>
  C26: The storage type recorded on the span is the one in use unless the spec sets both Redis and
  cached Redis: the span then says cached, while the deployment uses plain Redis.
\<close>

definition backend_type :: "backend \<Rightarrow> string" where
  "backend_type b = (case b of UseMemory \<Rightarrow> ''memory'' | UseRedis r \<Rightarrow> ''redis''
     | UseRedisCached c \<Rightarrow> ''redis-cached'' | UseDisk d \<Rightarrow> ''disk'')"

theorem span_storage_type_mismatch:
  "storageTypeOf l \<noteq> backend_type (backend_of l) \<longleftrightarrow>
     (\<exists>s r c. sp_Storage (lim_Spec l) = Some s \<and> sto_Redis s = Some r \<and> sto_RedisCached s = Some c)"
  by (auto simp: storageTypeOf_def backend_of_def backend_type_def split: option.splits)

section \<open>Helpers\<close>

text \<open>
  C27: The replica count given to the deployment is the one of the spec, clamped to the 32-bit range
  and never wrapped, and one when the spec has none.
\<close>

theorem GetReplicas_clamps:
  "sint (GetReplicas l) = (case sp_Replicas (lim_Spec l) of None \<Rightarrow> 1
     | Some r \<Rightarrow> max MinInt32 (min MaxInt32 (sint r)))"
  by (auto simp: GetReplicas_def DefaultReplicas_def ucast_int32_in_range max_def min_def split: option.split)

text \<open>
  C28: Two statuses are equal for \<^verbatim>\<open>Equals\<close> exactly when their generations and services are equal and
  they have the same conditions, in any order. The hypotheses are what the API server guarantees of
  conditions: texts that are valid UTF-8 and at most one condition of a type.
\<close>

theorem Equals_iff_same_status:
  assumes "\<forall>c \<in> set (sta_Conditions s). wf_condition c" "\<forall>c \<in> set (sta_Conditions t). wf_condition c"
    and "distinct (map cond_Type (sta_Conditions s))"
  shows "Equals s t \<longleftrightarrow> sta_ObservedGeneration s = sta_ObservedGeneration t
     \<and> sta_Service s = sta_Service t \<and> mset (sta_Conditions s) = mset (sta_Conditions t)"
proof -
  have "ConditionMarshal (sta_Conditions s) = ConditionMarshal (sta_Conditions t)
      \<longleftrightarrow> mset (sta_Conditions s) = mset (sta_Conditions t)"
    using ConditionMarshal_eqD [OF assms(1,2)] ConditionMarshal_perm [OF _ assms(3)] by blast
  then show ?thesis by (simp add: Equals_def)
qed

lemma valid_utf8_ascii: "list_all (\<lambda>c. byte_of c < 128) s \<Longrightarrow> valid_utf8 s"
  by (induction s) (simp_all add: valid_utf8.simps(2))

definition other_cond :: Condition where
  "other_cond = readyCond\<lparr>cond_Type := ''Other''\<rparr>"

theorem Equals_iff_same_status_witness:
  "Equals (zeroStatus\<lparr>sta_Conditions := [readyCond, other_cond]\<rparr>) (zeroStatus\<lparr>sta_Conditions := [other_cond, readyCond]\<rparr>)
   \<and> \<not> Equals (zeroStatus\<lparr>sta_Conditions := [readyCond, other_cond]\<rparr>) (zeroStatus\<lparr>sta_Conditions := [readyCond]\<rparr>)"
proof -
  have wf: "wf_condition readyCond" "wf_condition other_cond"
    by (simp_all add: wf_condition_def readyCond_def other_cond_def valid_utf8_ascii)
  have distinct: "distinct (map cond_Type [readyCond, other_cond])" by (simp add: other_cond_def readyCond_def)
  show ?thesis
    using wf distinct
      Equals_iff_same_status [of "zeroStatus\<lparr>sta_Conditions := [readyCond, other_cond]\<rparr>"
        "zeroStatus\<lparr>sta_Conditions := [other_cond, readyCond]\<rparr>"]
      Equals_iff_same_status [of "zeroStatus\<lparr>sta_Conditions := [readyCond, other_cond]\<rparr>"
        "zeroStatus\<lparr>sta_Conditions := [readyCond]\<rparr>"]
    by simp
qed

text \<open>
  \<^verbatim>\<open>MergeMapStringString\<close> adds the desired entries to the existing map, overriding values and
  keeping the other keys, and reports a modification exactly when the map changed, whatever the
  order in which Go enumerates the desired map.
\<close>

lemma MergeMapStringString_merges:
  assumes "distinct (map fst desired)"
  shows "MergeMapStringString (Some m) desired =
    (let m0 = (case m of None \<Rightarrow> Map.empty | Some f \<Rightarrow> f); m1 = m0 ++ map_of desired
     in (Some (Some m1), m1 \<noteq> m0))"
proof -
  let ?m0 = "case m of None \<Rightarrow> Map.empty | Some f \<Rightarrow> f"
  have "merge_loop desired ?m0 False = (?m0 ++ map_of desired, ?m0 ++ map_of desired \<noteq> ?m0)"
    using merge_loop_map [OF assms] merge_loop_flag [OF assms] map_of_le_iff [OF assms]
    by (auto simp: prod_eq_iff)
  then show ?thesis by (simp add: MergeMapStringString_def Let_def)
qed

lemma MergeMapStringString_merges_example:
  "MergeMapStringString (Some (Some [''a'' \<mapsto> ''1''])) [(''a'', ''2''), (''b'', ''3'')]
     = (Some (Some [''a'' \<mapsto> ''2'', ''b'' \<mapsto> ''3'']), True)"
proof -
  have "[''a'' \<mapsto> ''1''] ++ map_of [(''a'', ''2''), (''b'', ''3'')] = [''a'' \<mapsto> ''2'', ''b'' \<mapsto> ''3'']"
    by (auto simp: fun_eq_iff)
  moreover have "[''a'' \<mapsto> ''2'', ''b'' \<mapsto> ''3''] \<noteq> [''a'' \<mapsto> ''1'']"
    by (auto simp: fun_eq_iff)
  ultimately show ?thesis
    using MergeMapStringString_merges [of "[(''a'', ''2''), (''b'', ''3'')]" "Some [''a'' \<mapsto> ''1'']"] by simp
qed

end
