(* ===== verification/Setup_Properties.thy ===== *)
theory Setup_Properties
  imports Main_Setup Reconcile_Properties
begin

text \<open>
  The properties of the set-up: tracing, logging, the cache of the manager and the start and end of
  the process.
\<close>

section \<open>Tracing\<close>

text \<open>
  C29: The transport of the exporter. A URL that does not parse and a scheme other than \<^verbatim>\<open>rpc\<close>,
  \<^verbatim>\<open>http\<close> and \<^verbatim>\<open>https\<close> are errors; \<^verbatim>\<open>rpc\<close> gives gRPC and the other two HTTP, to the host of the URL.
  The connection is unencrypted exactly when the insecure flag is set or the scheme is \<^verbatim>\<open>http\<close>: the
  flag also turns encryption off for \<^verbatim>\<open>https\<close>.
\<close>

theorem newExporter_transport:
  "case newExporter lib cfg of
     Inr exporter \<Rightarrow> (\<exists>u. ol_Parse lib (cfg_Endpoint cfg) = Inr u \<and> ol_Start lib exporter = None \<and>
       (case exporter of
          GrpcClient opts \<Rightarrow> url_Scheme u = ''rpc'' \<and> WithEndpoint (url_Host u) \<in> set opts
            \<and> (WithInsecure \<in> set opts \<longleftrightarrow> cfg_Insecure cfg)
        | HttpClient opts \<Rightarrow> url_Scheme u \<in> {''http'', ''https''} \<and> WithEndpoint (url_Host u) \<in> set opts
            \<and> (WithInsecure \<in> set opts \<longleftrightarrow> cfg_Insecure cfg \<or> url_Scheme u = ''http'')
            \<and> (\<forall>p. WithURLPath p \<in> set opts \<longleftrightarrow> p = url_Path u \<and> p \<noteq> [])))
   | Inl e \<Rightarrow> (case ol_Parse lib (cfg_Endpoint cfg) of Inl err \<Rightarrow> e = ErrWrap ''invalid endpoint URL'' err
       | Inr u \<Rightarrow> if url_Scheme u \<in> {''rpc'', ''http'', ''https''} then \<exists>client. ol_Start lib client = Some e
           else Error e = ''unsupported endpoint scheme: '' @ url_Scheme u @ '' (use 'rpc', 'http', or 'https')'')"
  by (auto simp: newExporter_def Let_def split: sum.splits option.splits)

text \<open>
  C30: Without an endpoint tracing is off: the provider has no exporter and no exporter can fail; with
  one it has an exporter. The process-wide provider and propagators are set exactly when the set-up
  succeeds.
\<close>

theorem InitProvider_endpoint:
  "case InitProvider lib cfg g of
     (Inl e, g') \<Rightarrow> g' = g \<and> (if cfg_Endpoint cfg = []
         then \<exists>err. newResource lib cfg = Inl err \<and> e = ErrWrap ''failed to create resource'' err else True)
   | (Inr p, g') \<Rightarrow> og_tracerProvider g' = Some (pv_TracerProvider p) \<and> og_propagators g' = [''tracecontext'', ''baggage'']
       \<and> (tp_exporter (pv_TracerProvider p) = None \<longleftrightarrow> cfg_Endpoint cfg = [])
       \<and> (\<exists>res. newResource lib cfg = Inr res \<and> tp_resource (pv_TracerProvider p) = res)"
  by (auto simp: InitProvider_def initTracerProvider_def split: sum.splits prod.splits if_splits)

text \<open>
  C31: Resource attributes written as \<^verbatim>\<open>key=value\<close> pairs separated by commas are read back as they
  were, the last of two pairs with the same key winning. Keys have no equals sign, and neither
  keys nor values a comma or space around them; values may contain equals signs.
\<close>

theorem resource_attributes_roundtrip:
  assumes "list_all attr_pair kvs"
    and "GetString ''OTEL_RESOURCE_ATTRIBUTES'' [] = print_attrs kvs"
  shows "cfg_ResourceAttributes (NewConfig GetString version) = map_of (rev kvs)"
  using parse_print_attrs [OF assms(1)] assms(2) by (simp add: NewConfig_def)

text \<open>No space rune starts or ends with a visible ASCII character.\<close>

definition visible :: "char \<Rightarrow> bool" where
  "visible c \<longleftrightarrow> 33 \<le> (of_char c :: nat) \<and> (of_char c :: nat) < 127"

lemma space_runes_ends: "list_all (\<lambda>r. \<not> visible (hd r) \<and> \<not> visible (hd (rev r))) space_runes"
  by (simp add: space_runes_def visible_def of_char_of upt_rec)

lemma strip_visible:
  assumes "list_all (\<lambda>r. \<not> visible (hd r)) rs" "s = [] \<or> visible (hd s)"
  shows "strip rs s = s"
proof -
  have "\<not> (r \<noteq> [] \<and> take (length r) s = r)" if "r \<in> set rs" for r
    using assms that by (cases s; cases r) (auto simp: list_all_iff)
  then have "find (\<lambda>r. r \<noteq> [] \<and> take (length r) s = r) rs = None" by (auto simp: find_None_iff)
  then show ?thesis by (subst strip.simps) simp
qed

lemma TrimSpace_visible:
  assumes "list_all visible s"
  shows "TrimSpace s = s"
proof -
  have "strip space_runes s = s"
    using space_runes_ends assms by (intro strip_visible) (cases s; auto simp: list_all_iff)+
  moreover have "strip (map rev space_runes) (rev s) = rev s"
    using space_runes_ends assms
    by (intro strip_visible) (cases s rule: rev_cases; auto simp: list_all_iff)+
  ultimately show ?thesis by (simp add: TrimSpace_def)
qed

theorem resource_attributes_roundtrip_witness:
  "cfg_ResourceAttributes (NewConfig (\<lambda>k d. if k = ''OTEL_RESOURCE_ATTRIBUTES'' then ''env=prod,q=a=b'' else d) ''1'')
     = [''env'' \<mapsto> ''prod'', ''q'' \<mapsto> ''a=b'']"
proof -
  have "list_all attr_pair [(''env'', ''prod''), (''q'', ''a=b'')]"
    by (simp add: attr_pair_def attr_text_def TrimSpace_visible visible_def)
  from resource_attributes_roundtrip [OF this] show ?thesis
    by (simp add: print_pair_def fun_upd_twist)
qed

section \<open>Logging\<close>

text \<open>
  The loggers of the process. With a level zap knows and the mode \<^verbatim>\<open>production\<close> or \<^verbatim>\<open>development\<close>, in
  any case of letters, the operator, controller-runtime and klog all get one logger with that level,
  in development mode as asked, writing to standard output. Any other level or mode panics.
\<close>

lemma init_logger_sets_all:
  "case init_logger env ls of
     Done ls' \<Rightarrow> (\<exists>level. me_UnmarshalText env (logLevel env) = Inr level
       \<and> lg_Log ls' = \<lparr>zl_Level = level,
            zl_DevMode = (ToLower (logMode env) = ''development''), zl_Dest = Stdout\<rparr>)
       \<and> lg_ctrl ls' = lg_Log ls' \<and> lg_klog ls' = lg_Log ls'
   | Panic p \<Rightarrow> (case me_UnmarshalText env (logLevel env) of Inl e \<Rightarrow> p = Error e
       | Inr level \<Rightarrow> ToLower (logMode env) \<notin> {''production'', ''development''})"
  by (auto simp: init_logger_def ToLevel_def ToMode_def NewLogger_def SetLogger_def SetLevel_def SetMode_def
      WriteTo_def Let_def split: sum.splits outcome.splits if_splits)

section \<open>The cache\<close>

text \<open>
  The label selectors of the manager's cache show the controller what is its own: every object it
  sends, of any kind, and every pod its own selector matches, passes the selector of the kind.
  Secrets, which have no such labels, are not read through the cache. Objects under its names that
  lack the label are hidden.
\<close>

lemma cache_keeps_own_objects:
  "(\<forall>k sel. cacheOptions k = Some sel \<longrightarrow>
      sel \<subseteq>\<^sub>m SelectorLabels l
    \<and> (\<forall>(rt :: 'w runtime) y. sent_for rt l y \<longrightarrow> selector_matches sel (om_Labels (obj_meta y))))
   \<and> cacheOptions KSecret = None \<and> mo_DisableFor (managerOptions scheme fl) = [KSecret]"
  by (auto simp: cacheOptions_def appSelector_def sent_for_def SelectorLabels_def managerOptions_def map_le_def
      split: kind.splits)

lemma cache_keeps_own_objects_example:
  "selector_matches appSelector (Some (Labels sample))"
proof -
  let ?m = "objectMeta (ServiceName sample) sample\<lparr>om_OwnerReferences :=
      [\<lparr>or_Kind = ''Limitador'', or_Name = ''sample'', or_Controller = True\<rparr>]\<rparr>"
  have "sent_for sample_runtime sample (OService (Service sample\<lparr>svc_ObjectMeta := ?m\<rparr>))"
    by (simp add: sent_for_def)
  moreover have "cacheOptions KConfigMap = Some appSelector" by (simp add: cacheOptions_def)
  ultimately have "selector_matches appSelector (om_Labels (obj_meta (OService (Service sample\<lparr>svc_ObjectMeta := ?m\<rparr>))))"
    using cache_keeps_own_objects [of sample "[]" defaultFlags] by blast
  then show ?thesis by simp
qed

section \<open>The process\<close>

text \<open>What the process does, without the lines it logs on the way.\<close>

definition is_info :: "'o main_event \<Rightarrow> bool" where
  "is_info ev = (case ev of MLogInfo msg kvs \<Rightarrow> True | _ \<Rightarrow> False)"

definition calls :: "'o main_event list \<Rightarrow> 'o main_event list" where
  "calls evs = filter (\<lambda>ev. is_info ev = False) evs"

lemma calls_simps [simp]:
  "calls [] = []" "calls (xs @ ys) = calls xs @ calls ys"
  "calls (ev # evs) = (if is_info ev then calls evs else ev # calls evs)"
  by (simp_all add: calls_def)

lemma is_info_simps [simp]:
  "is_info (MLogInfo msg kvs)" "\<not> is_info (MInitProvider c)" "\<not> is_info (MNewManager opts)"
  "\<not> is_info (MSetupWithManager r)" "\<not> is_info (MAddHealthzCheck n)" "\<not> is_info (MAddReadyzCheck n)"
  "\<not> is_info MStart" "\<not> is_info MGetConfigOrDie" "\<not> is_info MShutdown" "\<not> is_info (MLogError e msg)"
  by (simp_all add: is_info_def)

lemma calls_lines [simp]:
  "calls (printControllerMetaInfo env) = []" "calls (tracingInfo cfg) = []"
  by (simp_all add: printControllerMetaInfo_def tracingInfo_def)

text \<open>
  What a call of the set-up answers: success, an error with the message that goes with it, or the end
  of the process inside the call.
\<close>

datatype answer = Succeeds | Fails error string | EndsProcess int

definition answer :: "error option \<Rightarrow> string \<Rightarrow> answer" where
  "answer err msg = (case err of None \<Rightarrow> Succeeds | Some e \<Rightarrow> Fails e msg)"

text \<open>The calls of the set-up in their order, each with what the libraries answer to it.\<close>

definition setup_table ::
    "('res, 'o) main_env \<Rightarrow> flags \<Rightarrow> scheme \<Rightarrow> zap_logger loggers \<Rightarrow> ('o main_event \<times> answer) list" where
  "setup_table env fl scheme ls =
    (let c = NewConfig (me_GetString env) (bi_version (me_build env)); opts = managerOptions scheme fl
     in [(MInitProvider c, case fst (InitProvider (me_lib env) c (me_globals env)) of
            Inl e \<Rightarrow> Fails e ''unable to initialize OpenTelemetry'' | Inr provider \<Rightarrow> Succeeds),
         (MGetConfigOrDie, case me_GetConfigOrDie env of None \<Rightarrow> Succeeds | Some status \<Rightarrow> EndsProcess status),
         (MNewManager opts, answer (me_NewManager env opts) ''unable to start manager''),
         (MSetupWithManager (limitadorBaseReconciler env opts ls),
          answer (me_SetupWithManager env) ''unable to create Limitador controller''),
         (MAddHealthzCheck ''healthz'', answer (me_AddHealthzCheck env) ''unable to set up health check''),
         (MAddReadyzCheck ''readyz'', answer (me_AddReadyzCheck env) ''unable to set up ready check''),
         (MStart, answer (me_Start env) ''problem running manager'')])"

text \<open>
  The calls up to the first that does not succeed, which is the last one made: its error is logged and
  the process exits with 1, or it exits as the call says.
\<close>

definition until_failure :: "('o main_event \<times> answer) list \<Rightarrow> 'o main_event list \<times> process_end" where
  "until_failure t =
    (case dropWhile (\<lambda>(call, a). a = Succeeds) t of
       [] \<Rightarrow> (map fst t, Returned)
     | (call, a) # _ \<Rightarrow>
         (map fst (takeWhile (\<lambda>(call, a). a = Succeeds) t) @ call #
            (case a of Fails e msg \<Rightarrow> [MLogError e msg] | _ \<Rightarrow> []),
          case a of EndsProcess status \<Rightarrow> Exited status | _ \<Rightarrow> Exited 1))"

lemma until_failure_simps:
  "until_failure [] = ([], Returned)"
  "until_failure ((call, Succeeds) # t) = (call # fst (until_failure t), snd (until_failure t))"
  "until_failure ((call, Fails e msg) # t) = ([call, MLogError e msg], Exited 1)"
  "until_failure ((call, EndsProcess status) # t) = ([call], Exited status)"
proof -
  show "until_failure ((call, Succeeds) # t) = (call # fst (until_failure t), snd (until_failure t))"
    by (cases "dropWhile (\<lambda>(call, a). a = Succeeds) t") (auto simp: until_failure_def simp del: dropWhile_eq_Nil_conv split: prod.split)
qed (simp_all add: until_failure_def)

definition follows_table :: "('o main_event \<times> answer) list \<Rightarrow> 'o main_event list \<times> process_end \<Rightarrow> bool" where
  "follows_table t body \<longleftrightarrow> (calls (fst body), snd body) = until_failure t"

named_theorems table_intro "a part of the set-up follows its rows of the table"

lemma table_logged [table_intro]: "calls lines = [] \<Longrightarrow> follows_table t rest \<Longrightarrow> follows_table t (logged lines rest)"
  by (cases rest) (simp add: follows_table_def logged_def)

lemma table_or_exit [table_intro]:
  assumes "\<not> is_info call" "follows_table t rest"
  shows "follows_table ((call, answer err msg) # t) (or_exit call err msg rest)"
  using assms
  by (cases rest; cases err) (auto simp: follows_table_def or_exit_def answer_def until_failure_simps prod_eq_iff split_beta)

lemma table_or_die [table_intro]:
  assumes "\<not> is_info call" "follows_table t rest"
  shows "follows_table ((call, case status of None \<Rightarrow> Succeeds | Some n \<Rightarrow> EndsProcess n) # t) (or_die call status rest)"
  using assms
  by (cases rest; cases status) (auto simp: follows_table_def or_die_def until_failure_simps prod_eq_iff split_beta)

lemma table_end [table_intro]: "follows_table [] ([], Returned)"
  by (simp add: follows_table_def until_failure_simps)

text \<open>The deferred shutdown of the provider, with the line about its failure.\<close>

definition shutdown_calls :: "('res, 'o) main_env \<Rightarrow> 'o main_event list" where
  "shutdown_calls env =
    (case fst (InitProvider (me_lib env) (NewConfig (me_GetString env) (bi_version (me_build env))) (me_globals env)) of
       Inl e \<Rightarrow> []
     | Inr provider \<Rightarrow> MShutdown #
         (case pv_Shutdown provider of None \<Rightarrow> [] | Some e \<Rightarrow> [MLogError e ''error shutting down OpenTelemetry'']))"

lemma with_shutdown_calls:
  "calls (fst (with_shutdown err body)) = calls (fst body) @ (if snd body = Returned then MShutdown #
     (case err of None \<Rightarrow> [] | Some e \<Rightarrow> [MLogError e ''error shutting down OpenTelemetry'']) else [])"
  "snd (with_shutdown err body) = snd body"
  by (simp_all add: with_shutdown_def split_beta split: option.split)

lemma main_setup_table:
  "calls (fst (main_setup env fl scheme ls)) = fst (until_failure (setup_table env fl scheme ls))
     @ (if snd (main_setup env fl scheme ls) = Returned then shutdown_calls env else [])"
  "snd (main_setup env fl scheme ls) = snd (until_failure (setup_table env fl scheme ls))"
proof -
  let ?c = "NewConfig (me_GetString env) (bi_version (me_build env))"
  show "calls (fst (main_setup env fl scheme ls)) = fst (until_failure (setup_table env fl scheme ls))
     @ (if snd (main_setup env fl scheme ls) = Returned then shutdown_calls env else [])"
    and "snd (main_setup env fl scheme ls) = snd (until_failure (setup_table env fl scheme ls))"
  proof (atomize (full), cases "fst (InitProvider (me_lib env) ?c (me_globals env))")
    case (Inl e)
    then show "calls (fst (main_setup env fl scheme ls)) = fst (until_failure (setup_table env fl scheme ls))
       @ (if snd (main_setup env fl scheme ls) = Returned then shutdown_calls env else [])
       \<and> snd (main_setup env fl scheme ls) = snd (until_failure (setup_table env fl scheme ls))"
      by (simp add: main_setup_def setup_table_def Let_def until_failure_simps)
  next
    case (Inr provider)
    define body where "body = logged (tracingInfo ?c)
      (let opts = managerOptions scheme fl; reconciler = limitadorBaseReconciler env opts ls
       in or_die MGetConfigOrDie (me_GetConfigOrDie env)
        (or_exit (MNewManager opts) (me_NewManager env opts) ''unable to start manager''
        (or_exit (MSetupWithManager reconciler) (me_SetupWithManager env) ''unable to create Limitador controller''
        (or_exit (MAddHealthzCheck ''healthz'') (me_AddHealthzCheck env) ''unable to set up health check''
        (or_exit (MAddReadyzCheck ''readyz'') (me_AddReadyzCheck env) ''unable to set up ready check''
        (logged [MLogInfo ''starting manager'' []]
        (or_exit MStart (me_Start env) ''problem running manager'' ([], Returned))))))))"
    have "follows_table (tl (setup_table env fl scheme ls)) body"
      unfolding body_def setup_table_def Let_def list.sel by (intro table_intro) simp_all
    moreover have "main_setup env fl scheme ls = logged [MInitProvider ?c] (with_shutdown (pv_Shutdown provider) body)"
      using Inr by (simp add: main_setup_def body_def Let_def)
    moreover have "setup_table env fl scheme ls = (MInitProvider ?c, Succeeds) # tl (setup_table env fl scheme ls)"
      using Inr by (simp add: setup_table_def Let_def)
    then have "until_failure (setup_table env fl scheme ls)
        = (MInitProvider ?c # fst (until_failure (tl (setup_table env fl scheme ls))),
           snd (until_failure (tl (setup_table env fl scheme ls))))"
      using until_failure_simps(2) by metis
    ultimately show "calls (fst (main_setup env fl scheme ls)) = fst (until_failure (setup_table env fl scheme ls))
       @ (if snd (main_setup env fl scheme ls) = Returned then shutdown_calls env else [])
       \<and> snd (main_setup env fl scheme ls) = snd (until_failure (setup_table env fl scheme ls))"
      using Inr
      by (simp add: with_shutdown_calls logged_def split_beta shutdown_calls_def follows_table_def prod_eq_iff)
  qed
qed

text \<open>The flags as the process reads them, and a command line that sets all of them.\<close>

definition parsed_flags :: "('res, 'o) main_env \<Rightarrow> flag_error + flags" where
  "parsed_flags env = flag_Parse (formal_flags (me_libraryFlags env)) (me_Args env) defaultFlags"

definition flag_line :: "flags \<Rightarrow> string list" where
  "flag_line fl =
    [''--'' @ ''metrics-bind-address'' @ ''='' @ fl_metricsAddr fl,
     ''--'' @ ''health-probe-bind-address'' @ ''='' @ fl_probeAddr fl,
     ''--'' @ ''leader-elect'' @ ''='' @ (if fl_leaderElection fl then ''true'' else ''false'')]"

lemma flag_line_read: "flag_Parse (formal_flags library) (flag_line fl) fl' = Inr fl"
proof -
  let ?f = "formal_flags library"
  have 1: "flag_Parse ?f ((''--'' @ ''metrics-bind-address'' @ ''='' @ x) # args) v
      = flag_Parse ?f args (v\<lparr>fl_metricsAddr := x\<rparr>)" for x args v
    by (rule flag_Parse_value [where f = "StringVar (\<lambda>s fl. fl\<lparr>fl_metricsAddr := s\<rparr>)"]) (simp_all add: formal_flags_def Set_flag_def)
  have 2: "flag_Parse ?f ((''--'' @ ''health-probe-bind-address'' @ ''='' @ x) # args) v
      = flag_Parse ?f args (v\<lparr>fl_probeAddr := x\<rparr>)" for x args v
    by (rule flag_Parse_value [where f = "StringVar (\<lambda>s fl. fl\<lparr>fl_probeAddr := s\<rparr>)"]) (simp_all add: formal_flags_def Set_flag_def)
  have 3: "flag_Parse ?f ((''--'' @ ''leader-elect'' @ ''='' @ (if b then ''true'' else ''false'')) # args) v
      = flag_Parse ?f args (v\<lparr>fl_leaderElection := b\<rparr>)" for b args v
    by (rule flag_Parse_value [where f = "BoolVar (\<lambda>b fl. fl\<lparr>fl_leaderElection := b\<rparr>)"]) (simp_all add: formal_flags_def Set_flag_def ParseBool_def)
  show ?thesis unfolding flag_line_def 1 2 3 by simp
qed

text \<open>
  C33: What the process does and how it ends. The trace provider, the configuration of the cluster, the
  manager, the controller, both health checks and the start of the manager are called in this order;
  the first call that fails is the last one made: its error is logged with the message of that call
  and the process exits with 1 - or with the status of the call, when loading the configuration ends
  the process itself. If no call fails \<^verbatim>\<open>main\<close> returns, and then, and only then, the trace provider is
  shut down, whose failure is logged. A wrong argument of the command line exits with 2 and a request
  for help with 0, before anything is set up. A panic of \<^verbatim>\<open>init\<close> - a type that cannot be registered, an
  unknown level or mode - ends the process before \<^verbatim>\<open>main\<close>.
\<close>

theorem process_order:
  "case process env ls of (evs, how) \<Rightarrow>
     (case main_init env ls of
        Panic p \<Rightarrow> evs = [] \<and> how = Crashed p
      | Done (scheme, ls') \<Rightarrow>
         (case parsed_flags env of
            Inl HelpRequested \<Rightarrow> calls evs = [] \<and> how = Exited 0
          | Inl FlagError \<Rightarrow> calls evs = [] \<and> how = Exited 2
          | Inr fl \<Rightarrow>
              how = snd (until_failure (setup_table env fl scheme ls'))
            \<and> calls evs = fst (until_failure (setup_table env fl scheme ls'))
                @ (if how = Returned then shutdown_calls env else [])))"
proof (cases "main_init env ls")
  case (Done r)
  obtain scheme ls' where r: "r = (scheme, ls')" by (rule prod.exhaust)
  have main: "process env ls = logged (printControllerMetaInfo env) (case parsed_flags env of
      Inl stop \<Rightarrow> ([], Exited (flag_status stop)) | Inr fl \<Rightarrow> main_setup env fl scheme ls')"
    by (simp add: process_def Done r main_run_def parsed_flags_def)
  show ?thesis
  proof (cases "parsed_flags env")
    case (Inl stop)
    with main show ?thesis by (cases stop) (simp_all add: Done r logged_def flag_status_def)
  next
    case (Inr fl)
    with main main_setup_table [of env fl scheme ls'] show ?thesis
      by (simp add: Done r logged_def split_beta)
  qed
qed (simp add: process_def)

section \<open>The wiring of the reconciler\<close>

lemma all_or_exit:
  "P call \<Longrightarrow> (\<And>e. P (MLogError e msg)) \<Longrightarrow> list_all P (fst rest) \<Longrightarrow> list_all P (fst (or_exit call err msg rest))"
  by (cases rest) (simp add: or_exit_def split: option.split)

lemma all_or_die: "P call \<Longrightarrow> list_all P (fst rest) \<Longrightarrow> list_all P (fst (or_die call status rest))"
  by (cases rest) (simp add: or_die_def split: option.split)

lemma all_logged: "list_all P lines \<Longrightarrow> list_all P (fst rest) \<Longrightarrow> list_all P (fst (logged lines rest))"
  by (cases rest) (simp add: logged_def)

lemma all_with_shutdown:
  "P MShutdown \<Longrightarrow> (\<And>e m. P (MLogError e m)) \<Longrightarrow> list_all P (fst body) \<Longrightarrow> list_all P (fst (with_shutdown err body))"
  by (cases body) (simp add: with_shutdown_def split: option.split)

text \<open>What an event of the set-up must look like.\<close>

definition wired :: "('res, 'o) main_env \<Rightarrow> scheme \<Rightarrow> zap_logger loggers \<Rightarrow> 'o main_event \<Rightarrow> bool" where
  "wired env scheme ls ev =
    (case ev of
       MNewManager opts \<Rightarrow> mo_Scheme opts = scheme \<and> (\<exists>fl. parsed_flags env = Inr fl \<and> opts = managerOptions scheme fl)
     | MSetupWithManager b \<Rightarrow>
         Client b = me_GetClient env \<and> APIClientReader b = me_GetAPIReader env
       \<and> (\<exists>fl. parsed_flags env = Inr fl \<and> Scheme b = me_GetScheme env (managerOptions scheme fl))
       \<and> Logger b = \<lparr>nl_base = lg_Log ls, nl_names = [''limitador'']\<rparr>
       \<and> EventRecorder b = me_GetEventRecorderFor env ''Limitador''
       \<and> tr_tracer (BaseTracer b) = me_otelTracer env ''limitador-operator''
     | _ \<Rightarrow> True)"

lemma main_run_wired: "list_all (wired env scheme ls) (fst (main_run env scheme ls))"
proof -
  have lines: "list_all (wired env scheme ls) (printControllerMetaInfo env)"
    "list_all (wired env scheme ls) (tracingInfo cfg)" for cfg
    by (simp_all add: printControllerMetaInfo_def tracingInfo_def wired_def)
  have others: "wired env scheme ls MShutdown" "wired env scheme ls MStart"
    "wired env scheme ls (MLogInfo m kvs)" "wired env scheme ls (MAddHealthzCheck n)"
    "wired env scheme ls (MAddReadyzCheck n)" "wired env scheme ls (MInitProvider c)"
    "wired env scheme ls (MLogError e m)" "wired env scheme ls MGetConfigOrDie" for m kvs n c e
    by (simp_all add: wired_def)
  have "list_all (wired env scheme ls) (fst (main_setup env fl scheme ls))" if fl: "parsed_flags env = Inr fl" for fl
  proof -
    have "wired env scheme ls (MNewManager (managerOptions scheme fl))"
      "wired env scheme ls (MSetupWithManager (limitadorBaseReconciler env (managerOptions scheme fl) ls))"
      using fl by (auto simp: wired_def managerOptions_def limitadorBaseReconciler_def NewBaseReconciler_def
          NewTracer_def WithName_def accessor_defs)
    then show ?thesis
      unfolding main_setup_def Let_def
      by (cases "fst (InitProvider (me_lib env)
            (NewConfig (me_GetString env) (bi_version (me_build env))) (me_globals env))")
        (simp_all add: others all_logged all_with_shutdown all_or_exit all_or_die lines)
  qed
  then show ?thesis
    unfolding main_run_def parsed_flags_def [symmetric]
    by (intro all_logged [OF lines(1)]) (simp split: sum.split)
qed

text \<open>
  C40: What the reconciler is wired with. When \<^verbatim>\<open>init\<close> returns, the scheme knows \<^verbatim>\<open>Limitador\<close> and
  \<^verbatim>\<open>LimitadorList\<close> under the group version the status is written with, and all that was registered
  before; the manager gets that scheme. The reconciler that is handed to the controller has the
  client, the uncached reader, the scheme and the recorder of the manager, the process's logger
  under the name \<^verbatim>\<open>limitador\<close>, and the operator's tracer.
\<close>

theorem process_wiring:
  assumes "registers (me_schemes env)" "main_init env ls = Done (scheme, ls')"
  shows "{(GroupVersion, ''Limitador''), (GroupVersion, ''LimitadorList'')} \<subseteq> set scheme \<and>
    (\<exists>builtin. clientgoscheme_AddToScheme (me_schemes env) (me_NewScheme env) = Inr builtin \<and>
       set builtin \<subseteq> set scheme) \<and>
    lim_TypeMeta (statusPatch l st) = \<lparr>tm_Kind = ''Limitador'', tm_APIVersion = gv_String GroupVersion\<rparr> \<and>
    list_all (wired env scheme ls') (fst (process env ls))"
proof -
  from assms(2) obtain builtin where
    "clientgoscheme_AddToScheme (me_schemes env) (me_NewScheme env) = Inr builtin"
    "AddToScheme (me_schemes env) builtin = Inr scheme"
    by (auto simp: main_init_def Must_def split: sum.splits outcome.splits)
  with AddToScheme_known [OF assms(1)] assms(2) main_run_wired show ?thesis
    by (auto simp: process_def statusPatch_def gv_String_def GroupVersion_def)
qed

text \<open>A scheme library that registers, and an environment without variables.\<close>

definition sample_schemes :: scheme_lib where
  "sample_schemes =
    \<lparr>lib_Register = (\<lambda>b ts. b\<lparr>bu_types := bu_types b @ ts\<rparr>),
     lib_AddToScheme = (\<lambda>b sch. Inr (sch @ map (Pair (bu_GroupVersion b)) (bu_types b))),
     clientgoscheme_AddToScheme = (\<lambda>sch. Inr (sch @ [(\<lparr>gv_Group = [], gv_Version = ''v1''\<rparr>, ''Pod'')]))\<rparr>"

definition sample_env :: "'res otel_lib \<Rightarrow> 'res otel_globals \<Rightarrow> ('res, string) main_env" where
  "sample_env lib globals =
    \<lparr>me_build = \<lparr>bi_version = ''0.0.0'', bi_gitSHA = ''abc'', bi_dirty = ''false''\<rparr>,
     me_goVersion = ''go1.24'', me_GOOS = ''linux'', me_GOARCH = ''amd64'',
     me_schemes = sample_schemes, me_NewScheme = [], me_GetString = (\<lambda>key fallback. fallback),
     me_UnmarshalText = (\<lambda>name. if name = ''info'' then Inr InfoLevel else Inl (ErrExt ''level'')),
     me_Args = [''--leader-elect''], me_libraryFlags = (\<lambda>name. None), me_lib = lib, me_globals = globals, me_GetConfigOrDie = None, me_NewManager = (\<lambda>opts. None),
     me_GetClient = ''client'', me_GetScheme = mo_Scheme, me_GetAPIReader = ''reader'',
     me_GetEventRecorderFor = (\<lambda>name. name), me_otelTracer = (\<lambda>name. name),
     me_SetupWithManager = None, me_AddHealthzCheck = None, me_AddReadyzCheck = None, me_Start = None\<rparr>"

theorem process_wiring_witness:
  "\<forall>lib globals. \<exists>scheme ls'.
     (GroupVersion, ''Limitador'') \<in> set scheme \<and>
     list_all (wired (sample_env lib globals) scheme ls')
       (fst (process (sample_env lib globals) \<lparr>lg_Log = NewLogger [], lg_ctrl = NewLogger [], lg_klog = NewLogger []\<rparr>))"
proof (intro allI)
  fix lib :: "'res otel_lib" and globals
  let ?env = "sample_env lib globals"
  let ?ls = "\<lparr>lg_Log = NewLogger [], lg_ctrl = NewLogger [], lg_klog = NewLogger []\<rparr>"
  have "registers (me_schemes ?env)"
    by (auto simp: registers_def sample_env_def sample_schemes_def)
  moreover obtain scheme ls' where "main_init ?env ?ls = Done (scheme, ls')"
  proof -
    have "ToLower ''production'' = ''production''" by (rule ToLower_ascii) simp
    then have "ToMode (logMode ?env) = Done ModeProd"
      by (simp add: ToMode_def logMode_def sample_env_def)
    moreover have "ToLevel (me_UnmarshalText ?env) (logLevel ?env) = Done InfoLevel"
      by (simp add: ToLevel_def logLevel_def sample_env_def)
    ultimately obtain ls' where "init_logger ?env ?ls = Done ls'"
      by (simp add: init_logger_def Let_def)
    moreover obtain b where "clientgoscheme_AddToScheme (me_schemes ?env) (me_NewScheme ?env) = Inr b"
      by (simp add: sample_env_def sample_schemes_def)
    moreover obtain sch where "AddToScheme (me_schemes ?env) b = Inr sch"
      by (simp add: AddToScheme_def sample_env_def sample_schemes_def)
    ultimately show thesis using that by (simp add: main_init_def Must_def)
  qed
  ultimately show "\<exists>scheme ls'. (GroupVersion, ''Limitador'') \<in> set scheme \<and>
      list_all (wired ?env scheme ls') (fst (process ?env ?ls))"
    using process_wiring [of ?env ?ls scheme ls'] by blast
qed

end
