(* ===== verification/Go_Heap.thy ===== *)
theory Go_Heap
  imports Go_Prelude
begin

text \<open>
  Go memory, for the code whose claims depend on aliasing. A heap maps addresses to cells and hands
  out the next address; a cell is an array of values of one type (a variable made by \<^verbatim>\<open>new\<close> is an
  array of length one). A Go pointer in a struct is a location or nil; a reference is the address of
  a value together with the way into its cell, so that \<^verbatim>\<open>&x\<close>, \<^verbatim>\<open>&x.f\<close> and \<^verbatim>\<open>&x[i]\<close> are references.
  The statements of the generated copying code are defined over it: assignment, a pointer, slice or
  array copied element by element, a call of another copying method.
\<close>

section \<open>Heaps, references and pointers\<close>

record 'c heap =
  hp_next :: nat
  hp_cells :: "nat \<Rightarrow> 'c"

record ('c, 'a) ref =
  ref_addr :: nat
  ref_get :: "'c \<Rightarrow> 'a option"
  ref_put :: "'a \<Rightarrow> 'c \<Rightarrow> 'c"

definition deref :: "('c, 'a) ref \<Rightarrow> 'c heap \<Rightarrow> 'a option" where
  "deref r h = (if ref_addr r < hp_next h then ref_get r (hp_cells h (ref_addr r)) else None)"

abbreviation nilDereference :: string where
  "nilDereference \<equiv> ''runtime error: invalid memory address or nil pointer dereference''"

abbreviation indexOutOfRange :: string where
  "indexOutOfRange \<equiv> ''runtime error: index out of range''"

definition load :: "('c, 'a) ref \<Rightarrow> ('c heap, 'a) go" where
  "load r = (\<lambda>h. case deref r h of None \<Rightarrow> (Panic nilDereference, h) | Some v \<Rightarrow> (Done v, h))"

definition written :: "('c, 'a) ref \<Rightarrow> 'a \<Rightarrow> 'c heap \<Rightarrow> 'c heap" where
  "written r x h =
    h\<lparr>hp_cells := (hp_cells h)(ref_addr r := ref_put r x (hp_cells h (ref_addr r)))\<rparr>"

definition store :: "('c, 'a) ref \<Rightarrow> 'a \<Rightarrow> ('c heap, unit) go" where
  "store r x =
    (\<lambda>h. case deref r h of None \<Rightarrow> (Panic nilDereference, h) | Some _ \<Rightarrow> (Done (), written r x h))"

text \<open>The assignment \<^verbatim>\<open>*out = *in\<close>.\<close>

definition assign :: "('c, 'a) ref \<Rightarrow> ('c, 'a) ref \<Rightarrow> ('c heap, unit) go" where
  "assign i o' = bind_go (load i) (store o')"

definition extended :: "'c \<Rightarrow> 'c heap \<Rightarrow> 'c heap" where
  "extended c h = h\<lparr>hp_next := Suc (hp_next h), hp_cells := (hp_cells h)(hp_next h := c)\<rparr>"

definition new_cell :: "'c \<Rightarrow> ('c heap, nat) go" where
  "new_cell c = (\<lambda>h. (Done (hp_next h), extended c h))"

text \<open>How the values of a Go type are stored: the array in a cell, and back.\<close>

record ('c, 'a) ctype =
  ct_inj :: "'a list \<Rightarrow> 'c"
  ct_proj :: "'c \<Rightarrow> 'a list option"

definition ctype_ok :: "('c, 'a) ctype \<Rightarrow> bool" where
  "ctype_ok ty \<longleftrightarrow> (\<forall>xs. ct_proj ty (ct_inj ty xs) = Some xs) \<and>
     (\<forall>c xs. ct_proj ty c = Some xs \<longrightarrow> ct_inj ty xs = c)"

type_synonym loc = "nat \<times> nat"
type_synonym ptr = "loc option"

definition at :: "('c, 'a) ctype \<Rightarrow> loc \<Rightarrow> ('c, 'a) ref" where
  "at ty l = \<lparr>ref_addr = fst l,
     ref_get = (\<lambda>c. case ct_proj ty c of None \<Rightarrow> None
        | Some xs \<Rightarrow> if snd l < length xs then Some (xs ! snd l) else None),
     ref_put = (\<lambda>x c. case ct_proj ty c of None \<Rightarrow> c | Some xs \<Rightarrow> ct_inj ty (xs[snd l := x]))\<rparr>"

text \<open>The address \<^verbatim>\<open>&x.f\<close> of a field, given the selector and the update of the field.\<close>

definition fld :: "('v \<Rightarrow> 'f) \<Rightarrow> (('f \<Rightarrow> 'f) \<Rightarrow> 'v \<Rightarrow> 'v) \<Rightarrow> ('c, 'v) ref \<Rightarrow> ('c, 'f) ref" where
  "fld g u r = \<lparr>ref_addr = ref_addr r,
     ref_get = (\<lambda>c. map_option g (ref_get r c)),
     ref_put = (\<lambda>x c. case ref_get r c of None \<Rightarrow> c | Some v \<Rightarrow> ref_put r (u (\<lambda>_. x) v) c)\<rparr>"

definition as_ref :: "('c, 'a) ctype \<Rightarrow> ptr \<Rightarrow> ('c heap, ('c, 'a) ref) go" where
  "as_ref ty p = (case p of None \<Rightarrow> raise nilDereference | Some l \<Rightarrow> ret (at ty l))"

definition new :: "('c, 'a) ctype \<Rightarrow> 'a \<Rightarrow> ('c heap, loc) go" where
  "new ty zero = bind_go (new_cell (ct_inj ty [zero])) (\<lambda>a. ret (a, 0))"

section \<open>Slices\<close>

record slice =
  sl_base :: nat
  sl_off :: nat
  sl_len :: nat
  sl_cap :: nat

definition make :: "('c, 'a) ctype \<Rightarrow> 'a \<Rightarrow> nat \<Rightarrow> ('c heap, slice) go" where
  "make ty zero n = bind_go (new_cell (ct_inj ty (replicate n zero)))
     (\<lambda>a. ret \<lparr>sl_base = a, sl_off = 0, sl_len = n, sl_cap = n\<rparr>)"

text \<open>The address \<^verbatim>\<open>&(*s)[j]\<close> of an element of the slice that \<^verbatim>\<open>s\<close> points to.\<close>

definition index ::
    "('c, 'a) ctype \<Rightarrow> ('c, slice option) ref \<Rightarrow> nat \<Rightarrow> ('c heap, ('c, 'a) ref) go" where
  "index ty r j = bind_go (load r) (\<lambda>s. case s of None \<Rightarrow> raise indexOutOfRange
     | Some s \<Rightarrow> if j < sl_len s then ret (at ty (sl_base s, sl_off s + j)) else raise indexOutOfRange)"

text \<open>The elements of a slice; \<open>None\<close> when the slice does not lie in an array of the type.\<close>

definition elems :: "('c, 'a) ctype \<Rightarrow> 'c heap \<Rightarrow> slice \<Rightarrow> 'a list option" where
  "elems ty h s =
    (if sl_base s < hp_next h then
       case ct_proj ty (hp_cells h (sl_base s)) of None \<Rightarrow> None
       | Some xs \<Rightarrow> if sl_off s + sl_len s \<le> length xs
           then Some (take (sl_len s) (drop (sl_off s) xs)) else None
     else None)"

text \<open>
  The predeclared \<^verbatim>\<open>copy(dst, src)\<close>: as many elements as both slices have, read before any of them
  is written.
\<close>

definition copy_elems :: "('c, 'a) ctype \<Rightarrow> slice \<Rightarrow> slice \<Rightarrow> ('c heap, unit) go" where
  "copy_elems ty dst src =
    (\<lambda>h. case (elems ty h src, elems ty h dst, ct_proj ty (hp_cells h (sl_base dst))) of
       (Some xs, Some ys, Some arr) \<Rightarrow>
         (let n = min (sl_len dst) (sl_len src) in
          (Done (), h\<lparr>hp_cells := (hp_cells h)(sl_base dst :=
             ct_inj ty (take (sl_off dst) arr @ take n xs @ drop (sl_off dst + n) arr))\<rparr>))
     | _ \<Rightarrow> (Panic nilDereference, h))"

section \<open>The copying idioms\<close>

definition block :: "('s, unit) go list \<Rightarrow> ('s, unit) go" where
  "block ms = foldr and_then ms (ret ())"

text \<open>
  The idiom for a pointer field, with \<^verbatim>\<open>in\<close> and \<^verbatim>\<open>out\<close> the addresses of the field:
  \<^verbatim>\<open>if *in != nil { *out = new(T); (*in).DeepCopyInto(*out) }\<close>.
\<close>

definition copy_pointer ::
    "('c, 'a) ctype \<Rightarrow> 'a \<Rightarrow> (('c, 'a) ref \<Rightarrow> ('c, 'a) ref \<Rightarrow> ('c heap, unit) go)
     \<Rightarrow> ('c, ptr) ref \<Rightarrow> ('c, ptr) ref \<Rightarrow> ('c heap, unit) go" where
  "copy_pointer ty zero into i o' = bind_go (load i) (\<lambda>p.
     if p = None then ret ()
     else bind_go (new ty zero) (\<lambda>q. and_then (store o' (Some q))
       (bind_go (bind_go (load i) (as_ref ty)) (\<lambda>from.
        bind_go (bind_go (load o') (as_ref ty)) (\<lambda>to. into from to)))))"

text \<open>
  The idiom for a slice field whose elements are copied one by one:
  \<^verbatim>\<open>if *in != nil { *out = make([]T, len(*in)); for i := range *in { (*in)[i].DeepCopyInto(&(*out)[i]) } }\<close>.
\<close>

definition copy_slice ::
    "('c, 'a) ctype \<Rightarrow> 'a \<Rightarrow> (('c, 'a) ref \<Rightarrow> ('c, 'a) ref \<Rightarrow> ('c heap, unit) go)
     \<Rightarrow> ('c, slice option) ref \<Rightarrow> ('c, slice option) ref \<Rightarrow> ('c heap, unit) go" where
  "copy_slice ty zero into i o' = bind_go (load i) (\<lambda>s.
     case s of None \<Rightarrow> ret ()
     | Some s \<Rightarrow> bind_go (make ty zero (sl_len s)) (\<lambda>t. and_then (store o' (Some t))
         (block (map (\<lambda>j. bind_go (index ty i j) (\<lambda>from.
            bind_go (index ty o' j) (\<lambda>to. into from to))) [0..<sl_len s]))))"

text \<open>The idiom for a slice of plain values: \<^verbatim>\<open>*out = make([]T, len(*in)); copy(*out, *in)\<close>.\<close>

definition copy_array ::
    "('c, 'a) ctype \<Rightarrow> 'a \<Rightarrow> ('c, slice option) ref \<Rightarrow> ('c, slice option) ref \<Rightarrow> ('c heap, unit) go" where
  "copy_array ty zero i o' = bind_go (load i) (\<lambda>s.
     case s of None \<Rightarrow> ret ()
     | Some s \<Rightarrow> bind_go (make ty zero (sl_len s)) (\<lambda>t. and_then (store o' (Some t))
         (copy_elems ty t s)))"

text \<open>
  The function \<^verbatim>\<open>DeepCopy\<close> of a type:
  \<^verbatim>\<open>if in == nil { return nil }; out := new(T); in.DeepCopyInto(out); return out\<close>.
\<close>

definition deep_copy ::
    "('c, 'a) ctype \<Rightarrow> 'a \<Rightarrow> (('c, 'a) ref \<Rightarrow> ('c, 'a) ref \<Rightarrow> ('c heap, unit) go)
     \<Rightarrow> ptr \<Rightarrow> ('c heap, ptr) go" where
  "deep_copy ty zero into p = (case p of None \<Rightarrow> ret None
     | Some l \<Rightarrow> bind_go (new ty zero) (\<lambda>q. and_then (into (at ty l) (at ty q)) (ret (Some q))))"

section \<open>What a write and an allocation change\<close>

text \<open>
  \<open>overwritten r x h h'\<close>: the heap \<open>h'\<close> is \<open>h\<close> with the value at \<open>r\<close> replaced by \<open>x\<close>, and possibly
  further cells at new addresses.
\<close>

definition overwritten :: "('c, 'a) ref \<Rightarrow> 'a \<Rightarrow> 'c heap \<Rightarrow> 'c heap \<Rightarrow> bool" where
  "overwritten r x h h' \<longleftrightarrow> hp_next h \<le> hp_next h' \<and>
     (\<forall>a < hp_next h. hp_cells h' a =
        (if a = ref_addr r then ref_put r x (hp_cells h a) else hp_cells h a))"

text \<open>The get/put laws of a reference.\<close>

definition focused :: "('c, 'a) ref \<Rightarrow> bool" where
  "focused r \<longleftrightarrow> (\<forall>c v. ref_get r c = Some v \<longrightarrow>
     ref_put r v c = c \<and> (\<forall>x. ref_get r (ref_put r x c) = Some x) \<and>
     (\<forall>x y. ref_put r y (ref_put r x c) = ref_put r y c))"

definition lawful_field :: "('v \<Rightarrow> 'f) \<Rightarrow> (('f \<Rightarrow> 'f) \<Rightarrow> 'v \<Rightarrow> 'v) \<Rightarrow> bool" where
  "lawful_field g u \<longleftrightarrow> (\<forall>v. u (\<lambda>_. g v) v = v) \<and> (\<forall>x v. g (u (\<lambda>_. x) v) = x) \<and>
     (\<forall>x y v. u (\<lambda>_. y) (u (\<lambda>_. x) v) = u (\<lambda>_. y) v)"

lemma ref_addr_simps [simp]: "ref_addr (at ty l) = fst l" "ref_addr (fld g u r) = ref_addr r"
  by (simp_all add: at_def fld_def)

lemma focused_at: "ctype_ok ty \<Longrightarrow> focused (at ty l)"
  by (auto simp: focused_def at_def ctype_ok_def split: option.splits if_splits)

lemma focused_fld: "focused r \<Longrightarrow> lawful_field g u \<Longrightarrow> focused (fld g u r)"
  by (auto simp: focused_def fld_def lawful_field_def)

lemma deref_fld [simp]: "deref (fld g u r) h = map_option g (deref r h)"
  by (simp add: deref_def fld_def)

lemma deref_addr: "deref r h = Some v \<Longrightarrow> ref_addr r < hp_next h"
  by (simp add: deref_def split: if_splits)

lemma load_run: "deref r h = Some v \<Longrightarrow> load r h = (Done v, h)"
  by (simp add: load_def)

lemma store_run: "deref r h = Some v \<Longrightarrow> store r x h = (Done (), written r x h)"
  by (simp add: store_def)

lemma assign_run:
  "deref i h = Some v \<Longrightarrow> deref o' h = Some u \<Longrightarrow> assign i o' h = (Done (), written o' v h)"
  by (simp add: assign_def go_run load_run store_run)

lemma new_run: "new ty zero h = (Done (hp_next h, 0), extended (ct_inj ty [zero]) h)"
  by (simp add: new_def new_cell_def go_run)

lemma make_run: "make ty zero n h =
    (Done \<lparr>sl_base = hp_next h, sl_off = 0, sl_len = n, sl_cap = n\<rparr>,
     extended (ct_inj ty (replicate n zero)) h)"
  by (simp add: make_def new_cell_def go_run)

lemma hp_next_extended [simp]: "hp_next (extended c h) = Suc (hp_next h)"
  by (simp add: extended_def)

lemma hp_cells_extended: "hp_cells (extended c h) = (hp_cells h)(hp_next h := c)"
  by (simp add: extended_def)

lemma hp_cells_written:
  "hp_cells (written r x h) = (hp_cells h)(ref_addr r := ref_put r x (hp_cells h (ref_addr r)))"
  by (simp add: written_def)

lemma deref_extended_old: "deref r h = Some v \<Longrightarrow> deref r (extended c h) = Some v"
  by (auto simp: deref_def hp_cells_extended split: if_splits)

lemma deref_extended_new:
  "ctype_ok ty \<Longrightarrow> deref (at ty (hp_next h, 0)) (extended (ct_inj ty [x]) h) = Some x"
  by (simp add: deref_def hp_cells_extended at_def ctype_ok_def)

lemma deref_written: "focused r \<Longrightarrow> deref r h = Some u \<Longrightarrow> deref r (written r x h) = Some x"
  by (auto simp: deref_def written_def focused_def split: if_splits)

lemma deref_written_other:
  "ref_addr s \<noteq> ref_addr r \<Longrightarrow> deref s (written r x h) = deref s h"
  by (simp add: deref_def written_def)

lemma written_same: "focused r \<Longrightarrow> deref r h = Some v \<Longrightarrow> written r v h = h"
  by (cases h) (auto simp: focused_def deref_def written_def split: if_splits)

lemma overwritten_written [simp]: "overwritten r x h (written r x h)"
  by (simp add: overwritten_def written_def)

lemma hp_next_written [simp]: "hp_next (written r x h) = hp_next h"
  by (simp add: written_def)

lemma overwritten_next: "overwritten r x h h' \<Longrightarrow> hp_next h \<le> hp_next h'"
  by (simp add: overwritten_def)

lemma overwritten_same:
  "focused r \<Longrightarrow> deref r h = Some x \<Longrightarrow> overwritten r x h h"
  by (auto simp: overwritten_def focused_def deref_def)

lemma overwritten_deref:
  assumes "focused r" "deref r h = Some u" "overwritten r x h h'"
  shows "deref r h' = Some x"
  using assms by (auto simp: overwritten_def focused_def deref_def split: if_splits)

lemma overwritten_deref_other:
  assumes "overwritten r x h h'" "ref_addr s \<noteq> ref_addr r" "deref s h = Some v"
  shows "deref s h' = Some v"
  using assms by (auto simp: overwritten_def deref_def split: if_splits)

lemma overwritten_trans:
  assumes "overwritten r x h h'" "overwritten r y h' h''" "focused r" "deref r h = Some u"
  shows "overwritten r y h h''"
  using assms by (auto simp: overwritten_def focused_def deref_def split: if_splits)

text \<open>Overwriting a field overwrites the struct with the field replaced.\<close>

lemma overwritten_fld:
  assumes "overwritten r w h0 h" "overwritten (fld g u r) x h h'" "focused r" "deref r h0 = Some w0"
  shows "overwritten r (u (\<lambda>_. x) w) h0 h'"
proof -
  have "deref r h = Some w" by (rule overwritten_deref [OF assms(3,4,1)])
  then have "ref_get r (hp_cells h (ref_addr r)) = Some w" by (simp add: deref_def split: if_splits)
  then have "overwritten r (u (\<lambda>_. x) w) h h'"
    using assms(2) by (simp add: overwritten_def fld_def)
  then show ?thesis by (rule overwritten_trans [OF assms(1) _ assms(3,4)])
qed

end
