(* ===== verification/Heap_Copy.thy ===== *)
theory Heap_Copy
  imports Go_Heap
begin

text \<open>
  The contract of a deep copy and the rules that establish it. A representation says what a value in
  memory reads as and which cells it owns. The locale \<open>representation\<close> has the two laws every
  representation needs (it depends on its own cells only, and they are allocated); \<open>field_copier\<close> and
  \<open>deep_copier\<close> add the promise of an operation that copies: the copy reads as the same value, owns
  new cells only, and nothing else changes. The idioms of the generated code meet it, and a struct
  copied field by field meets it when its fields do.
\<close>

named_theorems copier "operations that meet the contract of a copy"

section \<open>Representations\<close>

record ('c, 'v, 'x) rep =
  rep_read :: "'c heap \<Rightarrow> 'v \<Rightarrow> 'x option"
  rep_foot :: "'c heap \<Rightarrow> 'v \<Rightarrow> nat set"

definition within :: "nat set \<Rightarrow> ('c, 'v, 'x) rep \<Rightarrow> 'c heap \<Rightarrow> 'v \<Rightarrow> 'x \<Rightarrow> bool" where
  "within A R h v x \<longleftrightarrow> rep_read R h v = Some x \<and> rep_foot R h v \<subseteq> A"

text \<open>A plain value, a pointer, a slice whose nil is told from empty, and one whose nil is not.\<close>

definition val_rep :: "('c, 'v, 'v) rep" where
  "val_rep = \<lparr>rep_read = (\<lambda>h v. Some v), rep_foot = (\<lambda>h v. {})\<rparr>"

definition ptr_rep :: "('c, 'v) ctype \<Rightarrow> ('c, 'v, 'x) rep \<Rightarrow> ('c, ptr, 'x option) rep" where
  "ptr_rep ty R =
    \<lparr>rep_read = (\<lambda>h p. case p of None \<Rightarrow> Some None
       | Some l \<Rightarrow> (case deref (at ty l) h of None \<Rightarrow> None | Some v \<Rightarrow> map_option Some (rep_read R h v))),
     rep_foot = (\<lambda>h p. case p of None \<Rightarrow> {}
       | Some l \<Rightarrow> insert (fst l) (case deref (at ty l) h of None \<Rightarrow> {} | Some v \<Rightarrow> rep_foot R h v))\<rparr>"

definition slice_rep ::
    "('c, 'v) ctype \<Rightarrow> ('c, 'v, 'x) rep \<Rightarrow> ('c, slice option, 'x list option) rep" where
  "slice_rep ty R =
    \<lparr>rep_read = (\<lambda>h s. case s of None \<Rightarrow> Some None
       | Some s \<Rightarrow> (case elems ty h s of None \<Rightarrow> None
           | Some vs \<Rightarrow> map_option Some (those (map (rep_read R h) vs)))),
     rep_foot = (\<lambda>h s. case s of None \<Rightarrow> {}
       | Some s \<Rightarrow> insert (sl_base s) (case elems ty h s of None \<Rightarrow> {}
           | Some vs \<Rightarrow> \<Union> (rep_foot R h ` set vs)))\<rparr>"

definition map_rep :: "('x \<Rightarrow> 'y) \<Rightarrow> ('c, 'v, 'x) rep \<Rightarrow> ('c, 'v, 'y) rep" where
  "map_rep f R = \<lparr>rep_read = (\<lambda>h v. map_option f (rep_read R h v)), rep_foot = rep_foot R\<rparr>"

text \<open>A struct is read field by field: the plain part first, then a field at a time.\<close>

definition rep_pure :: "('v \<Rightarrow> 'x) \<Rightarrow> ('c, 'v, 'x) rep" where
  "rep_pure f = \<lparr>rep_read = (\<lambda>h v. Some (f v)), rep_foot = (\<lambda>h v. {})\<rparr>"

definition rep_app ::
    "('v \<Rightarrow> 'f) \<Rightarrow> ('c, 'f, 'a) rep \<Rightarrow> ('c, 'v, 'a \<Rightarrow> 'x) rep \<Rightarrow> ('c, 'v, 'x) rep" where
  "rep_app g R F =
    \<lparr>rep_read = (\<lambda>h v. case rep_read F h v of None \<Rightarrow> None
       | Some k \<Rightarrow> map_option k (rep_read R h (g v))),
     rep_foot = (\<lambda>h v. rep_foot F h v \<union> rep_foot R h (g v))\<rparr>"

lemma those_eq_Some: "those ys = Some xs \<longleftrightarrow> list_all2 (\<lambda>y x. y = Some x) ys xs"
proof (induction ys arbitrary: xs)
  case (Cons y ys)
  then show ?case by (cases y; cases xs) (auto split: option.splits)
qed (auto split: list.splits)

lemma within_val [simp]: "within A val_rep h v x \<longleftrightarrow> x = v"
  by (auto simp: within_def val_rep_def)

lemma within_pure [simp]: "within A (rep_pure f) h v x \<longleftrightarrow> x = f v"
  by (auto simp: within_def rep_pure_def)

lemma within_app: "within A (rep_app g R F) h v x \<longleftrightarrow>
    (\<exists>a. within A R h (g v) a \<and> (\<exists>k. within A F h v k \<and> k a = x))"
  by (auto simp: within_def rep_app_def split: option.splits)

text \<open>The same under a continuation, to take a chain of fields apart from the outside.\<close>

lemma within_fields:
  "(\<exists>k. within A (rep_app g R F) h v k \<and> P k) \<longleftrightarrow>
     (\<exists>a. within A R h (g v) a \<and> (\<exists>k. within A F h v k \<and> P (k a)))"
  "(\<exists>k. within A (rep_pure f) h v k \<and> Q k) \<longleftrightarrow> Q (f v)"
  by (auto simp: within_app)

lemma within_map: "within A (map_rep f R) h v y \<longleftrightarrow> (\<exists>x. within A R h v x \<and> y = f x)"
  by (auto simp: within_def map_rep_def)

lemma within_ptr: "within A (ptr_rep ty R) h p y \<longleftrightarrow>
    (case p of None \<Rightarrow> y = None
     | Some l \<Rightarrow> fst l \<in> A \<and> (\<exists>v x. deref (at ty l) h = Some v \<and> within A R h v x \<and> y = Some x))"
  by (auto simp: within_def ptr_rep_def split: option.splits)

lemma within_slice: "within A (slice_rep ty R) h s y \<longleftrightarrow>
    (case s of None \<Rightarrow> y = None
     | Some s \<Rightarrow> sl_base s \<in> A \<and>
         (\<exists>vs xs. elems ty h s = Some vs \<and> list_all2 (within A R h) vs xs \<and> y = Some xs))"
proof (cases s)
  case (Some s')
  have all: "list_all2 (within A R h) vs xs \<longleftrightarrow>
      those (map (rep_read R h) vs) = Some xs \<and> \<Union> (rep_foot R h ` set vs) \<subseteq> A" for vs xs
  proof (induction vs arbitrary: xs)
    case (Cons v vs)
    then show ?case by (cases xs) (auto simp: within_def split: option.splits)
  qed (auto split: list.splits)
  show ?thesis
    by (cases "elems ty h s'") (auto simp: Some all within_def slice_rep_def)
qed (auto simp: within_def slice_rep_def)

lemma list_all2_within_val: "list_all2 (within A val_rep h) vs xs \<longleftrightarrow> xs = vs"
  by (auto simp: list_all2_conv_all_nth list_eq_iff_nth_eq)

lemma rep_read_ptr: "rep_read (ptr_rep ty R) h p = Some y \<longleftrightarrow> within UNIV (ptr_rep ty R) h p y"
  by (simp add: within_def)

lemma within_mono: "within A R h v x \<Longrightarrow> A \<subseteq> B \<Longrightarrow> within B R h v x"
  by (auto simp: within_def)

text \<open>\<open>preserves A h h'\<close>: the allocated cells of \<open>A\<close> are the same in \<open>h'\<close>.\<close>

definition preserves :: "nat set \<Rightarrow> 'c heap \<Rightarrow> 'c heap \<Rightarrow> bool" where
  "preserves A h h' \<longleftrightarrow> hp_next h \<le> hp_next h' \<and>
     (\<forall>a \<in> A. a < hp_next h \<longrightarrow> hp_cells h' a = hp_cells h a)"

lemma preserves_next: "preserves A h h' \<Longrightarrow> hp_next h \<le> hp_next h'"
  by (simp add: preserves_def)

lemma preserves_mono: "preserves A h h' \<Longrightarrow> B \<subseteq> A \<Longrightarrow> preserves B h h'"
  by (auto simp: preserves_def)

lemma preserves_trans: "preserves A h h' \<Longrightarrow> preserves A h' h'' \<Longrightarrow> preserves A h h''"
  by (auto simp: preserves_def)

lemma preserves_deref:
  "preserves A h h' \<Longrightarrow> ref_addr r \<in> A \<Longrightarrow> deref r h = Some v \<Longrightarrow> deref r h' = Some v"
  by (auto simp: preserves_def deref_def split: if_splits)

lemma preserves_elems:
  "preserves A h h' \<Longrightarrow> sl_base s \<in> A \<Longrightarrow> elems ty h s = Some vs \<Longrightarrow> elems ty h' s = Some vs"
  by (auto simp: preserves_def elems_def split: if_splits)

lemma overwritten_preserves: "overwritten r x h h' \<Longrightarrow> ref_addr r \<notin> A \<Longrightarrow> preserves A h h'"
  by (auto simp: overwritten_def preserves_def)

lemma elems_base: "elems ty h s = Some vs \<Longrightarrow> sl_base s < hp_next h"
  by (simp add: elems_def split: if_splits)

section \<open>The contracts\<close>

locale representation =
  fixes R :: "('c, 'v, 'x) rep"
  assumes local_reads: "within A R h v x \<Longrightarrow> preserves A h h' \<Longrightarrow> within A R h' v x"
    and allocated: "within A R h v x \<Longrightarrow> within (A \<inter> {..<hp_next h}) R h v x"
begin

lemma ptr_representation: "representation (ptr_rep ty R)"
proof (unfold_locales, goal_cases)
  case (1 A h p y h')
  then show ?case
    by (auto simp: within_ptr split: option.splits)
      (metis fst_conv local_reads preserves_deref ref_addr_simps(1))+
next
  case (2 A h p y)
  then show ?case
    by (auto simp: within_ptr split: option.splits intro: allocated dest: deref_addr)
qed

lemma allocated_below: "within A R h v x \<Longrightarrow> within {..<hp_next h} R h v x"
  by (rule within_mono [OF allocated]) auto

lemma map_representation: "representation (map_rep f R)"
  by unfold_locales (auto simp: within_map intro: local_reads allocated)

lemma slice_representation: "representation (slice_rep ty R)"
proof (unfold_locales, goal_cases)
  case (1 A h s y h')
  then show ?case
    by (auto simp: within_slice split: option.splits intro: list_all2_mono local_reads
        dest: preserves_elems)
next
  case (2 A h s y)
  then show ?case
    by (auto simp: within_slice split: option.splits intro: list_all2_mono allocated
        dest: elems_base)
qed

end

lemma representation_val: "representation val_rep"
  by unfold_locales simp_all

lemma representation_pure: "representation (rep_pure f)"
  by unfold_locales simp_all

lemma representation_app:
  "representation F \<Longrightarrow> representation R \<Longrightarrow> representation (rep_app g R F)"
  by unfold_locales (auto simp: within_app dest: representation.local_reads representation.allocated)

text \<open>A field whose value has already been assigned is replaced by a copy of its own.\<close>

locale field_copier = representation R for R :: "('c, 'v, 'x) rep" +
  fixes copy_field :: "('c, 'v) ref \<Rightarrow> ('c, 'v) ref \<Rightarrow> ('c heap, unit) go"
  assumes copies_field:
    "focused i \<Longrightarrow> focused o' \<Longrightarrow> ref_addr i \<noteq> ref_addr o' \<Longrightarrow> deref i h = Some v \<Longrightarrow>
     deref o' h = Some v \<Longrightarrow> within (- {ref_addr o'}) R h v x \<Longrightarrow>
     \<exists>h' v'. copy_field i o' h = (Done (), h') \<and> overwritten o' v' h h' \<and>
       within {hp_next h..<hp_next h'} R h' v' x"

locale deep_copier = representation R for R :: "('c, 'v, 'x) rep" +
  fixes into :: "('c, 'v) ref \<Rightarrow> ('c, 'v) ref \<Rightarrow> ('c heap, unit) go"
  assumes copies_into:
    "focused i \<Longrightarrow> focused o' \<Longrightarrow> ref_addr i \<noteq> ref_addr o' \<Longrightarrow> deref i h = Some v \<Longrightarrow>
     deref o' h = Some u \<Longrightarrow> within (- {ref_addr o'}) R h v x \<Longrightarrow>
     \<exists>h' v'. into i o' h = (Done (), h') \<and> overwritten o' v' h h' \<and>
       within {hp_next h..<hp_next h'} R h' v' x"

lemma field_copier_map: "field_copier R op \<Longrightarrow> field_copier (map_rep f R) op"
  by (intro field_copier.intro field_copier_axioms.intro representation.map_representation)
    (auto simp: within_map dest: field_copier.axioms(1), metis field_copier.copies_field)

text \<open>A function that returns a copy, as \<^verbatim>\<open>out.F = in.F.DeepCopy()\<close> uses it.\<close>

definition copies_value ::
    "('c, 'v, 'x) rep \<Rightarrow> ('v \<Rightarrow> ('c heap, 'v) go) \<Rightarrow> bool" where
  "copies_value R copy \<longleftrightarrow> (\<forall>h v x. rep_read R h v = Some x \<longrightarrow>
     (\<exists>h' v'. copy v h = (Done v', h') \<and> preserves UNIV h h' \<and>
        within {hp_next h..<hp_next h'} R h' v' x))"

definition copy_value :: "('v \<Rightarrow> ('c heap, 'v) go) \<Rightarrow> ('c, 'v) ref \<Rightarrow> ('c, 'v) ref \<Rightarrow> ('c heap, unit) go" where
  "copy_value copy i o' = bind_go (bind_go (load i) copy) (store o')"

sublocale deep_copier \<subseteq> as_field: field_copier R into
  by unfold_locales (rule copies_into)

text \<open>Assigning a plain value copies it.\<close>

interpretation plain: deep_copier val_rep assign
  by unfold_locales (auto intro: overwritten_written simp: assign_run)

section \<open>The idioms meet the contracts\<close>

lemma preserves_extended: "preserves A h (extended c h)"
  by (auto simp: preserves_def hp_cells_extended)

lemma preserves_written: "ref_addr r \<notin> A \<Longrightarrow> preserves A h (written r x h)"
  by (auto simp: preserves_def hp_cells_written)

text \<open>A new cell, its address stored in a field, and work on new cells only: the field is overwritten.\<close>

lemma overwritten_by_new:
  assumes "ref_addr r < hp_next h" "preserves {..<hp_next h} (written r x (extended c h)) h'"
  shows "overwritten r x h h'"
  using assms by (auto simp: overwritten_def preserves_def hp_cells_written hp_cells_extended)

lemma value_field:
  assumes "representation R" "copies_value R copy"
  shows "field_copier R (copy_value copy)"
proof (intro field_copier.intro field_copier_axioms.intro assms(1), goal_cases)
  case (1 i o' h v x)
  then obtain h1 v' where h1: "copy v h = (Done v', h1)" "preserves UNIV h h1"
    "within {hp_next h..<hp_next h1} R h1 v' x"
    using assms(2) unfolding copies_value_def within_def by blast
  let ?h' = "written o' v' h1"
  have old: "ref_addr o' < hp_next h" by (rule deref_addr [OF 1(5)])
  have "deref o' h1 = Some v" by (rule preserves_deref [OF h1(2) _ 1(5)]) simp
  with 1(4) h1(1) have "copy_value copy i o' h = (Done (), ?h')"
    by (simp add: copy_value_def go_run load_run store_run)
  moreover have "overwritten o' v' h ?h'"
    using h1(2) old by (simp add: overwritten_def preserves_def hp_cells_written)
  moreover have "within {hp_next h..<hp_next ?h'} R ?h' v' x"
    using representation.local_reads [OF assms(1) h1(3) preserves_written [of o']] old by simp
  ultimately show ?case by blast
qed

context deep_copier
begin

lemma pointer_field:
  assumes ty: "ctype_ok ty"
  shows "field_copier (ptr_rep ty R) (copy_pointer ty zero into)"
proof (intro field_copier.intro field_copier_axioms.intro ptr_representation, goal_cases)
  case (1 i o' h p y)
  show ?case
  proof (cases p)
    case None
    with 1 have "copy_pointer ty zero into i o' h = (Done (), h)" "overwritten o' None h h" "y = None"
      by (auto simp: copy_pointer_def go_run load_run overwritten_same within_ptr)
    with None show ?thesis by (fastforce simp: within_ptr)
  next
    case (Some l)
    let ?n = "hp_next h"
    let ?h2 = "written o' (Some (?n, 0)) (extended (ct_inj ty [zero]) h)"
    from 1(6) Some obtain v x where v: "fst l \<noteq> ref_addr o'" "deref (at ty l) h = Some v"
      "within (- {ref_addr o'}) R h v x" "y = Some x" by (auto simp: within_ptr)
    have old: "ref_addr i < ?n" "ref_addr o' < ?n" "fst l < ?n"
      using 1(4,5) v(2) by (auto dest: deref_addr)
    have pres: "preserves (- {ref_addr o'}) h ?h2"
      by (rule preserves_trans [OF preserves_extended preserves_written]) simp
    have fi: "deref i ?h2 = Some (Some l)"
      using 1(3,4) Some by (simp add: deref_written_other deref_extended_old)
    have fo: "deref o' ?h2 = Some (Some (?n, 0))"
      using 1(2,5) by (simp add: deref_written deref_extended_old)
    have from_old: "deref (at ty l) ?h2 = Some v"
      using v by (intro preserves_deref [OF pres]) simp_all
    have to_new: "deref (at ty (?n, 0)) ?h2 = Some zero"
      using ty old by (simp add: deref_written_other deref_extended_new)
    have apart: "ref_addr (at ty l) \<noteq> ref_addr (at ty (?n, 0))" using old by simp
    have src: "within (- {ref_addr (at ty (?n, 0))}) R ?h2 v x"
      by (rule within_mono [OF local_reads [OF allocated [OF v(3)]]])
        (auto intro: preserves_mono [OF pres])
    from copies_into [OF focused_at [OF ty] focused_at [OF ty] apart from_old to_new src]
    obtain h' v' where h': "into (at ty l) (at ty (?n, 0)) ?h2 = (Done (), h')"
      "overwritten (at ty (?n, 0)) v' ?h2 h'" "within {hp_next ?h2..<hp_next h'} R h' v' x" by auto
    have "copy_pointer ty zero into i o' h = (Done (), h')"
      using 1 Some fi fo h'(1)
      by (simp add: copy_pointer_def go_run load_run new_run store_run [OF deref_extended_old] as_ref_def)
    moreover have "overwritten o' (Some (?n, 0)) h h'"
      by (rule overwritten_by_new [OF old(2) overwritten_preserves [OF h'(2)]]) simp
    moreover have "within {?n..<hp_next h'} (ptr_rep ty R) h' (Some (?n, 0)) y"
      using v(4) within_mono [OF h'(3)] overwritten_deref [OF focused_at [OF ty] to_new h'(2)]
        overwritten_next [OF h'(2)]
      by (simp add: within_ptr)
    ultimately show ?thesis by blast
  qed
qed

text \<open>
  The loop over a slice: after the elements before \<open>k\<close> are copied, the loop copies the others, and
  changes the array of the copy and new cells only.
\<close>

lemma slice_loop:
  fixes ty and s t :: slice and b n :: nat
  defines "body \<equiv> \<lambda>i o' j. bind_go (index ty i j) (\<lambda>from. bind_go (index ty o' j) (\<lambda>to. into from to))"
  assumes ty: "ctype_ok ty" and t: "t = \<lparr>sl_base = b, sl_off = 0, sl_len = n, sl_cap = n\<rparr>"
    and refs: "ref_addr i < b" "ref_addr o' < b" "sl_base s < b" "sl_len s = n" "length xs = n"
    and h: "deref i h = Some (Some s)" "deref o' h = Some (Some t)" "elems ty h s = Some vs"
      "b < hp_next h" "ct_proj ty (hp_cells h b) = Some ws" "length ws = n"
    and src: "\<And>j. j < n \<Longrightarrow> within {..<b} R h (vs ! j) (xs ! j)"
    and copied: "\<And>j. j < k \<Longrightarrow> within {Suc b..<hp_next h} R h (ws ! j) (xs ! j)" and "k \<le> n"
  shows "\<exists>h' ws'. block (map (body i o') [k..<n]) h = (Done (), h') \<and> preserves (- {b}) h h' \<and>
    ct_proj ty (hp_cells h' b) = Some ws' \<and> length ws' = n \<and>
    (\<forall>j < n. within {Suc b..<hp_next h'} R h' (ws' ! j) (xs ! j))"
  using \<open>k \<le> n\<close> h src copied
proof (induction "n - k" arbitrary: k h ws)
  case 0
  then show ?case by (auto simp: block_def go_run preserves_def)
next
  case (Suc m)
  from Suc(2,3) have k: "k < n" "[k..<n] = k # [Suc k..<n]" "m = n - Suc k" by (simp_all add: upt_conv_Cons)
  let ?from = "at ty (sl_base s, sl_off s + k)" and ?to = "at ty (b, k)"
  have len: "length vs = n" using Suc(6) refs(4) by (auto simp: elems_def split: if_splits option.splits)
  have from_old: "deref ?from h = Some (vs ! k)"
    using Suc(6) k(1) refs(4) by (auto simp: elems_def deref_def at_def split: if_splits option.splits)
  have to_new: "deref ?to h = Some (ws ! k)"
    using Suc(7,8,9) k(1) by (simp add: deref_def at_def)
  have apart: "ref_addr ?from \<noteq> ref_addr ?to" using refs(3) by simp
  have "within (- {ref_addr ?to}) R h (vs ! k) (xs ! k)"
    by (rule within_mono [OF Suc(10) [OF k(1)]]) auto
  from copies_into [OF focused_at [OF ty] focused_at [OF ty] apart from_old to_new this]
  obtain h1 w where h1: "into ?from ?to h = (Done (), h1)" "overwritten ?to w h h1"
    "within {hp_next h..<hp_next h1} R h1 w (xs ! k)" by blast
  have pres: "preserves (- {b}) h h1" using h1(2) by (rule overwritten_preserves) simp
  have arr: "ct_proj ty (hp_cells h1 b) = Some (ws[k := w])"
    using h1(2) Suc(7,8) ty by (simp add: overwritten_def at_def ctype_ok_def)
  have run: "body i o' k h = (Done (), h1)"
    using Suc(4,5) h1(1) k(1) refs(4)
    by (simp add: body_def index_def go_run load_run t)
  have step: "\<exists>h' ws'. block (map (body i o') [Suc k..<n]) h1 = (Done (), h') \<and>
    preserves (- {b}) h1 h' \<and> ct_proj ty (hp_cells h' b) = Some ws' \<and> length ws' = n \<and>
    (\<forall>j < n. within {Suc b..<hp_next h'} R h' (ws' ! j) (xs ! j))"
  proof (rule Suc(1) [OF k(3)])
    show "deref i h1 = Some (Some s)" "deref o' h1 = Some (Some t)" "elems ty h1 s = Some vs"
      using refs Suc(4-6) by (auto intro!: preserves_deref [OF pres] preserves_elems [OF pres])
    show "ct_proj ty (hp_cells h1 b) = Some (ws[k := w])" by (rule arr)
    show "b < hp_next h1" using Suc(7) overwritten_next [OF h1(2)] by simp
    show "within {..<b} R h1 (vs ! j) (xs ! j)" if "j < n" for j
      by (rule local_reads [OF Suc(10) [OF that] preserves_mono [OF pres]]) auto
    show "within {Suc b..<hp_next h1} R h1 (ws[k := w] ! j) (xs ! j)" if "j < Suc k" for j
    proof (cases "j = k")
      case True
      then show ?thesis using h1(3) Suc(7,9) k(1) by (auto intro: within_mono)
    next
      case False
      with that have "within {Suc b..<hp_next h} R h1 (ws ! j) (xs ! j)"
        by (intro local_reads [OF Suc(11) preserves_mono [OF pres]]) auto
      with False show ?thesis using overwritten_next [OF h1(2)] by (auto intro: within_mono)
    qed
  qed (use Suc(9) k(1) in simp_all)
  then show ?case
    using run preserves_trans [OF pres] by (auto simp: k(2) block_def go_run)
qed

lemma slice_field:
  assumes ty: "ctype_ok ty"
  shows "field_copier (slice_rep ty R) (copy_slice ty zero into)"
proof (intro field_copier.intro field_copier_axioms.intro slice_representation, goal_cases)
  case (1 i o' h p y)
  show ?case
  proof (cases p)
    case None
    with 1 have "copy_slice ty zero into i o' h = (Done (), h)" "overwritten o' None h h" "y = None"
      by (auto simp: copy_slice_def go_run load_run overwritten_same within_slice)
    with None show ?thesis by (fastforce simp: within_slice)
  next
    case (Some s)
    let ?b = "hp_next h" and ?n = "sl_len s"
    let ?t = "\<lparr>sl_base = ?b, sl_off = 0, sl_len = ?n, sl_cap = ?n\<rparr>"
    let ?h2 = "written o' (Some ?t) (extended (ct_inj ty (replicate ?n zero)) h)"
    from 1(6) Some obtain vs xs where vs: "sl_base s \<noteq> ref_addr o'" "elems ty h s = Some vs"
      "list_all2 (within (- {ref_addr o'}) R h) vs xs" "y = Some xs" by (auto simp: within_slice)
    have old: "ref_addr i < ?b" "ref_addr o' < ?b" "sl_base s < ?b"
      using 1(4,5) vs(2) by (auto dest: deref_addr elems_base)
    have len: "length vs = ?n" using vs(2) by (auto simp: elems_def split: if_splits option.splits)
    have pres: "preserves (- {ref_addr o'}) h ?h2"
      by (rule preserves_trans [OF preserves_extended preserves_written]) simp
    have fi: "deref i ?h2 = Some (Some s)"
      using 1(3,4) Some by (simp add: deref_written_other deref_extended_old)
    have fo: "deref o' ?h2 = Some (Some ?t)"
      using 1(2,5) by (simp add: deref_written deref_extended_old)
    have arr: "ct_proj ty (hp_cells ?h2 ?b) = Some (replicate ?n zero)"
      using old(2) ty by (simp add: hp_cells_written hp_cells_extended ctype_ok_def)
    have elems: "elems ty ?h2 s = Some vs"
      by (rule preserves_elems [OF pres _ vs(2)]) (use vs(1) in simp)
    have src: "within {..<?b} R ?h2 (vs ! j) (xs ! j)" if "j < ?n" for j
    proof -
      from vs(3) that len have "within (- {ref_addr o'}) R h (vs ! j) (xs ! j)"
        by (simp add: list_all2_nthD)
      then show ?thesis
        by (intro within_mono [OF local_reads [OF allocated preserves_mono [OF pres]]]) auto
    qed
    have xs: "length xs = ?n" using vs(3) len by (simp add: list_all2_lengthD)
    obtain h' ws where h': "block (map (\<lambda>j. bind_go (index ty i j) (\<lambda>from.
            bind_go (index ty o' j) (\<lambda>to. into from to))) [0..<?n]) ?h2 = (Done (), h')"
      "preserves (- {?b}) ?h2 h'" "ct_proj ty (hp_cells h' ?b) = Some ws" "length ws = ?n"
      "\<forall>j < ?n. within {Suc ?b..<hp_next h'} R h' (ws ! j) (xs ! j)"
      using slice_loop [OF ty refl old refl xs fi fo elems _ arr _ src, of 0] by auto
    have "copy_slice ty zero into i o' h = (Done (), h')"
      using 1 Some h'(1)
      by (simp add: copy_slice_def go_run load_run make_run store_run [OF deref_extended_old])
    moreover have "overwritten o' (Some ?t) h h'"
      by (rule overwritten_by_new [OF old(2) preserves_mono [OF h'(2)]]) auto
    moreover have "within {?b..<hp_next h'} (slice_rep ty R) h' (Some ?t) y"
      using h'(3-5) vs(4) xs preserves_next [OF h'(2)]
      by (auto simp: within_slice elems_def list_all2_conv_all_nth intro: within_mono)
    ultimately show ?thesis by blast
  qed
qed

text \<open>\<^verbatim>\<open>DeepCopy\<close>: nil for nil; otherwise a new variable that reads the same and owns new cells only.\<close>

lemma deep_copy_copies:
  assumes ty: "ctype_ok ty" and p: "rep_read (ptr_rep ty R) h p = Some y"
  shows "\<exists>q h'. deep_copy ty zero into p h = (Done q, h') \<and> preserves UNIV h h' \<and>
    within {hp_next h..<hp_next h'} (ptr_rep ty R) h' q y"
proof (cases p)
  case None
  with p show ?thesis
    by (auto simp: deep_copy_def go_run within_ptr preserves_def rep_read_ptr)
next
  case (Some l)
  let ?n = "hp_next h" and ?h1 = "extended (ct_inj ty [zero]) h"
  from p Some obtain v x where v: "deref (at ty l) h = Some v" "within UNIV R h v x" "y = Some x"
    by (auto simp: rep_read_ptr within_ptr)
  have old: "fst l < ?n" using deref_addr [OF v(1)] by simp
  have apart: "ref_addr (at ty l) \<noteq> ref_addr (at ty (?n, 0))" using old by simp
  have from_old: "deref (at ty l) ?h1 = Some v" by (rule deref_extended_old [OF v(1)])
  have src: "within (- {ref_addr (at ty (?n, 0))}) R ?h1 v x"
    by (rule within_mono [OF local_reads [OF allocated [OF v(2)] preserves_extended]]) auto
  note to_new = deref_extended_new [OF ty]
  from copies_into [OF focused_at [OF ty] focused_at [OF ty] apart from_old to_new src]
  obtain h' v' where h': "into (at ty l) (at ty (?n, 0)) ?h1 = (Done (), h')"
    "overwritten (at ty (?n, 0)) v' ?h1 h'" "within {hp_next ?h1..<hp_next h'} R h' v' x" by blast
  have "preserves (- {?n}) ?h1 h'" by (rule overwritten_preserves [OF h'(2)]) simp
  then have "preserves UNIV h h'" by (auto simp: preserves_def hp_cells_extended)
  moreover have "within {?n..<hp_next h'} (ptr_rep ty R) h' (Some (?n, 0)) y"
    using v(3) within_mono [OF h'(3)] overwritten_deref [OF focused_at [OF ty] to_new h'(2)]
      overwritten_next [OF h'(2)]
    by (simp add: within_ptr)
  ultimately show ?thesis using Some h'(1) by (auto simp: deep_copy_def go_run new_run)
qed

end

lemma array_field:
  assumes ty: "ctype_ok ty"
  shows "field_copier (slice_rep ty val_rep) (copy_array ty zero)"
proof (intro field_copier.intro field_copier_axioms.intro plain.slice_representation, goal_cases)
  case (1 i o' h p y)
  show ?case
  proof (cases p)
    case None
    with 1 have "copy_array ty zero i o' h = (Done (), h)" "overwritten o' None h h" "y = None"
      by (auto simp: copy_array_def go_run load_run overwritten_same within_slice)
    with None show ?thesis by (fastforce simp: within_slice)
  next
    case (Some s)
    let ?b = "hp_next h" and ?n = "sl_len s"
    let ?t = "\<lparr>sl_base = ?b, sl_off = 0, sl_len = ?n, sl_cap = ?n\<rparr>"
    let ?h2 = "written o' (Some ?t) (extended (ct_inj ty (replicate ?n zero)) h)"
    from 1(6) Some obtain vs where vs: "sl_base s \<noteq> ref_addr o'" "elems ty h s = Some vs" "y = Some vs"
      by (auto simp: within_slice list_all2_within_val)
    let ?h3 = "?h2\<lparr>hp_cells := (hp_cells ?h2)(?b := ct_inj ty vs)\<rparr>"
    have old: "ref_addr o' < ?b" "sl_base s < ?b"
      using 1(5) vs(2) by (auto dest: deref_addr elems_base)
    have len: "length vs = ?n" using vs(2) by (auto simp: elems_def split: if_splits option.splits)
    have "preserves (- {ref_addr o'}) h ?h2"
      by (rule preserves_trans [OF preserves_extended preserves_written]) simp
    then have "elems ty ?h2 s = Some vs"
      by (rule preserves_elems) (use vs(1,2) in simp_all)
    moreover have arr: "ct_proj ty (hp_cells ?h2 ?b) = Some (replicate ?n zero)"
      using old(1) ty by (simp add: hp_cells_written hp_cells_extended ctype_ok_def)
    moreover from arr have "elems ty ?h2 ?t = Some (replicate ?n zero)" by (simp add: elems_def)
    ultimately have "copy_elems ty ?t s ?h2 = (Done (), ?h3)"
      using len by (simp add: copy_elems_def Let_def)
    then have "copy_array ty zero i o' h = (Done (), ?h3)"
      using 1 Some
      by (simp add: copy_array_def go_run load_run make_run store_run [OF deref_extended_old])
    moreover have "overwritten o' (Some ?t) h ?h3"
      by (rule overwritten_by_new [OF old(1)]) (auto simp: preserves_def)
    moreover have "within {?b..<hp_next ?h3} (slice_rep ty val_rep) ?h3 (Some ?t) y"
      using ty len vs(3) by (simp add: within_slice elems_def ctype_ok_def list_all2_within_val)
    ultimately show ?thesis by blast
  qed
qed

section \<open>Copying field by field\<close>

text \<open>
  \<open>runs h0 o' w D m Q\<close>: started in a heap that is \<open>h0\<close> with \<open>o'\<close> overwritten by \<open>w\<close> and where \<open>D\<close>
  holds of the new cells, \<open>m\<close> returns, changes old cells only at \<open>o'\<close>, and \<open>Q\<close> holds of the heap and
  the value it leaves there.
\<close>

definition runs :: "'c heap \<Rightarrow> ('c, 'v) ref \<Rightarrow> 'v \<Rightarrow> ('c heap \<Rightarrow> bool) \<Rightarrow> ('c heap, unit) go
    \<Rightarrow> ('c heap \<Rightarrow> 'v \<Rightarrow> bool) \<Rightarrow> bool" where
  "runs h0 o' w D m Q \<longleftrightarrow> (\<forall>h. overwritten o' w h0 h \<and> D h \<longrightarrow>
     (\<exists>h' w'. m h = (Done (), h') \<and> overwritten o' w' h0 h' \<and> Q h' w'))"

definition stable :: "nat \<Rightarrow> ('c heap \<Rightarrow> bool) \<Rightarrow> bool" where
  "stable n D \<longleftrightarrow> (\<forall>h h'. preserves {n..<hp_next h} h h' \<and> D h \<longrightarrow> D h')"

text \<open>The source and the target of a copy, before it starts.\<close>

definition setting :: "'c heap \<Rightarrow> ('c, 'v) ref \<Rightarrow> ('c, 'v) ref \<Rightarrow> 'v \<Rightarrow> bool" where
  "setting h0 i o' v \<longleftrightarrow> focused i \<and> focused o' \<and> ref_addr i \<noteq> ref_addr o' \<and>
     deref i h0 = Some v \<and> (\<exists>u. deref o' h0 = Some u)"

lemma stable_True: "stable n (\<lambda>h. True)"
  by (simp add: stable_def)

lemma stable_within:
  assumes "representation R" "stable n D"
  shows "stable n (\<lambda>h. D h \<and> within {n..<hp_next h} R h v x)"
  unfolding stable_def
proof (intro allI impI, elim conjE)
  fix h h' assume h: "preserves {n..<hp_next h} h h'" "D h" "within {n..<hp_next h} R h v x"
  then have "within {n..<hp_next h} R h' v x"
    using representation.local_reads [OF assms(1)] by blast
  then have "within {n..<hp_next h'} R h' v x"
    by (rule within_mono) (use preserves_next [OF h(1)] in auto)
  moreover have "D h'" using h(1,2) assms(2) unfolding stable_def by blast
  ultimately show "D h' \<and> within {n..<hp_next h'} R h' v x" by simp
qed

lemma runs_done: "(\<And>h. D h \<Longrightarrow> Q h w) \<Longrightarrow> runs h0 o' w D (block []) Q"
  by (auto simp: runs_def block_def go_run)

lemma runs_field:
  assumes "field_copier R op" "lawful_field g u" "setting h0 i o' v"
    and src: "within (- {ref_addr o'}) R h0 (g v) y" and "g w = g v" and D: "stable (hp_next h0) D"
    and rest: "\<And>c. stable (hp_next h0) (\<lambda>h. D h \<and> within {hp_next h0..<hp_next h} R h c y) \<Longrightarrow>
      runs h0 o' (u (\<lambda>_. c) w) (\<lambda>h. D h \<and> within {hp_next h0..<hp_next h} R h c y) (block ms) Q"
  shows "runs h0 o' w D (block (op (fld g u i) (fld g u o') # ms)) Q"
  unfolding runs_def
proof (intro allI impI, elim conjE)
  fix h assume h: "overwritten o' w h0 h" "D h"
  from assms(3) obtain u0 where s: "focused i" "focused o'" "ref_addr i \<noteq> ref_addr o'"
    "deref i h0 = Some v" "deref o' h0 = Some u0" by (auto simp: setting_def)
  have fo: "deref o' h = Some w" by (rule overwritten_deref [OF s(2,5) h(1)])
  have fi: "deref i h = Some v" by (rule overwritten_deref_other [OF h(1) s(3,4)])
  have pres: "preserves (- {ref_addr o'}) h0 h" by (rule overwritten_preserves [OF h(1)]) simp
  have "within (- {ref_addr (fld g u o')}) R h (g v) y"
    using representation.local_reads [OF field_copier.axioms(1) [OF assms(1)] src pres] by simp
  from field_copier.copies_field [OF assms(1) focused_fld [OF s(1) assms(2)]
      focused_fld [OF s(2) assms(2)] _ _ _ this] s(3) fi fo assms(5)
  obtain h1 c where h1: "op (fld g u i) (fld g u o') h = (Done (), h1)"
    "overwritten (fld g u o') c h h1" "within {hp_next h..<hp_next h1} R h1 c y" by auto
  have o1: "overwritten o' (u (\<lambda>_. c) w) h0 h1" by (rule overwritten_fld [OF h(1) h1(2) s(2,5)])
  have "ref_addr o' < hp_next h0" by (rule deref_addr [OF s(5)])
  then have "preserves {hp_next h0..<hp_next h} h h1" by (intro overwritten_preserves [OF h1(2)]) simp
  with D h(2) have "D h1" unfolding stable_def by blast
  moreover have "within {hp_next h0..<hp_next h1} R h1 c y"
    using overwritten_next [OF h(1)] by (intro within_mono [OF h1(3)]) auto
  ultimately obtain h2 w2 where "block ms h1 = (Done (), h2)" "overwritten o' w2 h0 h2" "Q h2 w2"
    using rest [OF stable_within [OF field_copier.axioms(1) [OF assms(1)] D]] o1
    unfolding runs_def by blast
  with h1(1) show "\<exists>h' w'. block (op (fld g u i) (fld g u o') # ms) h = (Done (), h') \<and>
      overwritten o' w' h0 h' \<and> Q h' w'"
    by (auto simp: block_def go_run)
qed

text \<open>The contracts of the idioms, from the contract for what they copy.\<close>

lemma field_copiers [copier]:
  "deep_copier R into \<Longrightarrow> field_copier R into"
  "ctype_ok ty \<Longrightarrow> deep_copier R into \<Longrightarrow> field_copier (ptr_rep ty R) (copy_pointer ty zero into)"
  "ctype_ok ty \<Longrightarrow> deep_copier R into \<Longrightarrow> field_copier (slice_rep ty R) (copy_slice ty zero into)"
  "ctype_ok ty \<Longrightarrow> field_copier (slice_rep ty val_rep) (copy_array ty zero)"
  "representation R \<Longrightarrow> copies_value R copy \<Longrightarrow> field_copier R (copy_value copy)"
  "field_copier R op \<Longrightarrow> field_copier (map_rep f R) op"
  "deep_copier val_rep assign"
  by (simp_all add: deep_copier.axioms deep_copier.pointer_field deep_copier.slice_field array_field
      value_field field_copier_map plain.deep_copier_axioms)
    (simp add: deep_copier_def deep_copier_axioms_def field_copier_def field_copier_axioms_def)

text \<open>A struct assigned as a whole and then field by field is deeply copied when every field is.\<close>

lemma deep_copier_by_fields:
  assumes "representation R"
    and into: "\<And>i o'. into i o' = block (assign i o' # steps i o')"
    and steps: "\<And>h0 i o' v x. setting h0 i o' v \<Longrightarrow> within (- {ref_addr o'}) R h0 v x \<Longrightarrow>
      runs h0 o' v (\<lambda>h. True) (block (steps i o')) (\<lambda>h w. within {hp_next h0..<hp_next h} R h w x)"
  shows "deep_copier R into"
proof (intro deep_copier.intro deep_copier_axioms.intro assms(1), goal_cases)
  case (1 i o' h v u x)
  then have "setting h i o' v" by (simp add: setting_def)
  from steps [OF this 1(6)] obtain h' w where "block (steps i o') (written o' v h) = (Done (), h')"
    "overwritten o' w h h'" "within {hp_next h..<hp_next h'} R h' w x"
    unfolding runs_def by (meson overwritten_written)
  with 1(4,5) show ?case by (auto simp: into block_def go_run assign_run)
qed

end
