(* ===== verification/Api_Memory.thy ===== *)
theory Api_Memory
  imports Limitador_Types Heap_Copy
begin

text \<open>
  The API types as they lie in memory: the structs of \<^verbatim>\<open>api/v1alpha1/limitador_types.go\<close> with their
  pointers and slices as such, the cells of the heap, and the Kubernetes libraries whose structs they
  embed. A library struct is an opaque value of type \<open>'r\<close>: what it reads as, its zero value and its
  \<^verbatim>\<open>DeepCopyInto\<close> are the fields of \<open>library\<close>. Each struct has its zero value and its
  representation, which reads it as the value type of \<open>Limitador_Types\<close>.
\<close>

section \<open>Structs with pointers\<close>

definition zeroTypeMeta :: TypeMeta where
  "zeroTypeMeta = \<lparr>tm_Kind = [], tm_APIVersion = []\<rparr>"

record mTransportProtocol =
  mtp_Port :: ptr

record mListener =
  mli_HTTP :: ptr
  mli_GRPC :: ptr

record mRedis =
  mre_ConfigSecretRef :: ptr

record mRedisCachedOptions =
  mrco_FlushPeriod :: ptr
  mrco_MaxCached :: ptr
  mrco_ResponseTimeout :: ptr
  mrco_BatchSize :: ptr

record mRedisCached =
  mrc_ConfigSecretRef :: ptr
  mrc_Options :: ptr

record 'r mPersistentVolumeClaimResources =
  mpvr_Requests :: 'r

record mPVCGenericSpec =
  mpg_StorageClassName :: ptr
  mpg_Resources :: ptr
  mpg_VolumeName :: ptr

record mDiskSpec =
  mdi_PVC :: ptr
  mdi_Optimize :: ptr

record mStorage =
  msto_Redis :: ptr
  msto_RedisCached :: ptr
  msto_Disk :: ptr

record mRateLimit =
  mrl_Conditions :: "slice option"
  mrl_MaxValue :: goint
  mrl_Namespace :: string
  mrl_Seconds :: goint
  mrl_Variables :: "slice option"
  mrl_Name :: string

record mPodDisruptionBudgetType =
  mpdt_MaxUnavailable :: ptr
  mpdt_MinAvailable :: ptr

record mLimitadorSpec =
  msp_Affinity :: ptr
  msp_Replicas :: ptr
  msp_Version :: ptr
  msp_Listener :: ptr
  msp_Storage :: ptr
  msp_RateLimitHeaders :: ptr
  msp_Telemetry :: ptr
  msp_Tracing :: ptr
  msp_Limits :: "slice option"
  msp_PodDisruptionBudget :: ptr
  msp_ResourceRequirements :: ptr
  msp_Verbosity :: ptr
  msp_Image :: ptr
  msp_ImagePullSecrets :: "slice option"
  msp_MetricLabelsDefault :: ptr

record mLimitadorStatus =
  msta_ObservedGeneration :: int64
  msta_Conditions :: "slice option"
  msta_Service :: ptr

record 'r mLimitador =
  mlim_TypeMeta :: TypeMeta
  mlim_ObjectMeta :: 'r
  mlim_Spec :: mLimitadorSpec
  mlim_Status :: mLimitadorStatus

record 'r mLimitadorList =
  mll_TypeMeta :: TypeMeta
  mll_ListMeta :: 'r
  mll_Items :: "slice option"

section \<open>Cells\<close>

text \<open>
  One constructor for each type of which the code allocates variables or arrays; \<open>C_private\<close> is for
  the cells that library structs point to.
\<close>

datatype 'r cell =
    C_int32 "int32 list"
  | C_int "goint list"
  | C_string "string list"
  | C_IntOrString "IntOrString list"
  | C_LocalObjectReference "LocalObjectReference list"
  | C_Tracing "Tracing list"
  | C_Ports "Ports list"
  | C_LimitadorService "LimitadorService list"
  | C_TransportProtocol "mTransportProtocol list"
  | C_Listener "mListener list"
  | C_Redis "mRedis list"
  | C_RedisCachedOptions "mRedisCachedOptions list"
  | C_RedisCached "mRedisCached list"
  | C_PersistentVolumeClaimResources "'r mPersistentVolumeClaimResources list"
  | C_PVCGenericSpec "mPVCGenericSpec list"
  | C_DiskSpec "mDiskSpec list"
  | C_Storage "mStorage list"
  | C_RateLimit "mRateLimit list"
  | C_PodDisruptionBudgetType "mPodDisruptionBudgetType list"
  | C_LimitadorSpec "mLimitadorSpec list"
  | C_LimitadorStatus "mLimitadorStatus list"
  | C_Limitador "'r mLimitador list"
  | C_LimitadorList "'r mLimitadorList list"
  | C_Affinity "'r list"
  | C_ResourceRequirements "'r list"
  | C_Condition "'r list"
  | C_private "'r list"

text \<open>The view of a cell as an array of the type.\<close>

definition t_int32 :: "('r cell, int32) ctype" where
  "t_int32 = \<lparr>ct_inj = C_int32, ct_proj = (\<lambda>c. case c of C_int32 xs \<Rightarrow> Some xs | _ \<Rightarrow> None)\<rparr>"

definition t_int :: "('r cell, goint) ctype" where
  "t_int = \<lparr>ct_inj = C_int, ct_proj = (\<lambda>c. case c of C_int xs \<Rightarrow> Some xs | _ \<Rightarrow> None)\<rparr>"

definition t_string :: "('r cell, string) ctype" where
  "t_string = \<lparr>ct_inj = C_string, ct_proj = (\<lambda>c. case c of C_string xs \<Rightarrow> Some xs | _ \<Rightarrow> None)\<rparr>"

definition t_IntOrString :: "('r cell, IntOrString) ctype" where
  "t_IntOrString = \<lparr>ct_inj = C_IntOrString, ct_proj = (\<lambda>c. case c of C_IntOrString xs \<Rightarrow> Some xs | _ \<Rightarrow> None)\<rparr>"

definition t_LocalObjectReference :: "('r cell, LocalObjectReference) ctype" where
  "t_LocalObjectReference = \<lparr>ct_inj = C_LocalObjectReference, ct_proj = (\<lambda>c. case c of C_LocalObjectReference xs \<Rightarrow> Some xs | _ \<Rightarrow> None)\<rparr>"

definition t_Tracing :: "('r cell, Tracing) ctype" where
  "t_Tracing = \<lparr>ct_inj = C_Tracing, ct_proj = (\<lambda>c. case c of C_Tracing xs \<Rightarrow> Some xs | _ \<Rightarrow> None)\<rparr>"

definition t_Ports :: "('r cell, Ports) ctype" where
  "t_Ports = \<lparr>ct_inj = C_Ports, ct_proj = (\<lambda>c. case c of C_Ports xs \<Rightarrow> Some xs | _ \<Rightarrow> None)\<rparr>"

definition t_LimitadorService :: "('r cell, LimitadorService) ctype" where
  "t_LimitadorService = \<lparr>ct_inj = C_LimitadorService, ct_proj = (\<lambda>c. case c of C_LimitadorService xs \<Rightarrow> Some xs | _ \<Rightarrow> None)\<rparr>"

definition t_TransportProtocol :: "('r cell, mTransportProtocol) ctype" where
  "t_TransportProtocol = \<lparr>ct_inj = C_TransportProtocol, ct_proj = (\<lambda>c. case c of C_TransportProtocol xs \<Rightarrow> Some xs | _ \<Rightarrow> None)\<rparr>"

definition t_Listener :: "('r cell, mListener) ctype" where
  "t_Listener = \<lparr>ct_inj = C_Listener, ct_proj = (\<lambda>c. case c of C_Listener xs \<Rightarrow> Some xs | _ \<Rightarrow> None)\<rparr>"

definition t_Redis :: "('r cell, mRedis) ctype" where
  "t_Redis = \<lparr>ct_inj = C_Redis, ct_proj = (\<lambda>c. case c of C_Redis xs \<Rightarrow> Some xs | _ \<Rightarrow> None)\<rparr>"

definition t_RedisCachedOptions :: "('r cell, mRedisCachedOptions) ctype" where
  "t_RedisCachedOptions = \<lparr>ct_inj = C_RedisCachedOptions, ct_proj = (\<lambda>c. case c of C_RedisCachedOptions xs \<Rightarrow> Some xs | _ \<Rightarrow> None)\<rparr>"

definition t_RedisCached :: "('r cell, mRedisCached) ctype" where
  "t_RedisCached = \<lparr>ct_inj = C_RedisCached, ct_proj = (\<lambda>c. case c of C_RedisCached xs \<Rightarrow> Some xs | _ \<Rightarrow> None)\<rparr>"

definition t_PersistentVolumeClaimResources :: "('r cell, 'r mPersistentVolumeClaimResources) ctype" where
  "t_PersistentVolumeClaimResources = \<lparr>ct_inj = C_PersistentVolumeClaimResources, ct_proj = (\<lambda>c. case c of C_PersistentVolumeClaimResources xs \<Rightarrow> Some xs | _ \<Rightarrow> None)\<rparr>"

definition t_PVCGenericSpec :: "('r cell, mPVCGenericSpec) ctype" where
  "t_PVCGenericSpec = \<lparr>ct_inj = C_PVCGenericSpec, ct_proj = (\<lambda>c. case c of C_PVCGenericSpec xs \<Rightarrow> Some xs | _ \<Rightarrow> None)\<rparr>"

definition t_DiskSpec :: "('r cell, mDiskSpec) ctype" where
  "t_DiskSpec = \<lparr>ct_inj = C_DiskSpec, ct_proj = (\<lambda>c. case c of C_DiskSpec xs \<Rightarrow> Some xs | _ \<Rightarrow> None)\<rparr>"

definition t_Storage :: "('r cell, mStorage) ctype" where
  "t_Storage = \<lparr>ct_inj = C_Storage, ct_proj = (\<lambda>c. case c of C_Storage xs \<Rightarrow> Some xs | _ \<Rightarrow> None)\<rparr>"

definition t_RateLimit :: "('r cell, mRateLimit) ctype" where
  "t_RateLimit = \<lparr>ct_inj = C_RateLimit, ct_proj = (\<lambda>c. case c of C_RateLimit xs \<Rightarrow> Some xs | _ \<Rightarrow> None)\<rparr>"

definition t_PodDisruptionBudgetType :: "('r cell, mPodDisruptionBudgetType) ctype" where
  "t_PodDisruptionBudgetType = \<lparr>ct_inj = C_PodDisruptionBudgetType, ct_proj = (\<lambda>c. case c of C_PodDisruptionBudgetType xs \<Rightarrow> Some xs | _ \<Rightarrow> None)\<rparr>"

definition t_LimitadorSpec :: "('r cell, mLimitadorSpec) ctype" where
  "t_LimitadorSpec = \<lparr>ct_inj = C_LimitadorSpec, ct_proj = (\<lambda>c. case c of C_LimitadorSpec xs \<Rightarrow> Some xs | _ \<Rightarrow> None)\<rparr>"

definition t_LimitadorStatus :: "('r cell, mLimitadorStatus) ctype" where
  "t_LimitadorStatus = \<lparr>ct_inj = C_LimitadorStatus, ct_proj = (\<lambda>c. case c of C_LimitadorStatus xs \<Rightarrow> Some xs | _ \<Rightarrow> None)\<rparr>"

definition t_Limitador :: "('r cell, 'r mLimitador) ctype" where
  "t_Limitador = \<lparr>ct_inj = C_Limitador, ct_proj = (\<lambda>c. case c of C_Limitador xs \<Rightarrow> Some xs | _ \<Rightarrow> None)\<rparr>"

definition t_LimitadorList :: "('r cell, 'r mLimitadorList) ctype" where
  "t_LimitadorList = \<lparr>ct_inj = C_LimitadorList, ct_proj = (\<lambda>c. case c of C_LimitadorList xs \<Rightarrow> Some xs | _ \<Rightarrow> None)\<rparr>"

definition t_Affinity :: "('r cell, 'r) ctype" where
  "t_Affinity = \<lparr>ct_inj = C_Affinity, ct_proj = (\<lambda>c. case c of C_Affinity xs \<Rightarrow> Some xs | _ \<Rightarrow> None)\<rparr>"

definition t_ResourceRequirements :: "('r cell, 'r) ctype" where
  "t_ResourceRequirements = \<lparr>ct_inj = C_ResourceRequirements, ct_proj = (\<lambda>c. case c of C_ResourceRequirements xs \<Rightarrow> Some xs | _ \<Rightarrow> None)\<rparr>"

definition t_Condition :: "('r cell, 'r) ctype" where
  "t_Condition = \<lparr>ct_inj = C_Condition, ct_proj = (\<lambda>c. case c of C_Condition xs \<Rightarrow> Some xs | _ \<Rightarrow> None)\<rparr>"

lemmas ctype_defs =
  t_int32_def t_int_def t_string_def t_IntOrString_def
  t_LocalObjectReference_def t_Tracing_def t_Ports_def t_LimitadorService_def
  t_TransportProtocol_def t_Listener_def t_Redis_def t_RedisCachedOptions_def
  t_RedisCached_def t_PersistentVolumeClaimResources_def t_PVCGenericSpec_def t_DiskSpec_def
  t_Storage_def t_RateLimit_def t_PodDisruptionBudgetType_def t_LimitadorSpec_def
  t_LimitadorStatus_def t_Limitador_def t_LimitadorList_def t_Affinity_def
  t_ResourceRequirements_def t_Condition_def

lemma ctypes_ok [simp]:
  "ctype_ok t_int32"
  "ctype_ok t_int"
  "ctype_ok t_string"
  "ctype_ok t_IntOrString"
  "ctype_ok t_LocalObjectReference"
  "ctype_ok t_Tracing"
  "ctype_ok t_Ports"
  "ctype_ok t_LimitadorService"
  "ctype_ok t_TransportProtocol"
  "ctype_ok t_Listener"
  "ctype_ok t_Redis"
  "ctype_ok t_RedisCachedOptions"
  "ctype_ok t_RedisCached"
  "ctype_ok t_PersistentVolumeClaimResources"
  "ctype_ok t_PVCGenericSpec"
  "ctype_ok t_DiskSpec"
  "ctype_ok t_Storage"
  "ctype_ok t_RateLimit"
  "ctype_ok t_PodDisruptionBudgetType"
  "ctype_ok t_LimitadorSpec"
  "ctype_ok t_LimitadorStatus"
  "ctype_ok t_Limitador"
  "ctype_ok t_LimitadorList"
  "ctype_ok t_Affinity"
  "ctype_ok t_ResourceRequirements"
  "ctype_ok t_Condition"
  by (auto simp: ctype_ok_def ctype_defs split: cell.splits)

section \<open>Zero values\<close>

text \<open>What \<^verbatim>\<open>new\<close> and \<^verbatim>\<open>make\<close> put into memory.\<close>

definition zero_LocalObjectReference :: LocalObjectReference where
  "zero_LocalObjectReference = \<lparr>lor_Name = []\<rparr>"

definition zero_Tracing :: Tracing where
  "zero_Tracing = \<lparr>trc_Endpoint = []\<rparr>"

definition zero_Ports :: Ports where
  "zero_Ports = \<lparr>po_HTTP = 0, po_GRPC = 0\<rparr>"

definition zero_LimitadorService :: LimitadorService where
  "zero_LimitadorService = \<lparr>lsv_Host = [], lsv_Ports = zero_Ports\<rparr>"

definition zero_TransportProtocol :: mTransportProtocol where
  "zero_TransportProtocol = \<lparr>mtp_Port = None\<rparr>"

definition zero_Listener :: mListener where
  "zero_Listener = \<lparr>mli_HTTP = None, mli_GRPC = None\<rparr>"

definition zero_Redis :: mRedis where
  "zero_Redis = \<lparr>mre_ConfigSecretRef = None\<rparr>"

definition zero_RedisCachedOptions :: mRedisCachedOptions where
  "zero_RedisCachedOptions = \<lparr>mrco_FlushPeriod = None, mrco_MaxCached = None, mrco_ResponseTimeout = None,
     mrco_BatchSize = None\<rparr>"

definition zero_RedisCached :: mRedisCached where
  "zero_RedisCached = \<lparr>mrc_ConfigSecretRef = None, mrc_Options = None\<rparr>"

definition zero_PVCGenericSpec :: mPVCGenericSpec where
  "zero_PVCGenericSpec = \<lparr>mpg_StorageClassName = None, mpg_Resources = None, mpg_VolumeName = None\<rparr>"

definition zero_DiskSpec :: mDiskSpec where
  "zero_DiskSpec = \<lparr>mdi_PVC = None, mdi_Optimize = None\<rparr>"

definition zero_Storage :: mStorage where
  "zero_Storage = \<lparr>msto_Redis = None, msto_RedisCached = None, msto_Disk = None\<rparr>"

definition zero_RateLimit :: mRateLimit where
  "zero_RateLimit = \<lparr>mrl_Conditions = None, mrl_MaxValue = 0, mrl_Namespace = [], mrl_Seconds = 0,
     mrl_Variables = None, mrl_Name = []\<rparr>"

definition zero_PodDisruptionBudgetType :: mPodDisruptionBudgetType where
  "zero_PodDisruptionBudgetType = \<lparr>mpdt_MaxUnavailable = None, mpdt_MinAvailable = None\<rparr>"

definition zero_LimitadorSpec :: mLimitadorSpec where
  "zero_LimitadorSpec = \<lparr>msp_Affinity = None, msp_Replicas = None, msp_Version = None, msp_Listener = None,
     msp_Storage = None, msp_RateLimitHeaders = None, msp_Telemetry = None, msp_Tracing =
     None, msp_Limits = None, msp_PodDisruptionBudget = None, msp_ResourceRequirements =
     None, msp_Verbosity = None, msp_Image = None, msp_ImagePullSecrets = None,
     msp_MetricLabelsDefault = None\<rparr>"

definition zero_LimitadorStatus :: mLimitadorStatus where
  "zero_LimitadorStatus = \<lparr>msta_ObservedGeneration = 0, msta_Conditions = None, msta_Service = None\<rparr>"

section \<open>Library structs\<close>

record 'r library =
  lib_Affinity :: "('r cell, 'r, Affinity) rep"
  zero_Affinity :: 'r
  Affinity_DeepCopyInto :: "('r cell, 'r) ref \<Rightarrow> ('r cell, 'r) ref \<Rightarrow> ('r cell heap, unit) go"
  lib_ResourceRequirements :: "('r cell, 'r, ResourceRequirements) rep"
  zero_ResourceRequirements :: 'r
  ResourceRequirements_DeepCopyInto :: "('r cell, 'r) ref \<Rightarrow> ('r cell, 'r) ref \<Rightarrow> ('r cell heap, unit) go"
  lib_ObjectMeta :: "('r cell, 'r, ObjectMeta) rep"
  zero_ObjectMeta :: 'r
  ObjectMeta_DeepCopyInto :: "('r cell, 'r) ref \<Rightarrow> ('r cell, 'r) ref \<Rightarrow> ('r cell heap, unit) go"
  lib_ListMeta :: "('r cell, 'r, ListMeta) rep"
  zero_ListMeta :: 'r
  ListMeta_DeepCopyInto :: "('r cell, 'r) ref \<Rightarrow> ('r cell, 'r) ref \<Rightarrow> ('r cell heap, unit) go"
  lib_Condition :: "('r cell, 'r, Condition) rep"
  zero_Condition :: 'r
  Condition_DeepCopyInto :: "('r cell, 'r) ref \<Rightarrow> ('r cell, 'r) ref \<Rightarrow> ('r cell heap, unit) go"
  lib_Quantity :: "('r cell, 'r, Quantity) rep"
  zero_Quantity :: 'r
  Quantity_DeepCopy :: "'r \<Rightarrow> ('r cell heap, 'r) go"

text \<open>
  The documented behaviour of the library's copying methods: \<^verbatim>\<open>DeepCopyInto\<close> copies the receiver into its
  argument, \<^verbatim>\<open>Quantity.DeepCopy\<close> returns a quantity that shares nothing with the receiver.
\<close>

definition library_ok :: "'r library \<Rightarrow> bool" where
  "library_ok L \<longleftrightarrow>
     deep_copier (lib_Affinity L) (Affinity_DeepCopyInto L) \<and>
     deep_copier (lib_ResourceRequirements L) (ResourceRequirements_DeepCopyInto L) \<and>
     deep_copier (lib_ObjectMeta L) (ObjectMeta_DeepCopyInto L) \<and>
     deep_copier (lib_ListMeta L) (ListMeta_DeepCopyInto L) \<and>
     deep_copier (lib_Condition L) (Condition_DeepCopyInto L) \<and>
     representation (lib_Quantity L) \<and> copies_value (lib_Quantity L) (Quantity_DeepCopy L)"

definition zero_PersistentVolumeClaimResources :: "'r library \<Rightarrow> 'r mPersistentVolumeClaimResources" where
  "zero_PersistentVolumeClaimResources L = \<lparr>mpvr_Requests = zero_Quantity L\<rparr>"

definition zero_Limitador :: "'r library \<Rightarrow> 'r mLimitador" where
  "zero_Limitador L = \<lparr>mlim_TypeMeta = zeroTypeMeta, mlim_ObjectMeta = zero_ObjectMeta L,
     mlim_Spec = zero_LimitadorSpec, mlim_Status = zero_LimitadorStatus\<rparr>"

definition zero_LimitadorList :: "'r library \<Rightarrow> 'r mLimitadorList" where
  "zero_LimitadorList L = \<lparr>mll_TypeMeta = zeroTypeMeta, mll_ListMeta = zero_ListMeta L, mll_Items = None\<rparr>"

section \<open>Representations of the API types\<close>

text \<open>Where the value type does not tell a nil slice from an empty one.\<close>

definition or_empty :: "'a list option \<Rightarrow> 'a list" where
  "or_empty xs = (case xs of None \<Rightarrow> [] | Some ys \<Rightarrow> ys)"

definition rep_TransportProtocol :: "('r cell, mTransportProtocol, TransportProtocol) rep" where
  "rep_TransportProtocol =
     rep_app mtp_Port (ptr_rep t_int32 val_rep) (
     rep_pure (\<lambda>v x1.
       \<lparr>tp_Port = x1\<rparr>))"

definition rep_Listener :: "('r cell, mListener, Listener) rep" where
  "rep_Listener =
     rep_app mli_HTTP (ptr_rep t_TransportProtocol rep_TransportProtocol) (
     rep_app mli_GRPC (ptr_rep t_TransportProtocol rep_TransportProtocol) (
     rep_pure (\<lambda>v x2 x1.
       \<lparr>li_HTTP = x1, li_GRPC = x2\<rparr>)))"

definition rep_Redis :: "('r cell, mRedis, Redis) rep" where
  "rep_Redis =
     rep_app mre_ConfigSecretRef (ptr_rep t_LocalObjectReference val_rep) (
     rep_pure (\<lambda>v x1.
       \<lparr>re_ConfigSecretRef = x1\<rparr>))"

definition rep_RedisCachedOptions :: "('r cell, mRedisCachedOptions, RedisCachedOptions) rep" where
  "rep_RedisCachedOptions =
     rep_app mrco_FlushPeriod (ptr_rep t_int val_rep) (
     rep_app mrco_MaxCached (ptr_rep t_int val_rep) (
     rep_app mrco_ResponseTimeout (ptr_rep t_int val_rep) (
     rep_app mrco_BatchSize (ptr_rep t_int val_rep) (
     rep_pure (\<lambda>v x4 x3 x2 x1.
       \<lparr>rco_FlushPeriod = x1, rco_MaxCached = x2, rco_ResponseTimeout = x3,
         rco_BatchSize = x4\<rparr>)))))"

definition rep_RedisCached :: "('r cell, mRedisCached, RedisCached) rep" where
  "rep_RedisCached =
     rep_app mrc_ConfigSecretRef (ptr_rep t_LocalObjectReference val_rep) (
     rep_app mrc_Options (ptr_rep t_RedisCachedOptions rep_RedisCachedOptions) (
     rep_pure (\<lambda>v x2 x1.
       \<lparr>rc_ConfigSecretRef = x1, rc_Options = x2\<rparr>)))"

definition rep_PersistentVolumeClaimResources :: "'r library \<Rightarrow> ('r cell, 'r mPersistentVolumeClaimResources, PersistentVolumeClaimResources) rep" where
  "rep_PersistentVolumeClaimResources L =
     rep_app mpvr_Requests (lib_Quantity L) (
     rep_pure (\<lambda>v x1.
       \<lparr>pvr_Requests = x1\<rparr>))"

definition rep_PVCGenericSpec :: "'r library \<Rightarrow> ('r cell, mPVCGenericSpec, PVCGenericSpec) rep" where
  "rep_PVCGenericSpec L =
     rep_app mpg_StorageClassName (ptr_rep t_string val_rep) (
     rep_app mpg_Resources (ptr_rep t_PersistentVolumeClaimResources (rep_PersistentVolumeClaimResources L)) (
     rep_app mpg_VolumeName (ptr_rep t_string val_rep) (
     rep_pure (\<lambda>v x3 x2 x1.
       \<lparr>pg_StorageClassName = x1, pg_Resources = x2, pg_VolumeName = x3\<rparr>))))"

definition rep_DiskSpec :: "'r library \<Rightarrow> ('r cell, mDiskSpec, DiskSpec) rep" where
  "rep_DiskSpec L =
     rep_app mdi_PVC (ptr_rep t_PVCGenericSpec (rep_PVCGenericSpec L)) (
     rep_app mdi_Optimize (ptr_rep t_string val_rep) (
     rep_pure (\<lambda>v x2 x1.
       \<lparr>di_PVC = x1, di_Optimize = x2\<rparr>)))"

definition rep_Storage :: "'r library \<Rightarrow> ('r cell, mStorage, Storage) rep" where
  "rep_Storage L =
     rep_app msto_Redis (ptr_rep t_Redis rep_Redis) (
     rep_app msto_RedisCached (ptr_rep t_RedisCached rep_RedisCached) (
     rep_app msto_Disk (ptr_rep t_DiskSpec (rep_DiskSpec L)) (
     rep_pure (\<lambda>v x3 x2 x1.
       \<lparr>sto_Redis = x1, sto_RedisCached = x2, sto_Disk = x3\<rparr>))))"

definition rep_RateLimit :: "('r cell, mRateLimit, RateLimit) rep" where
  "rep_RateLimit =
     rep_app mrl_Conditions (slice_rep t_string val_rep) (
     rep_app mrl_Variables (slice_rep t_string val_rep) (
     rep_pure (\<lambda>v x2 x1.
       \<lparr>rl_Conditions = x1, rl_MaxValue = mrl_MaxValue v,
         rl_Namespace = mrl_Namespace v, rl_Seconds = mrl_Seconds v, rl_Variables = x2,
         rl_Name = mrl_Name v\<rparr>)))"

definition rep_PodDisruptionBudgetType :: "('r cell, mPodDisruptionBudgetType, PodDisruptionBudgetType) rep" where
  "rep_PodDisruptionBudgetType =
     rep_app mpdt_MaxUnavailable (ptr_rep t_IntOrString val_rep) (
     rep_app mpdt_MinAvailable (ptr_rep t_IntOrString val_rep) (
     rep_pure (\<lambda>v x2 x1.
       \<lparr>pdt_MaxUnavailable = x1, pdt_MinAvailable = x2\<rparr>)))"

definition rep_LimitadorSpec :: "'r library \<Rightarrow> ('r cell, mLimitadorSpec, LimitadorSpec) rep" where
  "rep_LimitadorSpec L =
     rep_app msp_Affinity (ptr_rep t_Affinity (lib_Affinity L)) (
     rep_app msp_Replicas (ptr_rep t_int val_rep) (
     rep_app msp_Version (ptr_rep t_string val_rep) (
     rep_app msp_Listener (ptr_rep t_Listener rep_Listener) (
     rep_app msp_Storage (ptr_rep t_Storage (rep_Storage L)) (
     rep_app msp_RateLimitHeaders (ptr_rep t_string val_rep) (
     rep_app msp_Telemetry (ptr_rep t_string val_rep) (
     rep_app msp_Tracing (ptr_rep t_Tracing val_rep) (
     rep_app msp_Limits (slice_rep t_RateLimit rep_RateLimit) (
     rep_app msp_PodDisruptionBudget (ptr_rep t_PodDisruptionBudgetType rep_PodDisruptionBudgetType) (
     rep_app msp_ResourceRequirements (ptr_rep t_ResourceRequirements (lib_ResourceRequirements L)) (
     rep_app msp_Verbosity (ptr_rep t_int val_rep) (
     rep_app msp_Image (ptr_rep t_string val_rep) (
     rep_app msp_ImagePullSecrets (map_rep or_empty (slice_rep t_LocalObjectReference val_rep)) (
     rep_app msp_MetricLabelsDefault (ptr_rep t_string val_rep) (
     rep_pure (\<lambda>v x15 x14 x13 x12 x11 x10 x9 x8 x7 x6 x5 x4 x3 x2 x1.
       \<lparr>sp_Affinity = x1, sp_Replicas = x2, sp_Version = x3, sp_Listener = x4,
         sp_Storage = x5, sp_RateLimitHeaders = x6, sp_Telemetry = x7, sp_Tracing = x8,
         sp_Limits = x9, sp_PodDisruptionBudget = x10, sp_ResourceRequirements = x11,
         sp_Verbosity = x12, sp_Image = x13, sp_ImagePullSecrets = x14,
         sp_MetricLabelsDefault = x15\<rparr>))))))))))))))))"

definition rep_LimitadorStatus :: "'r library \<Rightarrow> ('r cell, mLimitadorStatus, LimitadorStatus) rep" where
  "rep_LimitadorStatus L =
     rep_app msta_Conditions (map_rep or_empty (slice_rep t_Condition (lib_Condition L))) (
     rep_app msta_Service (ptr_rep t_LimitadorService val_rep) (
     rep_pure (\<lambda>v x2 x1.
       \<lparr>sta_ObservedGeneration = msta_ObservedGeneration v, sta_Conditions = x1,
         sta_Service = x2\<rparr>)))"

definition rep_Limitador :: "'r library \<Rightarrow> ('r cell, 'r mLimitador, Limitador) rep" where
  "rep_Limitador L =
     rep_app mlim_ObjectMeta (lib_ObjectMeta L) (
     rep_app mlim_Spec (rep_LimitadorSpec L) (
     rep_app mlim_Status (rep_LimitadorStatus L) (
     rep_pure (\<lambda>v x3 x2 x1.
       \<lparr>lim_TypeMeta = mlim_TypeMeta v, lim_ObjectMeta = x1, lim_Spec = x2,
         lim_Status = x3\<rparr>))))"

definition rep_LimitadorList :: "'r library \<Rightarrow> ('r cell, 'r mLimitadorList, LimitadorList) rep" where
  "rep_LimitadorList L =
     rep_app mll_ListMeta (lib_ListMeta L) (
     rep_app mll_Items (slice_rep t_Limitador (rep_Limitador L)) (
     rep_pure (\<lambda>v x2 x1.
       \<lparr>ll_TypeMeta = mll_TypeMeta v, ll_ListMeta = x1, ll_Items = x2\<rparr>)))"

text \<open>A struct reads as a value exactly when its fields read as the fields of the value.\<close>

lemma within_TransportProtocol:
  "within A (rep_TransportProtocol) h v x \<longleftrightarrow>
    within A (ptr_rep t_int32 val_rep) h (mtp_Port v) (tp_Port x)"
  unfolding rep_TransportProtocol_def by (subst within_app, simp only: within_fields, cases x, auto)

lemma within_Listener:
  "within A (rep_Listener) h v x \<longleftrightarrow>
    within A (ptr_rep t_TransportProtocol rep_TransportProtocol) h (mli_HTTP v) (li_HTTP x) \<and>
    within A (ptr_rep t_TransportProtocol rep_TransportProtocol) h (mli_GRPC v) (li_GRPC x)"
  unfolding rep_Listener_def by (subst within_app, simp only: within_fields, cases x, auto)

lemma within_Redis:
  "within A (rep_Redis) h v x \<longleftrightarrow>
    within A (ptr_rep t_LocalObjectReference val_rep) h (mre_ConfigSecretRef v) (re_ConfigSecretRef x)"
  unfolding rep_Redis_def by (subst within_app, simp only: within_fields, cases x, auto)

lemma within_RedisCachedOptions:
  "within A (rep_RedisCachedOptions) h v x \<longleftrightarrow>
    within A (ptr_rep t_int val_rep) h (mrco_FlushPeriod v) (rco_FlushPeriod x) \<and>
    within A (ptr_rep t_int val_rep) h (mrco_MaxCached v) (rco_MaxCached x) \<and>
    within A (ptr_rep t_int val_rep) h (mrco_ResponseTimeout v) (rco_ResponseTimeout x) \<and>
    within A (ptr_rep t_int val_rep) h (mrco_BatchSize v) (rco_BatchSize x)"
  unfolding rep_RedisCachedOptions_def by (subst within_app, simp only: within_fields, cases x, auto)

lemma within_RedisCached:
  "within A (rep_RedisCached) h v x \<longleftrightarrow>
    within A (ptr_rep t_LocalObjectReference val_rep) h (mrc_ConfigSecretRef v) (rc_ConfigSecretRef x) \<and>
    within A (ptr_rep t_RedisCachedOptions rep_RedisCachedOptions) h (mrc_Options v) (rc_Options x)"
  unfolding rep_RedisCached_def by (subst within_app, simp only: within_fields, cases x, auto)

lemma within_PersistentVolumeClaimResources:
  "within A (rep_PersistentVolumeClaimResources L) h v x \<longleftrightarrow>
    within A (lib_Quantity L) h (mpvr_Requests v) (pvr_Requests x)"
  unfolding rep_PersistentVolumeClaimResources_def by (subst within_app, simp only: within_fields, cases x, auto)

lemma within_PVCGenericSpec:
  "within A (rep_PVCGenericSpec L) h v x \<longleftrightarrow>
    within A (ptr_rep t_string val_rep) h (mpg_StorageClassName v) (pg_StorageClassName x) \<and>
    within A (ptr_rep t_PersistentVolumeClaimResources (rep_PersistentVolumeClaimResources L)) h (mpg_Resources v) (pg_Resources x) \<and>
    within A (ptr_rep t_string val_rep) h (mpg_VolumeName v) (pg_VolumeName x)"
  unfolding rep_PVCGenericSpec_def by (subst within_app, simp only: within_fields, cases x, auto)

lemma within_DiskSpec:
  "within A (rep_DiskSpec L) h v x \<longleftrightarrow>
    within A (ptr_rep t_PVCGenericSpec (rep_PVCGenericSpec L)) h (mdi_PVC v) (di_PVC x) \<and>
    within A (ptr_rep t_string val_rep) h (mdi_Optimize v) (di_Optimize x)"
  unfolding rep_DiskSpec_def by (subst within_app, simp only: within_fields, cases x, auto)

lemma within_Storage:
  "within A (rep_Storage L) h v x \<longleftrightarrow>
    within A (ptr_rep t_Redis rep_Redis) h (msto_Redis v) (sto_Redis x) \<and>
    within A (ptr_rep t_RedisCached rep_RedisCached) h (msto_RedisCached v) (sto_RedisCached x) \<and>
    within A (ptr_rep t_DiskSpec (rep_DiskSpec L)) h (msto_Disk v) (sto_Disk x)"
  unfolding rep_Storage_def by (subst within_app, simp only: within_fields, cases x, auto)

lemma within_RateLimit:
  "within A (rep_RateLimit) h v x \<longleftrightarrow>
    within A (slice_rep t_string val_rep) h (mrl_Conditions v) (rl_Conditions x) \<and>
    rl_MaxValue x = mrl_MaxValue v \<and>
    rl_Namespace x = mrl_Namespace v \<and>
    rl_Seconds x = mrl_Seconds v \<and>
    within A (slice_rep t_string val_rep) h (mrl_Variables v) (rl_Variables x) \<and>
    rl_Name x = mrl_Name v"
  unfolding rep_RateLimit_def by (subst within_app, simp only: within_fields, cases x, auto)

lemma within_PodDisruptionBudgetType:
  "within A (rep_PodDisruptionBudgetType) h v x \<longleftrightarrow>
    within A (ptr_rep t_IntOrString val_rep) h (mpdt_MaxUnavailable v) (pdt_MaxUnavailable x) \<and>
    within A (ptr_rep t_IntOrString val_rep) h (mpdt_MinAvailable v) (pdt_MinAvailable x)"
  unfolding rep_PodDisruptionBudgetType_def by (subst within_app, simp only: within_fields, cases x, auto)

lemma within_LimitadorSpec:
  "within A (rep_LimitadorSpec L) h v x \<longleftrightarrow>
    within A (ptr_rep t_Affinity (lib_Affinity L)) h (msp_Affinity v) (sp_Affinity x) \<and>
    within A (ptr_rep t_int val_rep) h (msp_Replicas v) (sp_Replicas x) \<and>
    within A (ptr_rep t_string val_rep) h (msp_Version v) (sp_Version x) \<and>
    within A (ptr_rep t_Listener rep_Listener) h (msp_Listener v) (sp_Listener x) \<and>
    within A (ptr_rep t_Storage (rep_Storage L)) h (msp_Storage v) (sp_Storage x) \<and>
    within A (ptr_rep t_string val_rep) h (msp_RateLimitHeaders v) (sp_RateLimitHeaders x) \<and>
    within A (ptr_rep t_string val_rep) h (msp_Telemetry v) (sp_Telemetry x) \<and>
    within A (ptr_rep t_Tracing val_rep) h (msp_Tracing v) (sp_Tracing x) \<and>
    within A (slice_rep t_RateLimit rep_RateLimit) h (msp_Limits v) (sp_Limits x) \<and>
    within A (ptr_rep t_PodDisruptionBudgetType rep_PodDisruptionBudgetType) h (msp_PodDisruptionBudget v) (sp_PodDisruptionBudget x) \<and>
    within A (ptr_rep t_ResourceRequirements (lib_ResourceRequirements L)) h (msp_ResourceRequirements v) (sp_ResourceRequirements x) \<and>
    within A (ptr_rep t_int val_rep) h (msp_Verbosity v) (sp_Verbosity x) \<and>
    within A (ptr_rep t_string val_rep) h (msp_Image v) (sp_Image x) \<and>
    within A (map_rep or_empty (slice_rep t_LocalObjectReference val_rep)) h (msp_ImagePullSecrets v) (sp_ImagePullSecrets x) \<and>
    within A (ptr_rep t_string val_rep) h (msp_MetricLabelsDefault v) (sp_MetricLabelsDefault x)"
  unfolding rep_LimitadorSpec_def by (subst within_app, simp only: within_fields, cases x, auto)

lemma within_LimitadorStatus:
  "within A (rep_LimitadorStatus L) h v x \<longleftrightarrow>
    sta_ObservedGeneration x = msta_ObservedGeneration v \<and>
    within A (map_rep or_empty (slice_rep t_Condition (lib_Condition L))) h (msta_Conditions v) (sta_Conditions x) \<and>
    within A (ptr_rep t_LimitadorService val_rep) h (msta_Service v) (sta_Service x)"
  unfolding rep_LimitadorStatus_def by (subst within_app, simp only: within_fields, cases x, auto)

lemma within_Limitador:
  "within A (rep_Limitador L) h v x \<longleftrightarrow>
    lim_TypeMeta x = mlim_TypeMeta v \<and>
    within A (lib_ObjectMeta L) h (mlim_ObjectMeta v) (lim_ObjectMeta x) \<and>
    within A (rep_LimitadorSpec L) h (mlim_Spec v) (lim_Spec x) \<and>
    within A (rep_LimitadorStatus L) h (mlim_Status v) (lim_Status x)"
  unfolding rep_Limitador_def by (subst within_app, simp only: within_fields, cases x, auto)

lemma within_LimitadorList:
  "within A (rep_LimitadorList L) h v x \<longleftrightarrow>
    ll_TypeMeta x = mll_TypeMeta v \<and>
    within A (lib_ListMeta L) h (mll_ListMeta v) (ll_ListMeta x) \<and>
    within A (slice_rep t_Limitador (rep_Limitador L)) h (mll_Items v) (ll_Items x)"
  unfolding rep_LimitadorList_def by (subst within_app, simp only: within_fields, cases x, auto)

end
