(* ===== verification/Deep_Copy.thy ===== *)
theory Deep_Copy
  imports Api_Memory
begin

text \<open>
  \<^verbatim>\<open>api/v1alpha1/zz_generated.deepcopy.go\<close>: the copying methods of the API types over Go memory, each
  \<^verbatim>\<open>DeepCopyInto\<close> as the block of its statements, and the proof that each meets the contract of a deep
  copy (locale \<open>deep_copier\<close>, interpreted for the types that embed no library struct; for the others
  the contract follows from that of the library).
\<close>

type_synonym ('r, 'v) copy_into = "('r cell, 'v) ref \<Rightarrow> ('r cell, 'v) ref \<Rightarrow> ('r cell heap, unit) go"

type_synonym 'r copy_new = "ptr \<Rightarrow> ('r cell heap, ptr) go"

section \<open>DeepCopyInto\<close>

definition TransportProtocol_DeepCopyInto :: "('r, mTransportProtocol) copy_into" where
  "TransportProtocol_DeepCopyInto inp out = block
    [assign inp out,
     copy_pointer t_int32 0 assign
       (fld mtp_Port mtp_Port_update inp) (fld mtp_Port mtp_Port_update out)]"

definition Listener_DeepCopyInto :: "('r, mListener) copy_into" where
  "Listener_DeepCopyInto inp out = block
    [assign inp out,
     copy_pointer t_TransportProtocol zero_TransportProtocol TransportProtocol_DeepCopyInto
       (fld mli_HTTP mli_HTTP_update inp) (fld mli_HTTP mli_HTTP_update out),
     copy_pointer t_TransportProtocol zero_TransportProtocol TransportProtocol_DeepCopyInto
       (fld mli_GRPC mli_GRPC_update inp) (fld mli_GRPC mli_GRPC_update out)]"

definition Redis_DeepCopyInto :: "('r, mRedis) copy_into" where
  "Redis_DeepCopyInto inp out = block
    [assign inp out,
     copy_pointer t_LocalObjectReference zero_LocalObjectReference assign
       (fld mre_ConfigSecretRef mre_ConfigSecretRef_update inp) (fld mre_ConfigSecretRef mre_ConfigSecretRef_update out)]"

definition RedisCachedOptions_DeepCopyInto :: "('r, mRedisCachedOptions) copy_into" where
  "RedisCachedOptions_DeepCopyInto inp out = block
    [assign inp out,
     copy_pointer t_int 0 assign
       (fld mrco_FlushPeriod mrco_FlushPeriod_update inp) (fld mrco_FlushPeriod mrco_FlushPeriod_update out),
     copy_pointer t_int 0 assign
       (fld mrco_MaxCached mrco_MaxCached_update inp) (fld mrco_MaxCached mrco_MaxCached_update out),
     copy_pointer t_int 0 assign
       (fld mrco_ResponseTimeout mrco_ResponseTimeout_update inp) (fld mrco_ResponseTimeout mrco_ResponseTimeout_update out),
     copy_pointer t_int 0 assign
       (fld mrco_BatchSize mrco_BatchSize_update inp) (fld mrco_BatchSize mrco_BatchSize_update out)]"

definition RedisCached_DeepCopyInto :: "('r, mRedisCached) copy_into" where
  "RedisCached_DeepCopyInto inp out = block
    [assign inp out,
     copy_pointer t_LocalObjectReference zero_LocalObjectReference assign
       (fld mrc_ConfigSecretRef mrc_ConfigSecretRef_update inp) (fld mrc_ConfigSecretRef mrc_ConfigSecretRef_update out),
     copy_pointer t_RedisCachedOptions zero_RedisCachedOptions RedisCachedOptions_DeepCopyInto
       (fld mrc_Options mrc_Options_update inp) (fld mrc_Options mrc_Options_update out)]"

definition PersistentVolumeClaimResources_DeepCopyInto :: "'r library \<Rightarrow> ('r, 'r mPersistentVolumeClaimResources) copy_into" where
  "PersistentVolumeClaimResources_DeepCopyInto L inp out = block
    [assign inp out,
     copy_value (Quantity_DeepCopy L)
       (fld mpvr_Requests mpvr_Requests_update inp) (fld mpvr_Requests mpvr_Requests_update out)]"

definition PVCGenericSpec_DeepCopyInto :: "'r library \<Rightarrow> ('r, mPVCGenericSpec) copy_into" where
  "PVCGenericSpec_DeepCopyInto L inp out = block
    [assign inp out,
     copy_pointer t_string [] assign
       (fld mpg_StorageClassName mpg_StorageClassName_update inp) (fld mpg_StorageClassName mpg_StorageClassName_update out),
     copy_pointer t_PersistentVolumeClaimResources (zero_PersistentVolumeClaimResources L) (PersistentVolumeClaimResources_DeepCopyInto L)
       (fld mpg_Resources mpg_Resources_update inp) (fld mpg_Resources mpg_Resources_update out),
     copy_pointer t_string [] assign
       (fld mpg_VolumeName mpg_VolumeName_update inp) (fld mpg_VolumeName mpg_VolumeName_update out)]"

definition DiskSpec_DeepCopyInto :: "'r library \<Rightarrow> ('r, mDiskSpec) copy_into" where
  "DiskSpec_DeepCopyInto L inp out = block
    [assign inp out,
     copy_pointer t_PVCGenericSpec zero_PVCGenericSpec (PVCGenericSpec_DeepCopyInto L)
       (fld mdi_PVC mdi_PVC_update inp) (fld mdi_PVC mdi_PVC_update out),
     copy_pointer t_string [] assign
       (fld mdi_Optimize mdi_Optimize_update inp) (fld mdi_Optimize mdi_Optimize_update out)]"

definition Storage_DeepCopyInto :: "'r library \<Rightarrow> ('r, mStorage) copy_into" where
  "Storage_DeepCopyInto L inp out = block
    [assign inp out,
     copy_pointer t_Redis zero_Redis Redis_DeepCopyInto
       (fld msto_Redis msto_Redis_update inp) (fld msto_Redis msto_Redis_update out),
     copy_pointer t_RedisCached zero_RedisCached RedisCached_DeepCopyInto
       (fld msto_RedisCached msto_RedisCached_update inp) (fld msto_RedisCached msto_RedisCached_update out),
     copy_pointer t_DiskSpec zero_DiskSpec (DiskSpec_DeepCopyInto L)
       (fld msto_Disk msto_Disk_update inp) (fld msto_Disk msto_Disk_update out)]"

definition RateLimit_DeepCopyInto :: "('r, mRateLimit) copy_into" where
  "RateLimit_DeepCopyInto inp out = block
    [assign inp out,
     copy_array t_string []
       (fld mrl_Conditions mrl_Conditions_update inp) (fld mrl_Conditions mrl_Conditions_update out),
     copy_array t_string []
       (fld mrl_Variables mrl_Variables_update inp) (fld mrl_Variables mrl_Variables_update out)]"

definition Tracing_DeepCopyInto :: "('r, Tracing) copy_into" where
  "Tracing_DeepCopyInto inp out = block
    [assign inp out]"

definition Ports_DeepCopyInto :: "('r, Ports) copy_into" where
  "Ports_DeepCopyInto inp out = block
    [assign inp out]"

definition LimitadorService_DeepCopyInto :: "('r, LimitadorService) copy_into" where
  "LimitadorService_DeepCopyInto inp out = block
    [assign inp out,
     assign
       (fld lsv_Ports lsv_Ports_update inp) (fld lsv_Ports lsv_Ports_update out)]"

definition PodDisruptionBudgetType_DeepCopyInto :: "('r, mPodDisruptionBudgetType) copy_into" where
  "PodDisruptionBudgetType_DeepCopyInto inp out = block
    [assign inp out,
     copy_pointer t_IntOrString (IntVal 0) assign
       (fld mpdt_MaxUnavailable mpdt_MaxUnavailable_update inp) (fld mpdt_MaxUnavailable mpdt_MaxUnavailable_update out),
     copy_pointer t_IntOrString (IntVal 0) assign
       (fld mpdt_MinAvailable mpdt_MinAvailable_update inp) (fld mpdt_MinAvailable mpdt_MinAvailable_update out)]"

definition LimitadorSpec_DeepCopyInto :: "'r library \<Rightarrow> ('r, mLimitadorSpec) copy_into" where
  "LimitadorSpec_DeepCopyInto L inp out = block
    [assign inp out,
     copy_pointer t_Affinity (zero_Affinity L) (Affinity_DeepCopyInto L)
       (fld msp_Affinity msp_Affinity_update inp) (fld msp_Affinity msp_Affinity_update out),
     copy_pointer t_int 0 assign
       (fld msp_Replicas msp_Replicas_update inp) (fld msp_Replicas msp_Replicas_update out),
     copy_pointer t_string [] assign
       (fld msp_Version msp_Version_update inp) (fld msp_Version msp_Version_update out),
     copy_pointer t_Listener zero_Listener Listener_DeepCopyInto
       (fld msp_Listener msp_Listener_update inp) (fld msp_Listener msp_Listener_update out),
     copy_pointer t_Storage zero_Storage (Storage_DeepCopyInto L)
       (fld msp_Storage msp_Storage_update inp) (fld msp_Storage msp_Storage_update out),
     copy_pointer t_string [] assign
       (fld msp_RateLimitHeaders msp_RateLimitHeaders_update inp) (fld msp_RateLimitHeaders msp_RateLimitHeaders_update out),
     copy_pointer t_string [] assign
       (fld msp_Telemetry msp_Telemetry_update inp) (fld msp_Telemetry msp_Telemetry_update out),
     copy_pointer t_Tracing zero_Tracing assign
       (fld msp_Tracing msp_Tracing_update inp) (fld msp_Tracing msp_Tracing_update out),
     copy_slice t_RateLimit zero_RateLimit RateLimit_DeepCopyInto
       (fld msp_Limits msp_Limits_update inp) (fld msp_Limits msp_Limits_update out),
     copy_pointer t_PodDisruptionBudgetType zero_PodDisruptionBudgetType PodDisruptionBudgetType_DeepCopyInto
       (fld msp_PodDisruptionBudget msp_PodDisruptionBudget_update inp) (fld msp_PodDisruptionBudget msp_PodDisruptionBudget_update out),
     copy_pointer t_ResourceRequirements (zero_ResourceRequirements L) (ResourceRequirements_DeepCopyInto L)
       (fld msp_ResourceRequirements msp_ResourceRequirements_update inp) (fld msp_ResourceRequirements msp_ResourceRequirements_update out),
     copy_pointer t_int 0 assign
       (fld msp_Verbosity msp_Verbosity_update inp) (fld msp_Verbosity msp_Verbosity_update out),
     copy_pointer t_string [] assign
       (fld msp_Image msp_Image_update inp) (fld msp_Image msp_Image_update out),
     copy_array t_LocalObjectReference zero_LocalObjectReference
       (fld msp_ImagePullSecrets msp_ImagePullSecrets_update inp) (fld msp_ImagePullSecrets msp_ImagePullSecrets_update out),
     copy_pointer t_string [] assign
       (fld msp_MetricLabelsDefault msp_MetricLabelsDefault_update inp) (fld msp_MetricLabelsDefault msp_MetricLabelsDefault_update out)]"

definition LimitadorStatus_DeepCopyInto :: "'r library \<Rightarrow> ('r, mLimitadorStatus) copy_into" where
  "LimitadorStatus_DeepCopyInto L inp out = block
    [assign inp out,
     copy_slice t_Condition (zero_Condition L) (Condition_DeepCopyInto L)
       (fld msta_Conditions msta_Conditions_update inp) (fld msta_Conditions msta_Conditions_update out),
     copy_pointer t_LimitadorService zero_LimitadorService assign
       (fld msta_Service msta_Service_update inp) (fld msta_Service msta_Service_update out)]"

definition Limitador_DeepCopyInto :: "'r library \<Rightarrow> ('r, 'r mLimitador) copy_into" where
  "Limitador_DeepCopyInto L inp out = block
    [assign inp out,
     assign
       (fld mlim_TypeMeta mlim_TypeMeta_update inp) (fld mlim_TypeMeta mlim_TypeMeta_update out),
     ObjectMeta_DeepCopyInto L
       (fld mlim_ObjectMeta mlim_ObjectMeta_update inp) (fld mlim_ObjectMeta mlim_ObjectMeta_update out),
     LimitadorSpec_DeepCopyInto L
       (fld mlim_Spec mlim_Spec_update inp) (fld mlim_Spec mlim_Spec_update out),
     LimitadorStatus_DeepCopyInto L
       (fld mlim_Status mlim_Status_update inp) (fld mlim_Status mlim_Status_update out)]"

definition LimitadorList_DeepCopyInto :: "'r library \<Rightarrow> ('r, 'r mLimitadorList) copy_into" where
  "LimitadorList_DeepCopyInto L inp out = block
    [assign inp out,
     assign
       (fld mll_TypeMeta mll_TypeMeta_update inp) (fld mll_TypeMeta mll_TypeMeta_update out),
     ListMeta_DeepCopyInto L
       (fld mll_ListMeta mll_ListMeta_update inp) (fld mll_ListMeta mll_ListMeta_update out),
     copy_slice t_Limitador (zero_Limitador L) (Limitador_DeepCopyInto L)
       (fld mll_Items mll_Items_update inp) (fld mll_Items mll_Items_update out)]"

section \<open>DeepCopy and DeepCopyObject\<close>

definition TransportProtocol_DeepCopy :: "'r copy_new" where
  "TransportProtocol_DeepCopy = deep_copy t_TransportProtocol zero_TransportProtocol TransportProtocol_DeepCopyInto"

definition Listener_DeepCopy :: "'r copy_new" where
  "Listener_DeepCopy = deep_copy t_Listener zero_Listener Listener_DeepCopyInto"

definition Redis_DeepCopy :: "'r copy_new" where
  "Redis_DeepCopy = deep_copy t_Redis zero_Redis Redis_DeepCopyInto"

definition RedisCachedOptions_DeepCopy :: "'r copy_new" where
  "RedisCachedOptions_DeepCopy = deep_copy t_RedisCachedOptions zero_RedisCachedOptions RedisCachedOptions_DeepCopyInto"

definition RedisCached_DeepCopy :: "'r copy_new" where
  "RedisCached_DeepCopy = deep_copy t_RedisCached zero_RedisCached RedisCached_DeepCopyInto"

definition PersistentVolumeClaimResources_DeepCopy :: "'r library \<Rightarrow> 'r copy_new" where
  "PersistentVolumeClaimResources_DeepCopy L = deep_copy t_PersistentVolumeClaimResources (zero_PersistentVolumeClaimResources L) (PersistentVolumeClaimResources_DeepCopyInto L)"

definition PVCGenericSpec_DeepCopy :: "'r library \<Rightarrow> 'r copy_new" where
  "PVCGenericSpec_DeepCopy L = deep_copy t_PVCGenericSpec zero_PVCGenericSpec (PVCGenericSpec_DeepCopyInto L)"

definition DiskSpec_DeepCopy :: "'r library \<Rightarrow> 'r copy_new" where
  "DiskSpec_DeepCopy L = deep_copy t_DiskSpec zero_DiskSpec (DiskSpec_DeepCopyInto L)"

definition Storage_DeepCopy :: "'r library \<Rightarrow> 'r copy_new" where
  "Storage_DeepCopy L = deep_copy t_Storage zero_Storage (Storage_DeepCopyInto L)"

definition RateLimit_DeepCopy :: "'r copy_new" where
  "RateLimit_DeepCopy = deep_copy t_RateLimit zero_RateLimit RateLimit_DeepCopyInto"

definition Tracing_DeepCopy :: "'r copy_new" where
  "Tracing_DeepCopy = deep_copy t_Tracing zero_Tracing Tracing_DeepCopyInto"

definition Ports_DeepCopy :: "'r copy_new" where
  "Ports_DeepCopy = deep_copy t_Ports zero_Ports Ports_DeepCopyInto"

definition LimitadorService_DeepCopy :: "'r copy_new" where
  "LimitadorService_DeepCopy = deep_copy t_LimitadorService zero_LimitadorService LimitadorService_DeepCopyInto"

definition PodDisruptionBudgetType_DeepCopy :: "'r copy_new" where
  "PodDisruptionBudgetType_DeepCopy = deep_copy t_PodDisruptionBudgetType zero_PodDisruptionBudgetType PodDisruptionBudgetType_DeepCopyInto"

definition LimitadorSpec_DeepCopy :: "'r library \<Rightarrow> 'r copy_new" where
  "LimitadorSpec_DeepCopy L = deep_copy t_LimitadorSpec zero_LimitadorSpec (LimitadorSpec_DeepCopyInto L)"

definition LimitadorStatus_DeepCopy :: "'r library \<Rightarrow> 'r copy_new" where
  "LimitadorStatus_DeepCopy L = deep_copy t_LimitadorStatus zero_LimitadorStatus (LimitadorStatus_DeepCopyInto L)"

definition Limitador_DeepCopy :: "'r library \<Rightarrow> 'r copy_new" where
  "Limitador_DeepCopy L = deep_copy t_Limitador (zero_Limitador L) (Limitador_DeepCopyInto L)"

definition LimitadorList_DeepCopy :: "'r library \<Rightarrow> 'r copy_new" where
  "LimitadorList_DeepCopy L = deep_copy t_LimitadorList (zero_LimitadorList L) (LimitadorList_DeepCopyInto L)"

text \<open>
  A \<^verbatim>\<open>runtime.Object\<close> is nil or a typed pointer; a typed pointer that is nil is not the nil interface.
\<close>

datatype runtime_Object = Obj_Limitador ptr | Obj_LimitadorList ptr

definition Limitador_DeepCopyObject ::
    "'r library \<Rightarrow> ptr \<Rightarrow> ('r cell heap, runtime_Object option) go" where
  "Limitador_DeepCopyObject L inp = bind_go (Limitador_DeepCopy L inp) (\<lambda>c.
     if c \<noteq> None then ret (Some (Obj_Limitador c)) else ret None)"

definition LimitadorList_DeepCopyObject ::
    "'r library \<Rightarrow> ptr \<Rightarrow> ('r cell heap, runtime_Object option) go" where
  "LimitadorList_DeepCopyObject L inp = bind_go (LimitadorList_DeepCopy L inp) (\<lambda>c.
     if c \<noteq> None then ret (Some (Obj_LimitadorList c)) else ret None)"

section \<open>The contract\<close>

lemmas [copier] = ctypes_ok

lemma library_copiers [copier]:
  assumes "library_ok L"
  shows "deep_copier (lib_Affinity L) (Affinity_DeepCopyInto L)"
    "deep_copier (lib_ResourceRequirements L) (ResourceRequirements_DeepCopyInto L)"
    "deep_copier (lib_ObjectMeta L) (ObjectMeta_DeepCopyInto L)"
    "deep_copier (lib_ListMeta L) (ListMeta_DeepCopyInto L)"
    "deep_copier (lib_Condition L) (Condition_DeepCopyInto L)"
    "representation (lib_Quantity L)" "copies_value (lib_Quantity L) (Quantity_DeepCopy L)"
  using assms by (simp_all add: library_ok_def)

named_theorems represents "the laws of a representation, by its shape"

lemma representations [represents]:
  "representation val_rep" "representation (rep_pure f)"
  "representation F \<Longrightarrow> representation R \<Longrightarrow> representation (rep_app g R F)"
  "representation R \<Longrightarrow> representation (ptr_rep ty R)"
  "representation R \<Longrightarrow> representation (slice_rep ty R)"
  "representation R \<Longrightarrow> representation (map_rep f R)"
  by (simp_all add: representation_val representation_pure representation_app
      representation.ptr_representation representation.slice_representation
      representation.map_representation)

lemma library_representations [represents]:
  assumes "library_ok L"
  shows "representation (lib_Affinity L)" "representation (lib_ResourceRequirements L)"
    "representation (lib_ObjectMeta L)" "representation (lib_ListMeta L)"
    "representation (lib_Condition L)" "representation (lib_Quantity L)"
  using assms by (simp_all add: library_ok_def deep_copier_def)

lemma representation_TransportProtocol [represents]:
  "representation (rep_TransportProtocol)"
  unfolding rep_TransportProtocol_def by (intro represents)

lemma representation_Listener [represents]:
  "representation (rep_Listener)"
  unfolding rep_Listener_def by (intro represents)

lemma representation_Redis [represents]:
  "representation (rep_Redis)"
  unfolding rep_Redis_def by (intro represents)

lemma representation_RedisCachedOptions [represents]:
  "representation (rep_RedisCachedOptions)"
  unfolding rep_RedisCachedOptions_def by (intro represents)

lemma representation_RedisCached [represents]:
  "representation (rep_RedisCached)"
  unfolding rep_RedisCached_def by (intro represents)

lemma representation_PersistentVolumeClaimResources [represents]:
  "library_ok L \<Longrightarrow> representation (rep_PersistentVolumeClaimResources L)"
  unfolding rep_PersistentVolumeClaimResources_def by (intro represents)

lemma representation_PVCGenericSpec [represents]:
  "library_ok L \<Longrightarrow> representation (rep_PVCGenericSpec L)"
  unfolding rep_PVCGenericSpec_def by (intro represents)

lemma representation_DiskSpec [represents]:
  "library_ok L \<Longrightarrow> representation (rep_DiskSpec L)"
  unfolding rep_DiskSpec_def by (intro represents)

lemma representation_Storage [represents]:
  "library_ok L \<Longrightarrow> representation (rep_Storage L)"
  unfolding rep_Storage_def by (intro represents)

lemma representation_RateLimit [represents]:
  "representation (rep_RateLimit)"
  unfolding rep_RateLimit_def by (intro represents)

lemma representation_PodDisruptionBudgetType [represents]:
  "representation (rep_PodDisruptionBudgetType)"
  unfolding rep_PodDisruptionBudgetType_def by (intro represents)

lemma representation_LimitadorSpec [represents]:
  "library_ok L \<Longrightarrow> representation (rep_LimitadorSpec L)"
  unfolding rep_LimitadorSpec_def by (intro represents)

lemma representation_LimitadorStatus [represents]:
  "library_ok L \<Longrightarrow> representation (rep_LimitadorStatus L)"
  unfolding rep_LimitadorStatus_def by (intro represents)

lemma representation_Limitador [represents]:
  "library_ok L \<Longrightarrow> representation (rep_Limitador L)"
  unfolding rep_Limitador_def by (intro represents)

lemma representation_LimitadorList [represents]:
  "library_ok L \<Longrightarrow> representation (rep_LimitadorList L)"
  unfolding rep_LimitadorList_def by (intro represents)

lemma TransportProtocol_copier [copier]:
  "deep_copier rep_TransportProtocol TransportProtocol_DeepCopyInto"
proof (rule deep_copier_by_fields [OF _ TransportProtocol_DeepCopyInto_def], goal_cases)
  case 1
  show ?case by (intro represents)
next
  case (2 h0 i o' v x)
  from stable_True [of "hp_next h0"] 2(2) [unfolded within_TransportProtocol] show ?case
    apply -
    apply ((elim conjE)?)
    apply (rule runs_field [OF _ _ 2(1)], (rule copier | assumption)+, simp add: lawful_field_def,
        (assumption | simp), simp, assumption)+
    apply (rule runs_done)
    apply (simp add: within_TransportProtocol)
    done
qed

lemma Listener_copier [copier]:
  "deep_copier rep_Listener Listener_DeepCopyInto"
proof (rule deep_copier_by_fields [OF _ Listener_DeepCopyInto_def], goal_cases)
  case 1
  show ?case by (intro represents)
next
  case (2 h0 i o' v x)
  from stable_True [of "hp_next h0"] 2(2) [unfolded within_Listener] show ?case
    apply -
    apply ((elim conjE)?)
    apply (rule runs_field [OF _ _ 2(1)], (rule copier | assumption)+, simp add: lawful_field_def,
        (assumption | simp), simp, assumption)+
    apply (rule runs_done)
    apply (simp add: within_Listener)
    done
qed

lemma Redis_copier [copier]:
  "deep_copier rep_Redis Redis_DeepCopyInto"
proof (rule deep_copier_by_fields [OF _ Redis_DeepCopyInto_def], goal_cases)
  case 1
  show ?case by (intro represents)
next
  case (2 h0 i o' v x)
  from stable_True [of "hp_next h0"] 2(2) [unfolded within_Redis] show ?case
    apply -
    apply ((elim conjE)?)
    apply (rule runs_field [OF _ _ 2(1)], (rule copier | assumption)+, simp add: lawful_field_def,
        (assumption | simp), simp, assumption)+
    apply (rule runs_done)
    apply (simp add: within_Redis)
    done
qed

lemma RedisCachedOptions_copier [copier]:
  "deep_copier rep_RedisCachedOptions RedisCachedOptions_DeepCopyInto"
proof (rule deep_copier_by_fields [OF _ RedisCachedOptions_DeepCopyInto_def], goal_cases)
  case 1
  show ?case by (intro represents)
next
  case (2 h0 i o' v x)
  from stable_True [of "hp_next h0"] 2(2) [unfolded within_RedisCachedOptions] show ?case
    apply -
    apply ((elim conjE)?)
    apply (rule runs_field [OF _ _ 2(1)], (rule copier | assumption)+, simp add: lawful_field_def,
        (assumption | simp), simp, assumption)+
    apply (rule runs_done)
    apply (simp add: within_RedisCachedOptions)
    done
qed

lemma RedisCached_copier [copier]:
  "deep_copier rep_RedisCached RedisCached_DeepCopyInto"
proof (rule deep_copier_by_fields [OF _ RedisCached_DeepCopyInto_def], goal_cases)
  case 1
  show ?case by (intro represents)
next
  case (2 h0 i o' v x)
  from stable_True [of "hp_next h0"] 2(2) [unfolded within_RedisCached] show ?case
    apply -
    apply ((elim conjE)?)
    apply (rule runs_field [OF _ _ 2(1)], (rule copier | assumption)+, simp add: lawful_field_def,
        (assumption | simp), simp, assumption)+
    apply (rule runs_done)
    apply (simp add: within_RedisCached)
    done
qed

lemma PersistentVolumeClaimResources_copier [copier]:
  assumes "library_ok L"
  shows "deep_copier (rep_PersistentVolumeClaimResources L) (PersistentVolumeClaimResources_DeepCopyInto L)"
proof (rule deep_copier_by_fields [OF _ PersistentVolumeClaimResources_DeepCopyInto_def], goal_cases)
  case 1
  show ?case using assms by (intro represents)
next
  case (2 h0 i o' v x)
  from stable_True [of "hp_next h0"] 2(2) [unfolded within_PersistentVolumeClaimResources] assms show ?case
    apply -
    apply ((elim conjE)?)
    apply (rule runs_field [OF _ _ 2(1)], (rule copier | assumption)+, simp add: lawful_field_def,
        (assumption | simp), simp, assumption)+
    apply (rule runs_done)
    apply (simp add: within_PersistentVolumeClaimResources)
    done
qed

lemma PVCGenericSpec_copier [copier]:
  assumes "library_ok L"
  shows "deep_copier (rep_PVCGenericSpec L) (PVCGenericSpec_DeepCopyInto L)"
proof (rule deep_copier_by_fields [OF _ PVCGenericSpec_DeepCopyInto_def], goal_cases)
  case 1
  show ?case using assms by (intro represents)
next
  case (2 h0 i o' v x)
  from stable_True [of "hp_next h0"] 2(2) [unfolded within_PVCGenericSpec] assms show ?case
    apply -
    apply ((elim conjE)?)
    apply (rule runs_field [OF _ _ 2(1)], (rule copier | assumption)+, simp add: lawful_field_def,
        (assumption | simp), simp, assumption)+
    apply (rule runs_done)
    apply (simp add: within_PVCGenericSpec)
    done
qed

lemma DiskSpec_copier [copier]:
  assumes "library_ok L"
  shows "deep_copier (rep_DiskSpec L) (DiskSpec_DeepCopyInto L)"
proof (rule deep_copier_by_fields [OF _ DiskSpec_DeepCopyInto_def], goal_cases)
  case 1
  show ?case using assms by (intro represents)
next
  case (2 h0 i o' v x)
  from stable_True [of "hp_next h0"] 2(2) [unfolded within_DiskSpec] assms show ?case
    apply -
    apply ((elim conjE)?)
    apply (rule runs_field [OF _ _ 2(1)], (rule copier | assumption)+, simp add: lawful_field_def,
        (assumption | simp), simp, assumption)+
    apply (rule runs_done)
    apply (simp add: within_DiskSpec)
    done
qed

lemma Storage_copier [copier]:
  assumes "library_ok L"
  shows "deep_copier (rep_Storage L) (Storage_DeepCopyInto L)"
proof (rule deep_copier_by_fields [OF _ Storage_DeepCopyInto_def], goal_cases)
  case 1
  show ?case using assms by (intro represents)
next
  case (2 h0 i o' v x)
  from stable_True [of "hp_next h0"] 2(2) [unfolded within_Storage] assms show ?case
    apply -
    apply ((elim conjE)?)
    apply (rule runs_field [OF _ _ 2(1)], (rule copier | assumption)+, simp add: lawful_field_def,
        (assumption | simp), simp, assumption)+
    apply (rule runs_done)
    apply (simp add: within_Storage)
    done
qed

lemma RateLimit_copier [copier]:
  "deep_copier rep_RateLimit RateLimit_DeepCopyInto"
proof (rule deep_copier_by_fields [OF _ RateLimit_DeepCopyInto_def], goal_cases)
  case 1
  show ?case by (intro represents)
next
  case (2 h0 i o' v x)
  from stable_True [of "hp_next h0"] 2(2) [unfolded within_RateLimit] show ?case
    apply -
    apply ((elim conjE)?)
    apply (rule runs_field [OF _ _ 2(1)], (rule copier | assumption)+, simp add: lawful_field_def,
        (assumption | simp), simp, assumption)+
    apply (rule runs_done)
    apply (simp add: within_RateLimit)
    done
qed

lemma Tracing_copier [copier]:
  "deep_copier val_rep Tracing_DeepCopyInto"
  by (rule deep_copier_by_fields [OF _ Tracing_DeepCopyInto_def])
    (auto intro: represents runs_done)

lemma Ports_copier [copier]:
  "deep_copier val_rep Ports_DeepCopyInto"
  by (rule deep_copier_by_fields [OF _ Ports_DeepCopyInto_def])
    (auto intro: represents runs_done)

lemma LimitadorService_copier [copier]:
  "deep_copier val_rep LimitadorService_DeepCopyInto"
proof (rule deep_copier_by_fields [OF _ LimitadorService_DeepCopyInto_def], goal_cases)
  case 1
  show ?case by (intro represents)
next
  case (2 h0 i o' v x)
  from stable_True [of "hp_next h0"] 2(2) show ?case
    apply -
    apply ((elim conjE)?)
    apply (rule runs_field [OF _ _ 2(1)], (rule copier | assumption)+, simp add: lawful_field_def,
        (assumption | simp), simp, assumption)+
    apply (rule runs_done)
    apply (simp)
    done
qed

lemma PodDisruptionBudgetType_copier [copier]:
  "deep_copier rep_PodDisruptionBudgetType PodDisruptionBudgetType_DeepCopyInto"
proof (rule deep_copier_by_fields [OF _ PodDisruptionBudgetType_DeepCopyInto_def], goal_cases)
  case 1
  show ?case by (intro represents)
next
  case (2 h0 i o' v x)
  from stable_True [of "hp_next h0"] 2(2) [unfolded within_PodDisruptionBudgetType] show ?case
    apply -
    apply ((elim conjE)?)
    apply (rule runs_field [OF _ _ 2(1)], (rule copier | assumption)+, simp add: lawful_field_def,
        (assumption | simp), simp, assumption)+
    apply (rule runs_done)
    apply (simp add: within_PodDisruptionBudgetType)
    done
qed

lemma LimitadorSpec_copier [copier]:
  assumes "library_ok L"
  shows "deep_copier (rep_LimitadorSpec L) (LimitadorSpec_DeepCopyInto L)"
proof (rule deep_copier_by_fields [OF _ LimitadorSpec_DeepCopyInto_def], goal_cases)
  case 1
  show ?case using assms by (intro represents)
next
  case (2 h0 i o' v x)
  from stable_True [of "hp_next h0"] 2(2) [unfolded within_LimitadorSpec] assms show ?case
    apply -
    apply ((elim conjE)?)
    apply (rule runs_field [OF _ _ 2(1)], (rule copier | assumption)+, simp add: lawful_field_def,
        (assumption | simp), simp, assumption)+
    apply (rule runs_done)
    apply (simp add: within_LimitadorSpec)
    done
qed

lemma LimitadorStatus_copier [copier]:
  assumes "library_ok L"
  shows "deep_copier (rep_LimitadorStatus L) (LimitadorStatus_DeepCopyInto L)"
proof (rule deep_copier_by_fields [OF _ LimitadorStatus_DeepCopyInto_def], goal_cases)
  case 1
  show ?case using assms by (intro represents)
next
  case (2 h0 i o' v x)
  from stable_True [of "hp_next h0"] 2(2) [unfolded within_LimitadorStatus] assms show ?case
    apply -
    apply ((elim conjE)?)
    apply (rule runs_field [OF _ _ 2(1)], (rule copier | assumption)+, simp add: lawful_field_def,
        (assumption | simp), simp, assumption)+
    apply (rule runs_done)
    apply (simp add: within_LimitadorStatus)
    done
qed

lemma Limitador_copier [copier]:
  assumes "library_ok L"
  shows "deep_copier (rep_Limitador L) (Limitador_DeepCopyInto L)"
proof (rule deep_copier_by_fields [OF _ Limitador_DeepCopyInto_def], goal_cases)
  case 1
  show ?case using assms by (intro represents)
next
  case (2 h0 i o' v x)
  from stable_True [of "hp_next h0"] 2(2) [unfolded within_Limitador] assms show ?case
    apply -
    apply ((elim conjE)?)
    apply (rule runs_field [OF _ _ 2(1)], (rule copier | assumption)+, simp add: lawful_field_def,
        (assumption | simp), simp, assumption)+
    apply (rule runs_done)
    apply (simp add: within_Limitador)
    done
qed

lemma LimitadorList_copier [copier]:
  assumes "library_ok L"
  shows "deep_copier (rep_LimitadorList L) (LimitadorList_DeepCopyInto L)"
proof (rule deep_copier_by_fields [OF _ LimitadorList_DeepCopyInto_def], goal_cases)
  case 1
  show ?case using assms by (intro represents)
next
  case (2 h0 i o' v x)
  from stable_True [of "hp_next h0"] 2(2) [unfolded within_LimitadorList] assms show ?case
    apply -
    apply ((elim conjE)?)
    apply (rule runs_field [OF _ _ 2(1)], (rule copier | assumption)+, simp add: lawful_field_def,
        (assumption | simp), simp, assumption)+
    apply (rule runs_done)
    apply (simp add: within_LimitadorList)
    done
qed

section \<open>Interpretations\<close>

text \<open>The types that embed no library struct, and the slices of strings.\<close>

interpretation protocols: deep_copier rep_TransportProtocol TransportProtocol_DeepCopyInto
  by (rule TransportProtocol_copier)

interpretation listeners: deep_copier rep_Listener Listener_DeepCopyInto
  by (rule Listener_copier)

interpretation redises: deep_copier rep_Redis Redis_DeepCopyInto
  by (rule Redis_copier)

interpretation cache_options: deep_copier rep_RedisCachedOptions RedisCachedOptions_DeepCopyInto
  by (rule RedisCachedOptions_copier)

interpretation caches: deep_copier rep_RedisCached RedisCached_DeepCopyInto
  by (rule RedisCached_copier)

interpretation limits: deep_copier rep_RateLimit RateLimit_DeepCopyInto
  by (rule RateLimit_copier)

interpretation budgets: deep_copier rep_PodDisruptionBudgetType PodDisruptionBudgetType_DeepCopyInto
  by (rule PodDisruptionBudgetType_copier)

interpretation tracings: deep_copier val_rep Tracing_DeepCopyInto
  by (rule Tracing_copier)

interpretation ports: deep_copier val_rep Ports_DeepCopyInto
  by (rule Ports_copier)

interpretation services: deep_copier val_rep LimitadorService_DeepCopyInto
  by (rule LimitadorService_copier)

interpretation strings: field_copier "slice_rep t_string val_rep" "copy_array t_string []"
  by (rule array_field) simp

end
