(* ===== verification/Copy_Properties.thy ===== *)
theory Copy_Properties
  imports Deep_Copy
begin

text \<open>
  Properties of the generated copying methods: every \<^verbatim>\<open>DeepCopy\<close> returns a copy of its own, a copy and
  its original never influence each other, \<^verbatim>\<open>DeepCopyObject\<close> returns the nil interface for nil, and what
  becomes of a struct that is copied into itself.
\<close>

section \<open>A library that evaluates\<close>

text \<open>Library structs as plain values, for the instances of the properties.\<close>

datatype lib_value = LAffinity Affinity | LResources ResourceRequirements | LMeta ObjectMeta
  | LList ListMeta | LCondition Condition | LQuantity Quantity

definition sample_rep :: "(lib_value \<Rightarrow> 'x option) \<Rightarrow> (lib_value cell, lib_value, 'x) rep" where
  "sample_rep f = \<lparr>rep_read = (\<lambda>h v. f v), rep_foot = (\<lambda>h v. {})\<rparr>"

definition sample_library :: "lib_value library" where
  "sample_library =
    \<lparr>lib_Affinity = sample_rep (\<lambda>v. case v of LAffinity x \<Rightarrow> Some x | _ \<Rightarrow> None),
     zero_Affinity = LAffinity (Affinity []), Affinity_DeepCopyInto = assign,
     lib_ResourceRequirements = sample_rep (\<lambda>v. case v of LResources x \<Rightarrow> Some x | _ \<Rightarrow> None),
     zero_ResourceRequirements = LResources \<lparr>rr_Limits = Map.empty, rr_Requests = Map.empty\<rparr>,
     ResourceRequirements_DeepCopyInto = assign,
     lib_ObjectMeta = sample_rep (\<lambda>v. case v of LMeta x \<Rightarrow> Some x | _ \<Rightarrow> None),
     zero_ObjectMeta = LMeta zeroMeta, ObjectMeta_DeepCopyInto = assign,
     lib_ListMeta = sample_rep (\<lambda>v. case v of LList x \<Rightarrow> Some x | _ \<Rightarrow> None),
     zero_ListMeta = LList \<lparr>lm_SelfLink = [], lm_ResourceVersion = [], lm_Continue = [],
       lm_RemainingItemCount = None\<rparr>,
     ListMeta_DeepCopyInto = assign,
     lib_Condition = sample_rep (\<lambda>v. case v of LCondition x \<Rightarrow> Some x | _ \<Rightarrow> None),
     zero_Condition = LCondition \<lparr>cond_Type = [], cond_Status = [], cond_ObservedGeneration = 0,
       cond_LastTransitionTime = None, cond_Reason = [], cond_Message = []\<rparr>,
     Condition_DeepCopyInto = assign,
     lib_Quantity = sample_rep (\<lambda>v. case v of LQuantity x \<Rightarrow> Some x | _ \<Rightarrow> None),
     zero_Quantity = LQuantity (MustParse []), Quantity_DeepCopy = ret\<rparr>"

lemma sample_copier: "deep_copier (sample_rep f) assign"
  by unfold_locales
    (auto intro: overwritten_written simp: within_def sample_rep_def assign_run)

lemma sample_values: "copies_value (sample_rep f) ret"
  by (auto simp: copies_value_def go_run preserves_def within_def sample_rep_def)

lemma sample_library_ok: "library_ok sample_library"
  by (simp add: library_ok_def sample_library_def sample_copier sample_values
      deep_copier.axioms(1) [OF sample_copier])

text \<open>
  A resource with a replica count, a listener with one port, a limit with one condition and a pull
  secret: cell 0 is the resource, the others are what it points to.
\<close>

definition sample_spec :: mLimitadorSpec where
  "sample_spec = zero_LimitadorSpec\<lparr>msp_Replicas := Some (1, 0), msp_Listener := Some (2, 0),
     msp_Limits := Some \<lparr>sl_base = 5, sl_off = 0, sl_len = 1, sl_cap = 1\<rparr>,
     msp_ImagePullSecrets := Some \<lparr>sl_base = 7, sl_off = 1, sl_len = 1, sl_cap = 1\<rparr>\<rparr>"

definition sample_limit :: mRateLimit where
  "sample_limit = zero_RateLimit\<lparr>mrl_MaxValue := 10, mrl_Namespace := ''ns'', mrl_Seconds := 60,
     mrl_Conditions := Some \<lparr>sl_base = 6, sl_off = 0, sl_len = 1, sl_cap = 1\<rparr>\<rparr>"

definition sample_heap :: "lib_value cell heap" where
  "sample_heap = \<lparr>hp_next = 8, hp_cells = (\<lambda>a. C_int [3])
     (0 := C_Limitador [\<lparr>mlim_TypeMeta = zeroTypeMeta, mlim_ObjectMeta = LMeta (zeroMeta\<lparr>om_Name := ''l''\<rparr>),
          mlim_Spec = sample_spec, mlim_Status = zero_LimitadorStatus\<rparr>],
      2 := C_Listener [\<lparr>mli_HTTP = Some (3, 0), mli_GRPC = None\<rparr>],
      3 := C_TransportProtocol [\<lparr>mtp_Port = Some (4, 0)\<rparr>],
      4 := C_int32 [8090],
      5 := C_RateLimit [sample_limit],
      6 := C_string [''x == 1''],
      7 := C_LocalObjectReference [\<lparr>lor_Name = ''a''\<rparr>, \<lparr>lor_Name = ''b''\<rparr>])\<rparr>"

definition sample_resource :: Limitador where
  "sample_resource = \<lparr>lim_TypeMeta = zeroTypeMeta, lim_ObjectMeta = zeroMeta\<lparr>om_Name := ''l''\<rparr>,
     lim_Spec = zeroSpec\<lparr>sp_Replicas := Some 3,
       sp_Listener := Some \<lparr>li_HTTP = Some \<lparr>tp_Port = Some 8090\<rparr>, li_GRPC = None\<rparr>,
       sp_Limits := Some [\<lparr>rl_Conditions = Some [''x == 1''], rl_MaxValue = 10, rl_Namespace = ''ns'',
         rl_Seconds = 60, rl_Variables = None, rl_Name = []\<rparr>],
       sp_ImagePullSecrets := [\<lparr>lor_Name = ''b''\<rparr>]\<rparr>,
     lim_Status = zeroStatus\<rparr>"

lemmas sample_defs = sample_heap_def sample_spec_def sample_limit_def sample_resource_def
  sample_library_def sample_rep_def zero_LimitadorSpec_def zero_LimitadorStatus_def
  zero_RateLimit_def zeroSpec_def zeroStatus_def

lemmas read_defs = ptr_rep_def slice_rep_def map_rep_def rep_app_def rep_pure_def val_rep_def
  rep_Limitador_def rep_LimitadorSpec_def rep_LimitadorStatus_def rep_Listener_def
  rep_TransportProtocol_def rep_RateLimit_def ctype_defs at_def deref_def elems_def or_empty_def

lemma sample_reads:
  "rep_read (ptr_rep t_Limitador (rep_Limitador sample_library)) sample_heap (Some (0, 0))
     = Some (Some sample_resource)"
  by (simp add: sample_defs read_defs)

section \<open>Every type has a copy of its own\<close>

text \<open>
  \<open>copies_fresh ty R op\<close>: for a pointer that reads as \<open>y\<close> (nil as nil), \<open>op\<close> returns a pointer that reads
  as \<open>y\<close> and owns new cells only, and changes no cell that was there before.
\<close>

definition copies_fresh ::
    "('c, 'v) ctype \<Rightarrow> ('c, 'v, 'x) rep \<Rightarrow> (ptr \<Rightarrow> ('c heap, ptr) go) \<Rightarrow> bool" where
  "copies_fresh ty R op \<longleftrightarrow> (\<forall>h p y. rep_read (ptr_rep ty R) h p = Some y \<longrightarrow>
     (\<exists>q h'. op p h = (Done q, h') \<and> preserves UNIV h h' \<and>
        within {hp_next h..<hp_next h'} (ptr_rep ty R) h' q y))"

lemma deep_copy_fresh:
  "ctype_ok ty \<Longrightarrow> deep_copier R into \<Longrightarrow> copies_fresh ty R (deep_copy ty zero into)"
  by (simp add: copies_fresh_def deep_copier.deep_copy_copies)

lemmas DeepCopy_defs =
  DiskSpec_DeepCopy_def Limitador_DeepCopy_def LimitadorList_DeepCopy_def
  LimitadorService_DeepCopy_def LimitadorSpec_DeepCopy_def LimitadorStatus_DeepCopy_def
  Listener_DeepCopy_def PVCGenericSpec_DeepCopy_def PersistentVolumeClaimResources_DeepCopy_def
  PodDisruptionBudgetType_DeepCopy_def Ports_DeepCopy_def RateLimit_DeepCopy_def
  Redis_DeepCopy_def RedisCached_DeepCopy_def RedisCachedOptions_DeepCopy_def
  Storage_DeepCopy_def Tracing_DeepCopy_def TransportProtocol_DeepCopy_def

lemma copies_fresh_run:
  assumes "copies_fresh ty R op" "rep_read (ptr_rep ty R) h p = Some y" "op p h = (Done q, h')"
  shows "preserves UNIV h h'" "within {hp_next h..<hp_next h'} (ptr_rep ty R) h' q y"
  using assms unfolding copies_fresh_def by fastforce+

text \<open>A copy and its original, each under writes to the cells of the other.\<close>

lemma copies_fresh_independent:
  assumes op: "copies_fresh ty R op" and R: "representation R"
    and p: "rep_read (ptr_rep ty R) h p = Some y" and run: "op p h = (Done q, h')"
  shows "preserves {hp_next h..<hp_next h'} h' h'' \<Longrightarrow> rep_read (ptr_rep ty R) h'' q = Some y"
    "preserves {..<hp_next h} h' h'' \<Longrightarrow> rep_read (ptr_rep ty R) h'' p = Some y"
proof -
  note ptr = representation.ptr_representation [OF R, of ty]
  note copy = copies_fresh_run [OF op p run]
  show "rep_read (ptr_rep ty R) h'' q = Some y" if "preserves {hp_next h..<hp_next h'} h' h''"
    using representation.local_reads [OF ptr copy(2) that] by (simp add: within_def)
  assume later: "preserves {..<hp_next h} h' h''"
  have old: "within {..<hp_next h} (ptr_rep ty R) h p y"
    by (rule representation.allocated_below [OF ptr, of UNIV]) (simp add: within_def p)
  have "preserves {..<hp_next h} h h''"
    using preserves_trans [OF preserves_mono [OF copy(1)] later] by simp
  from representation.local_reads [OF ptr old this]
  show "rep_read (ptr_rep ty R) h'' p = Some y" by (simp add: within_def)
qed

text \<open>
  C35: Every \<^verbatim>\<open>DeepCopy\<close> of the API types returns nil for nil and otherwise a pointer to a new variable
  that reads as the same value. All that the copy owns - the variable and everything its pointers and
  slices lead to - lies in cells allocated by the call, and no cell that existed before is changed.
  Library structs are copied by methods of their packages, which are assumed to copy deeply.
\<close>

theorem DeepCopy_copies:
  assumes "library_ok L"
  shows "copies_fresh t_DiskSpec (rep_DiskSpec L) (DiskSpec_DeepCopy L) \<and>
    copies_fresh t_Limitador (rep_Limitador L) (Limitador_DeepCopy L) \<and>
    copies_fresh t_LimitadorList (rep_LimitadorList L) (LimitadorList_DeepCopy L) \<and>
    copies_fresh t_LimitadorService val_rep LimitadorService_DeepCopy \<and>
    copies_fresh t_LimitadorSpec (rep_LimitadorSpec L) (LimitadorSpec_DeepCopy L) \<and>
    copies_fresh t_LimitadorStatus (rep_LimitadorStatus L) (LimitadorStatus_DeepCopy L) \<and>
    copies_fresh t_Listener rep_Listener Listener_DeepCopy \<and>
    copies_fresh t_PVCGenericSpec (rep_PVCGenericSpec L) (PVCGenericSpec_DeepCopy L) \<and>
    copies_fresh t_PersistentVolumeClaimResources (rep_PersistentVolumeClaimResources L) (PersistentVolumeClaimResources_DeepCopy L) \<and>
    copies_fresh t_PodDisruptionBudgetType rep_PodDisruptionBudgetType PodDisruptionBudgetType_DeepCopy \<and>
    copies_fresh t_Ports val_rep Ports_DeepCopy \<and>
    copies_fresh t_RateLimit rep_RateLimit RateLimit_DeepCopy \<and>
    copies_fresh t_Redis rep_Redis Redis_DeepCopy \<and>
    copies_fresh t_RedisCached rep_RedisCached RedisCached_DeepCopy \<and>
    copies_fresh t_RedisCachedOptions rep_RedisCachedOptions RedisCachedOptions_DeepCopy \<and>
    copies_fresh t_Storage (rep_Storage L) (Storage_DeepCopy L) \<and>
    copies_fresh t_Tracing val_rep Tracing_DeepCopy \<and>
    copies_fresh t_TransportProtocol rep_TransportProtocol TransportProtocol_DeepCopy"
  unfolding DeepCopy_defs using assms by (intro conjI) (rule deep_copy_fresh, simp, blast intro: copier)+

theorem DeepCopy_copies_witness:
  "copies_fresh t_Limitador (rep_Limitador sample_library) (Limitador_DeepCopy sample_library) \<and>
   rep_read (ptr_rep t_Limitador (rep_Limitador sample_library)) sample_heap (Some (0, 0))
     = Some (Some sample_resource)"
  using DeepCopy_copies [OF sample_library_ok] sample_reads by blast

text \<open>
  C36: The copy of a resource and the resource never influence each other. After \<^verbatim>\<open>DeepCopy\<close>, any
  sequence of writes that leaves the cells of the copy alone leaves what the copy reads as, and any
  that leaves the cells from before the call alone leaves what the original reads as. The call
  does not panic.
\<close>

theorem Limitador_DeepCopy_independent:
  assumes "library_ok L" "rep_read (ptr_rep t_Limitador (rep_Limitador L)) h p = Some y"
  shows "case Limitador_DeepCopy L p h of
      (Done q, h') \<Rightarrow>
        (\<forall>later. preserves {hp_next h..<hp_next h'} h' later \<longrightarrow>
           rep_read (ptr_rep t_Limitador (rep_Limitador L)) later q = Some y) \<and>
        (\<forall>later. preserves {..<hp_next h} h' later \<longrightarrow>
           rep_read (ptr_rep t_Limitador (rep_Limitador L)) later p = Some y)
    | (Panic m, h') \<Rightarrow> False"
proof -
  have fresh: "copies_fresh t_Limitador (rep_Limitador L) (Limitador_DeepCopy L)"
    unfolding Limitador_DeepCopy_def using assms(1) by (intro deep_copy_fresh copier) simp_all
  then obtain q h' where run: "Limitador_DeepCopy L p h = (Done q, h')"
    using assms(2) unfolding copies_fresh_def by blast
  show ?thesis
    using copies_fresh_independent [OF fresh representation_Limitador [OF assms(1)] assms(2) run]
    by (simp add: run)
qed

theorem Limitador_DeepCopy_independent_witness:
  "case Limitador_DeepCopy sample_library (Some (0, 0)) sample_heap of
      (Done q, h') \<Rightarrow>
        (\<forall>later. preserves {hp_next sample_heap..<hp_next h'} h' later \<longrightarrow>
           rep_read (ptr_rep t_Limitador (rep_Limitador sample_library)) later q = Some (Some sample_resource)) \<and>
        (\<forall>later. preserves {..<hp_next sample_heap} h' later \<longrightarrow>
           rep_read (ptr_rep t_Limitador (rep_Limitador sample_library)) later (Some (0, 0))
             = Some (Some sample_resource))
    | (Panic m, h') \<Rightarrow> False"
  by (rule Limitador_DeepCopy_independent [OF sample_library_ok sample_reads])

section \<open>Copies behind the object interface\<close>

lemma deep_copy_nil_iff:
  assumes "copies_fresh ty R op" "rep_read (ptr_rep ty R) h p = Some y"
  shows "case op p h of (Done q, h') \<Rightarrow> (q = None \<longleftrightarrow> p = None) \<and> preserves UNIV h h' \<and>
      within {hp_next h..<hp_next h'} (ptr_rep ty R) h' q y
    | (Panic m, h') \<Rightarrow> False"
proof -
  obtain q h' where run: "op p h = (Done q, h')" "preserves UNIV h h'"
      "within {hp_next h..<hp_next h'} (ptr_rep ty R) h' q y"
    using assms unfolding copies_fresh_def by blast
  then have "q = None \<longleftrightarrow> y = None" by (auto simp: within_ptr split: option.splits)
  moreover have "p = None \<longleftrightarrow> y = None"
    using assms(2) by (auto simp: rep_read_ptr within_ptr split: option.splits)
  ultimately show ?thesis using run by simp
qed

text \<open>
  C37: \<^verbatim>\<open>DeepCopyObject\<close> of a list of resources returns the nil interface exactly for the nil pointer -
  never an interface that holds a nil pointer, which would compare unequal to nil - and otherwise an
  object of the same dynamic type whose pointer leads to a copy in new cells, with every item copied;
  it returns whatever the number of items. No cell from before the call is changed.
\<close>

theorem LimitadorList_DeepCopyObject_copies:
  assumes "library_ok L" "rep_read (ptr_rep t_LimitadorList (rep_LimitadorList L)) h p = Some y"
  shows "case LimitadorList_DeepCopyObject L p h of
      (Done None, h') \<Rightarrow> p = None \<and> y = None \<and> preserves UNIV h h'
    | (Done (Some (Obj_LimitadorList q)), h') \<Rightarrow>
        (\<exists>l xs. p = Some l \<and> y = Some xs \<and> q \<noteq> None) \<and> preserves UNIV h h' \<and>
        within {hp_next h..<hp_next h'} (ptr_rep t_LimitadorList (rep_LimitadorList L)) h' q y
    | _ \<Rightarrow> False"
proof -
  have fresh: "copies_fresh t_LimitadorList (rep_LimitadorList L) (LimitadorList_DeepCopy L)"
    unfolding LimitadorList_DeepCopy_def using assms(1) by (intro deep_copy_fresh copier) simp_all
  have "p = None \<longleftrightarrow> y = None"
    using assms(2) by (auto simp: rep_read_ptr within_ptr split: option.splits)
  with deep_copy_nil_iff [OF fresh assms(2)] show ?thesis
    by (auto simp: LimitadorList_DeepCopyObject_def go_run split: prod.splits outcome.splits)
qed

text \<open>A list of one item, in front of the sample resource.\<close>

definition sample_list_heap :: "lib_value cell heap" where
  "sample_list_heap = sample_heap\<lparr>hp_next := 9, hp_cells := (hp_cells sample_heap)(8 :=
     C_LimitadorList [\<lparr>mll_TypeMeta = zeroTypeMeta, mll_ListMeta = zero_ListMeta sample_library,
       mll_Items = Some \<lparr>sl_base = 0, sl_off = 0, sl_len = 1, sl_cap = 1\<rparr>\<rparr>])\<rparr>"

definition sample_list :: LimitadorList where
  "sample_list = \<lparr>ll_TypeMeta = zeroTypeMeta, ll_ListMeta = \<lparr>lm_SelfLink = [],
     lm_ResourceVersion = [], lm_Continue = [], lm_RemainingItemCount = None\<rparr>,
     ll_Items = Some [sample_resource]\<rparr>"

lemma sample_list_reads:
  "rep_read (ptr_rep t_LimitadorList (rep_LimitadorList sample_library)) sample_list_heap (Some (8, 0))
     = Some (Some sample_list)"
  by (simp add: sample_defs read_defs sample_list_heap_def sample_list_def rep_LimitadorList_def)

theorem LimitadorList_DeepCopyObject_copies_witness:
  "case LimitadorList_DeepCopyObject sample_library (Some (8, 0)) sample_list_heap of
      (Done (Some (Obj_LimitadorList q)), h') \<Rightarrow> q \<noteq> None \<and>
        within {9..<hp_next h'} (ptr_rep t_LimitadorList (rep_LimitadorList sample_library)) h' q
          (Some sample_list)
    | _ \<Rightarrow> False"
proof -
  have "hp_next sample_list_heap = 9" by (simp add: sample_list_heap_def)
  with LimitadorList_DeepCopyObject_copies [OF sample_library_ok sample_list_reads] show ?thesis
    by (auto split: prod.splits outcome.splits option.splits runtime_Object.splits)
qed

section \<open>Copying into an existing variable\<close>

text \<open>The sample resource beside an empty one.\<close>

definition sample_target_heap :: "lib_value cell heap" where
  "sample_target_heap = sample_heap\<lparr>hp_next := 9,
     hp_cells := (hp_cells sample_heap)(8 := C_Limitador [zero_Limitador sample_library])\<rparr>"

text \<open>
  C38: \<^verbatim>\<open>Limitador.DeepCopyInto\<close> into a variable elsewhere in memory keeps memory well formed: it returns,
  the target then reads as the source did and leads to new cells only, and every value of any
  representation that does not pass through the target - the source among them - reads as before.
\<close>

theorem Limitador_DeepCopyInto_frame:
  assumes "library_ok L" "fst l \<noteq> fst m"
    and "deref (at t_Limitador l) h = Some v" "deref (at t_Limitador m) h = Some u"
    and "within (- {fst m}) (rep_Limitador L) h v x"
    and "representation R" "within (- {fst m}) R h a b"
  shows "\<exists>h' w. Limitador_DeepCopyInto L (at t_Limitador l) (at t_Limitador m) h = (Done (), h') \<and>
    deref (at t_Limitador m) h' = Some w \<and>
    within {hp_next h..<hp_next h'} (rep_Limitador L) h' w x \<and>
    deref (at t_Limitador l) h' = Some v \<and> rep_read (rep_Limitador L) h' v = Some x \<and>
    rep_read R h' a = Some b"
proof -
  let ?m = "at t_Limitador m"
  have ok: "focused (at t_Limitador l)" "focused ?m" by (simp_all add: focused_at)
  have apart: "ref_addr (at t_Limitador l) \<noteq> ref_addr ?m" using assms(2) by simp
  have src: "within (- {ref_addr ?m}) (rep_Limitador L) h v x" using assms(5) by simp
  from deep_copier.copies_into [OF Limitador_copier [OF assms(1)] ok apart assms(3,4) src]
  obtain h' w where h': "Limitador_DeepCopyInto L (at t_Limitador l) ?m h = (Done (), h')"
    "overwritten ?m w h h'" "within {hp_next h..<hp_next h'} (rep_Limitador L) h' w x" by blast
  have "preserves (- {fst m}) h h'" by (rule overwritten_preserves [OF h'(2)]) simp
  then have "rep_read (rep_Limitador L) h' v = Some x" "rep_read R h' a = Some b"
    using representation.local_reads [OF representation_Limitador [OF assms(1)] assms(5)]
      representation.local_reads [OF assms(6,7)]
    by (simp_all add: within_def)
  then show ?thesis
    using h' overwritten_deref [OF ok(2) assms(4) h'(2)]
      overwritten_deref_other [OF h'(2) apart assms(3)] by blast
qed

theorem Limitador_DeepCopyInto_frame_witness:
  "\<exists>h' w. Limitador_DeepCopyInto sample_library (at t_Limitador (0, 0)) (at t_Limitador (8, 0)) sample_target_heap
      = (Done (), h') \<and> deref (at t_Limitador (8, 0)) h' = Some w \<and>
    within {9..<hp_next h'} (rep_Limitador sample_library) h' w sample_resource \<and>
    rep_read (ptr_rep t_Limitador (rep_Limitador sample_library)) h' (Some (0, 0))
      = Some (Some sample_resource)"
proof -
  let ?R = "ptr_rep t_Limitador (rep_Limitador sample_library)"
  have R: "representation ?R"
    by (rule representation.ptr_representation [OF representation_Limitador [OF sample_library_ok]])
  have "within {..<8} ?R sample_heap (Some (0, 0)) (Some sample_resource)"
    using representation.allocated_below [OF R, of UNIV sample_heap] sample_reads
    by (simp add: rep_read_ptr sample_heap_def)
  then have "within {..<8} ?R sample_target_heap (Some (0, 0)) (Some sample_resource)"
    by (rule representation.local_reads [OF R])
      (simp add: preserves_def sample_target_heap_def sample_heap_def)
  then have src: "within (- {8}) ?R sample_target_heap (Some (0, 0)) (Some sample_resource)"
    by (rule within_mono) auto
  then obtain v where v: "deref (at t_Limitador (0, 0)) sample_target_heap = Some v"
    "within (- {fst ((8, 0) :: loc)}) (rep_Limitador sample_library) sample_target_heap v sample_resource"
    by (auto simp: within_ptr)
  have m: "deref (at t_Limitador (8, 0)) sample_target_heap = Some (zero_Limitador sample_library)"
    by (simp add: sample_target_heap_def deref_def at_def ctype_defs)
  have apart: "fst ((0, 0) :: loc) \<noteq> fst ((8, 0) :: loc)" by simp
  have next9: "hp_next sample_target_heap = 9" by (simp add: sample_target_heap_def)
  from src have "within (- {fst ((8, 0) :: loc)}) ?R sample_target_heap (Some (0, 0)) (Some sample_resource)" by simp
  from Limitador_DeepCopyInto_frame [OF sample_library_ok apart v(1) m v(2) R this]
  show ?thesis unfolding next9 by blast
qed

text \<open>
  Copying into itself is not safe, so the distinct target is needed: \<^verbatim>\<open>p.DeepCopyInto(p)\<close> for a
  transport protocol with a port replaces the port by a new variable before it reads the old one, and the
  port becomes 0.
\<close>

lemma TransportProtocol_self_copy:
  assumes "deref (at t_TransportProtocol l) h = Some v" "mtp_Port v = Some p"
  shows "\<exists>h'. TransportProtocol_DeepCopyInto (at t_TransportProtocol l) (at t_TransportProtocol l) h = (Done (), h') \<and>
    rep_read (ptr_rep t_TransportProtocol rep_TransportProtocol) h' (Some l) = Some (Some \<lparr>tp_Port = Some 0\<rparr>)"
proof -
  let ?r = "at t_TransportProtocol l" and ?n = "hp_next h"
  let ?f = "fld mtp_Port mtp_Port_update ?r"
  have r: "focused ?r" by (simp add: focused_at)
  then have f: "focused ?f" by (rule focused_fld) (simp add: lawful_field_def)
  have old: "fst l < ?n" using deref_addr [OF assms(1)] by simp
  note same = written_same [OF r assms(1)]
  let ?h1 = "extended (ct_inj t_int32 [0]) h"
  let ?h2 = "written ?f (Some (?n, 0)) ?h1"
  have f0: "deref ?f h = Some (Some p)" using assms by simp
  have f1: "deref ?f ?h1 = Some (Some p)" using assms by (simp add: deref_extended_old)
  have f2: "deref ?f ?h2 = Some (Some (?n, 0))" by (rule deref_written [OF f f1])
  have n2: "deref (at t_int32 (?n, 0)) ?h2 = Some 0"
    using old by (simp add: deref_written_other deref_extended_new)
  let ?h3 = "written (at t_int32 (?n, 0)) 0 ?h2"
  have "TransportProtocol_DeepCopyInto ?r ?r h = (Done (), ?h3)"
    using assms f0 f1 f2 n2 same
    by (simp add: TransportProtocol_DeepCopyInto_def block_def go_run assign_run copy_pointer_def
        load_run new_run store_run [OF f1] as_ref_def del: deref_fld)
  moreover have "deref ?r ?h2 = Some (v\<lparr>mtp_Port := Some (?n, 0)\<rparr>)"
  proof (rule overwritten_deref [OF r])
    show "deref ?r ?h1 = Some v" using assms(1) by (rule deref_extended_old)
    then show "overwritten ?r (v\<lparr>mtp_Port := Some (?n, 0)\<rparr>) ?h1 ?h2"
      by (intro overwritten_fld [OF overwritten_same [OF r] overwritten_written r,
            where g = mtp_Port and u = mtp_Port_update])
  qed
  then have "deref ?r ?h3 = Some (v\<lparr>mtp_Port := Some (?n, 0)\<rparr>)"
    using old by (simp add: deref_written_other)
  moreover have "deref (at t_int32 (?n, 0)) ?h3 = Some 0"
    by (rule deref_written [OF focused_at n2]) simp
  ultimately show ?thesis
    by (auto simp: rep_read_ptr within_ptr within_TransportProtocol)
qed

lemma TransportProtocol_self_copy_example:
  "\<exists>h'. TransportProtocol_DeepCopyInto (at t_TransportProtocol (3, 0)) (at t_TransportProtocol (3, 0)) sample_heap
      = (Done (), h') \<and>
    rep_read (ptr_rep t_TransportProtocol rep_TransportProtocol) h' (Some (3, 0)) = Some (Some \<lparr>tp_Port = Some 0\<rparr>)"
proof -
  have v: "deref (at t_TransportProtocol (3, 0)) sample_heap = Some \<lparr>mtp_Port = Some (4, 0)\<rparr>"
    by (simp add: sample_heap_def deref_def at_def ctype_defs)
  show ?thesis by (rule TransportProtocol_self_copy [OF v]) simp
qed

end
