(* ===== verification/Trace_Monitor.thy ===== *)
theory Trace_Monitor
  imports Op_Observability
begin

text \<open>
  Monitors of traces. A monitor reads the events of a trace one by one and refuses the trace at the
  first event it does not accept. \<open>follows step J m\<close> says that a call keeps a monitor going: from
  every state that satisfies \<open>J\<close>, on every branch of \<open>m\<close>, the events are accepted and the monitor is left
  in such a state again. The rules follow the shape of the code, so a claim about all the events of
  a handler is proved by going through its text once. A monitor that is indifferent to reads and to
  operations on spans satisfies the locale \<open>trace_monitor\<close>.
\<close>

primrec run_monitor :: "('s \<Rightarrow> event \<Rightarrow> 's option) \<Rightarrow> 's \<Rightarrow> event list \<Rightarrow> 's option" where
  "run_monitor step s [] = Some s"
| "run_monitor step s (ev # tr) =
    (case step s ev of None \<Rightarrow> None | Some s' \<Rightarrow> run_monitor step s' tr)"

lemma run_monitor_append [simp]:
  "run_monitor step s (t1 @ t2) =
    (case run_monitor step s t1 of None \<Rightarrow> None | Some s' \<Rightarrow> run_monitor step s' t2)"
  by (induction t1 arbitrary: s) (auto split: option.split)

definition accepts :: "('s \<Rightarrow> event \<Rightarrow> 's option) \<Rightarrow> ('s \<Rightarrow> bool) \<Rightarrow> 's \<Rightarrow> event list \<Rightarrow> bool" where
  "accepts step J s tr \<longleftrightarrow> (case run_monitor step s tr of None \<Rightarrow> False | Some s' \<Rightarrow> J s')"

lemma accepts_Nil [simp]: "accepts step J s [] \<longleftrightarrow> J s"
  by (simp add: accepts_def)

lemma accepts_Cons [simp]:
  "accepts step J s (ev # tr) \<longleftrightarrow> (case step s ev of None \<Rightarrow> False | Some s' \<Rightarrow> accepts step J s' tr)"
  by (simp add: accepts_def split: option.split)

lemma accepts_append: "accepts step (\<lambda>s'. accepts step J s' t2) s t1 = accepts step J s (t1 @ t2)"
  by (simp add: accepts_def split: option.split)

lemma accepts_mono: "accepts step J s tr \<Longrightarrow> (\<And>s'. J s' \<Longrightarrow> J' s') \<Longrightarrow> accepts step J' s tr"
  by (auto simp: accepts_def split: option.splits)

definition follows ::
    "('s \<Rightarrow> event \<Rightarrow> 's option) \<Rightarrow> ('s \<Rightarrow> bool) \<Rightarrow> ('w, 'a) op \<Rightarrow> bool" where
  "follows step J m \<longleftrightarrow> (\<forall>w. yields m w (\<lambda>r tr w'. \<forall>s. J s \<longrightarrow> accepts step J s tr))"

named_theorems follows_intro "the events of a call, by its shape"

lemma followsI: "(\<And>w. yields m w (\<lambda>r tr w'. \<forall>s. J s \<longrightarrow> accepts step J s tr)) \<Longrightarrow> follows step J m"
  by (simp add: follows_def)

lemma followsD:
  assumes "follows step J m" "J u"
  shows "\<exists>tr. trace (snd (m s)) = trace s @ tr \<and> accepts step J u tr"
proof -
  have "yields m (world s) (\<lambda>r tr w'. \<forall>s. J s \<longrightarrow> accepts step J s tr)"
    using assms(1) by (simp add: follows_def)
  then obtain tr where "trace (snd (m s)) = trace s @ tr" "\<forall>s. J s \<longrightarrow> accepts step J s tr"
    by (rule yieldsD)
  with assms(2) show ?thesis by blast
qed

lemma follows_basic [follows_intro]:
  "follows step J (ret x)" "follows step J (raise msg)" "follows step J (lift_outcome r)"
  by (auto intro!: followsI yields_intro)

lemma follows_emit: "(\<And>s. J s \<Longrightarrow> accepts step J s [ev]) \<Longrightarrow> follows step J (emit ev)"
  by (auto intro!: followsI yields_emit)

lemma follows_request: "(\<And>s. J s \<Longrightarrow> accepts step J s [EvRequest q]) \<Longrightarrow> follows step J (request_op q f)"
  by (auto intro!: followsI yields_request_op)

lemma follows_bind_go [follows_intro]:
  assumes "follows step J m" "\<And>x. follows step J (f x)"
  shows "follows step J (bind_go m f)"
proof (rule followsI, rule yields_bind_go)
  fix w
  have f: "yields (f x) w1 (\<lambda>r tr w'. \<forall>s. J s \<longrightarrow> accepts step J s (t1 @ tr))"
    if "\<forall>s. J s \<longrightarrow> accepts step J s t1" for x w1 t1
  proof -
    have "yields (f x) w1 (\<lambda>r tr w'. \<forall>s. J s \<longrightarrow> accepts step J s tr)"
      using assms(2) by (simp add: follows_def)
    then show ?thesis
      by (rule yields_mono) (use that in \<open>auto simp flip: accepts_append intro: accepts_mono [of step J]\<close>)
  qed
  have "yields m w (\<lambda>r tr w'. \<forall>s. J s \<longrightarrow> accepts step J s tr)"
    using assms(1) by (simp add: follows_def)
  then show "yields m w (\<lambda>r t1 w1. case r of
      Done x \<Rightarrow> yields (f x) w1 (\<lambda>r' t2 w2. \<forall>s. J s \<longrightarrow> accepts step J s (t1 @ t2))
    | Panic p \<Rightarrow> \<forall>s. J s \<longrightarrow> accepts step J s t1)"
    by (rule yields_mono) (auto split: outcome.split intro: f)
qed

lemma follows_and_then [follows_intro]:
  "follows step J m \<Longrightarrow> follows step J k \<Longrightarrow> follows step J (and_then m k)"
  unfolding and_then_def by (rule follows_bind_go)

lemma follows_if_err [follows_intro]:
  "follows step J m \<Longrightarrow> (\<And>e. follows step J (h e)) \<Longrightarrow> follows step J rest \<Longrightarrow> follows step J (if_err m h rest)"
  unfolding if_err_def by (rule follows_bind_go) (auto split: option.split)

lemma follows_or_err [follows_intro]:
  "follows step J m \<Longrightarrow> (\<And>e. follows step J (h e)) \<Longrightarrow> (\<And>x. follows step J (rest x)) \<Longrightarrow>
   follows step J (or_err m h rest)"
  unfolding or_err_def by (rule follows_bind_go) (auto split: sum.split)

lemma follows_case [follows_intro]:
  "(\<And>x y. follows step J (f x y)) \<Longrightarrow> follows step J (case p of (x, y) \<Rightarrow> f x y)"
  "follows step J a \<Longrightarrow> (\<And>x. follows step J (g x)) \<Longrightarrow> follows step J (case u of None \<Rightarrow> a | Some x \<Rightarrow> g x)"
  "(\<And>e. follows step J (k e)) \<Longrightarrow> (\<And>x. follows step J (l x)) \<Longrightarrow>
   follows step J (case v of Inl e \<Rightarrow> k e | Inr x \<Rightarrow> l x)"
  "follows step J c \<Longrightarrow> follows step J d \<Longrightarrow> follows step J (if b then c else d)"
  by (simp_all split: prod.split option.split sum.split)

lemma follows_on_ctx_span [follows_intro]:
  "(\<And>i. follows step J (f i)) \<Longrightarrow> follows step J (on_ctx_span ctx f)"
  unfolding on_ctx_span_def by (rule follows_case(2)) (rule follows_basic(1))

text \<open>
  A span block: the start leads from \<open>J\<close> to a condition of the new span, which the body keeps and the end
  leads back.
\<close>

lemma follows_block:
  assumes body: "\<And>i. follows step (J' i) (body i)"
    and opened: "\<And>s i. J s \<Longrightarrow> accepts step (J' i) s [EvStart i name opts]"
    and closed: "\<And>s i. J' i s \<Longrightarrow> accepts step J s [EvEnd i]"
  shows "follows step J (bind_go (start_span name opts) (\<lambda>i. deferred (span_End i) (body i)))"
proof (rule followsI, rule yields_bind_go, rule yields_start_span, unfold outcome.case span_End_def,
    rule yields_deferred_emit)
  fix w i
  have "yields (body i) w (\<lambda>r tr w'. \<forall>s. J' i s \<longrightarrow> accepts step (J' i) s tr)"
    using body by (simp add: follows_def)
  then show "yields (body i) w (\<lambda>r tr w'. \<forall>s. J s \<longrightarrow> accepts step J s ([EvStart i name opts] @ tr @ [EvEnd i]))"
  proof (rule yields_mono, intro allI impI)
    fix tr s assume tr: "\<forall>s. J' i s \<longrightarrow> accepts step (J' i) s tr" and "J s"
    from closed have "accepts step (\<lambda>s'. accepts step J s' [EvEnd i]) s' tr" if "J' i s'" for s'
      using tr that by (blast intro: accepts_mono)
    with opened [OF \<open>J s\<close>] show "accepts step J s ([EvStart i name opts] @ tr @ [EvEnd i])"
      unfolding accepts_append [symmetric] by (rule accepts_mono)
  qed
qed

text \<open>Monitors that do not care about what is recorded on spans, nor about reads.\<close>

locale trace_monitor =
  fixes step :: "'s \<Rightarrow> event \<Rightarrow> 's option" and J :: "'s \<Rightarrow> bool"
  assumes span_op: "J s \<Longrightarrow> accepts step J s [EvSpan i p]"
    and read: "J s \<Longrightarrow> \<not> is_write q \<Longrightarrow> accepts step J s [EvRequest q]"
begin

lemma span_ops:
  "follows step J (span_SetStatus i c d)" "follows step J (span_RecordError i e attrs)"
  "follows step J (span_SetAttributes i attrs)" "follows step J (span_AddEvent i n)"
  "follows step J (span_AddLink i sc)"
  unfolding span_SetStatus_def span_RecordError_def span_SetAttributes_def span_AddEvent_def span_AddLink_def
  by (rule follows_emit, erule span_op)+

lemma helpers:
  "follows step J (RecordReconcileResult i res err)" "follows step J (RecordResourceApplied i)"
  "follows step J (RecordResourceCreated i)" "follows step J (RecordResourceUnchanged i)"
  "follows step J (RecordError i e d)" "follows step J (RecordSpecCompleted i)"
  "follows step J (RecordStatusCompleted i)" "follows step J (AddLimitadorAttributes i ns n reps sto)"
  unfolding RecordReconcileResult_def RecordResourceApplied_def RecordResourceCreated_def
    RecordResourceUnchanged_def SetResourceOperation_def RecordError_def RecordSpecCompleted_def
    RecordStatusCompleted_def AddLimitadorAttributes_def Let_def
  by (intro follows_intro span_ops)+

lemma reads:
  "follows step J (Client_GetLimitador rt k)" "follows step J (Client_GetDeployment rt k)"
  "follows step J (Client_GetConfigMap rt k)" "follows step J (Client_GetPersistentVolumeClaim rt k)"
  "follows step J (Client_GetSecret rt k)" "follows step J (Client_ListPods rt ns sel)"
  unfolding client_defs by (rule follows_request, erule read, simp)+

end

end
