(* ===== verification/Log_Lines.thy ===== *)
theory Log_Lines
  imports Limitador_Controller Trace_Monitor
begin

text \<open>
  The lines a reconciliation logs. Two monitors read its trace: \<open>voice\<close> follows the open spans and checks
  which logger a line is written with, \<open>announce\<close> remembers the line logged last and checks that every
  write was announced by it.
\<close>

section \<open>Which logger speaks\<close>

text \<open>The logger of a context whose span is \<open>i\<close>: the base logger, with the identifiers of a valid span.\<close>

definition span_logger :: "'w runtime \<Rightarrow> logger \<Rightarrow> span_id \<Rightarrow> logger" where
  "span_logger rt b i =
    (if sc_IsValid (rt_SpanContext rt i)
     then WithValues b [(''trace_id'', sc_TraceID (rt_SpanContext rt i)), (''span_id'', sc_SpanID (rt_SpanContext rt i))]
     else b)"

primrec owner_failure :: "log_line \<Rightarrow> bool" where
  "owner_failure (LogInfo v msg kvs) = False"
| "owner_failure (LogError err msg kvs) = (msg = ''Error setting OwnerReference on object'')"

text \<open>
  The open spans, innermost first. The lines of \<^verbatim>\<open>Reconcile\<close> itself are written in the outermost span, with
  the logger it made; every other line carries the innermost span, but for the line about a failed
  owner reference, which the bare logger of the reconciler writes.
\<close>

definition speaks :: "'w runtime \<Rightarrow> logger \<Rightarrow> span_id list \<Rightarrow> logger \<Rightarrow> log_line \<Rightarrow> bool" where
  "speaks rt b st lg ln =
    (case st of
       [] \<Rightarrow> False
     | [i] \<Rightarrow> lg = recording_logger rt i b
     | i # j # st' \<Rightarrow> lg = span_logger rt b i \<or> lg = rt_Logger rt \<and> owner_failure ln)"

primrec voice :: "'w runtime \<Rightarrow> logger \<Rightarrow> span_id list \<Rightarrow> event \<Rightarrow> span_id list option" where
  "voice rt b st (EvStart i name opts) = Some (i # st)"
| "voice rt b st (EvSpan i p) = Some st"
| "voice rt b st (EvEnd i) = (case st of [] \<Rightarrow> None | j # st' \<Rightarrow> if i = j then Some st' else None)"
| "voice rt b st (EvRequest q) = Some st"
| "voice rt b st (EvLog lg ln) = (if speaks rt b st lg ln then Some st else None)"

abbreviation speaks_in :: "'w runtime \<Rightarrow> logger \<Rightarrow> span_id list \<Rightarrow> ('v, 'a) op \<Rightarrow> bool" where
  "speaks_in rt b st \<equiv> follows (voice rt b) ((=) st)"

interpretation voices: trace_monitor "voice rt b" "(=) st" for rt b st
  by unfold_locales simp_all

lemmas voices_intro = voices.span_ops voices.helpers voices.reads

lemma voice_log:
  "speaks rt b st lg (LogInfo v msg kvs) \<Longrightarrow> speaks_in rt b st (Log_Info lg v msg kvs)"
  "speaks rt b st lg (LogError e msg kvs) \<Longrightarrow> speaks_in rt b st (Log_Error lg e msg kvs)"
  unfolding Log_Info_def Log_Error_def by (rule follows_emit, simp)+

lemma voice_write:
  "speaks_in rt b st (Client_Create rt' x)" "speaks_in rt b st (Client_Delete rt' x)"
  "speaks_in rt b st (Client_Apply rt' x force owner)" "speaks_in rt b st (Client_StatusApply rt' x force owner)"
  unfolding client_defs by (rule follows_request, simp)+

text \<open>The context inside the span \<open>i\<close>.\<close>

definition voice_ctx :: "'w runtime \<Rightarrow> logger \<Rightarrow> span_id \<Rightarrow> Context \<Rightarrow> bool" where
  "voice_ctx rt b i ctx \<longleftrightarrow>
     cx_baseLogger ctx = Some b \<and> cx_logger ctx = Some (span_logger rt b i) \<and> cx_span ctx = Some i"

lemma voice_ctx_base: "voice_ctx rt b i ctx \<Longrightarrow> cx_baseLogger ctx = Some b"
  by (simp add: voice_ctx_def)

lemma voice_FromContext:
  assumes "voice_ctx rt b i ctx" "speaks_in rt b st (rest (span_logger rt b i))"
  shows "speaks_in rt b st (or_err (ret (FromContext ctx)) h rest)"
  using assms by (simp add: voice_ctx_def FromContext_def or_err_def)

lemma voice_start_block:
  assumes "cx_baseLogger ctx = Some b"
    and body: "\<And>i ctx'. voice_ctx rt b i ctx' \<Longrightarrow> speaks_in rt b (i # st) (body ctx' i)"
  shows "speaks_in rt b st (bind_go (bind_go (tracer_Start ctx name opts)
       (\<lambda>(ctx, span). ret (RefreshLoggerWithCurrentSpan rt ctx, span)))
       (\<lambda>(ctx, span). deferred (span_End span) (body ctx span)))"
proof (subst start_block_eq, rule follows_block)
  fix i
  have "voice_ctx rt b i (RefreshLoggerWithCurrentSpan rt (ctx\<lparr>cx_span := Some i\<rparr>))"
    using assms(1) by (simp add: voice_ctx_def RefreshLoggerWithCurrentSpan_def span_logger_def
        SpanContextOf_def Let_def)
  then show "speaks_in rt b (i # st) (body (RefreshLoggerWithCurrentSpan rt (ctx\<lparr>cx_span := Some i\<rparr>)) i)"
    by (rule body)
qed auto

lemma voice_spans:
  assumes "cx_baseLogger ctx = Some b"
    and "\<And>i ctx'. voice_ctx rt b i ctx' \<Longrightarrow> speaks_in rt b (i # st) (body ctx' i)"
  shows
    "speaks_in rt b st (bind_go (StartReconcileSpan rt ctx req opts)
       (\<lambda>(ctx, span). deferred (span_End span) (body ctx span)))"
    "speaks_in rt b st (bind_go (StartReconcileSpecSpan rt ctx)
       (\<lambda>(ctx, span). deferred (span_End span) (body ctx span)))"
    "speaks_in rt b st (bind_go (StartReconcileStatusSpan rt ctx)
       (\<lambda>(ctx, span). deferred (span_End span) (body ctx span)))"
    "speaks_in rt b st (bind_go (StartResourceSpan rt ctx t ns n)
       (\<lambda>(ctx, span). deferred (span_End span) (body ctx span)))"
  unfolding StartReconcileSpan_def StartReconcileSpecSpan_def StartReconcileStatusSpan_def
    StartResourceSpan_def Let_def
  by (rule voice_start_block, rule assms, erule assms)+

subsection \<open>The calls of the base reconciler\<close>

text \<open>They are made inside a span of the reconciliation of the spec or of the status.\<close>

lemma speaks_inner [simp]: "speaks rt b (i # j # st) (span_logger rt b i) ln"
  by (simp add: speaks_def)

lemma voice_inner:
  "speaks_in rt b (i # j # st) (Log_Info (span_logger rt b i) v msg kvs)"
  "speaks_in rt b (i # j # st) (Log_Error (span_logger rt b i) e msg kvs)"
  by (rule voice_log, rule speaks_inner)+

lemma voice_log_difference: "speaks_in rt b (i # j # st) (log_difference (span_logger rt b i) s s')"
  unfolding log_difference_def by (intro follows_intro voice_inner)

lemma voice_SetOwnerReference: "speaks_in rt b (i # j # st) (SetOwnerReference rt l obj)"
  unfolding SetOwnerReference_def by (intro follows_intro voice_log) (simp add: speaks_def)

lemmas voice_rules = follows_intro voices_intro voice_inner voice_write voice_log_difference voice_SetOwnerReference

lemma voice_base:
  assumes "voice_ctx rt b i ctx"
  shows "speaks_in rt b (i # j # st) (DeleteResource rt ctx x)"
    and "speaks_in rt b (i # j # st) (CreateResource rt ctx x)"
    and "speaks_in rt b (i # j # st) (UpdateResourceStatus rt ctx x)"
  unfolding DeleteResource_def CreateResource_def UpdateResourceStatus_def
  by (rule voice_FromContext [OF assms], intro voice_rules)+

lemma voice_ReconcileResource:
  assumes "voice_ctx rt b i ctx"
  shows "speaks_in rt b (i # j # st) (ReconcileResource rt ctx x)"
  unfolding ReconcileResource_def
  by (rule voice_FromContext [OF assms], intro voice_rules voice_base assms)

lemma voice_kinds:
  assumes "voice_ctx rt b i ctx"
  shows "speaks_in rt b (i # j # st) (ReconcilePersistentVolumeClaim rt ctx pvc)"
    and "speaks_in rt b (i # j # st) (ReconcilePodAnnotation rt ctx n ns k v)"
  unfolding ReconcilePersistentVolumeClaim_def ReconcilePodAnnotation_def
  by (rule voice_FromContext [OF assms], intro voice_rules voice_base voice_ReconcileResource assms)+

lemmas voice_calls = voice_base voice_ReconcileResource voice_kinds

subsection \<open>The handlers\<close>

lemma voice_storage: "speaks_in rt b st (getDeploymentOptions rt' l)"
  unfolding getDeploymentOptions_def getDeploymentStorageOptions_def RedisDeploymentOptions_def
    RedisCachedDeploymentOptions_def validateRedisSecret_def Let_def
  by (intro follows_intro voices_intro)

lemma voice_annotatePods:
  assumes "voice_ctx rt b i ctx"
  shows "speaks_in rt b (i # j # st) (annotatePods rt ctx i v pods)"
  by (induction pods)
    (simp_all only: annotatePods.simps, (intro voice_rules voice_kinds [OF assms] | assumption)+)

lemmas handler_defs = reconcileService_def reconcilePVC_def reconcileDeployment_def
  reconcileLimitsConfigMap_def reconcilePdb_def

lemmas kind_defs = ReconcileService_def ReconcileDeployment_def ReconcileConfigMap_def
  ReconcilePodDisruptionBudget_def

lemma voice_handlers:
  assumes "voice_ctx rt b j ctx"
  shows "speaks_in rt b (j # st) (reconcileService rt ctx l)" "speaks_in rt b (j # st) (reconcilePVC rt ctx l)"
    "speaks_in rt b (j # st) (reconcileDeployment rt ctx l)"
    "speaks_in rt b (j # st) (reconcileLimitsConfigMap rt ctx l)" "speaks_in rt b (j # st) (reconcilePdb rt ctx l)"
  unfolding handler_defs kind_defs Let_def
  by (rule voice_spans, rule voice_ctx_base [OF assms], rule voice_FromContext, assumption,
      intro voice_rules voice_storage voice_calls, assumption)+

lemma voice_annotations:
  assumes "voice_ctx rt b j ctx"
  shows "speaks_in rt b (j # st) (reconcilePodLimitsHashAnnotation rt ctx l)"
  unfolding reconcilePodLimitsHashAnnotation_def reconcilePodList_def
  by (rule voice_spans, rule voice_ctx_base [OF assms], intro voice_rules voice_annotatePods)

lemma voice_status:
  assumes "voice_ctx rt b j ctx"
  shows "speaks_in rt b (j # st) (reconcileStatus rt ctx l err)"
  unfolding reconcileStatus_def calculateStatus_def readyCondition_def checkLimitadorAvailable_def Let_def
  by (rule voice_spans, rule voice_ctx_base [OF assms], rule voice_FromContext, assumption,
      intro voice_rules voice_calls, assumption)

lemma voice_spec:
  assumes "voice_ctx rt b j ctx"
  shows "speaks_in rt b (j # st) (reconcileSpec rt ctx l)"
  unfolding reconcileSpec_def
  by (rule voice_spans, rule voice_ctx_base [OF assms], intro voice_rules voice_handlers voice_annotations)

lemma voice_outer: "speaks rt b [i] (recording_logger rt i b) ln"
  by (simp add: speaks_def)

lemma voice_Reconcile: "speaks_in rt (base_logger rt req) [] (Reconcile rt ctx req)"
  unfolding Reconcile_def reconcileFound_def reconcileObject_def when_go_def Let_def
  by (rule voice_spans, simp add: StoreBaseLogger_def,
      intro follows_intro voices_intro voice_log voice_outer voice_spec voice_status)

text \<open>
  C19: Every line of a reconciliation says where it comes from. A line is logged only while a span
  of the reconciliation is open. The lines of \<^verbatim>\<open>Reconcile\<close> carry the name of the resource and the
  identifiers of its span when that is recorded; every line of a handler and of the calls it makes
  carries the name and the identifiers of the innermost open span - never those of a span that has
  ended or of an outer one. The one exception is the error line about an owner reference, which
  has neither.
\<close>

theorem Reconcile_log_lines:
  "\<exists>tr. trace (snd (Reconcile rt ctx req s)) = trace s @ tr \<and>
     run_monitor (voice rt (base_logger rt req)) [] tr = Some []"
  using followsD [OF voice_Reconcile [of rt req ctx], where u = "[]" and s = s]
  by (auto simp: accepts_def split: option.splits)

section \<open>Announced writes\<close>

text \<open>The writes the operator makes: it never creates or deletes a pod, and never updates.\<close>

primrec made :: "request \<Rightarrow> bool" where
  "made (ReqGet k n) = True"
| "made (ReqListPods ns sel) = True"
| "made (ReqCreate x) = (obj_kind x \<noteq> KPod)"
| "made (ReqUpdate x) = False"
| "made (ReqDelete x) = (obj_kind x \<noteq> KPod)"
| "made (ReqApply x force owner) = (force \<and> owner = FieldManagerName)"
| "made (ReqStatusApply x force owner) = (obj_kind x = KLimitador \<and> force \<and> owner = FieldManagerName)"

text \<open>The line of the \<^verbatim>\<open>info\<close> level that goes with a write.\<close>

primrec announcement :: "request \<Rightarrow> log_line option" where
  "announcement (ReqGet k n) = None"
| "announcement (ReqListPods ns sel) = None"
| "announcement (ReqCreate x) = Some (LogInfo 0 ''create object'' (object_values (obj_type x) (obj_meta x)))"
| "announcement (ReqUpdate x) = Some (LogInfo 0 ''update object'' (object_values (obj_type x) (obj_meta x)))"
| "announcement (ReqDelete x) = Some (LogInfo 0 ''delete object'' (object_values (obj_type x) (obj_meta x)))"
| "announcement (ReqApply x force owner) =
     Some (LogInfo 0 ''apply object'' (object_values (obj_type x) (obj_meta x)))"
| "announcement (ReqStatusApply x force owner) =
     Some (LogInfo 0 ''apply object status'' (object_values (obj_type x) (obj_meta x)))"

text \<open>The state is the line of the event just before, if that was one.\<close>

primrec announce :: "log_line option \<Rightarrow> event \<Rightarrow> log_line option option" where
  "announce ln0 (EvStart i name opts) = Some None"
| "announce ln0 (EvSpan i p) = Some None"
| "announce ln0 (EvEnd i) = Some None"
| "announce ln0 (EvRequest q) = (if made q \<and> (is_write q \<longrightarrow> ln0 = announcement q) then Some None else None)"
| "announce ln0 (EvLog lg ln) = Some (Some ln)"

abbreviation announces :: "('w, 'a) op \<Rightarrow> bool" where
  "announces \<equiv> follows announce (\<lambda>_. True)"

lemma made_read: "\<not> is_write q \<Longrightarrow> made q"
  by (cases q) simp_all

interpretation announced: trace_monitor announce "\<lambda>_. True"
  by unfold_locales (simp_all add: made_read)

lemmas announced_intro = announced.span_ops announced.helpers announced.reads

lemma announced_log:
  "announces (Log_Info lg v msg kvs)" "announces (Log_Error lg e msg kvs)"
  unfolding Log_Info_def Log_Error_def by (rule follows_emit, simp)+

lemma announced_write:
  assumes "announcement q = Some (LogInfo v msg kvs)" "made q" "\<And>x. announces (k x)"
  shows "announces (and_then (Log_Info lg v msg kvs) (bind_go (request_op q f) k))"
proof -
  have "announces (bind_go (Log_Info lg v msg kvs) (\<lambda>_. request_op q f))"
    unfolding Log_Info_def using assms(1,2)
    by (intro followsI yields_bind_go yields_emit) (simp add: yields_request_op)
  then have "announces (bind_go (bind_go (Log_Info lg v msg kvs) (\<lambda>_. request_op q f)) k)"
    using assms(3) by (rule follows_bind_go)
  then show ?thesis by (simp add: and_then_def bind_go_assoc)
qed

lemma announced_last_write:
  assumes "announcement q = Some (LogInfo v msg kvs)" "made q"
  shows "announces (and_then (Log_Info lg v msg kvs) (request_op q f))"
  using announced_write [OF assms, of ret lg f] by (simp add: follows_basic)

lemma announced_spans:
  assumes "\<And>ctx i. announces (body ctx i)"
  shows
    "announces (bind_go (StartReconcileSpan rt ctx req opts)
       (\<lambda>(ctx, span). deferred (span_End span) (body ctx span)))"
    "announces (bind_go (StartReconcileSpecSpan rt ctx)
       (\<lambda>(ctx, span). deferred (span_End span) (body ctx span)))"
    "announces (bind_go (StartReconcileStatusSpan rt ctx)
       (\<lambda>(ctx, span). deferred (span_End span) (body ctx span)))"
    "announces (bind_go (StartResourceSpan rt ctx t ns n)
       (\<lambda>(ctx, span). deferred (span_End span) (body ctx span)))"
  unfolding StartReconcileSpan_def StartReconcileSpecSpan_def StartReconcileStatusSpan_def
    StartResourceSpan_def Let_def start_block_eq
  by (rule follows_block [of announce "\<lambda>_ _. True"], rule assms, simp_all)+

lemma announced_SetOwnerReference: "announces (SetOwnerReference rt l obj)"
  unfolding SetOwnerReference_def by (intro follows_intro announced_log)

lemma announced_log_difference: "announces (log_difference lg st st')"
  unfolding log_difference_def by (intro follows_intro announced_log)

lemmas announced_rules = announced_intro announced_log announced_SetOwnerReference announced_log_difference

lemma announced_delete: "obj_kind x \<noteq> KPod \<Longrightarrow> announces (DeleteResource rt ctx x)"
  unfolding DeleteResource_def client_defs
  by (intro follows_or_err follows_basic announced_write follows_case) simp_all

lemma announced_base:
  "obj_kind x \<noteq> KPod \<Longrightarrow> announces (CreateResource rt ctx x)"
  "obj_kind x = KLimitador \<Longrightarrow> announces (UpdateResourceStatus rt ctx x)"
  unfolding CreateResource_def UpdateResourceStatus_def client_defs
  by (intro follows_or_err follows_basic announced_last_write; simp)+

lemma announced_ReconcileResource:
  assumes "IsObjectTaggedToDelete (obj_meta x) \<longrightarrow> obj_kind x \<noteq> KPod"
  shows "announces (ReconcileResource rt ctx x)"
proof (cases "IsObjectTaggedToDelete (obj_meta x)")
  case True
  with assms show ?thesis
    unfolding ReconcileResource_def by (simp only: if_True) (intro follows_intro announced_delete, simp)
next
  case False
  then show ?thesis
    unfolding ReconcileResource_def client_defs
    by (simp only: if_False, intro follows_or_err follows_basic announced_write)
      (simp_all, intro follows_intro announced_rules)
qed

lemma announced_kinds:
  "announces (ReconcileService rt ctx svc)" "announces (ReconcileDeployment rt ctx dep)"
  "announces (ReconcileConfigMap rt ctx cm)" "announces (ReconcilePodDisruptionBudget rt ctx pdb)"
  unfolding kind_defs by (rule announced_ReconcileResource, simp)+

lemma announced_pvc: "announces (ReconcilePersistentVolumeClaim rt ctx pvc)"
  unfolding ReconcilePersistentVolumeClaim_def
  by (intro follows_intro announced_rules announced_base announced_delete) simp_all

text \<open>The patch of a pod carries no delete tag, so the branch that deletes is not taken.\<close>

lemma announced_pod:
  "announces (ReconcilePodAnnotation rt ctx n ns PodAnnotationConfigMapResourceVersion v)"
  unfolding ReconcilePodAnnotation_def
  by (intro follows_intro announced_rules announced_ReconcileResource)
    (simp add: podPatch_def IsObjectTaggedToDelete_def)

lemma announced_annotatePods: "announces (annotatePods rt ctx i v pods)"
  by (induction pods)
    (simp_all only: annotatePods.simps, (intro follows_intro announced_rules announced_pod | assumption)+)

lemma announced_storage: "announces (getDeploymentOptions rt l)"
  unfolding getDeploymentOptions_def getDeploymentStorageOptions_def RedisDeploymentOptions_def
    RedisCachedDeploymentOptions_def validateRedisSecret_def Let_def
  by (intro follows_intro announced_rules)

lemma announced_handlers:
  "announces (reconcileService rt ctx l)" "announces (reconcilePVC rt ctx l)"
  "announces (reconcileDeployment rt ctx l)" "announces (reconcileLimitsConfigMap rt ctx l)"
  "announces (reconcilePdb rt ctx l)" "announces (reconcilePodLimitsHashAnnotation rt ctx l)"
  unfolding handler_defs reconcilePodLimitsHashAnnotation_def reconcilePodList_def Let_def
  by (rule announced_spans, intro follows_intro announced_rules announced_storage announced_kinds announced_pvc
      announced_annotatePods)+

lemma announced_status: "announces (reconcileStatus rt ctx l err)"
  unfolding reconcileStatus_def calculateStatus_def readyCondition_def checkLimitadorAvailable_def Let_def
  by (rule announced_spans, intro follows_intro announced_rules announced_base) simp

lemma announced_Reconcile: "announces (Reconcile rt ctx req)"
  unfolding Reconcile_def reconcileFound_def reconcileObject_def reconcileSpec_def when_go_def Let_def
  by (intro announced_spans follows_intro announced_rules announced_handlers announced_status)

text \<open>
  C20: As \<^verbatim>\<open>doc/logging.md\<close> promises, every write is in the log at the \<^verbatim>\<open>info\<close> level: whatever the client answers,
  the event right before a create, a delete, an apply or a status apply is an \<^verbatim>\<open>info\<close> line that names the action
  and the type, name and namespace of that very object. And the writes are of these forms only:
  forced applies of the operator's field manager, and no create or delete of a pod.
\<close>

theorem Reconcile_announces:
  "\<exists>tr. trace (snd (Reconcile rt ctx req s)) = trace s @ tr \<and> run_monitor announce None tr \<noteq> None"
  using followsD [OF announced_Reconcile [of rt ctx req], where u = None and s = s]
  by (auto simp: accepts_def split: option.splits)

end
