(* ===== verification/Access_Rules.thy ===== *)
theory Access_Rules
  imports Log_Lines Main_Setup
begin

text \<open>
  The role of the operator, as the markers above \<^verbatim>\<open>Reconcile\<close> in \<^verbatim>\<open>controllers/limitador_controller.go\<close>
  declare it, and the requests of a reconciliation: the role grants every request of the forms that
  the monitor of announced writes accepts.
\<close>

section \<open>The declared role\<close>

record rule =
  ru_groups :: "string list"
  ru_resources :: "string list"
  ru_verbs :: "string list"

definition all_verbs :: "string list" where
  "all_verbs = [''get'', ''list'', ''watch'', ''create'', ''update'', ''patch'', ''delete'']"

definition rbac :: "rule list" where
  "rbac =
    [\<lparr>ru_groups = [''limitador.kuadrant.io''], ru_resources = [''limitadors''], ru_verbs = all_verbs\<rparr>,
     \<lparr>ru_groups = [''limitador.kuadrant.io''], ru_resources = [''limitadors/status''],
      ru_verbs = [''get'', ''update'', ''patch'']\<rparr>,
     \<lparr>ru_groups = [''limitador.kuadrant.io''], ru_resources = [''limitadors/finalizers''],
      ru_verbs = [''update'']\<rparr>,
     \<lparr>ru_groups = [''policy''], ru_resources = [''poddisruptionbudgets''], ru_verbs = all_verbs\<rparr>,
     \<lparr>ru_groups = [''apps''], ru_resources = [''deployments''], ru_verbs = all_verbs\<rparr>,
     \<lparr>ru_groups = [''''],
      ru_resources = [''services'', ''configmaps'', ''secrets'', ''persistentvolumeclaims''],
      ru_verbs = all_verbs\<rparr>,
     \<lparr>ru_groups = [''''], ru_resources = [''pods''],
      ru_verbs = [''list'', ''watch'', ''update'', ''patch'']\<rparr>]"

definition granted :: "string \<times> string \<times> string \<Rightarrow> bool" where
  "granted p = (case p of (grp, resource, verb) \<Rightarrow>
     list_ex (\<lambda>r. grp \<in> set (ru_groups r) \<and> resource \<in> set (ru_resources r) \<and> verb \<in> set (ru_verbs r)) rbac)"

section \<open>What a request needs\<close>

text \<open>The group and the resource of a kind.\<close>

primrec api_resource :: "kind \<Rightarrow> string \<times> string" where
  "api_resource KService = ('''', ''services'')"
| "api_resource KDeployment = (''apps'', ''deployments'')"
| "api_resource KConfigMap = ('''', ''configmaps'')"
| "api_resource KPodDisruptionBudget = (''policy'', ''poddisruptionbudgets'')"
| "api_resource KPersistentVolumeClaim = ('''', ''persistentvolumeclaims'')"
| "api_resource KPod = ('''', ''pods'')"
| "api_resource KLimitador = (''limitador.kuadrant.io'', ''limitadors'')"
| "api_resource KSecret = ('''', ''secrets'')"

definition verbs_on :: "kind \<Rightarrow> string list \<Rightarrow> (string \<times> string \<times> string) list" where
  "verbs_on k vs = map (\<lambda>v. (fst (api_resource k), snd (api_resource k), v)) vs"

text \<open>
  A read of a kind that is cached lists and watches it; one of a kind the cache is disabled for gets
  the object. A server-side apply patches, and when the object is not stored it also creates it; a
  status apply patches the status of an object that is there. \<open>stored\<close> says which objects are.
\<close>

definition read_verbs :: "manager_options \<Rightarrow> kind \<Rightarrow> string list" where
  "read_verbs opts k = (if k \<in> set (mo_DisableFor opts) then [''get''] else [''list'', ''watch''])"

primrec needs :: "manager_options \<Rightarrow> (kind \<times> NamespacedName \<Rightarrow> bool) \<Rightarrow> request \<Rightarrow> (string \<times> string \<times> string) list" where
  "needs opts stored (ReqGet k n) = verbs_on k (read_verbs opts k)"
| "needs opts stored (ReqListPods ns sel) = verbs_on KPod (read_verbs opts KPod)"
| "needs opts stored (ReqCreate x) = verbs_on (obj_kind x) [''create'']"
| "needs opts stored (ReqUpdate x) = verbs_on (obj_kind x) [''update'']"
| "needs opts stored (ReqDelete x) = verbs_on (obj_kind x) [''delete'']"
| "needs opts stored (ReqApply x force owner) =
     verbs_on (obj_kind x) (if stored (obj_key x) then [''patch''] else [''patch'', ''create''])"
| "needs opts stored (ReqStatusApply x force owner) =
     [(fst (api_resource (obj_kind x)), snd (api_resource (obj_kind x)) @ ''/status'', ''patch'')]"

definition authorized :: "manager_options \<Rightarrow> (kind \<times> NamespacedName \<Rightarrow> bool) \<Rightarrow> request \<Rightarrow> bool" where
  "authorized opts stored q = list_all granted (needs opts stored q)"

text \<open>An apply of a pod that is gone.\<close>

definition revives_pod :: "(kind \<times> NamespacedName \<Rightarrow> bool) \<Rightarrow> request \<Rightarrow> bool" where
  "revives_pod stored q =
    (case q of ReqApply x force owner \<Rightarrow> obj_kind x = KPod \<and> \<not> stored (obj_key x) | _ \<Rightarrow> False)"

section \<open>The requests of a reconciliation\<close>

lemmas grant_defs = authorized_def verbs_on_def read_verbs_def managerOptions_def granted_def
  rbac_def all_verbs_def

lemma granted_reads: "list_all granted (verbs_on k (read_verbs (managerOptions sch fl) k))"
  by (cases k; simp add: grant_defs)

lemma granted_writes: "list_all granted (verbs_on k [''create'', ''patch'', ''delete'']) \<longleftrightarrow> k \<noteq> KPod"
  by (cases k; simp add: grant_defs)

lemma granted_pods: "list_all granted (verbs_on KPod [''patch''])" "\<not> list_all granted (verbs_on KPod [''patch'', ''create''])"
  by (simp_all add: grant_defs)

lemma granted_status: "list_all granted (needs opts stored (ReqStatusApply (OLimitador l) force owner))"
  by (simp add: grant_defs)

lemma made_authorized: "made q \<Longrightarrow> authorized (managerOptions sch fl) stored q \<longleftrightarrow> \<not> revives_pod stored q"
proof (cases q)
  case (ReqStatusApply x force owner)
  assume "made q"
  with ReqStatusApply obtain l where "x = OLimitador l" by (cases x) auto
  with ReqStatusApply granted_status [of "managerOptions sch fl" stored l force owner] show ?thesis
    by (simp add: authorized_def revives_pod_def)
next
  case (ReqApply x force owner)
  show ?thesis
  proof (cases "obj_kind x = KPod")
    case True
    with ReqApply granted_pods show ?thesis by (simp add: authorized_def revives_pod_def)
  next
    case False
    with granted_writes [of "obj_kind x"] ReqApply show ?thesis
      by (simp add: authorized_def revives_pod_def verbs_on_def)
  qed
next
  case (ReqCreate x)
  assume "made q"
  with ReqCreate granted_writes [of "obj_kind x"] show ?thesis by (simp add: authorized_def revives_pod_def verbs_on_def)
next
  case (ReqDelete x)
  assume "made q"
  with ReqDelete granted_writes [of "obj_kind x"] show ?thesis by (simp add: authorized_def revives_pod_def verbs_on_def)
qed (use granted_reads [of _ sch fl] in \<open>simp_all add: authorized_def revives_pod_def\<close>)

lemma announce_made: "run_monitor announce ln tr \<noteq> None \<Longrightarrow> EvRequest q \<in> set tr \<Longrightarrow> made q"
proof (induction tr arbitrary: ln)
  case (Cons ev tr)
  then show ?case by (cases ev) (auto split: if_splits)
qed simp

text \<open>
  C39: The declared role covers the operator, and covers it whatever is stored. Every request of every
  reconciliation is granted by the markers: cached reads by \<^verbatim>\<open>list\<close> and \<^verbatim>\<open>watch\<close>, reads of secrets by \<^verbatim>\<open>get\<close>,
  creations and deletions by their verb, the status by \<^verbatim>\<open>patch\<close> on the subresource, and applies by \<^verbatim>\<open>patch\<close>
  together with \<^verbatim>\<open>create\<close> when the object is not there yet. The one request that is refused is the apply
  of a pod that is gone: pods may not be created, so an annotation never brings a pod back. The
  watched kinds may be listed and watched, and the owner of an object may be blocked from deletion.
\<close>

theorem Reconcile_authorized:
  "(\<exists>tr. trace (snd (Reconcile rt ctx req s)) = trace s @ tr \<and>
      list_all (\<lambda>ev. case ev of
          EvRequest q \<Rightarrow> (\<forall>stored. authorized (managerOptions sch fl) stored q \<longleftrightarrow> \<not> revives_pod stored q)
        | _ \<Rightarrow> True) tr)
   \<and> list_all (\<lambda>k. list_all granted (verbs_on k [''list'', ''watch'']))
        (fst SetupWithManager # snd SetupWithManager)
   \<and> granted (''limitador.kuadrant.io'', ''limitadors/finalizers'', ''update'')
   \<and> granted ('''', ''pods'', ''create'') = False"
proof -
  obtain tr where tr: "trace (snd (Reconcile rt ctx req s)) = trace s @ tr" "run_monitor announce None tr \<noteq> None"
    using followsD [OF announced_Reconcile [of rt ctx req], where u = None and s = s]
    by (auto simp: accepts_def split: option.splits)
  have "list_all (\<lambda>ev. case ev of
      EvRequest q \<Rightarrow> (\<forall>stored. authorized (managerOptions sch fl) stored q \<longleftrightarrow> \<not> revives_pod stored q) | _ \<Rightarrow> True) tr"
    using announce_made [OF tr(2)] by (auto simp: list_all_iff made_authorized split: event.split)
  with tr(1) show ?thesis
    by (auto simp: SetupWithManager_def verbs_on_def granted_def rbac_def all_verbs_def)
qed

end
