(* ===== verification/Span_Outcome.thy ===== *)
theory Span_Outcome
  imports Log_Lines
begin

text \<open>
  What a span says at its end. The last operations on the span of a reconciliation, of its spec and of
  its status are those that record its outcome, whatever was recorded before.
\<close>

section \<open>Calls that end with a record\<close>

text \<open>A call that returns has recorded its result last; one that panics has recorded nothing.\<close>

definition ends_in :: "(event list \<Rightarrow> bool) \<Rightarrow> event list \<Rightarrow> bool" where
  "ends_in P tr \<longleftrightarrow> (\<exists>mid evs. tr = mid @ evs \<and> P evs)"

lemma ends_in_append: "ends_in P t2 \<Longrightarrow> ends_in P (t1 @ t2)"
  unfolding ends_in_def by (metis append_assoc)

lemma ends_inI: "P tr \<Longrightarrow> ends_in P tr"
  unfolding ends_in_def by (metis append_Nil)

definition records_last :: "('a \<Rightarrow> event list \<Rightarrow> bool) \<Rightarrow> ('w, 'a) op \<Rightarrow> bool" where
  "records_last P m \<longleftrightarrow> (\<forall>w. yields m w (\<lambda>r tr w'. case r of
     Done x \<Rightarrow> ends_in (P x) tr
   | Panic p \<Rightarrow> True))"

named_theorems records_last_intro "a call that ends with a record, by its shape"

lemma announces_yields: "announces m \<Longrightarrow> yields m w (\<lambda>r tr w'. True)"
  unfolding follows_def by (erule allE, erule yields_mono) simp

lemma records_lastD:
  "records_last P m \<Longrightarrow> yields m w (\<lambda>r tr w'. case r of Done x \<Rightarrow> ends_in (P x) tr | Panic p \<Rightarrow> True)"
  by (simp add: records_last_def)

lemma records_last_bind [records_last_intro]:
  assumes "announces m" "\<And>x. records_last P (f x)"
  shows "records_last P (bind_go m f)"
  unfolding records_last_def
proof (intro allI yields_bind_go, rule yields_mono [OF announces_yields [OF assms(1)]])
  fix r :: "'b outcome" and t1 :: "event list" and w1 :: 'a
  have "yields (f x) w1 (\<lambda>r' t2 w2. case r' of Done y \<Rightarrow> ends_in (P y) (t1 @ t2) | Panic p \<Rightarrow> True)" for x
    by (rule yields_mono [OF records_lastD [OF assms(2)]]) (auto split: outcome.splits intro: ends_in_append)
  then show "case r of
      Done x \<Rightarrow> yields (f x) w1 (\<lambda>r' t2 w2. case r' of Done y \<Rightarrow> ends_in (P y) (t1 @ t2) | Panic p \<Rightarrow> True)
    | Panic p \<Rightarrow> case Panic p of Done y \<Rightarrow> ends_in (P y) t1 | Panic p \<Rightarrow> True"
    by (simp split: outcome.split)
qed

lemma records_last_and_then [records_last_intro]:
  "announces m \<Longrightarrow> records_last P k \<Longrightarrow> records_last P (and_then m k)"
  unfolding and_then_def by (rule records_last_bind)

lemma records_last_if_err [records_last_intro]:
  "announces m \<Longrightarrow> (\<And>e. records_last P (h e)) \<Longrightarrow> records_last P rest \<Longrightarrow> records_last P (if_err m h rest)"
  unfolding if_err_def by (rule records_last_bind) (auto split: option.split)

lemma records_last_or_err [records_last_intro]:
  "announces m \<Longrightarrow> (\<And>e. records_last P (h e)) \<Longrightarrow> (\<And>x. records_last P (rest x)) \<Longrightarrow> records_last P (or_err m h rest)"
  unfolding or_err_def by (rule records_last_bind) (auto split: sum.split)

lemma records_last_case [records_last_intro]:
  "(\<And>e. records_last P (k e)) \<Longrightarrow> (\<And>x. records_last P (l x)) \<Longrightarrow> records_last P (case v of Inl e \<Rightarrow> k e | Inr x \<Rightarrow> l x)"
  "records_last P c \<Longrightarrow> records_last P d \<Longrightarrow> records_last P (if b then c else d)"
  by (simp_all split: sum.split)

text \<open>The record itself: two operations on the span, then the return.\<close>

lemma records_last_ops:
  assumes "P x [EvSpan i p, EvSpan i q]"
  shows "records_last P (and_then (and_then (emit (EvSpan i p)) (emit (EvSpan i q))) (ret x))"
proof -
  have "ends_in (P x) [EvSpan i p, EvSpan i q]" using assms by (rule ends_inI)
  then show ?thesis
    unfolding records_last_def by (intro allI yields_and_then yields_emit) (auto intro!: yields_emit yields_ret)
qed

section \<open>The records\<close>

definition error_recorded :: "span_id \<Rightarrow> error \<Rightarrow> event list \<Rightarrow> bool" where
  "error_recorded i e evs \<longleftrightarrow> (\<exists>d. evs = [EvSpan i (SpanRecordError e [AString ''error.description'' d]),
     EvSpan i (SpanSetStatus CodeError d)])"

definition reconcile_recorded :: "span_id \<Rightarrow> error + Result \<Rightarrow> event list \<Rightarrow> bool" where
  "reconcile_recorded i r evs \<longleftrightarrow> (case r of
     Inl e \<Rightarrow> error_recorded i e evs
   | Inr res \<Rightarrow> evs = [EvSpan i (SpanSetStatus CodeOk ''''),
       EvSpan i (SpanSetAttributes [AString ''reconcile.requeue_after'' (Duration_String (res_RequeueAfter res))])])"

definition spec_recorded :: "span_id \<Rightarrow> error + Result \<Rightarrow> event list \<Rightarrow> bool" where
  "spec_recorded i r evs \<longleftrightarrow> (case r of
     Inl e \<Rightarrow> error_recorded i e evs
   | Inr res \<Rightarrow> evs = [EvSpan i (SpanAddEvent ''reconcile.spec.completed''), EvSpan i (SpanSetStatus CodeOk '''')])"

text \<open>An error of the write of the status is returned with a prefix and recorded without.\<close>

definition status_recorded :: "span_id \<Rightarrow> error + Result \<Rightarrow> event list \<Rightarrow> bool" where
  "status_recorded i r evs \<longleftrightarrow> (case r of
     Inl e \<Rightarrow> \<exists>e'. e \<in> {e', ErrWrap ''failed to update status'' e'} \<and> error_recorded i e' evs
   | Inr res \<Rightarrow> evs = [EvSpan i (SpanAddEvent ''reconcile.status.completed''), EvSpan i (SpanSetStatus CodeOk '''')])"

lemma record_ops:
  "records_last (reconcile_recorded i) (and_then (RecordError i e d) (ret (Inl e)))"
  "records_last (reconcile_recorded i) (and_then (RecordReconcileResult i res None) (ret (Inr res)))"
  "records_last (spec_recorded i) (and_then (RecordError i e d) (ret (Inl e)))"
  "records_last (spec_recorded i) (and_then (RecordSpecCompleted i) (ret (Inr res)))"
  "records_last (status_recorded i) (and_then (RecordError i e d) (ret (Inl e)))"
  "records_last (status_recorded i) (and_then (RecordError i e d) (ret (Inl (ErrWrap ''failed to update status'' e))))"
  "records_last (status_recorded i) (and_then (RecordStatusCompleted i) (ret (Inr res)))"
  unfolding RecordError_def RecordReconcileResult_def RecordSpecCompleted_def RecordStatusCompleted_def
    span_RecordError_def span_SetStatus_def span_SetAttributes_def span_AddEvent_def option.case
  by (rule records_last_ops; auto simp: reconcile_recorded_def spec_recorded_def status_recorded_def error_recorded_def)+

section \<open>The spans\<close>

text \<open>A run is one span block, and the record is what comes before its end.\<close>

definition span_says :: "string \<Rightarrow> (span_id \<Rightarrow> 'a \<Rightarrow> event list \<Rightarrow> bool) \<Rightarrow> ('w, 'a) op \<Rightarrow> 'w st \<Rightarrow> bool" where
  "span_says name P m s \<longleftrightarrow> (\<exists>i opts mid evs.
     trace (snd (m s)) = trace s @ EvStart i name opts # mid @ evs @ [EvEnd i] \<and>
     (case fst (m s) of Done x \<Rightarrow> P i x evs | Panic p \<Rightarrow> evs = []))"

lemma span_says_block:
  assumes "\<And>i. records_last (P i) (body i)"
  shows "span_says name P (bind_go (start_span name opts) (\<lambda>i. deferred (span_End i) (body i))) s"
proof -
  let ?m = "bind_go (start_span name opts) (\<lambda>i. deferred (span_End i) (body i))"
  have "yields ?m (world s) (\<lambda>r tr w'. \<exists>i mid evs. tr = EvStart i name opts # mid @ evs @ [EvEnd i] \<and>
      (case r of Done x \<Rightarrow> P i x evs | Panic p \<Rightarrow> evs = []))"
  proof (rule yields_bind_go, rule yields_start_span, unfold outcome.case span_End_def, rule yields_deferred_emit)
    fix w i
    show "yields (body i) w (\<lambda>r tr w'. \<exists>j mid evs. [EvStart i name opts] @ tr @ [EvEnd i]
        = EvStart j name opts # mid @ evs @ [EvEnd j] \<and> (case r of Done x \<Rightarrow> P j x evs | Panic p \<Rightarrow> evs = []))"
      by (rule yields_mono [OF records_lastD [OF assms]]) (fastforce simp: ends_in_def split: outcome.splits)
  qed
  then show ?thesis unfolding span_says_def by (rule yieldsD) blast
qed

lemma announced_spec: "announces (reconcileSpec rt ctx l)"
  unfolding reconcileSpec_def by (intro announced_spans follows_intro announced_rules announced_handlers)

lemma Reconcile_says: "span_says spanReconcile reconcile_recorded (Reconcile rt ctx req) s"
  unfolding Reconcile_def reconcileFound_def reconcileObject_def when_go_def Let_def StartReconcileSpan_def start_block_eq
  by (rule span_says_block)
    (intro records_last_intro record_ops follows_intro announced_rules announced_status announced_spec)

lemma reconcileSpec_says: "span_says spanReconcileSpec spec_recorded (reconcileSpec rt ctx l) s"
  unfolding reconcileSpec_def StartReconcileSpecSpan_def start_block_eq
  by (rule span_says_block) (intro records_last_intro record_ops follows_intro announced_handlers)

lemma records_last_FromContext:
  "cx_logger ctx \<noteq> None \<Longrightarrow> (\<And>lg. records_last P (rest lg)) \<Longrightarrow> records_last P (or_err (ret (FromContext ctx)) h rest)"
  by (auto simp: FromContext_def or_err_def)

lemma announced_calculateStatus: "announces (calculateStatus rt l err)"
  unfolding calculateStatus_def readyCondition_def checkLimitadorAvailable_def Let_def
  by (intro follows_intro announced_rules)

lemma reconcileStatus_says:
  "span_says spanReconcileStatus status_recorded (reconcileStatus rt (StoreBaseLogger ctx logger) l err) s"
  unfolding reconcileStatus_def StartReconcileStatusSpan_def start_block_eq Let_def
  by (rule span_says_block, rule records_last_FromContext,
      simp add: RefreshLoggerWithCurrentSpan_def StoreBaseLogger_def Let_def)
    (intro records_last_intro record_ops announced_calculateStatus announced_rules announced_base, simp)

text \<open>
  C21: A trace tells how a reconciliation ended. The span of a reconciliation, of its spec and of its
  status is closed right after its outcome was recorded: the status Ok exactly when no error is
  returned - with the time after which it is asked for again, or the completion event - and
  otherwise the error that is returned, its description and the status Error. (A failed write of the
  status is recorded without the prefix that the returned error has.) Only a panic closes a span
  without a record.
\<close>

theorem spans_record_outcome:
  "span_says spanReconcile reconcile_recorded (Reconcile rt ctx req) s
   \<and> span_says spanReconcileSpec spec_recorded (reconcileSpec rt ctx l) s
   \<and> span_says spanReconcileStatus status_recorded (reconcileStatus rt (StoreBaseLogger ctx logger) l err) s"
  by (intro conjI Reconcile_says reconcileSpec_says reconcileStatus_says)

end
