(* ===== verification/Spec2Isabelle.thy ===== *)
theory Spec2Isabelle
  imports Hidden_Claim Object_Properties Setup_Properties Copy_Properties Access_Rules Span_Outcome
begin

text \<open>
  \<^bold>\<open>A verification library of the Limitador operator\<close>

  The program is a Kubernetes operator written in Go. It watches \<^verbatim>\<open>Limitador\<close> custom resources and
  keeps, for each, a service, a persistent volume claim, a deployment, a config map with the limits
  and a pod disruption budget in the cluster, annotates the pods with the version of the limits, and
  reports readiness in the status of the resource.

  \<^bold>\<open>Parts of the program and their theories\<close>

  \<^item> \<open>Go_Prelude\<close>, \<open>Go_Time\<close>: what the code uses of Go: machine integers as words, errors as values with
    \<^verbatim>\<open>%w\<close> wrapping, panics as outcomes, the sequencing of effectful calls with \<^verbatim>\<open>defer\<close> and the two
    \<^verbatim>\<open>if err != nil\<close> forms, decimal printing, nil maps, label selectors, and durations as they are printed.
  \<^item> \<open>K8s_Types\<close>: the Kubernetes objects the operator reads and builds, as records with the fields it
    sets or reads. \<open>Go_Json\<close>: the string encoder of \<^verbatim>\<open>encoding/json\<close> with a reader, and its injectivity.
  \<^item> \<open>Op_Helpers\<close> (\<^verbatim>\<open>pkg/helpers\<close>): delete tags, the map merge, copy and canonical encoding of
    conditions. The sort it relies on is the locale \<open>slice_sort\<close>.
  \<^item> \<open>Limitador_Types\<close> (\<^verbatim>\<open>api/v1alpha1/limitador_types.go\<close>): the custom resource, its defaults, the
    clamping of replicas at 32 bits, the comparison of statuses.
  \<^item> \<open>Op_Runtime\<close>: the environment. A client is a record of functions from the world to an answer and
    the next world, so any API server, cache and interference is an instance. Every request, every
    operation on a span and every log line, with its logger, is appended to a trace.
  \<^item> \<open>Op_Observability\<close> (\<^verbatim>\<open>pkg/observability/logger.go\<close>, \<^verbatim>\<open>tracer.go\<close>): loggers in contexts, spans and
    recording helpers; and the calculus \<open>does\<close>, weakest preconditions over outcome, writes and world
    that carry the bracketing of spans.
  \<^item> \<open>Op_Names\<close>, \<open>Storage_Options\<close>, \<open>Deployment_Options\<close>, \<open>K8s_Objects\<close> (\<^verbatim>\<open>pkg/limitador\<close>): names and
    labels, the storage back ends (locale \<open>storage_backend\<close>, interpreted for the four of them), the
    command line with a reader of it, and the builders of the owned objects (locales \<open>built_object\<close> and
    \<open>named_object\<close>, interpreted for the five of them).
  \<^item> \<open>Base_Reconciler\<close> (\<^verbatim>\<open>pkg/reconcilers/base_reconciler.go\<close>): apply, create-only, delete, status
    apply, pod annotation, owner references.
  \<^item> \<open>Limitador_Status\<close>, \<open>Limitador_Controller\<close> (\<^verbatim>\<open>controllers\<close>): the status and the reconciliation, handler
    by handler, with their spans and early returns.
  \<^item> \<open>Reconcile_Steps\<close>, \<open>Reconcile_Refinement\<close>: the abstract specification - steps that are functions of
    the world, composed in sequence - and the proof that the handlers implement it (locale
    \<open>resource_handler\<close>, interpreted for the five handlers).
  \<^item> \<open>Otel_Config\<close> (\<^verbatim>\<open>pkg/observability/otel.go\<close>), \<open>Op_Log\<close> (\<^verbatim>\<open>pkg/log\<close>), \<open>Reconciler_Wiring\<close>
    (\<^verbatim>\<open>api/v1alpha1/groupversion_info.go\<close>, the constructors and accessors of \<^verbatim>\<open>base_reconciler.go\<close> and
    \<^verbatim>\<open>tracer.go\<close>), \<open>Main_Setup\<close> (\<^verbatim>\<open>main.go\<close>): the start of the process, from \<^verbatim>\<open>init\<close> to its exit, with the
    command line read as in \<open>Go_Flag\<close>.
  \<^item> \<open>Trace_Monitor\<close>, \<open>Log_Lines\<close>: automata that read a trace (locale \<open>trace_monitor\<close>, interpreted for two
    of them), with rules that follow the shape of the code: which logger writes a line, and which
    line announces a write. \<open>Span_Outcome\<close>: calls that end with a record on
    their span. \<open>Access_Rules\<close>: the role that the markers of the controller declare,
    compared with the requests the second automaton accepts.
  \<^item> \<open>Cluster_System\<close>, \<open>Controller_System\<close>: the operator in its cluster as a state machine. The state holds
    the server's objects, the caches of the manager (with the selectors of \<^verbatim>\<open>main.go\<close>), the
    notifications on their way and the work queue; others write at any time, also during a
    reconciliation; the worker runs \<^verbatim>\<open>Reconcile\<close> of \<open>Limitador_Controller\<close>; failed requests are put back; the
    process may be restarted. The invariant is kept by every step. \<open>Steady_State\<close>: what a
    reconciliation of a resource in order does. \<open>Calm_Cluster\<close>, \<open>Stabilization\<close>: which objects the steps
    of a reconciliation touch when every call succeeds and nobody else writes, and how few rounds
    lead to a state in which nothing is queued. \<open>Hidden_Claim\<close>: a claim without the label of the operator, which
    the cache hides, and the reconciliations that fail on it.
  \<^item> \<open>Go_Heap\<close>, \<open>Heap_Copy\<close>, \<open>Api_Memory\<close>, \<open>Deep_Copy\<close> (\<^verbatim>\<open>api/v1alpha1/zz_generated.deepcopy.go\<close>): Go
    memory as a heap of arrays with pointers and references to fields and elements; what a value in
    memory reads as and which cells it owns (locale \<open>representation\<close>) and the contract of a copy
    (locales \<open>field_copier\<close> and \<open>deep_copier\<close>, the second a sublocale of the first); the API structs with
    their pointers; and every generated method as the block of its statements, with the proof of the
    contract for each. Elsewhere the API types are the values that these representations read.
  \<^item> \<open>Sample_Cluster\<close>: a small API server that evaluates, on which properties with hypotheses are
    exercised. \<open>Reconcile_Properties\<close>, \<open>Handler_Properties\<close>, \<open>Status_Properties\<close>, \<open>Convergence\<close>,
    \<open>Object_Properties\<close>, \<open>Setup_Properties\<close>, \<open>Copy_Properties\<close>, \<open>System_Properties\<close>, \<open>Stabilization\<close>, \<open>Hidden_Claim\<close>,
    \<open>Steady_State\<close>, \<open>Log_Lines\<close>, \<open>Span_Outcome\<close>, \<open>Access_Rules\<close> and this theory hold the properties.

  \<^bold>\<open>What is shown\<close>

  Every run of \<^verbatim>\<open>Reconcile\<close>, for every client, has the outcome, the writes and the effect
  of the abstract specification, in a well-bracketed trace of spans (C1). In every reachable state of the operator
  in its cluster, a resource for which nothing is queued and nothing is on its way has its deployment, limits,
  budget and status in place (C2). Once the cluster is calm, at most three reconciliations bring a resource whose
  objects can be built, and whose claim the cache does not hide, to such a state, from any reachable one (C3); a
  hidden claim blocks its resource for ever (C32). From the specification: only objects of the resource are
  written, with its labels and owner (C4), in one fixed order (C5); early returns write nothing (C6); no answer of
  the client makes it panic (C7); the requeue that the pod annotation step asks for is dropped (C8); an error of
  the spec reaches the status and the caller (C9). Handler by handler: stale pods only (C10), create-only claims
  (C11), budgets applied or deleted (C12), no deployment without the Redis secret (C13, C34). The status: ready
  exactly when rolled out (C14), written when it changes (C15). Against a server that behaves as documented a
  successful reconciliation leaves the objects in place (C16), and one of a resource in order changes nothing
  (C17); services and claims are not watched, so that a change of theirs goes unnoticed (C18). The log: each line
  is written with the logger of the innermost span (C19), and each write is announced by a line about its object
  (C20). Each span of a reconciliation is closed right after its outcome was recorded (C21). The objects fit
  together: selectors (C22), ports (C23), command line (C24), the volumes and the rollout of the deployment that
  is sent (C25), with one disagreement about the storage type (C26). Helpers: replicas (C27), status comparison
  (C28). Set-up: tracing (C29 to C31), the calls of the process up to the first failure and its end, from its
  command line on (C33), what the reconciler is wired with (C40). Copies: each \<^verbatim>\<open>DeepCopy\<close>
  returns an equal value in new cells (C35), a copy and its original are independent (C36), a list is copied
  whatever its length and nil stays the nil interface (C37), \<^verbatim>\<open>DeepCopyInto\<close> changes its
  target only (C38). The declared role grants every request of every reconciliation, creating applies included,
  but for the apply of a pod that is gone (C39). Further lemmas of the same theories are about the map merge, the
  names of the objects of two resources, what the selectors of the cache show and hide, the Redis URL on the
  command line, the flags of the process as they are printed and read, its loggers, the deployment that is sent, a
  status that is not written twice, and a copy of a struct into itself.

  \<^bold>\<open>Parameters and bounds\<close>

  The client, \<^verbatim>\<open>SetControllerReference\<close>, \<^verbatim>\<open>SetStatusCondition\<close>,
  \<^verbatim>\<open>yaml.Marshal\<close>, \<^verbatim>\<open>json.MarshalIndent\<close> of a resource,
  \<^verbatim>\<open>env.GetString\<close>, \<^verbatim>\<open>url.Parse\<close>, zap, the OpenTelemetry library,
  the scheme builder and the copying methods of library structs are parameters. Laws of them are hypotheses only
  where a property needs one (\<open>sets_status_condition\<close>, \<open>serves\<close>,
  \<open>registers\<close>, \<open>library_ok\<close>; for the system \<open>attached\<close>,
  \<open>keeps_fields\<close> and \<open>sets_controller\<close>; \<open>idle\<close> for a cluster at rest,
  \<open>calm\<close> and \<open>owner_stable\<close> for one in which calls succeed), each shown to hold of a
  sample cluster. No fuel is used: all loops of the code range over a list and the recursions are structural or
  have a measure.

  \<^bold>\<open>Not modelled\<close>

  How a log line is printed: its values are kept as values, and the difference that the status comparison logs as
  the two sides of it. The rates and delays of the work queue, and several workers, of which the manager starts
  one; the library call that installs the signal handler, whose result only passes through; the usage text that a
  wrong flag prints. Memory is explicit for the generated copies alone: the handlers work on values, since each
  owns what it builds. Of the library calls that are parameters, \<^verbatim>\<open>SetStatusCondition\<close> is
  a function of its arguments, although it reads the clock; times are kept as their serialised text. Repeating a
  string panics for a negative count only, not for want of memory. The representations of the copies read a nil
  and an empty list of pull secrets alike, as the rest of the model does. What the API server asks of a request -
  an apply needs \<^verbatim>\<open>patch\<close>, and \<^verbatim>\<open>create\<close> when it creates - is
  documented behaviour, stated in \<open>Access_Rules\<close>.
\<close>

section \<open>A property across the components\<close>

text \<open>A spec whose Redis back end names no secret: no deployment can be built for it.\<close>

lemma spec_step_no_secret:
  assumes "backend_ref (backend_of l) = Some None" "spec_step rt l w = (r, ws, w')"
  shows "(\<exists>e. r = Done (Inl e)) \<and> subseq (write_kinds ws) [KService, KPersistentVolumeClaim]"
proof -
  let ?two = "[manage desired_service apply_step rt l, manage desired_pvc create_step rt l]"
  have dep: "manage desired_deployment apply_step rt l w1 = (Done (Some noSecretRef), [], w1)" for w1
    using assms(1) by (simp add: manage_def desired_deployment_def options_step_def backend_check_def)
  have order: "list_all2 kind_step ?two [KService, KPersistentVolumeClaim]"
    using handlers_order [of rt l] by (simp add: handlers_def spec_order_def)
  obtain r1 ws1 w1 where two: "run_steps ?two w = (r1, ws1, w1)" by (rule prod_cases3)
  have no_panic: "r1 \<noteq> Panic p" for p
  proof
    assume "r1 = Panic p"
    with two obtain f w2 ws2 w3 where "f \<in> set ?two" "f w2 = (Panic p, ws2, w3)"
      using run_steps_panic by metis
    then show False
      by (auto simp: manage_def desired_service_def desired_pvc_def send_no_panic split: sum.splits)
  qed
  have "run_steps (handlers rt l) w = (case run_steps ?two w of
      (Done None, ws1, w1) \<Rightarrow> (Done (Some noSecretRef), ws1, w1) | res \<Rightarrow> res)"
    by (simp add: handlers_def dep split: prod.split outcome.split option.split)
  with two no_panic assms(2) have "(\<exists>e. r = Done (Inl e)) \<and> ws = ws1"
    by (cases r1) (auto simp: spec_step_def split: option.splits)
  with run_steps_order [OF order two] show ?thesis by simp
qed

text \<open>
  C34: A resource that asks for Redis, plain or cached, and names no secret is never reconciled
  successfully: the reconciliation returns an error, and writes at most the service, the claim and
  the status - neither deployment, config map, budget nor pods are touched.
\<close>

theorem Reconcile_without_redis_secret:
  assumes "backend_ref (backend_of l) = Some None"
    and "cl_GetLimitador (rt_client rt) req w = (Inr l, w1)"
    and "om_DeletionTimestamp (lim_ObjectMeta l) = None"
  shows "does {} (Reconcile rt ctx req) w (\<lambda>r ws w'. (\<exists>e. r = Done (Inl e)) \<and>
     subseq (write_kinds ws) [KService, KPersistentVolumeClaim, KLimitador])"
proof (rule does_performs [OF performs_Reconcile], cases "debug_error rt l")
  case None
  obtain r1 ws1 w2 where spec: "spec_step rt l w1 = (r1, ws1, w2)" by (rule prod_cases3)
  from spec_step_no_secret [OF assms(1) spec] obtain e where e: "r1 = Done (Inl e)"
    and sub: "subseq (write_kinds ws1) [KService, KPersistentVolumeClaim]" by blast
  obtain r2 ws2 w3 where status: "status_step rt l (Some e) w2 = (r2, ws2, w3)" by (rule prod_cases3)
  have "subseq (write_kinds ws2) [KLimitador]"
    using status_step_writes [OF status] by (auto simp: write_kinds_def)
  with sub have "subseq (write_kinds ws1 @ write_kinds ws2) ([KService, KPersistentVolumeClaim] @ [KLimitador])"
    by (rule list_emb_append_mono)
  moreover obtain x where "r2 = Done x" using status_step_returns [OF status] by blast
  ultimately show "case reconcile_step rt req w of (r, ws, w') \<Rightarrow> (\<exists>e. r = Done (Inl e)) \<and>
     subseq (write_kinds ws) [KService, KPersistentVolumeClaim, KLimitador]"
    using assms(2,3) None spec e status
    by (simp add: reconcile_step_def object_step_def spec_error_def final_result_def)
qed (use assms in \<open>simp add: reconcile_step_def\<close>)

definition redis_without_secret :: Limitador where
  "redis_without_secret = sample\<lparr>lim_Spec := zeroSpec\<lparr>sp_Storage :=
     Some \<lparr>sto_Redis = Some \<lparr>re_ConfigSecretRef = None\<rparr>, sto_RedisCached = None, sto_Disk = None\<rparr>\<rparr>\<rparr>"

theorem Reconcile_without_redis_secret_witness:
  "does {} (Reconcile sample_runtime no_context sample_req) (with_limitador redis_without_secret)
     (\<lambda>r ws w'. (\<exists>e. r = Done (Inl e)) \<and> subseq (write_kinds ws) [KService, KPersistentVolumeClaim, KLimitador])"
proof (rule Reconcile_without_redis_secret)
  show "cl_GetLimitador (rt_client sample_runtime) sample_req (with_limitador redis_without_secret)
      = (Inr redis_without_secret, with_limitador redis_without_secret)"
    using get_with_limitador [of redis_without_secret] by (simp add: redis_without_secret_def)
qed (simp_all add: redis_without_secret_def backend_of_def)

end
